(* ===== verification/Civm_Prelude.thy ===== *)
theory Civm_Prelude
  imports Main "HOL-Library.State_Monad" "HOL-Library.AList" "HOL-Library.Sublist"
begin

text \<open>
  Shared vocabulary of the development: the parts of the Go language and of its standard
  library that several components use, and the automation the component theories rest on.

  \<^item> Go errors: a value of type \<open>error\<close> is a tree whose leaves are the package's sentinel
    values and typed errors, and whose inner nodes are \<open>fmt.Errorf\<close> with \<open>%w\<close> operands or
    \<open>errors.Join\<close>. \<open>errors.Is\<close> and \<open>errors.As\<close> search the leaves in preorder.
  \<^item> byte strings: the functions of package \<open>strings\<close> the sources call, character classes
    for the anchored regular expressions, and decimal printing;
  \<^item> \<open>path/filepath\<close> on Unix: \<open>Clean\<close>, \<open>IsAbs\<close>, \<open>Base\<close>, \<open>Join\<close>, \<open>Rel\<close>;
  \<^item> \<open>context.Context\<close>: the instant at which a context is done and why;
  \<^item> effects: the state monad of the library with a weakest-precondition calculus, and the
    polling loop \<open>for { body; if err := Sleep(ctx, d); err != nil { ... } }\<close> as a fuelled
    recursion with an interface (a locale) that says when the fuel is enough.
\<close>

section \<open>Collections of rewrite rules\<close>

named_theorems go_string \<open>evaluation of the string and path functions\<close>
named_theorems wp_spec \<open>weakest-precondition facts of the components' operations\<close>

section \<open>Go errors\<close>

datatype 'e gerr = Leaf 'e | Wrap string "'e gerr list"

primrec leaves :: "'e gerr \<Rightarrow> 'e list" where
  "leaves (Leaf e) = [e]"
| "leaves (Wrap msg es) = concat (map leaves es)"

definition errors_Is :: "'e gerr \<Rightarrow> 'e \<Rightarrow> bool" where
  "errors_Is err target \<longleftrightarrow> target \<in> set (leaves err)"

text \<open>\<open>errors.As\<close>: the first leaf, in preorder, of the wanted type.\<close>

definition errors_As :: "('e \<Rightarrow> bool) \<Rightarrow> 'e gerr \<Rightarrow> 'e option" where
  "errors_As is_type err = find is_type (leaves err)"

text \<open>\<open>errors.Join\<close> drops nil errors and is nil when nothing is left.\<close>

definition errors_Join :: "'e gerr option list \<Rightarrow> 'e gerr option" where
  "errors_Join errs =
     (case List.map_filter id errs of [] \<Rightarrow> None | es \<Rightarrow> Some (Wrap [] es))"

lemma errors_Is_Leaf [simp]: "errors_Is (Leaf e) t \<longleftrightarrow> t = e"
  by (simp add: errors_Is_def)

lemma errors_Is_Wrap [simp]: "errors_Is (Wrap m es) t \<longleftrightarrow> (\<exists>e \<in> set es. errors_Is e t)"
  by (auto simp: errors_Is_def)

lemma set_map_filter_id: "set (List.map_filter id errs) = {e. Some e \<in> set errs}"
  by (induction errs) (auto simp: List.map_filter_def)

lemma errors_Join_None_iff [simp]: "errors_Join errs = None \<longleftrightarrow> (\<forall>e \<in> set errs. e = None)"
proof -
  have "errors_Join errs = None \<longleftrightarrow> List.map_filter id errs = []"
    by (simp add: errors_Join_def split: list.split)
  also have "\<dots> \<longleftrightarrow> set (List.map_filter id errs) = {}"
    by simp
  also have "\<dots> \<longleftrightarrow> (\<forall>e \<in> set errs. e = None)"
    by (auto simp: set_map_filter_id) (metis not_None_eq)
  finally show ?thesis .
qed

lemma errors_Join_Some_ex [simp]: "(\<exists>y. errors_Join es = Some y) \<longleftrightarrow> (\<exists>e \<in> set es. e \<noteq> None)"
  by (metis errors_Join_None_iff not_None_eq)

lemma errors_Is_Join:
  "errors_Join errs = Some j \<Longrightarrow> errors_Is j t \<longleftrightarrow> (\<exists>e. Some e \<in> set errs \<and> errors_Is e t)"
proof -
  assume "errors_Join errs = Some j"
  then have "j = Wrap [] (List.map_filter id errs)"
    by (auto simp: errors_Join_def split: list.splits)
  then show ?thesis by (auto simp: set_map_filter_id)
qed

section \<open>Byte strings\<close>

definition char_between :: "char \<Rightarrow> char \<Rightarrow> char \<Rightarrow> bool" where
  "char_between lo hi c \<longleftrightarrow> (of_char lo :: nat) \<le> of_char c \<and> (of_char c :: nat) \<le> of_char hi"

definition is_lower :: "char \<Rightarrow> bool" where
  "is_lower c \<longleftrightarrow> char_between (CHR ''a'') (CHR ''z'') c"

definition is_upper :: "char \<Rightarrow> bool" where
  "is_upper c \<longleftrightarrow> char_between (CHR ''A'') (CHR ''Z'') c"

definition is_digit :: "char \<Rightarrow> bool" where
  "is_digit c \<longleftrightarrow> char_between (CHR ''0'') (CHR ''9'') c"

definition is_alnum :: "char \<Rightarrow> bool" where
  "is_alnum c \<longleftrightarrow> is_lower c \<or> is_upper c \<or> is_digit c"

definition is_hex :: "char \<Rightarrow> bool" where
  "is_hex c \<longleftrightarrow> is_digit c \<or> char_between (CHR ''a'') (CHR ''f'') c"

definition is_space :: "char \<Rightarrow> bool" where
  "is_space c \<longleftrightarrow> of_char c \<in> {9, 10, 11, 12, 13, 32 :: nat}"

definition char_lower :: "char \<Rightarrow> char" where
  "char_lower c = (if is_upper c then char_of (of_char c + 32 :: nat) else c)"

definition to_lower :: "string \<Rightarrow> string" where
  "to_lower s = map char_lower s"

definition has_prefix :: "string \<Rightarrow> string \<Rightarrow> bool" where
  "has_prefix s p \<longleftrightarrow> take (length p) s = p"

definition has_suffix :: "string \<Rightarrow> string \<Rightarrow> bool" where
  "has_suffix s p \<longleftrightarrow> has_prefix (rev s) (rev p)"

definition trim_prefix :: "string \<Rightarrow> string \<Rightarrow> string" where
  "trim_prefix s p = (if has_prefix s p then drop (length p) s else s)"

definition trim_suffix :: "string \<Rightarrow> string \<Rightarrow> string" where
  "trim_suffix s p = (if has_suffix s p then take (length s - length p) s else s)"

fun contains :: "string \<Rightarrow> string \<Rightarrow> bool" where
  "contains [] p = (p = [])"
| "contains (c # s) p = (has_prefix (c # s) p \<or> contains s p)"

definition trim_space :: "string \<Rightarrow> string" where
  "trim_space s = rev (dropWhile is_space (rev (dropWhile is_space s)))"

text \<open>\<open>strings.Split(s, string(c))\<close> for a one-byte separator: always at least one field.\<close>

fun split_on :: "char \<Rightarrow> string \<Rightarrow> string list" where
  "split_on c [] = [[]]"
| "split_on c (x # xs) =
     (if x = c then [] # split_on c xs
      else (case split_on c xs of [] \<Rightarrow> [[x]] | f # fs \<Rightarrow> (x # f) # fs))"

fun join_on :: "string \<Rightarrow> string list \<Rightarrow> string" where
  "join_on sep [] = []"
| "join_on sep [x] = x"
| "join_on sep (x # y # zs) = x @ sep @ join_on sep (y # zs)"

text \<open>\<open>strconv.Itoa\<close>.\<close>

fun show_nat :: "nat \<Rightarrow> string" where
  "show_nat n = (if n < 10 then [char_of (48 + n)] else show_nat (n div 10) @ [char_of (48 + n mod 10)])"

declare show_nat.simps [simp del]

definition show_int :: "int \<Rightarrow> string" where
  "show_int i = (if i < 0 then CHR ''-'' # show_nat (nat (- i)) else show_nat (nat i))"

lemmas [go_string] =
  char_between_def is_lower_def is_upper_def is_digit_def is_alnum_def is_hex_def is_space_def
  char_lower_def to_lower_def has_prefix_def has_suffix_def trim_prefix_def trim_suffix_def
  trim_space_def show_int_def

lemma has_prefix_iff: "has_prefix s p \<longleftrightarrow> prefix p s"
  by (auto simp: has_prefix_def prefix_def) (metis append_take_drop_id)

lemma has_prefix_append [simp]: "has_prefix (p @ s) p"
  by (simp add: has_prefix_def)

lemma has_suffix_iff: "has_suffix s p \<longleftrightarrow> suffix p s"
  by (simp add: has_suffix_def has_prefix_iff suffix_to_prefix)

lemma trim_prefix_append [simp]: "trim_prefix (p @ s) p = s"
  by (simp add: trim_prefix_def)

lemma has_prefix_trim: "has_prefix s p \<Longrightarrow> p @ trim_prefix s p = s"
  by (metis append_take_drop_id has_prefix_def trim_prefix_def)

lemma contains_iff: "contains s p \<longleftrightarrow> sublist p s"
  by (induction s) (auto simp: has_prefix_iff sublist_Cons_right)

lemma split_on_nonempty [simp]: "split_on c s \<noteq> []"
  by (induction s) (auto split: list.splits)

lemma join_on_Cons: "xs \<noteq> [] \<Longrightarrow> join_on sep (x # xs) = x @ sep @ join_on sep xs"
  by (cases xs) auto

lemma join_on_Cons_hd: "join_on sep ((c # f) # fs) = c # join_on sep (f # fs)"
  by (cases fs) auto

lemma join_split_on: "join_on [c] (split_on c s) = s"
proof (induction s)
  case (Cons x xs)
  then show ?case
    by (cases "split_on c xs") (auto simp: join_on_Cons join_on_Cons_hd)
qed simp

lemma split_on_no_sep: "f \<in> set (split_on c s) \<Longrightarrow> c \<notin> set f"
  by (induction s arbitrary: f) (fastforce split: list.splits if_splits)+

section \<open>Slash-separated paths\<close>

text \<open>
  \<open>filepath.Clean\<close> on Unix: the lexical normal form. The components of the path are read
  left to right; empty ones and \<open>.\<close> disappear, and \<open>..\<close> removes the component before it,
  vanishes at the root, and stays at the front of a relative path. The accumulator holds the
  components kept so far, last first.
\<close>

fun clean_components :: "bool \<Rightarrow> string list \<Rightarrow> string list \<Rightarrow> string list" where
  "clean_components rooted acc [] = rev acc"
| "clean_components rooted acc (p # ps) =
     (if p = [] \<or> p = ''.'' then clean_components rooted acc ps
      else if p = ''..'' then
        (case acc of
           [] \<Rightarrow> clean_components rooted (if rooted then [] else [''..'']) ps
         | q # qs \<Rightarrow> (if q = ''..'' then clean_components rooted (''..'' # acc) ps
                       else clean_components rooted qs ps))
      else clean_components rooted (p # acc) ps)"

definition path_IsAbs :: "string \<Rightarrow> bool" where
  "path_IsAbs p \<longleftrightarrow> has_prefix p ''/''"

definition path_components :: "string \<Rightarrow> string list" where
  "path_components p = clean_components (path_IsAbs p) [] (split_on (CHR ''/'') p)"

definition path_Clean :: "string \<Rightarrow> string" where
  "path_Clean p =
     (if path_IsAbs p then CHR ''/'' # join_on ''/'' (path_components p)
      else (case path_components p of [] \<Rightarrow> ''.'' | cs \<Rightarrow> join_on ''/'' cs))"

text \<open>\<open>filepath.Base\<close>: the last component, \<open>.\<close> for the empty path, \<open>/\<close> for slashes only.\<close>

definition path_Base :: "string \<Rightarrow> string" where
  "path_Base p =
     (if p = [] then ''.''
      else (case filter (\<lambda>f. f \<noteq> []) (split_on (CHR ''/'') p) of [] \<Rightarrow> ''/'' | fs \<Rightarrow> last fs))"

text \<open>\<open>filepath.Join\<close> of two elements: empty elements are skipped.\<close>

definition path_Join :: "string \<Rightarrow> string \<Rightarrow> string" where
  "path_Join a b =
     (if a = [] then (if b = [] then [] else path_Clean b)
      else if b = [] then path_Clean a else path_Clean (a @ ''/'' @ b))"

text \<open>\<open>filepath.Dir\<close>: everything up to the last slash, cleaned.\<close>

definition path_Dir :: "string \<Rightarrow> string" where
  "path_Dir p = path_Clean (rev (dropWhile (\<lambda>c. c \<noteq> CHR ''/'') (rev p)))"

text \<open>
  \<open>filepath.Rel(base, target)\<close> for two absolute paths, which never fails: one \<open>..\<close> for each
  component of \<open>base\<close> beyond the common front, then the rest of \<open>target\<close>.
\<close>

fun strip_common :: "string list \<Rightarrow> string list \<Rightarrow> string list \<times> string list" where
  "strip_common (x # xs) (y # ys) = (if x = y then strip_common xs ys else (x # xs, y # ys))"
| "strip_common xs ys = (xs, ys)"

definition path_Rel :: "string \<Rightarrow> string \<Rightarrow> string" where
  "path_Rel base target =
     (case strip_common (path_components base) (path_components target) of
        (b, t) \<Rightarrow> (case replicate (length b) ''..'' @ t of [] \<Rightarrow> ''.'' | cs \<Rightarrow> join_on ''/'' cs))"

lemmas [go_string] =
  path_IsAbs_def path_components_def path_Clean_def path_Base_def path_Join_def path_Dir_def
  path_Rel_def

text \<open>What a component of a cleaned path is.\<close>

definition plain_component :: "string \<Rightarrow> bool" where
  "plain_component c \<longleftrightarrow> c \<noteq> [] \<and> c \<noteq> ''.'' \<and> c \<noteq> ''..'' \<and> CHR ''/'' \<notin> set c"

lemma clean_components_rooted_plain:
  assumes "list_all (\<lambda>p. CHR ''/'' \<notin> set p) ps" and "list_all plain_component acc"
  shows "list_all plain_component (clean_components True acc ps)"
  using assms
proof (induction ps arbitrary: acc)
  case Nil
  then show ?case by (simp add: list_all_iff)
next
  case (Cons p ps)
  have "list_all plain_component qs" if "acc = q # qs" for q qs
    using Cons.prems(2) that by simp
  then show ?case
    using Cons.IH Cons.prems by (cases acc) (simp_all add: plain_component_def)
qed

lemma path_components_abs_plain: "path_IsAbs p \<Longrightarrow> list_all plain_component (path_components p)"
proof -
  have "list_all (\<lambda>f. CHR ''/'' \<notin> set f) (split_on (CHR ''/'') p)"
    by (simp add: list_all_iff split_on_no_sep)
  then show "path_IsAbs p \<Longrightarrow> ?thesis"
    by (simp add: path_components_def clean_components_rooted_plain)
qed

lemma clean_components_plain_id:
  "list_all plain_component ps \<Longrightarrow> clean_components r acc ps = rev acc @ ps"
  by (induction ps arbitrary: acc) (auto simp: plain_component_def)

lemma split_on_no_sep_id: "c \<notin> set x \<Longrightarrow> split_on c x = [x]"
  by (induction x) auto

lemma split_on_append_sep: "c \<notin> set x \<Longrightarrow> split_on c (x @ c # s) = x # split_on c s"
  by (induction x) auto

lemma split_on_join_on:
  "fs \<noteq> [] \<Longrightarrow> list_all (\<lambda>f. c \<notin> set f) fs \<Longrightarrow> split_on c (join_on [c] fs) = fs"
  by (induction fs rule: induct_list012) (auto simp: split_on_no_sep_id split_on_append_sep)

text \<open>Cleaning an absolute path is idempotent.\<close>

lemma path_components_Clean_abs:
  assumes "path_IsAbs p"
  shows "path_components (path_Clean p) = path_components p"
proof -
  let ?cs = "path_components p"
  have plain: "list_all plain_component ?cs"
    using assms by (rule path_components_abs_plain)
  have noslash: "list_all (\<lambda>f. CHR ''/'' \<notin> set f) ?cs"
    using plain by (auto simp: list_all_iff plain_component_def)
  have "split_on (CHR ''/'') (CHR ''/'' # join_on ''/'' ?cs) = [] # (if ?cs = [] then [[]] else ?cs)"
    using noslash split_on_join_on by simp
  moreover have "clean_components True [] ([] # (if ?cs = [] then [[]] else ?cs)) = ?cs"
    using plain clean_components_plain_id [of ?cs True "[]"] by simp
  ultimately have "path_components (CHR ''/'' # join_on ''/'' ?cs) = ?cs"
    by (subst path_components_def) (simp add: path_IsAbs_def has_prefix_def del: split_on.simps)
  then show ?thesis using assms by (simp add: path_Clean_def)
qed

lemma path_IsAbs_Clean: "path_IsAbs p \<Longrightarrow> path_IsAbs (path_Clean p)"
  by (simp add: path_Clean_def path_IsAbs_def has_prefix_def)

lemma path_Clean_idem: "path_IsAbs p \<Longrightarrow> path_Clean (path_Clean p) = path_Clean p"
  using path_IsAbs_Clean [of p] path_components_Clean_abs [of p] by (simp add: path_Clean_def)

lemma strip_common_Nil_iff: "fst (strip_common b t) = [] \<longleftrightarrow> prefix b t"
  by (induction b t rule: strip_common.induct) auto

section \<open>Contexts\<close>

text \<open>
  A \<open>context.Context\<close> is the instant at which it is done, with the error it then reports;
  \<open>None\<close> is \<open>context.Background()\<close>. Instants and durations are nanoseconds. A context
  derived with a timeout is done at the earlier of the parent's instant and its own deadline.
\<close>

datatype ctx_error = Canceled | DeadlineExceeded

type_synonym ctxt = "(int \<times> ctx_error) option"

definition WithTimeout :: "ctxt \<Rightarrow> int \<Rightarrow> int \<Rightarrow> ctxt" where
  "WithTimeout parent now d =
     (case parent of
        None \<Rightarrow> Some (now + d, DeadlineExceeded)
      | Some (t, e) \<Rightarrow> if t \<le> now + d then parent else Some (now + d, DeadlineExceeded))"

definition ctx_Err :: "ctxt \<Rightarrow> int \<Rightarrow> ctx_error option" where
  "ctx_Err c now = (case c of None \<Rightarrow> None | Some (t, e) \<Rightarrow> if t \<le> now then Some e else None)"

definition ctx_deadline :: "ctxt \<Rightarrow> int option" where
  "ctx_deadline c = map_option fst c"

lemma WithTimeout_deadline:
  "\<exists>t. ctx_deadline (WithTimeout c now d) = Some t \<and> t \<le> now + d"
  by (auto simp: WithTimeout_def ctx_deadline_def split: option.split prod.split)

section \<open>Effects\<close>

abbreviation ret :: "'a \<Rightarrow> ('s, 'a) state" where
  "ret \<equiv> State_Monad.return"

definition gets :: "('s \<Rightarrow> 'a) \<Rightarrow> ('s, 'a) state" where
  "gets f = State (\<lambda>s. (f s, s))"

definition modify :: "('s \<Rightarrow> 's) \<Rightarrow> ('s, unit) state" where
  "modify f = State (\<lambda>s. ((), f s))"

lemma run_state_gets [simp]: "run_state (gets f) s = (f s, s)"
  by (simp add: gets_def)

lemma run_state_modify [simp]: "run_state (modify f) s = ((), f s)"
  by (simp add: modify_def)

subsection \<open>Weakest preconditions\<close>

definition wp :: "('s, 'a) state \<Rightarrow> ('a \<Rightarrow> 's \<Rightarrow> bool) \<Rightarrow> 's \<Rightarrow> bool" where
  "wp m Q s \<longleftrightarrow> (case run_state m s of (a, t) \<Rightarrow> Q a t)"

lemma wpI: "(\<And>a t. run_state m s = (a, t) \<Longrightarrow> Q a t) \<Longrightarrow> wp m Q s"
  by (simp add: wp_def split: prod.split)

lemma wpD: "wp m Q s \<Longrightarrow> run_state m s = (a, t) \<Longrightarrow> Q a t"
  by (simp add: wp_def)

lemma wp_return [simp]: "wp (ret a) Q = Q a"
  by (simp add: wp_def fun_eq_iff)

lemma wp_bind [simp]: "wp (State_Monad.bind m f) Q = wp m (\<lambda>a. wp (f a) Q)"
  by (simp add: wp_def fun_eq_iff split: prod.split)

lemma wp_gets [simp]: "wp (gets f) Q = (\<lambda>s. Q (f s) s)"
  by (simp add: wp_def fun_eq_iff)

lemma wp_modify [simp]: "wp (modify f) Q = (\<lambda>s. Q () (f s))"
  by (simp add: wp_def fun_eq_iff)

lemma wp_if: "wp (if b then m else n) Q s = (if b then wp m Q s else wp n Q s)"
  by simp

lemma wp_case_option:
  "wp (case x of None \<Rightarrow> m | Some a \<Rightarrow> f a) Q s = (case x of None \<Rightarrow> wp m Q s | Some a \<Rightarrow> wp (f a) Q s)"
  by (cases x) auto

lemma wp_case_sum:
  "wp (case x of Inl a \<Rightarrow> f a | Inr b \<Rightarrow> g b) Q s =
     (case x of Inl a \<Rightarrow> wp (f a) Q s | Inr b \<Rightarrow> wp (g b) Q s)"
  by (cases x) auto

lemma wp_case_prod:
  "wp (case x of (a, b) \<Rightarrow> f a b) Q s = (case x of (a, b) \<Rightarrow> wp (f a b) Q s)"
  by (cases x) auto

lemma wp_let: "wp (Let x f) Q s = Let x (\<lambda>a. wp (f a) Q s)"
  by (simp add: Let_def)

lemmas wp_cases = wp_if wp_case_option wp_case_sum wp_case_prod wp_let

lemma wp_mono: "wp m Q s \<Longrightarrow> (\<And>a t. Q a t \<Longrightarrow> R a t) \<Longrightarrow> wp m R s"
  by (auto simp: wp_def split: prod.splits)

lemma wp_conj: "wp m Q s \<Longrightarrow> wp m R s \<Longrightarrow> wp m (\<lambda>a t. Q a t \<and> R a t) s"
  by (auto simp: wp_def split: prod.splits)

lemma wp_True [simp]: "wp m (\<lambda>_ _. True) s"
  by (simp add: wp_def split: prod.split)

text \<open>
  A reflexive and transitive relation between the state before and after is kept by a whole
  program when every operation in it keeps it.
\<close>

definition keeps :: "('s \<Rightarrow> 's \<Rightarrow> bool) \<Rightarrow> ('s, 'a) state \<Rightarrow> bool" where
  "keeps R m \<longleftrightarrow> (\<forall>s. R s (snd (run_state m s)))"

lemma keeps_wp: "keeps R m \<Longrightarrow> wp m (\<lambda>_ t. R s t) s"
  by (auto simp: keeps_def wp_def split: prod.splits dest: spec [of _ s])

lemma keepsI_wp: "(\<And>s. wp m (\<lambda>_ t. R s t) s) \<Longrightarrow> keeps R m"
  by (simp add: keeps_def wp_def case_prod_beta)

lemma keeps_return [simp]: "reflp R \<Longrightarrow> keeps R (ret a)"
  by (simp add: keeps_def reflpD)

lemma keeps_gets [simp]: "reflp R \<Longrightarrow> keeps R (gets f)"
  by (simp add: keeps_def reflpD)

lemma keeps_bind: "transp R \<Longrightarrow> keeps R m \<Longrightarrow> (\<And>a. keeps R (f a)) \<Longrightarrow> keeps R (State_Monad.bind m f)"
  by (auto simp: keeps_def split: prod.split) (metis snd_conv transpD)

lemma keeps_if [intro]: "(b \<Longrightarrow> keeps R m) \<Longrightarrow> (\<not> b \<Longrightarrow> keeps R n) \<Longrightarrow> keeps R (if b then m else n)"
  by simp

lemma keeps_case_option [intro]:
  "(x = None \<Longrightarrow> keeps R m) \<Longrightarrow> (\<And>a. x = Some a \<Longrightarrow> keeps R (f a)) \<Longrightarrow> keeps R (case x of None \<Rightarrow> m | Some a \<Rightarrow> f a)"
  by (cases x) auto

lemma keeps_case_sum [intro]:
  "(\<And>a. x = Inl a \<Longrightarrow> keeps R (f a)) \<Longrightarrow> (\<And>b. x = Inr b \<Longrightarrow> keeps R (g b)) \<Longrightarrow>
   keeps R (case x of Inl a \<Rightarrow> f a | Inr b \<Rightarrow> g b)"
  by (cases x) auto

lemma keeps_case_prod [intro]:
  "(\<And>a b. x = (a, b) \<Longrightarrow> keeps R (f a b)) \<Longrightarrow> keeps R (case x of (a, b) \<Rightarrow> f a b)"
  by (cases x) auto

lemma keeps_let [intro]: "(\<And>a. a = x \<Longrightarrow> keeps R (f a)) \<Longrightarrow> keeps R (Let x f)"
  by simp

lemmas keeps_cases = keeps_if keeps_case_option keeps_case_sum keeps_case_prod keeps_let

section \<open>Polling loops\<close>

text \<open>
  The sources poll with \<open>for { body; if err := Sleep(ctx, d); err != nil { return ... } }\<close>.
  The body either decides the result or asks for another turn, carrying the loop's local
  variables. \<open>None\<close> is running out of fuel.
\<close>

fun poll_loop ::
  "nat \<Rightarrow> ('s, 'e option) state \<Rightarrow> ('e \<Rightarrow> ('s, 'r) state) \<Rightarrow> ('c \<Rightarrow> ('s, 'r + 'c) state) \<Rightarrow> 'c
    \<Rightarrow> ('s, 'r option) state" where
  "poll_loop 0 slp on_err body c = ret None"
| "poll_loop (Suc n) slp on_err body c = do {
     x \<leftarrow> body c;
     (case x of
        Inl r \<Rightarrow> ret (Some r)
      | Inr c' \<Rightarrow> do {
          e \<leftarrow> slp;
          (case e of
             Some err \<Rightarrow> do { r \<leftarrow> on_err err; ret (Some r) }
           | None \<Rightarrow> poll_loop n slp on_err body c')
        })
   }"

lemma wp_poll_loop:
  assumes start: "I c s"
    and body: "\<And>c s. I c s \<Longrightarrow> wp (body c) (\<lambda>x t. case x of Inl r \<Rightarrow> Q (Some r) t | Inr c' \<Rightarrow> J c' t) s"
    and slp: "\<And>c s. J c s \<Longrightarrow>
      wp slp (\<lambda>e t. case e of None \<Rightarrow> I c t | Some err \<Rightarrow> wp (on_err err) (\<lambda>r. Q (Some r)) t) s"
    and stop: "\<And>c s. I c s \<Longrightarrow> Q None s"
  shows "wp (poll_loop n slp on_err body c) Q s"
  using start
proof (induction n arbitrary: c s)
  case 0
  then show ?case by (simp add: stop)
next
  case (Suc n)
  show ?case
    unfolding poll_loop.simps wp_bind
  proof (rule wp_mono [OF body [OF Suc.prems]])
    fix x t
    assume x: "case x of Inl r \<Rightarrow> Q (Some r) t | Inr c' \<Rightarrow> J c' t"
    show "wp (case x of Inl r \<Rightarrow> ret (Some r)
             | Inr c' \<Rightarrow> State_Monad.bind slp (\<lambda>e. case e of Some err \<Rightarrow> State_Monad.bind (on_err err) (\<lambda>r. ret (Some r))
                 | None \<Rightarrow> poll_loop n slp on_err body c')) Q t"
    proof (cases x)
      case (Inr c')
      with x have "J c' t" by simp
      then show ?thesis
        unfolding Inr sum.case wp_bind
        by (rule wp_mono [OF slp]) (auto split: option.splits intro: Suc.IH)
    qed (use x in simp)
  qed
qed

lemma keeps_poll_loop:
  assumes "reflp R" "transp R" "keeps R slp" "\<And>err. keeps R (on_err err)" "\<And>c. keeps R (body c)"
  shows "keeps R (poll_loop n slp on_err body c)"
  by (induction n arbitrary: c) (auto simp: assms split: sum.split option.split intro!: keeps_bind assms)

text \<open>More fuel never changes a result.\<close>

lemma poll_loop_more_fuel:
  "run_state (poll_loop n slp on_err body c) s = (Some r, t) \<Longrightarrow> n \<le> m \<Longrightarrow>
   run_state (poll_loop m slp on_err body c) s = (Some r, t)"
proof (induction n arbitrary: m c s)
  case (Suc n)
  then obtain m' where m: "m = Suc m'" "n \<le> m'" by (cases m) auto
  with Suc.prems Suc.IH show ?case
    by (auto split: prod.splits sum.splits option.splits)
qed simp

text \<open>
  The interface between a polling loop and its clock: a completed sleep moves the clock on by
  at least the poll interval and ends before the context's deadline, and the body never turns
  the clock back. Every loop that meets it returns.
\<close>

locale timed_poll =
  fixes clock :: "'s \<Rightarrow> int"
    and slp :: "('s, 'e option) state"
    and body :: "'c \<Rightarrow> ('s, 'r + 'c) state"
    and poll deadline :: int
  assumes sleep_advances: "wp slp (\<lambda>e t. e = None \<longrightarrow> clock s + poll \<le> clock t \<and> clock t < deadline) s"
    and body_clock: "wp (body c) (\<lambda>_ t. clock s \<le> clock t) s"
begin

lemma returns:
  "0 < poll \<Longrightarrow> nat ((deadline - clock s) div poll) + 2 \<le> n \<Longrightarrow>
   wp (poll_loop n slp on_err body c) (\<lambda>r _. r \<noteq> None) s"
proof (induction n arbitrary: c s)
  case (Suc n)
  show ?case
    unfolding poll_loop.simps wp_bind
  proof (rule wp_mono [OF body_clock])
    fix x t
    assume t: "clock s \<le> clock t"
    have "wp (poll_loop n slp on_err body c') (\<lambda>r _. r \<noteq> None) u"
      if u: "clock t + poll \<le> clock u" "clock u < deadline" for c' u
    proof (rule Suc.IH [OF Suc.prems(1)])
      have "(deadline - clock u) + poll \<le> deadline - clock s" using t u by simp
      then have "((deadline - clock u) + poll) div poll \<le> (deadline - clock s) div poll"
        using Suc.prems by (simp add: zdiv_mono1)
      then have "(deadline - clock u) div poll + 1 \<le> (deadline - clock s) div poll"
        using Suc.prems div_add_self2 [of poll "deadline - clock u"] by simp
      moreover have "0 \<le> (deadline - clock u) div poll"
        using u Suc.prems by (simp add: pos_imp_zdiv_nonneg_iff)
      ultimately show "nat ((deadline - clock u) div poll) + 2 \<le> n" using Suc.prems by linarith
    qed
    then show "wp (case x of Inl r \<Rightarrow> ret (Some r)
             | Inr c' \<Rightarrow> State_Monad.bind slp (\<lambda>e. case e of Some err \<Rightarrow> State_Monad.bind (on_err err) (\<lambda>r. ret (Some r))
                 | None \<Rightarrow> poll_loop n slp on_err body c')) (\<lambda>r _. r \<noteq> None) t"
      by (auto split: sum.split option.split intro!: wp_mono [OF sleep_advances])
  qed
qed simp

end

end
