(* ===== verification/Jit_Types.thy ===== *)
theory Jit_Types
  imports Civm_Prelude
begin

text \<open>
  The data model of the JIT dispatcher (\<open>src/internal/jitdispatcher/types.go\<close>, with the
  structs of \<open>gate.go\<close>, \<open>github.go\<close> and \<open>runner.go\<close> its parts exchange). Structs are
  records whose fields carry the Go name behind a short tag; the \<open>Status\<close> strings are a
  datatype with one more constructor for any other string a ledger file may hold. Identifiers
  (\<open>int64\<close>, \<open>int\<close>, \<open>uint64\<close>) are only stored and compared, so they are unbounded integers
  here; timestamps are nanoseconds with 0 for Go's zero time.
\<close>

section \<open>Errors\<close>

datatype jit_error =
    ErrAmbiguous
  | ErrBusy
  | ErrInvalid
  | ErrReplay
  | ErrStale
  | ErrUnsupportedPlatform
  | HTTPError string int string
  | CtxError ctx_error
  | OtherError string

type_synonym jerr = "jit_error gerr"

text \<open>\<open>fmt.Errorf\<close> without and with a \<open>%w\<close> operand.\<close>

abbreviation errf :: "string \<Rightarrow> jerr" where
  "errf msg \<equiv> Leaf (OtherError msg)"

abbreviation invalid :: "string \<Rightarrow> jerr" where
  "invalid msg \<equiv> Wrap msg [Leaf ErrInvalid]"

abbreviation ambiguous :: "string \<Rightarrow> jerr" where
  "ambiguous msg \<equiv> Wrap msg [Leaf ErrAmbiguous]"

fun is_HTTPError :: "jit_error \<Rightarrow> bool" where
  "is_HTTPError (HTTPError op status rid) = True"
| "is_HTTPError e = False"

definition IsHTTPStatus :: "jerr \<Rightarrow> int \<Rightarrow> bool" where
  "IsHTTPStatus err status =
     (case errors_As is_HTTPError err of
        Some (HTTPError op st rid) \<Rightarrow> st = status
      | _ \<Rightarrow> False)"

section \<open>Constants\<close>

definition SupportedAPIVersion :: string where
  "SupportedAPIVersion = ''2026-03-10''"

definition MachineLockPath :: string where
  "MachineLockPath = ''/run/civm/jit-dispatch.lock''"

definition LeaseMarkerPath :: string where
  "LeaseMarkerPath = ''/run/civm/jit-dispatch-lease.json''"

abbreviation second :: int where "second \<equiv> 1000000000"
abbreviation minute :: int where "minute \<equiv> 60 * second"
abbreviation hour :: int where "hour \<equiv> 60 * minute"

section \<open>Structs\<close>

datatype Status =
    StatusPrepared
  | StatusDispatching
  | StatusWorkflowDispatched
  | StatusRunBound
  | StatusJITCreated
  | StatusRunnerStarted
  | StatusIsolationReady
  | StatusReconciling
  | StatusCompleted
  | StatusFailed
  | StatusStale
  | StatusAmbiguous
  | StatusOther string

record RepositoryPolicy =
  rp_Repository :: string
  rp_TrustedRef :: string
  rp_Workflow :: string
  rp_WorkflowSHA256 :: string
  rp_CandidateRefs :: "string list"
  rp_RunnerGroupID :: int
  rp_JobName :: string

record Config =
  cfg_APIBaseURL :: string
  cfg_APIVersion :: string
  cfg_StateDir :: string
  cfg_RunnerDirectory :: string
  cfg_GuardExecutable :: string
  cfg_IsolationDriver :: string
  cfg_DriverSHA256 :: string
  cfg_BaseImageSHA256 :: string
  cfg_QueueWait :: int
  cfg_QueuePoll :: int
  cfg_HTTPTimeout :: int
  cfg_JobPollInterval :: int
  cfg_JobBindTimeout :: int
  cfg_RunTimeout :: int
  cfg_ShutdownGrace :: int
  cfg_RecoveryTimeout :: int
  cfg_Repositories :: "RepositoryPolicy list"

definition Policy :: "Config \<Rightarrow> string \<Rightarrow> RepositoryPolicy option" where
  "Policy c repository = find (\<lambda>p. rp_Repository p = repository) (cfg_Repositories c)"

record Request =
  rq_Repository :: string
  rq_CandidateRef :: string
  rq_CandidateSHA :: string
  rq_Idempotency :: string

record Identity =
  id_Nonce :: string
  id_Label :: string
  id_RunnerName :: string
  id_WorkFolder :: string

record Ledger =
  l_Version :: int
  l_RequestID :: string
  l_Repository :: string
  l_CandidateRef :: string
  l_CandidateSHA :: string
  l_TrustedSHA :: string
  l_Workflow :: string
  l_WorkflowSHA256 :: string
  l_Nonce :: string
  l_RunnerLabel :: string
  l_RunnerName :: string
  l_WorkFolder :: string
  l_RunID :: int
  l_JobID :: int
  l_RunnerID :: int
  l_LeaseID :: string
  l_ProcessPID :: int
  l_ProcessStart :: nat
  l_ProcessGroup :: int
  l_CgroupPath :: string
  l_IsolationID :: string
  l_IsolationBase :: string
  l_RunTerminal :: bool
  l_RunnerGone :: bool
  l_IsolationGone :: bool
  l_CleanupComplete :: bool
  l_Status :: Status
  l_CreatedAt :: int
  l_UpdatedAt :: int
  l_FailureCode :: string

record Result =
  res_RequestID :: string
  res_RunID :: int
  res_Status :: Status
  res_Replay :: bool

record DispatchReceipt =
  dr_RunID :: int
  dr_RunURL :: string
  dr_HTMLURL :: string

record WorkflowRun =
  wr_ID :: int
  wr_Event :: string
  wr_HeadSHA :: string
  wr_DisplayTitle :: string
  wr_Path :: string
  wr_Status :: string
  wr_Conclusion :: string

record WorkflowJob =
  wj_ID :: int
  wj_RunID :: int
  wj_Name :: string
  wj_Status :: string
  wj_Conclusion :: string
  wj_Labels :: "string list"
  wj_RunnerID :: int
  wj_RunnerName :: string
  wj_RunnerGroupID :: int

record RunnerLabel =
  rl_Name :: string
  rl_Type :: string

record RemoteRunner =
  rr_ID :: int
  rr_Name :: string
  rr_Status :: string
  rr_Busy :: bool
  rr_Labels :: "RunnerLabel list"

text \<open>\<open>Secret\<close> is a pointer: \<open>None\<close> is nil.\<close>

record JITRegistration =
  jr_Secret :: "string option"
  jr_Runner :: RemoteRunner

record ProcessIdentity =
  pi_PID :: int
  pi_StartTicks :: nat
  pi_ProcessGroup :: int
  pi_CgroupPath :: string

record IsolationReceipt =
  ir_Protocol :: int
  ir_Event :: string
  ir_LeaseID :: string
  ir_IsolationID :: string
  ir_BaseSHA256 :: string
  ir_Disposable :: bool
  ir_HostMounts :: bool
  ir_HostDocker :: bool
  ir_ProductSecrets :: bool
  ir_Destroyed :: bool
  ir_ResetVerified :: bool

record LeaseMarker =
  lm_Version :: int
  lm_LeaseID :: string
  lm_AdmissionID :: string
  lm_HolderPID :: int
  lm_StartTicks :: nat

section \<open>Policies\<close>

lemma Policy_Some: "Policy c r = Some p \<Longrightarrow> p \<in> set (cfg_Repositories c) \<and> rp_Repository p = r"
  by (auto simp: Policy_def find_Some_iff)

end
