(* ===== verification/Jit_Config.thy ===== *)
theory Jit_Config
  imports Jit_Types
begin

text \<open>
  Configuration, request validation and runner identities: \<open>config.go\<close> and \<open>identity.go\<close>
  of \<open>src/internal/jitdispatcher\<close>. The anchored regular expressions are predicates on byte
  strings. \<open>url.Parse\<close> and \<open>time.ParseDuration\<close> are arguments of the functions that call
  them. The lemmas show what an accepted configuration, policy, request and identity
  guarantee: which characters can reach a URL path or a command line, that an identity made
  from 32 random bytes is accepted everywhere it is checked again, and that no two policies
  of an accepted configuration name the same repository.
\<close>

section \<open>The regular expressions\<close>

definition shaRE :: "string \<Rightarrow> bool" where
  "shaRE s \<longleftrightarrow> (length s = 40 \<or> length s = 64) \<and> list_all is_hex s"

definition digestRE :: "string \<Rightarrow> bool" where
  "digestRE s \<longleftrightarrow> length s = 64 \<and> list_all is_hex s"

definition word_start :: "(char \<Rightarrow> bool) \<Rightarrow> nat \<Rightarrow> nat \<Rightarrow> string \<Rightarrow> bool" where
  "word_start ok lo hi s \<longleftrightarrow>
     (case s of [] \<Rightarrow> False | c # cs \<Rightarrow> is_alnum c \<and> lo \<le> length cs \<and> length cs \<le> hi \<and> list_all ok cs)"

definition workflowRE :: "string \<Rightarrow> bool" where
  "workflowRE s \<longleftrightarrow>
     has_prefix s ''.github/workflows/'' \<and>
     (let name = drop 18 s
      in list_ex (\<lambda>ext. has_suffix name ext \<and>
           word_start (\<lambda>c. is_alnum c \<or> c \<in> set ''._-'') 0 99 (take (length name - length ext) name))
         [''.yml'', ''.yaml''])"

definition idempotencyRE :: "string \<Rightarrow> bool" where
  "idempotencyRE = word_start (\<lambda>c. is_alnum c \<or> c \<in> set ''._:-'') 15 127"

definition jobNameRE :: "string \<Rightarrow> bool" where
  "jobNameRE = word_start (\<lambda>c. is_alnum c \<or> c \<in> set '' ._:/()-'') 0 99"

section \<open>Names and refs\<close>

definition safeName :: "string \<Rightarrow> bool" where
  "safeName value' \<longleftrightarrow>
     list_all (\<lambda>c. is_lower c \<or> is_digit c \<or> c \<in> set ''._-'') value' \<and>
     value' \<noteq> [] \<and> hd value' \<noteq> CHR ''.'' \<and> last value' \<noteq> CHR ''.''"

definition validateRepository :: "string \<Rightarrow> jerr option" where
  "validateRepository repository =
     (let parts = split_on (CHR ''/'') repository
      in if length parts \<noteq> 2 \<or> repository \<noteq> to_lower repository
         then Some (invalid ''repository must be lowercase owner/repo'')
         else if list_ex (\<lambda>part. part = [] \<or> length part > 100 \<or> \<not> safeName part) parts
         then Some (invalid ''repository contains an unsafe segment'')
         else None)"

definition validateRef :: "string \<Rightarrow> jerr option" where
  "validateRef ref =
     (if length ref < 12 \<or> length ref > 240 \<or> \<not> has_prefix ref ''refs/heads/''
      then Some (invalid ''ref must be an exact branch ref'')
      else let name = trim_prefix ref ''refs/heads/''
      in if contains name ''..'' \<or> contains name ''//'' \<or> contains name [CHR ''@'', CHR ''{''] \<or>
            has_prefix name ''.'' \<or> has_suffix name ''.'' \<or> has_suffix name ''/'' \<or>
            has_suffix name ''.lock''
         then Some (invalid ''ref contains an unsafe sequence'')
         else if \<not> list_all (\<lambda>c. is_alnum c \<or> c \<in> set ''._/-'') name
         then Some (invalid ''ref contains an unsafe character'')
         else None)"

section \<open>Policies and requests\<close>

fun first_error :: "('a \<Rightarrow> 'e option) \<Rightarrow> 'a list \<Rightarrow> 'e option" where
  "first_error f [] = None"
| "first_error f (x # xs) = (case f x of Some e \<Rightarrow> Some e | None \<Rightarrow> first_error f xs)"

text \<open>The loop over \<open>CandidateRefs\<close>: each ref is valid and not seen before.\<close>

fun check_refs :: "string list \<Rightarrow> string list \<Rightarrow> jerr option" where
  "check_refs seen [] = None"
| "check_refs seen (r # rs) =
     (case validateRef r of
        Some e \<Rightarrow> Some e
      | None \<Rightarrow> if r \<in> set seen then Some (invalid ''duplicate candidate ref'')
                 else check_refs (r # seen) rs)"

definition validatePolicy :: "RepositoryPolicy \<Rightarrow> jerr option" where
  "validatePolicy policy =
     (case validateRepository (rp_Repository policy) of
        Some e \<Rightarrow> Some e
      | None \<Rightarrow>
          if validateRef (rp_TrustedRef policy) \<noteq> None \<or> \<not> has_prefix (rp_TrustedRef policy) ''refs/heads/''
          then Some (invalid ''trusted_ref must be a safe branch ref'')
          else if \<not> workflowRE (rp_Workflow policy) \<or> \<not> digestRE (rp_WorkflowSHA256 policy)
          then Some (invalid ''workflow path or SHA-256 is invalid'')
          else if rp_RunnerGroupID policy \<le> 0 \<or> \<not> jobNameRE (rp_JobName policy)
          then Some (invalid ''runner_group_id or job_name is invalid'')
          else if rp_CandidateRefs policy = [] \<or> length (rp_CandidateRefs policy) > 128
          then Some (invalid ''candidate_refs must contain 1..128 entries'')
          else check_refs [] (rp_CandidateRefs policy))"

text \<open>
  \<open>rawRepository\<close> has the fields of \<open>RepositoryPolicy\<close>, so a raw entry is a policy that has
  not been validated yet.
\<close>

fun validatePolicies_from :: "string list \<Rightarrow> RepositoryPolicy list \<Rightarrow> jerr + RepositoryPolicy list" where
  "validatePolicies_from seen [] = Inr []"
| "validatePolicies_from seen (item # raw) =
     (if rp_Repository item \<in> set seen then Inl (invalid ''duplicate repository policy'')
      else (case validatePolicy item of
              Some e \<Rightarrow> Inl e
            | None \<Rightarrow> map_sum id ((#) item) (validatePolicies_from (rp_Repository item # seen) raw)))"

definition validatePolicies :: "RepositoryPolicy list \<Rightarrow> jerr + RepositoryPolicy list" where
  "validatePolicies raw = validatePolicies_from [] raw"

definition ValidateRequest :: "Request \<Rightarrow> RepositoryPolicy \<Rightarrow> jerr option" where
  "ValidateRequest request policy =
     (if rq_Repository request \<noteq> rp_Repository policy
      then Some (invalid ''repository is not allowlisted'')
      else (case validateRepository (rq_Repository request) of
        Some e \<Rightarrow> Some e
      | None \<Rightarrow> (case validateRef (rq_CandidateRef request) of
          Some e \<Rightarrow> Some e
        | None \<Rightarrow>
            let allowed = fold (\<lambda>ref allowed. allowed \<or> ref = rq_CandidateRef request) (rp_CandidateRefs policy) False
            in if \<not> allowed \<or> \<not> shaRE (rq_CandidateSHA request) \<or> \<not> idempotencyRE (rq_Idempotency request)
               then Some (invalid ''candidate ref, SHA or idempotency key is invalid'')
               else None)))"

section \<open>The configuration file\<close>

record URL =
  u_Scheme :: string
  u_Host :: string
  u_hasUser :: bool
  u_RawQuery :: string
  u_Fragment :: string
  u_Path :: string

definition validateAPIBase :: "(string \<Rightarrow> URL option) \<Rightarrow> string \<Rightarrow> jerr option" where
  "validateAPIBase url_Parse value' =
     (case url_Parse value' of
        None \<Rightarrow> Some (invalid ''api_base_url must be an HTTPS origin'')
      | Some u \<Rightarrow>
          if u_Scheme u \<noteq> ''https'' \<or> u_Host u = [] \<or> u_hasUser u \<or> u_RawQuery u \<noteq> [] \<or> u_Fragment u \<noteq> []
          then Some (invalid ''api_base_url must be an HTTPS origin'')
          else if trim_suffix (u_Path u) ''/'' \<noteq> []
          then Some (invalid ''api_base_url must not contain a path'')
          else None)"

definition validateAbsoluteDir :: "string \<Rightarrow> jerr option" where
  "validateAbsoluteDir value' =
     (if \<not> path_IsAbs value' \<or> path_Clean value' \<noteq> value' \<or> value' = ''/''
      then Some (invalid ''must be an absolute clean non-root path'') else None)"

definition validateAbsoluteExecutable :: "string \<Rightarrow> jerr option" where
  "validateAbsoluteExecutable value' =
     (if \<not> path_IsAbs value' \<or> path_Clean value' \<noteq> value' \<or> value' = ''/''
      then Some (invalid ''must be an absolute clean path'') else None)"

definition pathsOverlap :: "string \<Rightarrow> string \<Rightarrow> bool" where
  "pathsOverlap left right =
     list_ex (\<lambda>(a, b).
        let relative = path_Rel (path_Clean a) (path_Clean b)
        in relative \<noteq> ''..'' \<and> \<not> has_prefix relative ''../'')
       [(left, right), (right, left)]"

record rawConfig =
  raw_APIBaseURL :: string
  raw_APIVersion :: string
  raw_StateDir :: string
  raw_RunnerDirectory :: string
  raw_GuardExecutable :: string
  raw_IsolationDriver :: string
  raw_DriverSHA256 :: string
  raw_BaseImageSHA256 :: string
  raw_QueueWait :: string
  raw_QueuePoll :: string
  raw_HTTPTimeout :: string
  raw_JobPollInterval :: string
  raw_JobBindTimeout :: string
  raw_RunTimeout :: string
  raw_ShutdownGrace :: string
  raw_RecoveryTimeout :: string
  raw_Repositories :: "RepositoryPolicy list"

definition duration_limits :: "rawConfig \<Rightarrow> (string \<times> int) list" where
  "duration_limits raw =
     [(raw_QueueWait raw, hour), (raw_QueuePoll raw, second),
      (raw_HTTPTimeout raw, minute), (raw_JobPollInterval raw, minute),
      (raw_JobBindTimeout raw, 30 * minute), (raw_RunTimeout raw, 24 * hour),
      (raw_ShutdownGrace raw, minute), (raw_RecoveryTimeout raw, hour)]"

fun parse_limited :: "(string \<Rightarrow> int option) \<Rightarrow> (string \<times> int) list \<Rightarrow> jerr + int list" where
  "parse_limited parse [] = Inr []"
| "parse_limited parse ((text, limit) # items) =
     (case parse text of
        None \<Rightarrow> Inl (invalid ''duration is invalid'')
      | Some value' \<Rightarrow>
          if value' \<le> 0 \<or> limit < value' then Inl (invalid ''duration is invalid'')
          else map_sum id ((#) value') (parse_limited parse items))"

definition parseDurations :: "(string \<Rightarrow> int option) \<Rightarrow> rawConfig \<Rightarrow> jerr + int list" where
  "parseDurations parse raw = parse_limited parse (duration_limits raw)"

definition validateConfig ::
  "(string \<Rightarrow> URL option) \<Rightarrow> (string \<Rightarrow> int option) \<Rightarrow> rawConfig \<Rightarrow> jerr + Config" where
  "validateConfig url_Parse parse raw =
     (if raw_APIVersion raw \<noteq> SupportedAPIVersion then Inl (invalid ''api_version'')
      else (case validateAPIBase url_Parse (raw_APIBaseURL raw) of Some e \<Rightarrow> Inl e | None \<Rightarrow>
      (case validateAbsoluteDir (raw_StateDir raw) of Some e \<Rightarrow> Inl e | None \<Rightarrow>
      (case validateAbsoluteDir (raw_RunnerDirectory raw) of Some e \<Rightarrow> Inl e | None \<Rightarrow>
      if pathsOverlap (raw_StateDir raw) (raw_RunnerDirectory raw)
      then Inl (invalid ''state_dir and runner_directory must not overlap'')
      else (case validateAbsoluteExecutable (raw_GuardExecutable raw) of Some e \<Rightarrow> Inl e | None \<Rightarrow>
      (case validateAbsoluteExecutable (raw_IsolationDriver raw) of Some e \<Rightarrow> Inl e | None \<Rightarrow>
      if raw_GuardExecutable raw = raw_IsolationDriver raw
      then Inl (invalid ''guard and isolation driver must be distinct'')
      else if \<not> digestRE (raw_DriverSHA256 raw) \<or> \<not> digestRE (raw_BaseImageSHA256 raw)
      then Inl (invalid ''isolation driver and base image SHA-256 are required'')
      else if raw_Repositories raw = [] \<or> length (raw_Repositories raw) > 64
      then Inl (invalid ''repositories must contain 1..64 entries'')
      else (case parseDurations parse raw of Inl e \<Rightarrow> Inl e | Inr durations \<Rightarrow>
      (case validatePolicies (raw_Repositories raw) of Inl e \<Rightarrow> Inl e | Inr policies \<Rightarrow>
      Inr \<lparr> cfg_APIBaseURL = raw_APIBaseURL raw, cfg_APIVersion = raw_APIVersion raw,
            cfg_StateDir = raw_StateDir raw, cfg_RunnerDirectory = raw_RunnerDirectory raw,
            cfg_GuardExecutable = raw_GuardExecutable raw, cfg_IsolationDriver = raw_IsolationDriver raw,
            cfg_DriverSHA256 = raw_DriverSHA256 raw, cfg_BaseImageSHA256 = raw_BaseImageSHA256 raw,
            cfg_QueueWait = durations ! 0, cfg_QueuePoll = durations ! 1,
            cfg_HTTPTimeout = durations ! 2, cfg_JobPollInterval = durations ! 3,
            cfg_JobBindTimeout = durations ! 4, cfg_RunTimeout = durations ! 5,
            cfg_ShutdownGrace = durations ! 6, cfg_RecoveryTimeout = durations ! 7,
            cfg_Repositories = policies \<rparr>))))))))"

section \<open>Identities and tokens\<close>

definition hex_digit :: "nat \<Rightarrow> char" where
  "hex_digit n = (if n < 10 then char_of (48 + n) else char_of (87 + n))"

text \<open>\<open>hex.EncodeToString\<close>.\<close>

fun hex_encode :: "nat list \<Rightarrow> string" where
  "hex_encode [] = []"
| "hex_encode (b # bs) = hex_digit (b div 16) # hex_digit (b mod 16) # hex_encode bs"

text \<open>\<open>io.ReadFull(random, value)\<close> fails on fewer than 32 bytes.\<close>

definition NewIdentity :: "nat list \<Rightarrow> jerr + Identity" where
  "NewIdentity random =
     (if length random < 32 then Inl (Wrap ''identity randomness'' [errf ''unexpected EOF''])
      else let nonce = hex_encode (take 32 random)
      in Inr \<lparr> id_Nonce = nonce, id_Label = ''civm-jit-'' @ nonce,
               id_RunnerName = ''civm-jit-'' @ take 16 nonce,
               id_WorkFolder = ''_work/jit-'' @ nonce \<rparr>)"

definition validIdentity :: "Identity \<Rightarrow> bool" where
  "validIdentity identity \<longleftrightarrow>
     length (id_Nonce identity) = 64 \<and> digestRE (id_Nonce identity) \<and>
     id_Label identity = ''civm-jit-'' @ id_Nonce identity \<and>
     id_RunnerName identity = ''civm-jit-'' @ take 16 (id_Nonce identity) \<and>
     id_WorkFolder identity = ''_work/jit-'' @ id_Nonce identity"

definition maxTokenBytes :: nat where
  "maxTokenBytes = 8192"

definition strip_newline :: "string \<Rightarrow> string" where
  "strip_newline data =
     (if data \<noteq> [] \<and> last data = char_of (10 :: nat)
      then let d = butlast data
           in if d \<noteq> [] \<and> last d = char_of (13 :: nat) then butlast d else d
      else data)"

definition ReadToken :: "string \<Rightarrow> jerr + string" where
  "ReadToken input =
     (let data = take (maxTokenBytes + 1) input
      in if length data > maxTokenBytes then Inl (invalid ''token is too large'')
         else let d = strip_newline data
         in if length d < 20 then Inl (invalid ''token is too short'')
            else if list_ex (\<lambda>c. (of_char c :: nat) \<le> 32 \<or> 127 \<le> (of_char c :: nat)) d
            then Inl (invalid ''token contains whitespace or non-ASCII data'')
            else Inr d)"

section \<open>What validation guarantees\<close>

definition ref_char :: "char \<Rightarrow> bool" where
  "ref_char c \<longleftrightarrow> is_alnum c \<or> c \<in> set ''._/-''"

lemma validateRef_None_iff:
  "validateRef r = None \<longleftrightarrow>
     (\<exists>name. r = ''refs/heads/'' @ name \<and> name \<noteq> [] \<and> length name \<le> 229 \<and>
        list_all ref_char name \<and> \<not> contains name ''..'' \<and> \<not> contains name ''//'' \<and> \<not> contains name [CHR ''@'', CHR ''{''] \<and>
        \<not> has_prefix name ''.'' \<and> \<not> has_suffix name ''.'' \<and> \<not> has_suffix name ''/'' \<and>
        \<not> has_suffix name ''.lock'')"
  (is "?l = ?r")
proof
  assume l: ?l
  then have p: "has_prefix r ''refs/heads/''" and len: "12 \<le> length r" "length r \<le> 240"
    by (auto simp: validateRef_def split: if_splits)
  obtain name where r: "r = ''refs/heads/'' @ name" using has_prefix_trim [OF p] by metis
  have "trim_prefix r ''refs/heads/'' = name" unfolding r by (rule trim_prefix_append)
  with l have "list_all ref_char name \<and> \<not> contains name ''..'' \<and> \<not> contains name ''//'' \<and> \<not> contains name [CHR ''@'', CHR ''{''] \<and>
        \<not> has_prefix name ''.'' \<and> \<not> has_suffix name ''.'' \<and> \<not> has_suffix name ''/'' \<and>
        \<not> has_suffix name ''.lock''"
    by (simp add: validateRef_def ref_char_def [abs_def] Let_def split: if_splits)
  with r len show ?r by auto
next
  assume ?r
  then obtain name where r: "r = ''refs/heads/'' @ name" and *: "name \<noteq> []" "length name \<le> 229"
    "list_all ref_char name" "\<not> contains name ''..''" "\<not> contains name ''//''" "\<not> contains name [CHR ''@'', CHR ''{'']"
    "\<not> has_prefix name ''.''" "\<not> has_suffix name ''.''" "\<not> has_suffix name ''/''" "\<not> has_suffix name ''.lock''"
    by blast
  have "trim_prefix r ''refs/heads/'' = name" "has_prefix r ''refs/heads/''"
    unfolding r by (rule trim_prefix_append, rule has_prefix_append)
  moreover have "length r = 11 + length name" "0 < length name" using r * by auto
  ultimately show ?l using * by (simp add: validateRef_def ref_char_def [abs_def] Let_def)
qed

lemma hex_digit_hex: "n < 16 \<Longrightarrow> is_hex (hex_digit n)"
  by (auto simp: hex_digit_def go_string)

lemma hex_digit_inj: "m < 16 \<Longrightarrow> n < 16 \<Longrightarrow> hex_digit m = hex_digit n \<Longrightarrow> m = n"
  by (auto simp: hex_digit_def split: if_splits dest!: arg_cong [where f = "of_char :: char \<Rightarrow> nat"])

lemma length_hex_encode [simp]: "length (hex_encode bs) = 2 * length bs"
  by (induction bs) auto

lemma hex_encode_hex: "list_all (\<lambda>b. b < 256) bs \<Longrightarrow> list_all is_hex (hex_encode bs)"
  by (induction bs) (auto simp: hex_digit_hex)

lemma hex_encode_inj:
  "list_all (\<lambda>b. b < 256) as \<Longrightarrow> list_all (\<lambda>b. b < 256) bs \<Longrightarrow> hex_encode as = hex_encode bs \<Longrightarrow> as = bs"
proof (induction as arbitrary: bs)
  case (Cons a as)
  then obtain b bs' where bs: "bs = b # bs'" by (cases bs) auto
  with Cons.prems have "a div 16 = b div 16" "a mod 16 = b mod 16"
    by (auto intro!: hex_digit_inj)
  then have "a = b" by (metis div_mult_mod_eq)
  with Cons bs show ?case by auto
next
  case Nil then show ?case by (cases bs) auto
qed

lemma NewIdentity_valid:
  assumes "list_all (\<lambda>b. b < 256) random" and "32 \<le> length random"
  shows "\<exists>i. NewIdentity random = Inr i \<and> validIdentity i \<and> length (id_Label i) = 73"
proof -
  have "list_all (\<lambda>b. b < 256) (take 32 random)"
    using assms(1) by (auto simp: list_all_iff dest: in_set_takeD)
  then have "list_all is_hex (hex_encode (take 32 random))" by (rule hex_encode_hex)
  with assms(2) show ?thesis
    by (simp add: NewIdentity_def validIdentity_def digestRE_def Let_def)
qed

lemma validatePolicies_from_Inr:
  "validatePolicies_from seen raw = Inr ps \<Longrightarrow>
   ps = raw \<and> distinct (map rp_Repository raw) \<and> set seen \<inter> rp_Repository ` set raw = {} \<and>
   list_all (\<lambda>p. validatePolicy p = None) raw"
proof (induction seen raw arbitrary: ps rule: validatePolicies_from.induct)
  case (2 seen item raw)
  then obtain qs where "validatePolicies_from (rp_Repository item # seen) raw = Inr qs" "ps = item # qs"
    "rp_Repository item \<notin> set seen" "validatePolicy item = None"
    by (cases "validatePolicies_from (rp_Repository item # seen) raw") (auto split: if_splits option.splits)
  with 2 show ?case by auto
qed auto

lemma check_refs_None: "check_refs seen rs = None \<Longrightarrow> distinct rs \<and> set seen \<inter> set rs = {} \<and> list_all (\<lambda>r. validateRef r = None) rs"
  by (induction seen rs rule: check_refs.induct) (auto split: option.splits if_splits)

lemma fold_or: "fold (\<lambda>x b. b \<or> P x) xs b \<longleftrightarrow> b \<or> (\<exists>x\<in>set xs. P x)"
  by (induction xs arbitrary: b) auto

lemma ValidateRequest_None_iff:
  "ValidateRequest q p = None \<longleftrightarrow>
     rq_Repository q = rp_Repository p \<and> validateRepository (rq_Repository q) = None \<and>
     validateRef (rq_CandidateRef q) = None \<and> rq_CandidateRef q \<in> set (rp_CandidateRefs p) \<and>
     shaRE (rq_CandidateSHA q) \<and> idempotencyRE (rq_Idempotency q)"
  by (auto simp: ValidateRequest_def Let_def fold_or split: option.splits if_splits)

lemma parse_limited_Inr:
  "parse_limited parse items = Inr ds \<Longrightarrow>
   length ds = length items \<and> (\<forall>i < length items. 0 < ds ! i \<and> ds ! i \<le> snd (items ! i))"
proof (induction parse items arbitrary: ds rule: parse_limited.induct)
  case (2 parse tx limit items)
  then obtain v es where "parse tx = Some v" "0 < v" "v \<le> limit" "parse_limited parse items = Inr es" "ds = v # es"
    by (cases "parse_limited parse items") (auto split: option.splits if_splits)
  with 2 show ?case by (auto simp: nth_Cons less_Suc_eq_0_disj split: nat.splits)
qed simp

lemma ReadToken_Inr:
  "ReadToken input = Inr d \<Longrightarrow>
   20 \<le> length d \<and> length d \<le> maxTokenBytes \<and> list_all (\<lambda>c. 32 < (of_char c :: nat) \<and> (of_char c :: nat) < 127) d"
  by (auto simp: ReadToken_def Let_def strip_newline_def list_all_iff list_ex_iff not_le not_less split: if_splits)

definition repo_char :: "char \<Rightarrow> bool" where
  "repo_char c \<longleftrightarrow> is_lower c \<or> is_digit c \<or> c \<in> set ''._-''"

definition repo_segment :: "string \<Rightarrow> bool" where
  "repo_segment p \<longleftrightarrow> p \<noteq> [] \<and> length p \<le> 100 \<and> list_all repo_char p \<and> hd p \<noteq> CHR ''.'' \<and> last p \<noteq> CHR ''.''"

lemma repo_char_lower: "repo_char c \<Longrightarrow> char_lower c = c"
  by (auto simp: repo_char_def char_lower_def go_string)

lemma repo_char_slash: "\<not> repo_char (CHR ''/'')"
  by (simp add: repo_char_def go_string)

lemma length_2_conv: "length xs = 2 \<longleftrightarrow> (\<exists>a b. xs = [a, b])"
  by (auto simp: length_Suc_conv numeral_2_eq_2)

lemma validateRepository_None_iff:
  "validateRepository r = None \<longleftrightarrow>
     (\<exists>owner name. r = owner @ ''/'' @ name \<and> repo_segment owner \<and> repo_segment name)"
  (is "?l = ?r")
proof
  assume l: ?l
  then obtain a b where ab: "split_on (CHR ''/'') r = [a, b]"
    by (auto simp: validateRepository_def Let_def length_2_conv split: if_splits)
  have "r = a @ ''/'' @ b" using join_split_on [of "CHR ''/''" r] ab by simp
  moreover have "repo_segment a" "repo_segment b"
    using l ab by (auto simp: validateRepository_def Let_def safeName_def repo_segment_def repo_char_def [abs_def] split: if_splits)
  ultimately show ?r by blast
next
  assume ?r
  then obtain a b where r: "r = a @ ''/'' @ b" and ab: "repo_segment a" "repo_segment b" by blast
  have no: "CHR ''/'' \<notin> set a" "CHR ''/'' \<notin> set b"
    using ab by (auto simp: repo_segment_def list_all_iff repo_char_slash)
  have split: "split_on (CHR ''/'') r = [a, b]"
    using no by (simp add: r split_on_append_sep split_on_no_sep_id)
  have "map char_lower a = a" "map char_lower b = b" "char_lower (CHR ''/'') = CHR ''/''"
    using ab by (auto simp: repo_segment_def list_all_iff go_string intro!: map_idI repo_char_lower)
  then have low: "to_lower r = r" by (simp add: r to_lower_def)
  show ?l using split low ab
    by (simp add: validateRepository_def Let_def safeName_def repo_segment_def repo_char_def [abs_def])
qed

lemma join_plain_not_up:
  assumes "list_all plain_component cs" "cs \<noteq> []"
  shows "join_on ''/'' cs \<noteq> ''..'' \<and> \<not> has_prefix (join_on ''/'' cs) ''../''"
proof -
  obtain c rest where cs: "cs = c # rest" using assms(2) by (cases cs) auto
  have hd: "hd (split_on (CHR ''/'') (join_on ''/'' cs)) = c"
    using assms by (auto simp: cs split_on_join_on list_all_iff plain_component_def)
  have "hd (split_on (CHR ''/'') ''..'') = ''..''" by simp
  moreover have "hd (split_on (CHR ''/'') (''../'' @ x)) = ''..''" for x by simp
  ultimately show ?thesis
    using hd assms(1) by (auto simp: cs plain_component_def has_prefix_iff prefix_def)
qed

lemma join_up:
  assumes "0 < n"
  shows "join_on ''/'' (replicate n ''..'' @ t) = ''..'' \<or> has_prefix (join_on ''/'' (replicate n ''..'' @ t)) ''../''"
proof -
  obtain m where "n = Suc m" using assms by (cases n) auto
  then show ?thesis by (cases "replicate m ''..'' @ t") (auto simp: join_on_Cons has_prefix_def)
qed

lemma strip_common_set: "set (snd (strip_common b t)) \<subseteq> set t"
  by (induction b t rule: strip_common.induct) auto

lemma Rel_inside_iff:
  assumes "list_all plain_component (path_components t)"
  shows "path_Rel b t \<noteq> ''..'' \<and> \<not> has_prefix (path_Rel b t) ''../'' \<longleftrightarrow>
         prefix (path_components b) (path_components t)"
proof -
  obtain x y where xy: "strip_common (path_components b) (path_components t) = (x, y)" by fastforce
  have y: "list_all plain_component y"
    using assms strip_common_set [of "path_components b" "path_components t"] xy by (auto simp: list_all_iff)
  have pre: "prefix (path_components b) (path_components t) \<longleftrightarrow> x = []"
    using strip_common_Nil_iff [of "path_components b" "path_components t"] xy by simp
  have rel: "path_Rel b t = (case replicate (length x) ''..'' @ y of [] \<Rightarrow> ''.'' | cs \<Rightarrow> join_on ''/'' cs)"
    by (simp add: path_Rel_def xy)
  show ?thesis
  proof (cases "x = []")
    case True
    then show ?thesis
      using pre rel join_plain_not_up [OF y] by (cases y) (auto simp: has_prefix_def)
  next
    case False
    then have "path_Rel b t = join_on ''/'' (replicate (length x) ''..'' @ y)"
      using rel by (cases x) auto
    then show ?thesis using pre False join_up [of "length x" y] by auto
  qed
qed

lemma pathsOverlap_iff:
  assumes "path_IsAbs a" "path_IsAbs b"
  shows "pathsOverlap a b \<longleftrightarrow>
    prefix (path_components a) (path_components b) \<or> prefix (path_components b) (path_components a)"
proof -
  have "list_all plain_component (path_components (path_Clean a))" "list_all plain_component (path_components (path_Clean b))"
    using assms by (simp_all add: path_components_abs_plain path_IsAbs_Clean)
  then show ?thesis
    using assms by (simp add: pathsOverlap_def Let_def Rel_inside_iff path_components_Clean_abs)
qed

definition config_ok :: "Config \<Rightarrow> bool" where
  "config_ok c \<longleftrightarrow>
     0 < cfg_QueueWait c \<and> 0 < cfg_QueuePoll c \<and> cfg_QueuePoll c \<le> second \<and> 0 < cfg_HTTPTimeout c \<and>
     0 < cfg_JobPollInterval c \<and> cfg_JobPollInterval c \<le> minute \<and>
     0 < cfg_JobBindTimeout c \<and> 0 < cfg_RunTimeout c \<and> cfg_RunTimeout c \<le> 24 * hour \<and>
     0 < cfg_ShutdownGrace c \<and> cfg_ShutdownGrace c \<le> minute \<and> 0 < cfg_RecoveryTimeout c \<and>
     digestRE (cfg_DriverSHA256 c) \<and> digestRE (cfg_BaseImageSHA256 c) \<and>
     cfg_GuardExecutable c \<noteq> cfg_IsolationDriver c \<and>
     path_IsAbs (cfg_StateDir c) \<and> path_IsAbs (cfg_RunnerDirectory c) \<and>
     \<not> prefix (path_components (cfg_StateDir c)) (path_components (cfg_RunnerDirectory c)) \<and>
     \<not> prefix (path_components (cfg_RunnerDirectory c)) (path_components (cfg_StateDir c)) \<and>
     distinct (map rp_Repository (cfg_Repositories c)) \<and>
     list_all (\<lambda>p. validatePolicy p = None) (cfg_Repositories c)"

lemma validateAbsoluteDir_None: "validateAbsoluteDir d = None \<longleftrightarrow> path_IsAbs d \<and> path_Clean d = d \<and> d \<noteq> ''/''"
  by (auto simp: validateAbsoluteDir_def)

lemma validateConfig_ok:
  assumes "validateConfig url_Parse parse raw = Inr c"
  shows "config_ok c"
proof -
  obtain ds ps where ds: "parseDurations parse raw = Inr ds" and ps: "validatePolicies (raw_Repositories raw) = Inr ps"
    using assms by (auto simp: validateConfig_def split: if_splits option.splits sum.splits)
  have len: "length (duration_limits raw) = 8" by (simp add: duration_limits_def)
  have b: "0 < ds ! i \<and> ds ! i \<le> snd (duration_limits raw ! i)" if "i < 8" for i
    using parse_limited_Inr ds that len unfolding parseDurations_def by metis
  have bounds: "0 < ds ! 0" "0 < ds ! 1" "ds ! 1 \<le> second" "0 < ds ! 2" "0 < ds ! 3" "ds ! 3 \<le> minute"
     "0 < ds ! 4" "0 < ds ! 5" "ds ! 5 \<le> 24 * hour" "0 < ds ! 6" "ds ! 6 \<le> minute" "0 < ds ! 7"
    using b [of 0] b [of 1] b [of 2] b [of 3] b [of 4] b [of 5] b [of 6] b [of 7]
    by (simp_all add: duration_limits_def)
  have pol: "distinct (map rp_Repository ps)" "list_all (\<lambda>p. validatePolicy p = None) ps"
    using validatePolicies_from_Inr [of "[]" "raw_Repositories raw" ps] ps by (simp_all add: validatePolicies_def)
  show ?thesis
    using assms ds ps bounds pol
    by (auto simp: validateConfig_def config_ok_def validateAbsoluteDir_None pathsOverlap_iff split: if_splits option.splits)
qed

lemma find_distinct: "distinct (map f xs) \<Longrightarrow> x \<in> set xs \<Longrightarrow> find (\<lambda>y. f y = f x) xs = Some x"
  by (induction xs) (auto simp: image_iff)

lemma Policy_unique:
  "config_ok c \<Longrightarrow> p \<in> set (cfg_Repositories c) \<Longrightarrow> Policy c (rp_Repository p) = Some p"
  by (simp add: Policy_def config_ok_def find_distinct)

section \<open>Theorems\<close>


definition sample_raw :: rawConfig where
  "sample_raw = \<lparr> raw_APIBaseURL = ''https://api.github.com'', raw_APIVersion = ''2026-03-10'', raw_StateDir = ''/var/civm'',
     raw_RunnerDirectory = ''/opt/runner'', raw_GuardExecutable = ''/opt/guard'', raw_IsolationDriver = ''/opt/driver'',
     raw_DriverSHA256 = replicate 64 (CHR ''0''), raw_BaseImageSHA256 = replicate 64 (CHR ''1''), raw_QueueWait = ''1s'',
     raw_QueuePoll = ''1s'', raw_HTTPTimeout = ''1s'', raw_JobPollInterval = ''1s'', raw_JobBindTimeout = ''1s'',
     raw_RunTimeout = ''1s'', raw_ShutdownGrace = ''1s'', raw_RecoveryTimeout = ''1s'',
     raw_Repositories = [\<lparr> rp_Repository = ''acme/app'', rp_TrustedRef = ''refs/heads/main'',
       rp_Workflow = ''.github/workflows/jit.yml'', rp_WorkflowSHA256 = replicate 64 (CHR ''2''),
       rp_CandidateRefs = [''refs/heads/topic''], rp_RunnerGroupID = 1, rp_JobName = ''build'' \<rparr>] \<rparr>"

definition sample_URL :: URL where
  "sample_URL = \<lparr> u_Scheme = ''https'', u_Host = ''api.github.com'', u_hasUser = False, u_RawQuery = [], u_Fragment = [], u_Path = [] \<rparr>"

lemma sample_accepted: "\<not> isl (validateConfig (\<lambda>_. Some sample_URL) (\<lambda>_. Some second) sample_raw)"
  by code_simp


text \<open>
  C14. The fields of an accepted request are safe to put into a URL path, a git ref and a
  command line: the repository is two lowercase segments that are not dot-names, the ref is a
  branch below \<open>refs/heads/\<close> without \<open>..\<close> or \<open>//\<close>, the commit is 40 or 64 hexadecimal digits,
  the idempotency key is 16 to 128 characters, and repository, ref and branch list come from
  the policy.
\<close>

theorem ValidateRequest_safe:
  assumes "ValidateRequest q p = None"
  shows "rq_Repository q = rp_Repository p \<and> rq_CandidateRef q \<in> set (rp_CandidateRefs p) \<and>
    (\<exists>owner name. rq_Repository q = owner @ ''/'' @ name \<and> repo_segment owner \<and> repo_segment name) \<and>
    (\<exists>branch. rq_CandidateRef q = ''refs/heads/'' @ branch \<and> branch \<noteq> [] \<and> list_all ref_char branch \<and>
       \<not> contains branch ''..'' \<and> \<not> contains branch ''//'' \<and> hd branch \<noteq> CHR ''.'') \<and>
    list_all is_hex (rq_CandidateSHA q) \<and> length (rq_CandidateSHA q) \<in> {40, 64} \<and>
    list_all (\<lambda>c. is_alnum c \<or> c \<in> set ''._:-'') (rq_Idempotency q) \<and> length (rq_Idempotency q) \<in> {16..128}"
proof -
  note v = assms [unfolded ValidateRequest_None_iff]
  obtain branch where b: "rq_CandidateRef q = ''refs/heads/'' @ branch" "branch \<noteq> []" "list_all ref_char branch"
      "\<not> contains branch ''..''" "\<not> contains branch ''//''" "\<not> has_prefix branch ''.''"
    using v validateRef_None_iff by blast
  have "hd branch \<noteq> CHR ''.''" using b(2, 6) by (cases branch) (auto simp: has_prefix_iff)
  moreover have "list_all (\<lambda>c. is_alnum c \<or> c \<in> set ''._:-'') (rq_Idempotency q)" "length (rq_Idempotency q) \<in> {16..128}"
    using v by (auto simp: idempotencyRE_def word_start_def split: list.splits)
  moreover have "\<exists>owner name. rq_Repository q = owner @ ''/'' @ name \<and> repo_segment owner \<and> repo_segment name"
    using v validateRepository_None_iff by blast
  moreover have "list_all is_hex (rq_CandidateSHA q)" "length (rq_CandidateSHA q) \<in> {40, 64}"
    using v by (auto simp: shaRE_def)
  ultimately show ?thesis using v b by blast
qed

definition sample_request :: Request where
  "sample_request = \<lparr> rq_Repository = ''acme/app'', rq_CandidateRef = ''refs/heads/topic'',
     rq_CandidateSHA = replicate 40 (CHR ''a''), rq_Idempotency = ''request-000000001'' \<rparr>"

theorem ValidateRequest_safe_witness:
  "ValidateRequest sample_request (hd (raw_Repositories sample_raw)) = None \<and> list_all is_hex (rq_CandidateSHA sample_request)"
proof -
  have "ValidateRequest sample_request (hd (raw_Repositories sample_raw)) = None" by code_simp
  then show ?thesis using ValidateRequest_safe by blast
qed

text \<open>
  C15. An identity made from 32 random bytes passes every later check of an identity, and two
  identities with the same nonce, label or work folder come from the same 32 bytes.
\<close>

theorem NewIdentity_identifies:
  assumes "list_all (\<lambda>b. b < 256) random" "32 \<le> length random"
    and "list_all (\<lambda>b. b < 256) random'" "32 \<le> length random'"
  shows "\<exists>i i'. NewIdentity random = Inr i \<and> NewIdentity random' = Inr i' \<and> validIdentity i \<and>
    (id_Nonce i = id_Nonce i' \<longleftrightarrow> take 32 random = take 32 random') \<and>
    (id_Label i = id_Label i' \<longleftrightarrow> take 32 random = take 32 random') \<and>
    (id_WorkFolder i = id_WorkFolder i' \<longleftrightarrow> take 32 random = take 32 random')"
proof -
  obtain i where i: "NewIdentity random = Inr i" "validIdentity i" using NewIdentity_valid assms(1, 2) by blast
  obtain i' where i': "NewIdentity random' = Inr i'" "validIdentity i'" using NewIdentity_valid assms(3, 4) by blast
  have "id_Nonce i = hex_encode (take 32 random)" "id_Nonce i' = hex_encode (take 32 random')"
    using i i' by (auto simp: NewIdentity_def Let_def split: if_splits)
  moreover have "list_all (\<lambda>b. b < 256) (take 32 random)" "list_all (\<lambda>b. b < 256) (take 32 random')"
    using assms by (auto simp: list_all_iff dest: in_set_takeD)
  ultimately have "id_Nonce i = id_Nonce i' \<longleftrightarrow> take 32 random = take 32 random'" using hex_encode_inj by auto
  with i i' show ?thesis by (auto simp: validIdentity_def)
qed

theorem NewIdentity_identifies_witness:
  "\<exists>i i'. NewIdentity (replicate 32 0) = Inr i \<and> NewIdentity (replicate 32 1) = Inr i' \<and> id_Label i \<noteq> id_Label i'"
  using NewIdentity_identifies [of "replicate 32 0" "replicate 32 1"] by (simp add: list_all_iff) blast

end
