(* ===== verification/Jit_World.thy ===== *)
theory Jit_World
  imports Jit_Config
begin

text \<open>
  What surrounds the dispatcher and how its effects are recorded.

  The interfaces the dispatcher is constructed with (\<open>Dependencies\<close> in \<open>dispatcher.go\<close>:
  \<open>GitHub\<close>, \<open>ResourceGate\<close>, \<open>Runner\<close>, \<open>Store\<close>, clock, randomness, queue) are records of
  operations on an arbitrary world \<open>'w\<close>: each call returns an answer, the time it took and
  the next world, so every theorem holds for every behaviour of the remote services, of the
  processes and of the file system. The state \<open>'w jst\<close> adds what the properties speak about:
  the monotonic clock that contexts are measured with, the ledger directory as it is on disk,
  and the trace of the externally visible calls, each with the ledger directory as it was on
  disk when the call was made. A crash between two effects leaves exactly such a directory.
\<close>

section \<open>Requests to the isolation driver\<close>

record RecoveryRequest =
  rc_DriverExecutable :: string
  rc_DriverSHA256 :: string
  rc_BaseImageSHA256 :: string
  rc_RunnerDirectory :: string
  rc_LeaseID :: string
  rc_IsolationID :: string
  rc_Process :: ProcessIdentity
  rc_LogDirectory :: string
  rc_ShutdownGrace :: int

record RunnerRequest =
  rn_DriverExecutable :: string
  rn_DriverSHA256 :: string
  rn_BaseImageSHA256 :: string
  rn_RunnerDirectory :: string
  rn_Identity :: Identity
  rn_LeaseID :: string
  rn_JITConfig :: string
  rn_LogDirectory :: string
  rn_ShutdownGrace :: int

record RunnerOutcome =
  ro_Process :: ProcessIdentity
  ro_Ready :: IsolationReceipt
  ro_Destroyed :: IsolationReceipt

section \<open>Effects and their trace\<close>

text \<open>
  How the file operations of \<open>Save\<close> can end: done; failed before the rename, with the
  temporary file removed or left behind; or renamed with a failing directory \<open>fsync\<close>.
\<close>

datatype save_outcome = SaveOK | SaveFailed jerr bool | SaveRenamed jerr

datatype jevent =
    EvDefaultBranch string "jerr + string"
  | EvResolveRef string string "jerr + string"
  | EvWorkflowContent string string string "jerr + string"
  | EvLabelExists string string "jerr + bool"
  | EvDispatchWorkflow string string string "(string \<times> string) list" "jerr + DispatchReceipt"
  | EvGetRun string int "jerr + WorkflowRun"
  | EvListJobs string int "jerr + WorkflowJob list"
  | EvGetJob string int "jerr + WorkflowJob"
  | EvGenerateJIT string Identity int "jerr + JITRegistration"
  | EvFindRunner string string "jerr + RemoteRunner option"
  | EvGetRunner string int "jerr + RemoteRunner option"
  | EvDeleteRunner string int "jerr option"
  | EvCancelRun string int "jerr option"
  | EvGateAcquire string "jerr + LeaseMarker"
  | EvGateRelease LeaseMarker "jerr option"
  | EvGateAbandon LeaseMarker
  | EvGateOrphan "jerr + LeaseMarker option"
  | EvGateReleaseOrphan LeaseMarker "jerr option"
  | EvDriverStart string "string list" "jerr option"
  | EvDriverInput string
  | EvReceipt string "jerr + IsolationReceipt"
  | EvTerminate ProcessIdentity "jerr option"
  | EvContainmentRecover string ProcessIdentity "jerr option"
  | EvSave Ledger save_outcome

type_synonym ledger_dir = "(string \<times> Ledger) list"

record 'w jst =
  st_ext :: 'w
  st_clock :: int
  st_disk :: ledger_dir
  st_stray :: "string list"
  st_trace :: "(jevent \<times> ledger_dir) list"

type_synonym ('w, 'a) op = "'w \<Rightarrow> 'a \<times> nat \<times> 'w"

text \<open>A recorded call, and a call on private resources that is not recorded.\<close>

definition call :: "('a \<Rightarrow> jevent) \<Rightarrow> ('w, 'a) op \<Rightarrow> ('w jst, 'a) state" where
  "call ev f = State (\<lambda>s. case f (st_ext s) of (a, dt, w) \<Rightarrow>
     (a, s\<lparr>st_ext := w, st_clock := st_clock s + int dt, st_trace := st_trace s @ [(ev a, st_disk s)]\<rparr>))"

definition quiet :: "('w, 'a) op \<Rightarrow> ('w jst, 'a) state" where
  "quiet f = State (\<lambda>s. case f (st_ext s) of (a, dt, w) \<Rightarrow>
     (a, s\<lparr>st_ext := w, st_clock := st_clock s + int dt\<rparr>))"

section \<open>The interfaces\<close>

record 'w github =
  gh_DefaultBranch :: "ctxt \<Rightarrow> string \<Rightarrow> ('w, jerr + string) op"
  gh_ResolveRef :: "ctxt \<Rightarrow> string \<Rightarrow> string \<Rightarrow> ('w, jerr + string) op"
  gh_WorkflowContent :: "ctxt \<Rightarrow> string \<Rightarrow> string \<Rightarrow> string \<Rightarrow> ('w, jerr + string) op"
  gh_RunnerLabelExists :: "ctxt \<Rightarrow> string \<Rightarrow> string \<Rightarrow> ('w, jerr + bool) op"
  gh_DispatchWorkflow :: "ctxt \<Rightarrow> string \<Rightarrow> string \<Rightarrow> string \<Rightarrow> (string \<times> string) list \<Rightarrow> ('w, jerr + DispatchReceipt) op"
  gh_GetRun :: "ctxt \<Rightarrow> string \<Rightarrow> int \<Rightarrow> ('w, jerr + WorkflowRun) op"
  gh_ListJobs :: "ctxt \<Rightarrow> string \<Rightarrow> int \<Rightarrow> ('w, jerr + WorkflowJob list) op"
  gh_GetJob :: "ctxt \<Rightarrow> string \<Rightarrow> int \<Rightarrow> ('w, jerr + WorkflowJob) op"
  gh_GenerateJIT :: "ctxt \<Rightarrow> string \<Rightarrow> Identity \<Rightarrow> int \<Rightarrow> ('w, jerr + JITRegistration) op"
  gh_FindRunnerByLabel :: "ctxt \<Rightarrow> string \<Rightarrow> string \<Rightarrow> ('w, jerr + RemoteRunner option) op"
  gh_GetRunner :: "ctxt \<Rightarrow> string \<Rightarrow> int \<Rightarrow> ('w, jerr + RemoteRunner option) op"
  gh_DeleteRunner :: "ctxt \<Rightarrow> string \<Rightarrow> int \<Rightarrow> ('w, jerr option) op"
  gh_CancelRun :: "ctxt \<Rightarrow> string \<Rightarrow> int \<Rightarrow> ('w, jerr option) op"

record 'w gate =
  gt_Preflight :: "string \<Rightarrow> ('w, jerr option) op"
  gt_Acquire :: "ctxt \<Rightarrow> string \<Rightarrow> string \<Rightarrow> int \<Rightarrow> int \<Rightarrow> ('w, jerr + LeaseMarker) op"
  gt_Orphan :: "('w, jerr + LeaseMarker option) op"
  gt_ReleaseOrphan :: "ctxt \<Rightarrow> LeaseMarker \<Rightarrow> int \<Rightarrow> ('w, jerr option) op"
  gt_Release :: "LeaseMarker \<Rightarrow> ctxt \<Rightarrow> ('w, jerr option) op"
  gt_Abandon :: "LeaseMarker \<Rightarrow> ('w, jerr option) op"

text \<open>
  The operating-system calls of \<open>ExecRunner\<close>: the trusted-file checks, the containment of the
  driver process (\<open>ProcessContainment\<close>) and the pipes to it. \<open>Inl e\<close> of \<open>dv_wait\<close> is the
  process exiting with result \<open>e\<close>, \<open>Inr e\<close> the context ending first.
\<close>

record 'w driver =
  dv_validateTrustedExecutable :: "string \<Rightarrow> string \<Rightarrow> ('w, jerr option) op"
  dv_validateTrustedDirectory :: "string \<Rightarrow> ('w, jerr option) op"
  dv_logDirectoryOwnerOnly :: "string \<Rightarrow> ('w, bool) op"
  dv_openLog :: "string \<Rightarrow> bool \<Rightarrow> ('w, jerr option) op"
  dv_pipe :: "('w, jerr option) op"
  dv_prepare :: "string \<Rightarrow> ('w, jerr option) op"
  dv_stdinPipe :: "('w, jerr option) op"
  dv_start :: "string list \<Rightarrow> ('w, jerr option) op"
  dv_closePreparation :: "('w, jerr option) op"
  dv_attach :: "string \<Rightarrow> ('w, jerr + ProcessIdentity) op"
  dv_readReceipt :: "ctxt \<Rightarrow> ('w, jerr + IsolationReceipt) op"
  dv_writeInput :: "string \<Rightarrow> ('w, jerr option) op"
  dv_closeInput :: "('w, jerr option) op"
  dv_wait :: "ctxt \<Rightarrow> ('w, jerr option + jerr) op"
  dv_waitForExit :: "int \<Rightarrow> ('w, jerr option) op"
  dv_signalAndWait :: "int \<Rightarrow> ('w, jerr option) op"
  dv_marshalInput :: "string \<Rightarrow> string \<Rightarrow> string"
  dv_flush :: "('w, jerr option) op"
  ct_Terminate :: "ProcessIdentity \<Rightarrow> int \<Rightarrow> ('w, jerr option) op"
  ct_Recover :: "ctxt \<Rightarrow> string \<Rightarrow> ProcessIdentity \<Rightarrow> int \<Rightarrow> ('w, jerr option) op"

record 'w storage =
  fs_save :: "Ledger \<Rightarrow> ('w, save_outcome) op"
  fs_read :: "string \<Rightarrow> ('w, jerr option) op"
  fs_readDir :: "('w, jerr option) op"
  fs_ensureLogDir :: "string \<Rightarrow> ('w, jerr option) op"

record 'w Dependencies =
  dp_GitHub :: "'w github"
  dp_Store :: "'w storage"
  dp_Runner :: "'w driver"
  dp_Gate :: "'w gate"
  dp_logDir :: string
  dp_Random :: "('w, nat list) op"
  dp_Now :: "'w \<Rightarrow> int"
  dp_AcquireQueue :: "ctxt \<Rightarrow> string \<Rightarrow> int \<Rightarrow> ('w, jerr option) op"
  dp_CloseQueue :: "('w, unit) op"
  dp_sha256hex :: "string \<Rightarrow> string"

definition Now :: "'w Dependencies \<Rightarrow> ('w jst, int) state" where
  "Now d = gets (\<lambda>s. dp_Now d (st_ext s))"

text \<open>
  \<open>sleepContext\<close>: the timer or the context, whichever is first (the context on a tie).
\<close>

definition sleepContext :: "ctxt \<Rightarrow> int \<Rightarrow> ('w jst, jerr option) state" where
  "sleepContext c duration = State (\<lambda>s.
     (case c of
        None \<Rightarrow> (None, s\<lparr>st_clock := st_clock s + max 0 duration\<rparr>)
      | Some (t, e) \<Rightarrow>
          if t \<le> st_clock s + max 0 duration
          then (Some (Leaf (CtxError e)), s\<lparr>st_clock := max (st_clock s) t\<rparr>)
          else (None, s\<lparr>st_clock := st_clock s + max 0 duration\<rparr>)))"

definition timeout :: "ctxt \<Rightarrow> int \<Rightarrow> ('w jst, ctxt) state" where
  "timeout parent d = gets (\<lambda>s. WithTimeout parent (st_clock s) d)"

section \<open>Rules for the effects\<close>

lemma wp_call [wp_spec]:
  "(\<And>a dt w. f (st_ext s) = (a, dt, w) \<Longrightarrow>
     Q a (s\<lparr>st_ext := w, st_clock := st_clock s + int dt, st_trace := st_trace s @ [(ev a, st_disk s)]\<rparr>))
   \<Longrightarrow> wp (call ev f) Q s"
  by (simp add: wp_def call_def split: prod.split)

lemma wp_quiet [wp_spec]:
  "(\<And>a dt w. f (st_ext s) = (a, dt, w) \<Longrightarrow> Q a (s\<lparr>st_ext := w, st_clock := st_clock s + int dt\<rparr>))
   \<Longrightarrow> wp (quiet f) Q s"
  by (simp add: wp_def quiet_def split: prod.split)

lemma wp_Now [simp]: "wp (Now d) Q = (\<lambda>s. Q (dp_Now d (st_ext s)) s)"
  by (simp add: Now_def)

lemma wp_timeout [simp]: "wp (timeout c d) Q = (\<lambda>s. Q (WithTimeout c (st_clock s) d) s)"
  by (simp add: timeout_def)

lemma wp_sleepContext:
  "(\<And>e t. st_disk t = st_disk s \<Longrightarrow> st_trace t = st_trace s \<Longrightarrow> st_stray t = st_stray s \<Longrightarrow> st_ext t = st_ext s \<Longrightarrow>
      st_clock s \<le> st_clock t \<Longrightarrow> Q e t)
   \<Longrightarrow> wp (sleepContext c d) Q s"
  by (auto simp: wp_def sleepContext_def split: option.split)

section \<open>What a piece of the program did\<close>

text \<open>
  \<open>grows s t\<close>: from \<open>s\<close> to \<open>t\<close> the trace was only appended to and the clock never went back;
  \<open>since s t\<close> is what was appended. \<open>observes E s t\<close>: all that happened are calls in \<open>E\<close>, with
  the ledger directory untouched.
\<close>

definition grows :: "'w jst \<Rightarrow> 'w jst \<Rightarrow> bool" where
  "grows s t \<longleftrightarrow> prefix (st_trace s) (st_trace t) \<and> st_clock s \<le> st_clock t"

definition since :: "'w jst \<Rightarrow> 'w jst \<Rightarrow> (jevent \<times> ledger_dir) list" where
  "since s t = drop (length (st_trace s)) (st_trace t)"

definition observes :: "(jevent \<Rightarrow> bool) \<Rightarrow> 'w jst \<Rightarrow> 'w jst \<Rightarrow> bool" where
  "observes E s t \<longleftrightarrow> grows s t \<and> st_disk t = st_disk s \<and> st_stray t = st_stray s \<and>
     (\<forall>e \<in> set (since s t). E (fst e) \<and> snd e = st_disk s)"

definition occurs :: "jevent \<Rightarrow> (jevent \<times> ledger_dir) list \<Rightarrow> bool" where
  "occurs ev evs \<longleftrightarrow> ev \<in> set (map fst evs)"

lemma occurs_simps [simp]:
  "\<not> occurs ev []" "occurs ev (e # evs) \<longleftrightarrow> ev = fst e \<or> occurs ev evs"
  "occurs ev (evs @ evs') \<longleftrightarrow> occurs ev evs \<or> occurs ev evs'"
  by (auto simp: occurs_def)

lemma grows_refl [simp]: "grows s s"
  by (simp add: grows_def)

lemma grows_trans: "grows s t \<Longrightarrow> grows t u \<Longrightarrow> grows s u"
  by (auto simp: grows_def)

lemma since_refl [simp]: "since s s = []"
  by (simp add: since_def)

lemma since_trans: "grows s t \<Longrightarrow> grows t u \<Longrightarrow> since s u = since s t @ since t u"
  by (auto simp: grows_def since_def prefix_def)

lemma grows_trace: "grows s t \<Longrightarrow> st_trace t = st_trace s @ since s t"
  by (auto simp: grows_def since_def prefix_def)

lemma observes_grows: "observes E s t \<Longrightarrow> grows s t"
  by (simp add: observes_def)

lemma observes_refl [simp]: "observes E s s"
  by (simp add: observes_def)

lemma observes_trans: "observes E s t \<Longrightarrow> observes E t u \<Longrightarrow> observes E s u"
  by (auto simp: observes_def since_trans [of s t u] intro: grows_trans)

lemma observes_mono: "observes E s t \<Longrightarrow> (\<And>ev. E ev \<Longrightarrow> F ev) \<Longrightarrow> observes F s t"
  by (auto simp: observes_def)

lemma reflp_observes [simp]: "reflp (observes E)"
  by (simp add: reflp_def)

lemma transp_observes [simp]: "transp (observes E)"
  by (rule transpI) (rule observes_trans)

text \<open>The three primitive effects as steps of \<open>observes\<close>.\<close>

lemma wp_call_observes:
  "(\<And>a t. observes (\<lambda>ev. ev = mk a) s t \<Longrightarrow> since s t = [(mk a, st_disk s)] \<Longrightarrow> Q a t) \<Longrightarrow> wp (call mk f) Q s"
proof (rule wp_call, goal_cases)
  case (1 a dt w)
  show ?case by (rule 1(1)) (use 1 in \<open>simp_all add: observes_def grows_def since_def\<close>)
qed

lemma wp_quiet_observes:
  "(\<And>a t. observes (\<lambda>_. False) s t \<Longrightarrow> since s t = [] \<Longrightarrow> Q a t) \<Longrightarrow> wp (quiet f) Q s"
proof (rule wp_quiet, goal_cases)
  case (1 a dt w)
  show ?case by (rule 1(1)) (use 1 in \<open>simp_all add: observes_def grows_def since_def\<close>)
qed

lemma wp_sleepContext_observes:
  "(\<And>e t. observes (\<lambda>_. False) s t \<Longrightarrow> since s t = [] \<Longrightarrow> Q e t) \<Longrightarrow> wp (sleepContext c d) Q s"
proof (rule wp_sleepContext, goal_cases)
  case (1 e t)
  show ?case by (rule 1(1)) (use 1 in \<open>simp_all add: observes_def grows_def since_def\<close>)
qed

lemma keeps_call [intro]: "(\<And>a. E (mk a)) \<Longrightarrow> keeps (observes E) (call mk f)"
  by (rule keepsI_wp, rule wp_call_observes) (auto intro: observes_mono)

lemma keeps_quiet [intro]: "keeps (observes E) (quiet f)"
  by (rule keepsI_wp, rule wp_quiet_observes) (auto intro: observes_mono)

lemma keeps_sleepContext [intro]: "keeps (observes E) (sleepContext c d)"
  by (rule keepsI_wp, rule wp_sleepContext_observes) (auto intro: observes_mono)

lemma keeps_timeout [simp]: "keeps (observes E) (timeout c d)"
  by (simp add: timeout_def)

lemma keeps_Now [simp]: "keeps (observes E) (Now d)"
  by (simp add: Now_def)

lemma wp_keeps_observes: "keeps (observes E) m \<Longrightarrow> (\<And>a t. observes E s t \<Longrightarrow> Q a t) \<Longrightarrow> wp m Q s"
  by (rule wp_mono [OF keeps_wp])

end
