(* ===== verification/Jit_Runner.thy ===== *)
theory Jit_Runner
  imports Jit_World
begin

text \<open>
  The isolation driver protocol: \<open>ExecRunner\<close> of \<open>src/internal/jitdispatcher/runner.go\<close>.
  The driver is started inside its containment, proves with a \<open>ready\<close> receipt that it runs a
  disposable machine, only then receives the JIT configuration, and proves with a
  \<open>destroyed\<close> receipt that the machine is gone. \<open>OnStarted\<close> and \<open>OnReady\<close> are callbacks of
  the caller that thread the caller's own state \<open>'c\<close> (the dispatcher's ledger).

  The lemmas show that the JIT configuration is never written before a valid ready receipt has
  been accepted by \<open>OnReady\<close>, that success of \<open>Run\<close> and \<open>Recover\<close> always rests on receipts
  read from the driver, and a rule (\<open>wp_execDriver\<close>) by which a caller's invariant is carried
  through a whole driver session.
\<close>

section \<open>Receipts\<close>

definition maxJITResponse :: nat where
  "maxJITResponse = 256 * 1024"

definition safeOpaqueID :: "string \<Rightarrow> bool" where
  "safeOpaqueID value' \<longleftrightarrow>
     16 \<le> length value' \<and> length value' \<le> 128 \<and>
     list_all (\<lambda>c. is_alnum c \<or> c \<in> set ''._:-'') value'"

definition validReadyReceipt :: "IsolationReceipt \<Rightarrow> string \<Rightarrow> string \<Rightarrow> bool" where
  "validReadyReceipt receipt leaseID baseSHA256 \<longleftrightarrow>
     ir_Protocol receipt = 1 \<and> ir_Event receipt = ''ready'' \<and> ir_LeaseID receipt = leaseID \<and>
     safeOpaqueID (ir_IsolationID receipt) \<and> ir_BaseSHA256 receipt = baseSHA256 \<and> ir_Disposable receipt \<and>
     \<not> ir_HostMounts receipt \<and> \<not> ir_HostDocker receipt \<and> \<not> ir_ProductSecrets receipt \<and>
     \<not> ir_Destroyed receipt \<and> \<not> ir_ResetVerified receipt"

definition validDestroyedReceipt :: "IsolationReceipt \<Rightarrow> string \<Rightarrow> string \<Rightarrow> string \<Rightarrow> bool" where
  "validDestroyedReceipt receipt leaseID isolationID baseSHA256 \<longleftrightarrow>
     ir_Protocol receipt = 1 \<and> ir_Event receipt = ''destroyed'' \<and> ir_LeaseID receipt = leaseID \<and>
     ir_IsolationID receipt \<noteq> [] \<and> (isolationID = [] \<or> ir_IsolationID receipt = isolationID) \<and>
     ir_BaseSHA256 receipt = baseSHA256 \<and> ir_Disposable receipt \<and> \<not> ir_HostMounts receipt \<and>
     \<not> ir_HostDocker receipt \<and> \<not> ir_ProductSecrets receipt \<and> ir_Destroyed receipt \<and> ir_ResetVerified receipt"

definition noProcess :: ProcessIdentity where
  "noProcess = \<lparr> pi_PID = 0, pi_StartTicks = 0, pi_ProcessGroup = 0, pi_CgroupPath = [] \<rparr>"

definition noReceipt :: IsolationReceipt where
  "noReceipt = \<lparr> ir_Protocol = 0, ir_Event = [], ir_LeaseID = [], ir_IsolationID = [], ir_BaseSHA256 = [],
     ir_Disposable = False, ir_HostMounts = False, ir_HostDocker = False, ir_ProductSecrets = False,
     ir_Destroyed = False, ir_ResetVerified = False \<rparr>"

section \<open>Request validation\<close>

definition Preflight :: "'w driver \<Rightarrow> Config \<Rightarrow> ('w jst, jerr option) state" where
  "Preflight dv config = do {
     e \<leftarrow> quiet (dv_validateTrustedExecutable dv (cfg_IsolationDriver config) (cfg_DriverSHA256 config));
     (case e of
        Some err \<Rightarrow> ret (Some (Wrap ''isolation driver refused'' [err]))
      | None \<Rightarrow> quiet (dv_validateTrustedDirectory dv (cfg_RunnerDirectory config)))
   }"

definition validateRunnerRequest :: "'w driver \<Rightarrow> RunnerRequest \<Rightarrow> ('w jst, jerr option) state" where
  "validateRunnerRequest dv request =
     (if \<not> validIdentity (rn_Identity request) \<or> \<not> digestRE (rn_LeaseID request) \<or>
         \<not> digestRE (rn_DriverSHA256 request) \<or> \<not> digestRE (rn_BaseImageSHA256 request) \<or>
         length (rn_JITConfig request) < 16 \<or> maxJITResponse < length (rn_JITConfig request)
      then ret (Some (invalid ''isolated runner identity is invalid''))
      else case validateAbsoluteDir (rn_RunnerDirectory request) of Some e \<Rightarrow> ret (Some e) | None \<Rightarrow>
      case validateAbsoluteDir (rn_LogDirectory request) of Some e \<Rightarrow> ret (Some e) | None \<Rightarrow>
      if rn_ShutdownGrace request \<le> 0 \<or> minute < rn_ShutdownGrace request
      then ret (Some (invalid ''shutdown grace is invalid''))
      else do {
        e \<leftarrow> quiet (dv_validateTrustedExecutable dv (rn_DriverExecutable request) (rn_DriverSHA256 request));
        (case e of
           Some err \<Rightarrow> ret (Some err)
         | None \<Rightarrow>
             if list_ex (\<lambda>c. (of_char c :: nat) \<le> 32 \<or> 127 \<le> (of_char c :: nat)) (rn_JITConfig request)
             then ret (Some (invalid ''JIT config contains unsafe bytes''))
             else do {
               ok \<leftarrow> quiet (dv_logDirectoryOwnerOnly dv (rn_LogDirectory request));
               ret (if ok then None else Some (errf ''log directory is not an owner-only real directory''))
             })
      })"

definition validateRecoveryRequest :: "RecoveryRequest \<Rightarrow> jerr option" where
  "validateRecoveryRequest request =
     (if \<not> digestRE (rc_LeaseID request) \<or> \<not> digestRE (rc_DriverSHA256 request) \<or>
         \<not> digestRE (rc_BaseImageSHA256 request) \<or> rc_ShutdownGrace request \<le> 0 \<or> minute < rc_ShutdownGrace request
      then Some (invalid ''isolation recovery identity is invalid'')
      else if rc_IsolationID request \<noteq> [] \<and> \<not> safeOpaqueID (rc_IsolationID request)
      then Some (invalid ''isolation ID is invalid'')
      else case validateAbsoluteDir (rc_RunnerDirectory request) of
             Some e \<Rightarrow> Some e
           | None \<Rightarrow> validateAbsoluteDir (rc_LogDirectory request))"

section \<open>One driver session\<close>

record driverExecRequest =
  dx_Executable :: string
  dx_ExecutableSHA256 :: string
  dx_Arguments :: "string list"
  dx_LeaseID :: string
  dx_BaseImageSHA256 :: string
  dx_LogPath :: string
  dx_ShutdownGrace :: int
  dx_Input :: "string option"

type_synonym ('w, 'c, 'a) callback = "'c \<Rightarrow> 'a \<Rightarrow> ('w jst, 'c \<times> jerr option) state"

definition stopAndWait :: "'w driver \<Rightarrow> ProcessIdentity \<Rightarrow> int \<Rightarrow> ('w jst, jerr option) state" where
  "stopAndWait dv identity grace =
     (if 0 < pi_PID identity then do {
        terminateErr \<leftarrow> call (EvTerminate identity) (ct_Terminate dv identity grace);
        exitErr \<leftarrow> quiet (dv_waitForExit dv grace);
        ret (errors_Join [terminateErr, exitErr])
      } else quiet (dv_signalAndWait dv grace))"

definition recoverContainment :: "'w driver \<Rightarrow> ctxt \<Rightarrow> string \<Rightarrow> ProcessIdentity \<Rightarrow> int \<Rightarrow> ('w jst, jerr option) state" where
  "recoverContainment dv ctx leaseID process grace =
     call (EvContainmentRecover leaseID process) (ct_Recover dv ctx leaseID process grace)"

definition stopUnidentifiedAndWait :: "'w driver \<Rightarrow> string \<Rightarrow> int \<Rightarrow> ('w jst, jerr option) state" where
  "stopUnidentifiedAndWait dv leaseID grace = do {
     recoveryErr \<leftarrow> recoverContainment dv None leaseID noProcess grace;
     exitErr \<leftarrow> quiet (dv_waitForExit dv grace);
     ret (errors_Join [recoveryErr, exitErr])
   }"

text \<open>
  The first part of \<open>execDriver\<close>: from opening the executable to the attached process.
\<close>

definition execDriver_start :: "'w driver \<Rightarrow> driverExecRequest \<Rightarrow> ('w jst, jerr option + ProcessIdentity) state" where
  "execDriver_start dv request = do {
     e \<leftarrow> quiet (dv_validateTrustedExecutable dv (dx_Executable request) (dx_ExecutableSHA256 request));
     (case e of Some err \<Rightarrow> ret (Inl (Some err)) | None \<Rightarrow> do {
     e \<leftarrow> quiet (dv_openLog dv (dx_LogPath request) (dx_Input request = None));
     (case e of Some err \<Rightarrow> ret (Inl (Some err)) | None \<Rightarrow> do {
     e \<leftarrow> quiet (dv_pipe dv);
     (case e of Some err \<Rightarrow> ret (Inl (Some err)) | None \<Rightarrow> do {
     e \<leftarrow> quiet (dv_prepare dv (dx_LeaseID request));
     (case e of Some err \<Rightarrow> ret (Inl (Some (Wrap ''prepare isolation containment'' [err]))) | None \<Rightarrow> do {
     e \<leftarrow> quiet (dv_stdinPipe dv);
     (case e of
        Some err \<Rightarrow> do {
          closeErr \<leftarrow> quiet (dv_closePreparation dv);
          recoveryErr \<leftarrow> recoverContainment dv None (dx_LeaseID request) noProcess (dx_ShutdownGrace request);
          ret (Inl (errors_Join [Some err, closeErr, recoveryErr]))
        }
      | None \<Rightarrow> do {
     e \<leftarrow> call (EvDriverStart (dx_LeaseID request) (dx_Arguments request)) (dv_start dv (dx_Arguments request));
     (case e of
        Some err \<Rightarrow> do {
          closeErr \<leftarrow> quiet (dv_closePreparation dv);
          recoveryErr \<leftarrow> recoverContainment dv None (dx_LeaseID request) noProcess (dx_ShutdownGrace request);
          ret (Inl (errors_Join [Some (Wrap ''start isolation driver'' [err]), closeErr, recoveryErr]))
        }
      | None \<Rightarrow> do {
     e \<leftarrow> quiet (dv_closePreparation dv);
     (case e of
        Some err \<Rightarrow> do {
          stopErr \<leftarrow> stopUnidentifiedAndWait dv (dx_LeaseID request) (dx_ShutdownGrace request);
          ret (Inl (errors_Join [Some err, stopErr]))
        }
      | None \<Rightarrow> do {
     attached \<leftarrow> quiet (dv_attach dv (dx_LeaseID request));
     (case attached of
        Inl err \<Rightarrow> do {
          stopErr \<leftarrow> stopUnidentifiedAndWait dv (dx_LeaseID request) (dx_ShutdownGrace request);
          ret (Inl (errors_Join [Some err, stopErr]))
        }
      | Inr process \<Rightarrow> ret (Inr process))
     })})})})})})})
   }"

text \<open>The last part: the second receipt, the exit of the driver, its containment, the log.\<close>

definition readReceipt :: "'w driver \<Rightarrow> ctxt \<Rightarrow> string \<Rightarrow> ('w jst, jerr + IsolationReceipt) state" where
  "readReceipt dv ctx leaseID = call (EvReceipt leaseID) (dv_readReceipt dv ctx)"

definition execDriver_wait ::
  "'w driver \<Rightarrow> ctxt \<Rightarrow> driverExecRequest \<Rightarrow> ProcessIdentity \<Rightarrow> jerr option \<Rightarrow> ('w jst, jerr option) state" where
  "execDriver_wait dv ctx request process receiptErr = do {
     w \<leftarrow> quiet (dv_wait dv ctx);
     waitErr \<leftarrow>
       (case w of
          Inl e \<Rightarrow> ret e
        | Inr ctxErr \<Rightarrow> do {
            stopErr \<leftarrow> stopAndWait dv process (dx_ShutdownGrace request);
            ret (errors_Join [Some ctxErr, stopErr])
          });
     containmentErr \<leftarrow> call (EvTerminate process) (ct_Terminate dv process (dx_ShutdownGrace request));
     flushErr \<leftarrow> quiet (dv_flush dv);
     ret (errors_Join [receiptErr, map_option (\<lambda>e. Wrap ''isolation driver exited'' [e]) waitErr,
                       containmentErr, flushErr])
   }"

definition execDriver_finish ::
  "'w driver \<Rightarrow> ctxt \<Rightarrow> driverExecRequest \<Rightarrow> ProcessIdentity \<Rightarrow> IsolationReceipt list
     \<Rightarrow> ('w jst, IsolationReceipt list \<times> jerr option) state" where
  "execDriver_finish dv ctx request process receipts = do {
     closeErr \<leftarrow> quiet (dv_closeInput dv);
     (case closeErr of
        Some err \<Rightarrow> do {
          stopErr \<leftarrow> stopAndWait dv process (dx_ShutdownGrace request);
          ret (receipts, errors_Join [Some err, stopErr])
        }
      | None \<Rightarrow>
          if dx_Input request = None then do {
            e \<leftarrow> execDriver_wait dv ctx request process None;
            ret (receipts, e)
          } else do {
            second \<leftarrow> readReceipt dv ctx (dx_LeaseID request);
            (case second of
               Inl err \<Rightarrow> do { e \<leftarrow> execDriver_wait dv ctx request process (Some err); ret (receipts, e) }
             | Inr r \<Rightarrow> do { e \<leftarrow> execDriver_wait dv ctx request process None; ret (receipts @ [r], e) })
          })
   }"

text \<open>The hand-over of the input, and before it the check of the ready receipt and the caller's consent.\<close>

definition execDriver_input ::
  "'w driver \<Rightarrow> ctxt \<Rightarrow> driverExecRequest \<Rightarrow> ProcessIdentity \<Rightarrow> string \<Rightarrow> IsolationReceipt
     \<Rightarrow> 'c \<Rightarrow> ('w jst, 'c \<times> IsolationReceipt list \<times> ProcessIdentity \<times> jerr option) state" where
  "execDriver_input dv ctx request process input receipt c = do {
     writeErr \<leftarrow> call (\<lambda>_. EvDriverInput (dx_LeaseID request)) (dv_writeInput dv input);
     (case writeErr of
        Some err \<Rightarrow> do {
          stopErr \<leftarrow> stopAndWait dv process (dx_ShutdownGrace request);
          ret (c, [receipt], process, errors_Join [Some err, stopErr])
        }
      | None \<Rightarrow> do {
          (receipts, e) \<leftarrow> execDriver_finish dv ctx request process [receipt];
          ret (c, receipts, process, e)
        })
   }"

definition execDriver_handover ::
  "'w driver \<Rightarrow> ctxt \<Rightarrow> driverExecRequest \<Rightarrow> ProcessIdentity \<Rightarrow> ('w, 'c, IsolationReceipt) callback \<Rightarrow> string \<Rightarrow> IsolationReceipt
     \<Rightarrow> 'c \<Rightarrow> ('w jst, 'c \<times> IsolationReceipt list \<times> ProcessIdentity \<times> jerr option) state" where
  "execDriver_handover dv ctx request process onReady input receipt c =
     (if \<not> validReadyReceipt receipt (dx_LeaseID request) (dx_BaseImageSHA256 request) then do {
        stopErr \<leftarrow> stopAndWait dv process (dx_ShutdownGrace request);
        ret (c, [receipt], process, errors_Join [Some (errf ''isolation ready proof is invalid''), stopErr])
      } else do {
        (c, e) \<leftarrow> onReady c receipt;
        (case e of
           Some err \<Rightarrow> do {
             stopErr \<leftarrow> stopAndWait dv process (dx_ShutdownGrace request);
             ret (c, [receipt], process, errors_Join [Some err, stopErr])
           }
         | None \<Rightarrow> execDriver_input dv ctx request process input receipt c)
      })"

definition execDriver_session ::
  "'w driver \<Rightarrow> ctxt \<Rightarrow> driverExecRequest \<Rightarrow> ProcessIdentity \<Rightarrow> ('w, 'c, IsolationReceipt) callback
     \<Rightarrow> 'c \<Rightarrow> ('w jst, 'c \<times> IsolationReceipt list \<times> ProcessIdentity \<times> jerr option) state" where
  "execDriver_session dv ctx request process onReady c = do {
     first \<leftarrow> readReceipt dv ctx (dx_LeaseID request);
     (case first of
        Inl err \<Rightarrow> do {
          stopErr \<leftarrow> stopAndWait dv process (dx_ShutdownGrace request);
          ret (c, [], process, errors_Join [Some err, stopErr])
        }
      | Inr receipt \<Rightarrow>
          (case dx_Input request of
             None \<Rightarrow> do {
               (receipts, e) \<leftarrow> execDriver_finish dv ctx request process [receipt];
               ret (c, receipts, process, e)
             }
           | Some input \<Rightarrow> execDriver_handover dv ctx request process onReady input receipt c))
   }"

definition execDriver ::
  "'w driver \<Rightarrow> ctxt \<Rightarrow> driverExecRequest \<Rightarrow> ('w, 'c, ProcessIdentity) callback \<Rightarrow> ('w, 'c, IsolationReceipt) callback
     \<Rightarrow> 'c \<Rightarrow> ('w jst, 'c \<times> IsolationReceipt list \<times> ProcessIdentity \<times> jerr option) state" where
  "execDriver dv ctx request onStarted onReady c = do {
     started \<leftarrow> execDriver_start dv request;
     (case started of
        Inl e \<Rightarrow> ret (c, [], noProcess, e)
      | Inr process \<Rightarrow> do {
          (c, e) \<leftarrow> onStarted c process;
          (case e of
             Some err \<Rightarrow> do {
               stopErr \<leftarrow> stopAndWait dv process (dx_ShutdownGrace request);
               ret (c, [], process, errors_Join [Some err, stopErr])
             }
           | None \<Rightarrow> execDriver_session dv ctx request process onReady c)
        })
   }"

section \<open>Run and Recover\<close>

definition runDriver ::
  "'w driver \<Rightarrow> ctxt \<Rightarrow> RunnerRequest \<Rightarrow> string list \<Rightarrow> ('w, 'c, ProcessIdentity) callback \<Rightarrow> ('w, 'c, IsolationReceipt) callback
     \<Rightarrow> 'c \<Rightarrow> ('w jst, 'c \<times> RunnerOutcome \<times> jerr option) state" where
  "runDriver dv ctx request arguments onStarted onReady c = do {
     (c, receipts, process, err) \<leftarrow> execDriver dv ctx
       \<lparr> dx_Executable = rn_DriverExecutable request, dx_ExecutableSHA256 = rn_DriverSHA256 request,
         dx_Arguments = arguments, dx_LeaseID = rn_LeaseID request,
         dx_BaseImageSHA256 = rn_BaseImageSHA256 request,
         dx_LogPath = path_Join (rn_LogDirectory request) ''isolation-driver.log'',
         dx_ShutdownGrace = rn_ShutdownGrace request,
         dx_Input = Some (dv_marshalInput dv (rn_LeaseID request) (rn_JITConfig request) @ [char_of (10 :: nat)]) \<rparr>
       onStarted onReady c;
     let outcome = \<lparr> ro_Process = process,
                     ro_Ready = (case receipts of [] \<Rightarrow> noReceipt | r # _ \<Rightarrow> r),
                     ro_Destroyed = (case receipts of _ # r # _ \<Rightarrow> r | _ \<Rightarrow> noReceipt) \<rparr>;
     ret (c, outcome,
       (case err of
          Some e \<Rightarrow> Some e
        | None \<Rightarrow>
            (case receipts of
               [ready, destroyed] \<Rightarrow>
                 if validReadyReceipt ready (rn_LeaseID request) (rn_BaseImageSHA256 request) \<and>
                    validDestroyedReceipt destroyed (rn_LeaseID request) (ir_IsolationID ready) (rn_BaseImageSHA256 request)
                 then None else Some (errf ''isolation driver lifecycle proof is incomplete'')
             | _ \<Rightarrow> Some (errf ''isolation driver lifecycle proof is incomplete''))))
   }"

definition Run ::
  "'w driver \<Rightarrow> ctxt \<Rightarrow> RunnerRequest \<Rightarrow> ('w, 'c, ProcessIdentity) callback \<Rightarrow> ('w, 'c, IsolationReceipt) callback
     \<Rightarrow> 'c \<Rightarrow> ('w jst, 'c \<times> RunnerOutcome \<times> jerr option) state" where
  "Run dv ctx request onStarted onReady c = do {
     e \<leftarrow> validateRunnerRequest dv request;
     (case e of
        Some err \<Rightarrow> ret (c, \<lparr> ro_Process = noProcess, ro_Ready = noReceipt, ro_Destroyed = noReceipt \<rparr>, Some err)
      | None \<Rightarrow> runDriver dv ctx request
          [''run'', ''--protocol=1'', ''--lease-id='' @ rn_LeaseID request,
           ''--runner-directory='' @ rn_RunnerDirectory request,
           ''--expected-base-sha256='' @ rn_BaseImageSHA256 request,
           ''--control-fd=3''] onStarted onReady c)
   }"

definition recoverDriver :: "'w driver \<Rightarrow> ctxt \<Rightarrow> RecoveryRequest \<Rightarrow> ('w jst, jerr + IsolationReceipt) state" where
  "recoverDriver dv ctx request = do {
     (_, receipts, _, err) \<leftarrow> execDriver dv ctx
       \<lparr> dx_Executable = rc_DriverExecutable request, dx_ExecutableSHA256 = rc_DriverSHA256 request,
         dx_Arguments =
           [''recover'', ''--protocol=1'', ''--lease-id='' @ rc_LeaseID request,
            ''--runner-directory='' @ rc_RunnerDirectory request,
            ''--expected-base-sha256='' @ rc_BaseImageSHA256 request,
            ''--control-fd=3''] @
           (if rc_IsolationID request \<noteq> [] then [''--isolation-id='' @ rc_IsolationID request] else []),
         dx_LeaseID = rc_LeaseID request, dx_BaseImageSHA256 = rc_BaseImageSHA256 request,
         dx_LogPath = path_Join (rc_LogDirectory request) ''recovery.log'',
         dx_ShutdownGrace = rc_ShutdownGrace request, dx_Input = None \<rparr>
       (\<lambda>c _. ret (c, None)) (\<lambda>c _. ret (c, None)) ();
     ret (case err of
            Some e \<Rightarrow> Inl e
          | None \<Rightarrow>
              (case receipts of
                 [r] \<Rightarrow> if validDestroyedReceipt r (rc_LeaseID request) (rc_IsolationID request) (rc_BaseImageSHA256 request)
                        then Inr r
                        else Inl (errf ''recovery driver did not prove disposable isolation destruction'')
               | _ \<Rightarrow> Inl (errf ''recovery driver did not prove disposable isolation destruction'')))
   }"

definition Recover :: "'w driver \<Rightarrow> ctxt \<Rightarrow> RecoveryRequest \<Rightarrow> ('w jst, jerr + IsolationReceipt) state" where
  "Recover dv ctx request =
     (case validateRecoveryRequest request of
        Some e \<Rightarrow> ret (Inl e)
      | None \<Rightarrow> do {
          e \<leftarrow> recoverContainment dv ctx (rc_LeaseID request) (rc_Process request) (rc_ShutdownGrace request);
          (case e of
             Some err \<Rightarrow> ret (Inl (Wrap ''terminate orphaned driver containment'' [err]))
           | None \<Rightarrow> do {
               e \<leftarrow> quiet (dv_validateTrustedExecutable dv (rc_DriverExecutable request) (rc_DriverSHA256 request));
               (case e of
                  Some err \<Rightarrow> ret (Inl err)
                | None \<Rightarrow> recoverDriver dv ctx request)
             })
        })"

section \<open>What a driver session does\<close>

text \<open>The calls a session may make after the driver was launched, and those up to its launch.\<close>

fun session_event :: "string \<Rightarrow> jevent \<Rightarrow> bool" where
  "session_event lease (EvReceipt l _) = (l = lease)"
| "session_event lease (EvTerminate _ _) = True"
| "session_event lease (EvContainmentRecover l _ _) = (l = lease)"
| "session_event lease _ = False"

definition launch_event :: "string \<Rightarrow> string list \<Rightarrow> jevent \<Rightarrow> bool" where
  "launch_event lease arguments ev \<longleftrightarrow> session_event lease ev \<or> (\<exists>r. ev = EvDriverStart lease arguments r)"

text \<open>A receipt was read from the driver, and no driver was started afterwards.\<close>

fun proved :: "string \<Rightarrow> IsolationReceipt \<Rightarrow> (jevent \<times> ledger_dir) list \<Rightarrow> bool" where
  "proved lease r [] = False"
| "proved lease r ((ev, D) # evs) =
     (proved lease r evs \<or> ev = EvReceipt lease (Inr r) \<and> (\<forall>e \<in> set evs. session_event lease (fst e)))"

lemma proved_append: "proved lease r evs \<Longrightarrow> proved lease r (evs' @ evs)"
  by (induction evs') auto

lemma proved_session: "proved lease r evs \<Longrightarrow> (\<forall>e \<in> set evs'. session_event lease (fst e)) \<Longrightarrow> proved lease r (evs @ evs')"
  by (induction evs) auto

lemma proved_occurs: "proved lease r evs \<Longrightarrow> occurs (EvReceipt lease (Inr r)) evs"
  by (induction evs) auto

lemma proved_observes:
  "proved lease r (since s t) \<Longrightarrow> grows s t \<Longrightarrow> observes (session_event lease) t u \<Longrightarrow> proved lease r (since s u)"
  by (simp add: since_trans [of s t u] observes_grows)
     (auto simp: observes_def intro!: proved_session)

lemma proved_later: "grows s t \<Longrightarrow> grows t u \<Longrightarrow> proved lease r (since t u) \<Longrightarrow> proved lease r (since s u)"
  by (simp add: since_trans [of s t u] proved_append)

lemmas keeps_rules = keeps_bind keeps_cases keeps_call keeps_quiet keeps_sleepContext

lemma keeps_stopAndWait: "keeps (observes (session_event lease)) (stopAndWait dv process grace)"
  by (auto simp: stopAndWait_def intro!: keeps_rules)

lemma keeps_recoverContainment: "keeps (observes (session_event lease)) (recoverContainment dv ctx lease process grace)"
  by (auto simp: recoverContainment_def intro!: keeps_rules)

lemma keeps_stopUnidentified: "keeps (observes (session_event lease)) (stopUnidentifiedAndWait dv lease grace)"
  by (auto simp: stopUnidentifiedAndWait_def intro!: keeps_rules keeps_recoverContainment)

lemma keeps_launch:
  "keeps (observes (session_event lease)) m \<Longrightarrow> keeps (observes (launch_event lease arguments)) m"
  unfolding keeps_def by (blast intro: observes_mono [where E = "session_event lease"] launch_event_def [THEN iffD2])

lemma execDriver_start_observes:
  "keeps (observes (launch_event (dx_LeaseID request) (dx_Arguments request))) (execDriver_start dv request)"
  unfolding execDriver_start_def
  by (intro keeps_rules keeps_launch keeps_stopUnidentified keeps_recoverContainment)
     (simp_all add: launch_event_def)

lemma execDriver_start_error: "wp (execDriver_start dv request) (\<lambda>r _. r \<noteq> Inl None) s"
  unfolding execDriver_start_def recoverContainment_def stopUnidentifiedAndWait_def
  by (auto simp: wp_cases split: option.split sum.split intro!: wp_call wp_quiet)

lemma wp_execDriver_start [wp_spec]:
  assumes "\<And>t e. observes (launch_event (dx_LeaseID request) (dx_Arguments request)) s t \<Longrightarrow> Q (Inl (Some e)) t"
    and "\<And>t process. observes (launch_event (dx_LeaseID request) (dx_Arguments request)) s t \<Longrightarrow> Q (Inr process) t"
  shows "wp (execDriver_start dv request) Q s"
  using wp_conj [OF keeps_wp [OF execDriver_start_observes] execDriver_start_error]
  by (rule wp_mono) (use assms in \<open>auto split: sum.splits\<close>, metis option.exhaust_sel sumE)

lemma keeps_validateRunnerRequest: "keeps (observes E) (validateRunnerRequest dv request)"
  unfolding validateRunnerRequest_def by (intro keeps_rules) simp_all

lemma keeps_readReceipt: "keeps (observes (session_event lease)) (readReceipt dv ctx lease)"
  by (auto simp: readReceipt_def intro!: keeps_rules)

lemma wp_readReceipt:
  "(\<And>r t. observes (session_event lease) s t \<Longrightarrow> (\<And>x. r = Inr x \<Longrightarrow> proved lease x (since s t)) \<Longrightarrow> Q r t) \<Longrightarrow>
   wp (readReceipt dv ctx lease) Q s"
  unfolding readReceipt_def
proof (rule wp_call_observes, goal_cases)
  case (1 a t)
  show ?case by (rule 1(1)) (use 1 in \<open>auto intro: observes_mono\<close>)
qed

lemma wp_stopAndWait: "(\<And>e t. observes (session_event lease) s t \<Longrightarrow> Q e t) \<Longrightarrow> wp (stopAndWait dv process grace) Q s"
  by (rule wp_keeps_observes [OF keeps_stopAndWait])

lemma wp_execDriver_wait:
  assumes Q: "\<And>e t. observes (session_event lease) s t \<Longrightarrow> (e = None \<Longrightarrow> receiptErr = None) \<Longrightarrow> Q e t"
  shows "wp (execDriver_wait dv ctx request process receiptErr) Q s"
proof -
  have "keeps (observes (session_event lease)) (execDriver_wait dv ctx request process receiptErr)"
    unfolding execDriver_wait_def by (intro keeps_rules keeps_stopAndWait) simp_all
  moreover have "wp (execDriver_wait dv ctx request process receiptErr) (\<lambda>e _. e = None \<longrightarrow> receiptErr = None) s"
    unfolding execDriver_wait_def stopAndWait_def
    by (auto simp: wp_cases split: sum.split intro!: wp_call wp_quiet)
  ultimately show ?thesis by (rule wp_mono [OF wp_conj [OF keeps_wp]]) (auto intro: Q)
qed

lemma wp_execDriver_finish:
  assumes lease: "dx_LeaseID request = lease"
    and Q: "\<And>receipts' err t. observes (session_event lease) s t \<Longrightarrow>
      (err = None \<Longrightarrow> (if dx_Input request = None then receipts' = receipts
                      else \<exists>r. receipts' = receipts @ [r] \<and> proved lease r (since s t))) \<Longrightarrow>
      Q (receipts', err) t"
  shows "wp (execDriver_finish dv ctx request process receipts) Q s"
  unfolding execDriver_finish_def lease wp_bind
proof (rule wp_keeps_observes [OF keeps_quiet [where E = "session_event lease"]], goal_cases)
  case (1 closeErr t)
  have "proved lease r (since s v)"
    if "observes (session_event lease) t u" "proved lease r (since t u)" "observes (session_event lease) u v" for r u v
    using that 1 proved_observes proved_later observes_grows observes_trans by metis
  with 1 show ?case
    by (auto simp: wp_cases split: option.split sum.split
        intro!: wp_stopAndWait [where lease = lease] wp_execDriver_wait [where lease = lease] wp_readReceipt Q;
        blast intro: observes_trans)
qed

lemma execDriver_finish_spec:
  "dx_LeaseID request = lease \<Longrightarrow>
   wp (execDriver_finish dv ctx request process receipts)
     (\<lambda>(receipts', err) t. observes (session_event lease) s t \<and>
        (err = None \<longrightarrow> (if dx_Input request = None then receipts' = receipts
                       else \<exists>r. receipts' = receipts @ [r] \<and> proved lease r (since s t)))) s"
  by (rule wp_execDriver_finish) auto

section \<open>The callers of a session\<close>

text \<open>
  A caller of \<open>execDriver\<close> threads its own state \<open>'c\<close> through the two callbacks. \<open>rel\<close> is what
  the caller wants to know of a stretch of execution; it must hold of the session's own calls
  and of the callbacks, and \<open>ready\<close>, established by \<open>OnReady\<close>, must be enough to hand over the
  input, for callers that hand one over.
\<close>

locale driver_client =
  fixes rel :: "'w jst \<Rightarrow> 'c \<Rightarrow> 'w jst \<Rightarrow> 'c \<Rightarrow> bool"
    and onStarted :: "('w, 'c, ProcessIdentity) callback"
    and onReady :: "('w, 'c, IsolationReceipt) callback"
    and lease base :: string
    and hands_over :: bool
    and started :: "ProcessIdentity \<Rightarrow> 'c \<Rightarrow> bool"
    and ready :: "ProcessIdentity \<Rightarrow> IsolationReceipt \<Rightarrow> 'c \<Rightarrow> bool"
  assumes rel_trans: "rel s c t c' \<Longrightarrow> rel t c' u c'' \<Longrightarrow> rel s c u c''"
    and rel_grows: "rel s c t c' \<Longrightarrow> grows s t"
    and rel_session: "observes (session_event lease) s t \<Longrightarrow> rel s c t c"
    and rel_started: "wp (onStarted c p) (\<lambda>(c', e) t. rel s c t c' \<and> (e = None \<longrightarrow> started p c')) s"
    and rel_ready: "hands_over \<Longrightarrow> started p c \<Longrightarrow> validReadyReceipt r lease base \<Longrightarrow>
      wp (onReady c r) (\<lambda>(c', e) t. rel s c t c' \<and> (e = None \<longrightarrow> ready p r c' \<and>
        (\<forall>u. observes (\<lambda>ev. ev = EvDriverInput lease) t u \<longrightarrow> rel t c' u c'))) s"
begin

definition session_proof ::
  "driverExecRequest \<Rightarrow> 'w jst \<Rightarrow> 'c \<times> IsolationReceipt list \<times> ProcessIdentity \<times> jerr option \<Rightarrow> 'w jst \<Rightarrow> bool" where
  "session_proof request s = (\<lambda>(c', receipts, process, err) t.
     err = None \<longrightarrow>
       (if dx_Input request = None then \<exists>r. receipts = [r] \<and> proved lease r (since s t)
        else \<exists>r1 r2. receipts = [r1, r2] \<and> validReadyReceipt r1 lease base \<and> ready process r1 c' \<and>
               occurs (EvReceipt lease (Inr r1)) (since s t) \<and> proved lease r2 (since s t)))"

lemma rel_session_step: "rel s c t c' \<Longrightarrow> observes (session_event lease) t u \<Longrightarrow> rel s c u c'"
  by (erule rel_trans) (erule rel_session)

lemma finish_recovery:
  assumes st: "rel s c t c'" and p: "proved lease r (since s t)"
    and req: "dx_LeaseID request = lease" "dx_Input request = None"
  shows "wp (execDriver_finish dv ctx request process [r])
           (\<lambda>(receipts, e) u. rel s c u c' \<and> session_proof request s (c', receipts, process, e) u) t"
  using rel_session_step [OF st] proved_observes [OF p rel_grows [OF st]] req(2)
  by (intro wp_mono [OF execDriver_finish_spec [OF req(1)]]) (auto simp: session_proof_def)

lemma finish_run:
  assumes st: "rel s c t c'" and r: "occurs (EvReceipt lease (Inr r)) (since s t)" "validReadyReceipt r lease base"
    "ready process r c'" and req: "dx_LeaseID request = lease" "dx_Input request \<noteq> None"
  shows "wp (execDriver_finish dv ctx request process [r])
           (\<lambda>(receipts, e) u. rel s c u c' \<and> session_proof request s (c', receipts, process, e) u) t"
proof (rule wp_mono [OF execDriver_finish_spec [OF req(1)]], clarify, intro conjI)
  fix receipts and e :: "jerr option" and u
  assume u: "observes (session_event lease) t u"
    and e: "e = None \<longrightarrow> (if dx_Input request = None then receipts = [r]
      else \<exists>x. receipts = [r] @ [x] \<and> proved lease x (since t u))"
  show "rel s c u c'" by (rule rel_session_step [OF st u])
  have "since s u = since s t @ since t u"
    using since_trans rel_grows [OF st] observes_grows [OF u] by blast
  then show "session_proof request s (c', receipts, process, e) u"
    using r req(2) e by (auto simp: session_proof_def proved_append)
qed

lemma stop_session:
  assumes "rel s c t c'"
  shows "wp (stopAndWait dv process grace)
           (\<lambda>e u. rel s c u c' \<and> session_proof request s (c', receipts, process, errors_Join [Some err, e]) u) t"
  by (rule wp_stopAndWait [where lease = lease]) (simp add: session_proof_def rel_session_step [OF assms])

lemma stop_returns:
  assumes "rel s c t c'"
  shows "wp (do { e \<leftarrow> stopAndWait dv process grace; ret (c', receipts, process, errors_Join [Some err, e]) })
           (\<lambda>x u. rel s c u (fst x) \<and> session_proof request s x u) t"
  using stop_session [OF assms] by simp

lemma finish_returns:
  "wp (execDriver_finish dv ctx request process [r])
     (\<lambda>(receipts, e) u. rel s c u c' \<and> session_proof request s (c', receipts, process, e) u) t \<Longrightarrow>
   wp (do { (receipts, e) \<leftarrow> execDriver_finish dv ctx request process [r]; ret (c', receipts, process, e) })
     (\<lambda>x u. rel s c u (fst x) \<and> session_proof request s x u) t"
  by (auto elim!: wp_mono)

lemma input:
  assumes st: "rel s c t c'" and r: "occurs (EvReceipt lease (Inr r)) (since s t)" "validReadyReceipt r lease base"
    and c': "ready process r c'" "\<And>u. observes (\<lambda>ev. ev = EvDriverInput lease) t u \<Longrightarrow> rel t c' u c'"
    and req: "dx_LeaseID request = lease" "dx_Input request \<noteq> None"
  shows "wp (execDriver_input dv ctx request process input r c')
           (\<lambda>x u. rel s c u (fst x) \<and> session_proof request s x u) t"
  unfolding execDriver_input_def req wp_bind
proof (rule wp_call_observes, goal_cases)
  case (1 a u)
  have su: "rel s c u c'" by (rule rel_trans [OF st c'(2) [OF 1(1)]])
  have "occurs (EvReceipt lease (Inr r)) (since s u)"
    using since_trans [OF rel_grows [OF st] observes_grows [OF 1(1)]] r(1) by simp
  note finish_returns [OF finish_run [OF su this r(2) c'(1) req]]
  then show ?case using stop_returns [OF su] by (simp split: option.split)
qed

lemma handover:
  assumes st: "rel s c t c'" "started process c'" and r: "occurs (EvReceipt lease (Inr r)) (since s t)"
    and req: "dx_LeaseID request = lease" "dx_BaseImageSHA256 request = base" "dx_Input request \<noteq> None" hands_over
  shows "wp (execDriver_handover dv ctx request process onReady input r c')
           (\<lambda>x u. rel s c u (fst x) \<and> session_proof request s x u) t"
proof (cases "validReadyReceipt r lease base")
  case True
  show ?thesis
    unfolding execDriver_handover_def req using True
  proof (simp, intro wp_mono [OF rel_ready [OF req(4) st(2) True]], goal_cases)
    case (1 x u)
    obtain c'' e where x: "x = (c'', e)" by fastforce
    with 1 have u: "rel t c' u c''" by simp
    have su: "rel s c u c''" by (rule rel_trans [OF st(1) u])
    have "occurs (EvReceipt lease (Inr r)) (since s u)"
      using since_trans [OF rel_grows [OF st(1)] rel_grows [OF u]] r by simp
    then show ?case
      using stop_returns [OF su] input [OF su _ True _ _ req(1, 3)] 1 x by (cases e) auto
  qed
qed (use stop_returns [OF st(1)] in \<open>simp add: execDriver_handover_def req\<close>)

lemma session:
  assumes st: "rel s c t c'" "started process c'"
    and req: "dx_LeaseID request = lease" "dx_BaseImageSHA256 request = base" "dx_Input request \<noteq> None \<longrightarrow> hands_over"
  shows "wp (execDriver_session dv ctx request process onReady c')
           (\<lambda>x u. rel s c u (fst x) \<and> session_proof request s x u) t"
  unfolding execDriver_session_def req(1) wp_bind
proof (rule wp_readReceipt, goal_cases)
  case (1 first u)
  have su: "rel s c u c'" by (rule rel_session_step [OF st(1) 1(1)])
  have p: "proved lease x (since s u)" if "first = Inr x" for x
    by (rule proved_later [OF rel_grows [OF st(1)] observes_grows [OF 1(1)] 1(2) [OF that]])
  then show ?case
    using stop_returns [OF su] handover [OF su st(2) proved_occurs req(1, 2)] req(3) finish_returns [OF finish_recovery [OF su p req(1)]]
    by (simp split: sum.split option.split)
qed

lemma wp_execDriver:
  assumes req: "dx_LeaseID request = lease" "dx_BaseImageSHA256 request = base" "dx_Input request \<noteq> None \<longrightarrow> hands_over"
    and launch: "\<And>t. observes (launch_event lease (dx_Arguments request)) s t \<Longrightarrow> rel s c t c"
  shows "wp (execDriver dv ctx request onStarted onReady c)
           (\<lambda>x t. rel s c t (fst x) \<and> session_proof request s x t) s"
  unfolding execDriver_def wp_bind
proof (rule wp_execDriver_start, goal_cases)
  case (1 t e)
  then show ?case by (simp add: launch req session_proof_def)
next
  case (2 t process)
  then have st: "rel s c t c" by (simp add: launch req)
  show ?case
  proof (simp, intro wp_mono [OF rel_started], goal_cases)
    case (1 x u)
    obtain c' e where x: "x = (c', e)" by fastforce
    with 1 st have "rel s c u c'" by (auto intro: rel_trans)
    then show ?case using stop_returns session [OF _ _ req] 1 x by (cases e) auto
  qed
qed

lemma rel_quiet: "observes (\<lambda>_. False) s t \<Longrightarrow> rel s c t c"
  by (rule rel_session) (erule observes_mono, simp)

lemma wp_Run:
  assumes req: "rn_LeaseID request = lease" "rn_BaseImageSHA256 request = base" hands_over
    and launch: "\<And>t u args. st_disk t = st_disk s \<Longrightarrow> observes (launch_event lease (''run'' # args)) t u \<Longrightarrow> rel t c u c"
  shows "wp (Run dv ctx request onStarted onReady c) (\<lambda>(c', outcome, err) t. rel s c t c' \<and>
     (err = None \<longrightarrow> ready (ro_Process outcome) (ro_Ready outcome) c' \<and>
        occurs (EvReceipt lease (Inr (ro_Ready outcome))) (since s t) \<and>
        proved lease (ro_Destroyed outcome) (since s t) \<and>
        validReadyReceipt (ro_Ready outcome) lease base \<and>
        validDestroyedReceipt (ro_Destroyed outcome) lease (ir_IsolationID (ro_Ready outcome)) base)) s"
  unfolding Run_def wp_bind
proof (rule wp_keeps_observes [OF keeps_validateRunnerRequest [where E = \<open>\<lambda>_. False\<close>]], goal_cases)
  case (1 e t)
  have st: "rel s c t c" by (rule rel_quiet [OF 1])
  have disk: "st_disk t = st_disk s" using 1 by (simp add: observes_def)
  show ?case
  proof (cases e)
    case None
    then show ?thesis
      unfolding runDriver_def
    proof (simp, intro wp_mono [OF wp_execDriver], goal_cases)
      case (5 x u)
      obtain c' receipts p err where x: "x = (c', receipts, p, err)" by (metis prod_cases4)
      have "since s u = since s t @ since t u" "rel s c u c'"
        using rel_trans [OF st] since_trans [OF rel_grows [OF st] rel_grows] 5 x by auto
      with 5 x show ?case by (auto simp: req session_proof_def proved_append split: list.split option.split)
    qed (use req launch [OF disk] in auto)
  qed (use st in simp)
qed

end

text \<open>Recovery hands over nothing and has no callbacks.\<close>

definition recover_event :: "string \<Rightarrow> jevent \<Rightarrow> bool" where
  "recover_event lease ev \<longleftrightarrow> session_event lease ev \<or> (\<exists>args r. ev = EvDriverStart lease (''recover'' # args) r)"

interpretation recovery:
  driver_client "\<lambda>s _ t _. observes (recover_event lease) s t" "\<lambda>c _. ret (c, None)" "\<lambda>c _. ret (c, None)"
    lease base False "\<lambda>_ _. True" "\<lambda>_ _ _. True"
  by unfold_locales (auto intro: observes_trans observes_mono observes_grows simp: recover_event_def)

lemma keeps_recover: "keeps (observes (session_event lease)) m \<Longrightarrow> keeps (observes (recover_event lease)) m"
  unfolding keeps_def by (blast intro: observes_mono [where E = "session_event lease"] recover_event_def [THEN iffD2])

lemma wp_recoverDriver:
  "wp (recoverDriver dv ctx request) (\<lambda>r t. observes (recover_event (rc_LeaseID request)) s t \<and>
     (\<forall>x. r = Inr x \<longrightarrow> proved (rc_LeaseID request) x (since s t) \<and>
       validDestroyedReceipt x (rc_LeaseID request) (rc_IsolationID request) (rc_BaseImageSHA256 request))) s"
proof -
  have launch: "observes (recover_event (rc_LeaseID request)) t u"
    if "observes (launch_event (rc_LeaseID request) (''recover'' # args)) t u" for t u :: "'a jst" and args
    using that by (rule observes_mono) (auto simp: launch_event_def recover_event_def)
  show ?thesis
    unfolding recoverDriver_def wp_bind
    by (rule wp_mono [OF recovery.wp_execDriver])
       (auto simp: recovery.session_proof_def intro: launch split: list.splits option.splits if_splits)
qed

lemma wp_Recover:
  assumes Q: "\<And>r t. observes (recover_event (rc_LeaseID request)) s t \<Longrightarrow>
    (\<And>x. r = Inr x \<Longrightarrow> proved (rc_LeaseID request) x (since s t) \<and>
       validDestroyedReceipt x (rc_LeaseID request) (rc_IsolationID request) (rc_BaseImageSHA256 request)) \<Longrightarrow> Q r t"
  shows "wp (Recover dv ctx request) Q s"
proof -
  let ?E = "recover_event (rc_LeaseID request)"
  have containment: "wp (recoverContainment dv ctx (rc_LeaseID request) p g) R t"
    if "\<And>a u. observes ?E t u \<Longrightarrow> R a u" for p g R t
    by (rule wp_keeps_observes [OF keeps_recover [OF keeps_recoverContainment]]) (rule that)
  have trusted: "wp (quiet f) R t" if "\<And>a u. observes ?E t u \<Longrightarrow> R a u" for f :: "('a, jerr option) op" and R t
    by (rule wp_keeps_observes [OF keeps_quiet]) (rule that)
  have driver: "wp (recoverDriver dv ctx request) Q t" if t: "observes ?E s t" for t
  proof (rule wp_mono [OF wp_recoverDriver], elim conjE)
    fix r :: "jerr + IsolationReceipt" and u
    assume u: "observes ?E t u" and r: "\<forall>x. r = Inr x \<longrightarrow> proved (rc_LeaseID request) x (since t u) \<and>
       validDestroyedReceipt x (rc_LeaseID request) (rc_IsolationID request) (rc_BaseImageSHA256 request)"
    show "Q r u" by (rule Q) (use t u r proved_later observes_grows observes_trans in blast)+
  qed
  show ?thesis
    unfolding Recover_def
    by (auto simp: wp_cases split: option.split intro!: containment trusted Q driver; blast intro: observes_trans)
qed

end
