(* ===== verification/Jit_Store.thy ===== *)
theory Jit_Store
  imports Jit_Runner
begin

text \<open>
  The durable request ledgers: \<open>src/internal/jitdispatcher/state.go\<close>. A ledger is written to
  a temporary file, synced and renamed over \<open><requestID>.json\<close>; the model keeps the ledger
  directory itself (\<open>st_disk\<close>), the names in it that are not ledgers (\<open>st_stray\<close>, such as a
  temporary file that could not be removed), and how each \<open>Save\<close> ended. Reading and decoding
  errors are answers of the world.

  The lemmas are the contract the dispatcher relies on, stated as the locale \<open>ledger_store\<close>
  and interpreted on the model: a successful \<open>Save\<close> is what the next \<open>Load\<close> returns, a failed
  one leaves the old or the new ledger and never a mixture, no other request is touched, and
  only ledgers that pass \<open>validateLedger\<close> are ever written.
\<close>

section \<open>Request identifiers\<close>

definition requestIDRE :: "string \<Rightarrow> bool" where
  "requestIDRE s \<longleftrightarrow> length s = 64 \<and> list_all is_hex s"

text \<open>The request identifier is the SHA-256 of the four fields separated by NUL bytes.\<close>

definition RequestID :: "(string \<Rightarrow> string) \<Rightarrow> Request \<Rightarrow> string" where
  "RequestID sha256hex request =
     sha256hex (join_on [char_of (0 :: nat)]
       [rq_Repository request, rq_CandidateRef request, rq_CandidateSHA request, rq_Idempotency request])"

section \<open>Well-formed ledgers\<close>

definition ledgerVersion :: int where
  "ledgerVersion = 2"

fun validStatus :: "Status \<Rightarrow> bool" where
  "validStatus (StatusOther s) = False"
| "validStatus s = True"

definition ledger_identity :: "Ledger \<Rightarrow> Identity" where
  "ledger_identity ledger =
     \<lparr> id_Nonce = l_Nonce ledger, id_Label = l_RunnerLabel ledger,
       id_RunnerName = l_RunnerName ledger, id_WorkFolder = l_WorkFolder ledger \<rparr>"

definition validateLedger :: "Ledger \<Rightarrow> string \<Rightarrow> jerr option" where
  "validateLedger ledger expectedID =
     (if l_Version ledger \<noteq> ledgerVersion \<or> l_RequestID ledger \<noteq> expectedID \<or> \<not> requestIDRE (l_RequestID ledger)
      then Some (errf ''ledger identity or version is invalid'')
      else if validateRepository (l_Repository ledger) \<noteq> None \<or> validateRef (l_CandidateRef ledger) \<noteq> None \<or>
         \<not> shaRE (l_CandidateSHA ledger) \<or> \<not> shaRE (l_TrustedSHA ledger) \<or>
         \<not> workflowRE (l_Workflow ledger) \<or> \<not> digestRE (l_WorkflowSHA256 ledger)
      then Some (errf ''ledger request fields are invalid'')
      else if \<not> validIdentity (ledger_identity ledger) \<or> l_LeaseID ledger \<noteq> l_Nonce ledger
      then Some (errf ''ledger runner or lease identity is invalid'')
      else if l_CreatedAt ledger = 0 \<or> l_UpdatedAt ledger < l_CreatedAt ledger \<or> \<not> validStatus (l_Status ledger)
      then Some (errf ''ledger timestamps or status are invalid'')
      else if l_RunID ledger < 0 \<or> l_JobID ledger < 0 \<or> l_RunnerID ledger < 0 \<or> l_ProcessPID ledger < 0 \<or> l_ProcessGroup ledger < 0
      then Some (errf ''ledger numeric identity is invalid'')
      else if (l_RunID ledger = 0 \<and> (l_JobID ledger \<noteq> 0 \<or> l_RunnerID ledger \<noteq> 0)) \<or>
         (l_JobID ledger = 0 \<and> l_RunnerID ledger \<noteq> 0)
      then Some (errf ''ledger remote identity ordering is invalid'')
      else if l_ProcessPID ledger = 0 \<and>
         (l_ProcessStart ledger \<noteq> 0 \<or> l_ProcessGroup ledger \<noteq> 0 \<or> l_CgroupPath ledger \<noteq> [])
      then Some (errf ''ledger process identity is incomplete'')
      else if 0 < l_ProcessPID ledger \<and>
         (l_RunnerID ledger = 0 \<or> l_ProcessStart ledger = 0 \<or> l_ProcessGroup ledger \<noteq> l_ProcessPID ledger \<or>
          \<not> path_IsAbs (l_CgroupPath ledger) \<or> path_Clean (l_CgroupPath ledger) \<noteq> l_CgroupPath ledger \<or>
          path_Base (l_CgroupPath ledger) \<noteq> ''civm-jit-'' @ l_LeaseID ledger)
      then Some (errf ''ledger process identity is incomplete'')
      else if ((l_IsolationID ledger = []) \<noteq> (l_IsolationBase ledger = [])) \<or>
         (l_IsolationID ledger \<noteq> [] \<and>
          (\<not> safeOpaqueID (l_IsolationID ledger) \<or> \<not> digestRE (l_IsolationBase ledger) \<or> l_RunnerID ledger = 0))
      then Some (errf ''ledger isolation base identity is invalid'')
      else if l_IsolationGone ledger \<and> l_ProcessPID ledger \<noteq> 0
      then Some (errf ''ledger marks isolation gone while its process remains'')
      else if l_CleanupComplete ledger \<and> (\<not> l_RunTerminal ledger \<or> \<not> l_RunnerGone ledger \<or> \<not> l_IsolationGone ledger)
      then Some (errf ''ledger cleanup proof is incomplete'')
      else None)"

section \<open>Operations\<close>

definition ledgerPath :: "string \<Rightarrow> jerr option" where
  "ledgerPath requestID = (if \<not> requestIDRE requestID then Some (invalid ''request ID is invalid'') else None)"

definition RequestLogDir :: "'w Dependencies \<Rightarrow> string \<Rightarrow> ('w jst, jerr + string) state" where
  "RequestLogDir d requestID =
     (if \<not> requestIDRE requestID then ret (Inl (invalid ''request ID is invalid''))
      else do {
        e \<leftarrow> quiet (fs_ensureLogDir (dp_Store d) (path_Join (dp_logDir d) requestID));
        ret (case e of Some err \<Rightarrow> Inl err | None \<Rightarrow> Inr (path_Join (dp_logDir d) requestID))
      })"

definition Load :: "'w Dependencies \<Rightarrow> string \<Rightarrow> ('w jst, jerr + Ledger option) state" where
  "Load d requestID =
     (case ledgerPath requestID of
        Some e \<Rightarrow> ret (Inl e)
      | None \<Rightarrow> do {
          e \<leftarrow> quiet (fs_read (dp_Store d) requestID);
          (case e of
             Some err \<Rightarrow> ret (Inl err)
           | None \<Rightarrow> do {
               found \<leftarrow> gets (\<lambda>s. map_of (st_disk s) requestID);
               ret (case found of
                      None \<Rightarrow> Inr None
                    | Some ledger \<Rightarrow>
                        (case validateLedger ledger requestID of Some err \<Rightarrow> Inl err | None \<Rightarrow> Inr (Some ledger)))
             })
        })"

definition put_ledger :: "Ledger \<Rightarrow> 'w jst \<Rightarrow> 'w jst" where
  "put_ledger ledger s = s\<lparr>st_disk := AList.update (l_RequestID ledger) ledger (st_disk s)\<rparr>"

definition Save :: "'w Dependencies \<Rightarrow> Ledger \<Rightarrow> ('w jst, jerr option) state" where
  "Save d ledger =
     (case validateLedger ledger (l_RequestID ledger) of
        Some e \<Rightarrow> ret (Some e)
      | None \<Rightarrow>
     (case ledgerPath (l_RequestID ledger) of
        Some e \<Rightarrow> ret (Some e)
      | None \<Rightarrow> do {
          outcome \<leftarrow> call (EvSave ledger) (fs_save (dp_Store d) ledger);
          (case outcome of
             SaveOK \<Rightarrow> do { modify (put_ledger ledger); ret None }
           | SaveFailed err left_behind \<Rightarrow> do {
               modify (\<lambda>s. if left_behind then s\<lparr>st_stray := ''.ledger-'' # st_stray s\<rparr> else s);
               ret (Some err)
             }
           | SaveRenamed err \<Rightarrow> do { modify (put_ledger ledger); ret (Some err) })
        }))"

text \<open>
  \<open>List\<close> loads every entry of the directory; anything that is not a ledger file is an error.
  The directory is read in the order ledgers, then other names; the order does not matter to
  the callers, since the result is sorted by creation time.
\<close>

fun load_all :: "'w Dependencies \<Rightarrow> string list \<Rightarrow> ('w jst, jerr + Ledger list) state" where
  "load_all d [] = ret (Inr [])"
| "load_all d (requestID # ids) = do {
     r \<leftarrow> Load d requestID;
     (case r of
        Inl err \<Rightarrow> ret (Inl (Wrap [] [errf ''load ledger'', err]))
      | Inr None \<Rightarrow> ret (Inl (Wrap [] [errf ''load ledger'']))
      | Inr (Some ledger) \<Rightarrow> do {
          rest \<leftarrow> load_all d ids;
          ret (map_sum id ((#) ledger) rest)
        })
   }"

definition List_ledgers :: "'w Dependencies \<Rightarrow> ('w jst, jerr + Ledger list) state" where
  "List_ledgers d = do {
     e \<leftarrow> quiet (fs_readDir (dp_Store d));
     (case e of
        Some err \<Rightarrow> ret (Inl (Wrap ''ledger directory read'' [err]))
      | None \<Rightarrow> do {
          ids \<leftarrow> gets (\<lambda>s. map fst (st_disk s));
          stray \<leftarrow> gets st_stray;
          r \<leftarrow> load_all d ids;
          ret (case r of
                 Inl err \<Rightarrow> Inl err
               | Inr ledgers \<Rightarrow>
                   if stray \<noteq> [] then Inl (errf ''ledger directory contains an unexpected entry'')
                   else Inr (sort_key l_CreatedAt ledgers))
        })
   }"

section \<open>What \<open>Save\<close> does to the ledger directory\<close>

text \<open>
  \<open>saved l e s t\<close>: the ledger directory in \<open>t\<close> is the one in \<open>s\<close> with \<open>l\<close> in place of the ledger
  of the same request if the error \<open>e\<close> is \<open>None\<close>; otherwise that, or the old one.
\<close>

definition saved :: "Ledger \<Rightarrow> jerr option \<Rightarrow> 'w jst \<Rightarrow> 'w jst \<Rightarrow> bool" where
  "saved l e s t \<longleftrightarrow> grows s t \<and>
     (\<forall>x \<in> set (since s t). (\<exists>r. fst x = EvSave l r) \<and> snd x = st_disk s) \<and>
     (let new = AList.update (l_RequestID l) l (st_disk s) in
      if e = None then validateLedger l (l_RequestID l) = None \<and> st_disk t = new
      else st_disk t = st_disk s \<or> validateLedger l (l_RequestID l) = None \<and> st_disk t = new)"

lemma wp_Save: "(\<And>e t. saved l e s t \<Longrightarrow> Q e t) \<Longrightarrow> wp (Save d l) Q s"
proof -
  assume Q: "\<And>e t. saved l e s t \<Longrightarrow> Q e t"
  have "wp (Save d l) (\<lambda>e t. saved l e s t) s"
    unfolding Save_def
    by (auto simp: wp_cases saved_def grows_def since_def put_ledger_def Let_def ledgerPath_def
        split: option.split save_outcome.split intro!: wp_call)
  then show ?thesis by (rule wp_mono) (rule Q)
qed

lemma saved_grows: "saved l e s t \<Longrightarrow> grows s t"
  by (simp add: saved_def)

lemma saved_None: "saved l None s t \<Longrightarrow> map_of (st_disk t) (l_RequestID l) = Some l"
  by (simp add: saved_def Let_def update_conv)

lemma saved_valid: "saved l None s t \<Longrightarrow> validateLedger l (l_RequestID l) = None"
  by (simp add: saved_def Let_def)

lemma saved_other: "saved l e s t \<Longrightarrow> k \<noteq> l_RequestID l \<Longrightarrow> map_of (st_disk t) k = map_of (st_disk s) k"
  by (auto simp: saved_def Let_def update_conv split: if_splits)

section \<open>Well-formed ledger directories\<close>

definition wf_dir :: "ledger_dir \<Rightarrow> bool" where
  "wf_dir D \<longleftrightarrow> distinct (map fst D) \<and> list_all (\<lambda>(k, l). validateLedger l k = None) D"

lemma validateLedger_id: "validateLedger l k = None \<Longrightarrow> l_RequestID l = k"
  by (simp add: validateLedger_def split: if_splits)

lemma validateLedger_complete:
  "validateLedger l k = None \<Longrightarrow> l_CleanupComplete l \<Longrightarrow> l_RunTerminal l \<and> l_RunnerGone l \<and> l_IsolationGone l"
  by (auto simp: validateLedger_def split: if_splits)

lemma wf_dir_Nil [simp]: "wf_dir []"
  by (simp add: wf_dir_def)

lemma list_all_update: "list_all P D \<Longrightarrow> P (k, l) \<Longrightarrow> list_all P (AList.update k l D)"
  by (induction D) auto

lemma wf_dir_update:
  "wf_dir D \<Longrightarrow> validateLedger l (l_RequestID l) = None \<Longrightarrow> wf_dir (AList.update (l_RequestID l) l D)"
  by (simp add: wf_dir_def distinct_update list_all_update)

lemma saved_wf: "saved l e s t \<Longrightarrow> wf_dir (st_disk s) \<Longrightarrow> wf_dir (st_disk t)"
  by (auto simp: saved_def Let_def wf_dir_update split: if_splits)

lemma wf_dir_lookup: "wf_dir D \<Longrightarrow> map_of D k = Some l \<Longrightarrow> validateLedger l k = None"
  by (auto simp: wf_dir_def list_all_iff dest: map_of_SomeD)

section \<open>Reading\<close>

lemma keeps_RequestLogDir: "keeps (observes E) (RequestLogDir d k)"
  unfolding RequestLogDir_def by (intro keeps_rules) simp_all

lemma wp_RequestLogDir [wp_spec]: "(\<And>r t. observes (\<lambda>_. False) s t \<Longrightarrow> Q r t) \<Longrightarrow> wp (RequestLogDir d k) Q s"
  by (rule wp_keeps_observes [OF keeps_RequestLogDir])

lemma wp_Load [wp_spec]:
  assumes Q: "\<And>r t. observes (\<lambda>_. False) s t \<Longrightarrow>
    (\<And>x. r = Inr x \<Longrightarrow> x = map_of (st_disk s) k \<and> (\<forall>l. x = Some l \<longrightarrow> validateLedger l k = None)) \<Longrightarrow> Q r t"
  shows "wp (Load d k) Q s"
  unfolding Load_def
proof (cases "ledgerPath k", simp, rule wp_quiet_observes, goal_cases)
  case (1 a t)
  then have "st_disk t = st_disk s" by (simp add: observes_def)
  with 1 show ?case by (auto simp: wp_cases split: option.split intro!: Q)
qed (auto intro!: Q)

lemma map_sum_Inr [simp]: "map_sum f g x = Inr y \<longleftrightarrow> (\<exists>z. x = Inr z \<and> y = g z)"
  by (cases x) auto

definition stored :: "'w jst \<Rightarrow> Ledger \<Rightarrow> bool" where
  "stored s l \<longleftrightarrow> map_of (st_disk s) (l_RequestID l) = Some l"

lemma wp_load_all:
  "wp (load_all d ids) (\<lambda>r t. observes (\<lambda>_. False) s t \<and>
     (\<forall>ls. r = Inr ls \<longrightarrow> map l_RequestID ls = ids \<and> list_all (stored s) ls)) s"
proof (induction ids arbitrary: s)
  case (Cons k ids)
  show ?case
    unfolding load_all.simps wp_bind
  proof (rule wp_Load, goal_cases)
    case (1 r t)
    have t: "stored t = stored s" using 1(1) by (simp add: observes_def stored_def fun_eq_iff)
    show ?case
    proof (cases "\<exists>l. r = Inr (Some l)")
      case True
      then obtain l where r: "r = Inr (Some l)" by blast
      with 1(2) have l: "l_RequestID l = k" "stored s l"
        using validateLedger_id by (force simp: stored_def)+
      show ?thesis
        unfolding r sum.case option.case wp_bind
        by (rule wp_mono [OF Cons.IH]) (auto simp: t l intro: observes_trans [OF 1(1)])
    qed (use 1(1) in \<open>auto split: sum.split option.split\<close>)
  qed
qed simp

lemma wp_List:
  assumes Q: "\<And>r t. observes (\<lambda>_. False) s t \<Longrightarrow>
    (\<And>ls. r = Inr ls \<Longrightarrow> st_stray s = [] \<and> (\<forall>k l. map_of (st_disk s) k = Some l \<longleftrightarrow> l \<in> set ls \<and> l_RequestID l = k)) \<Longrightarrow>
    Q r t"
  shows "wp (List_ledgers d) Q s"
  unfolding List_ledgers_def wp_bind
proof (rule wp_quiet_observes, goal_cases)
  case (1 e t)
  have t: "st_disk t = st_disk s" "st_stray t = st_stray s" "stored t = stored s"
    using 1 by (simp_all add: observes_def stored_def fun_eq_iff)
  have ls: "map_of (st_disk s) k = Some l \<longleftrightarrow> l \<in> set ls \<and> l_RequestID l = k"
    if "map l_RequestID ls = map fst (st_disk s)" and st: "list_all (stored s) ls" for ls k l
  proof
    assume k: "map_of (st_disk s) k = Some l"
    then have "k \<in> fst ` set (st_disk s)" by (auto dest: map_of_SomeD intro: rev_image_eqI)
    also have "\<dots> = l_RequestID ` set ls" using arg_cong [OF that(1), of set] by simp
    finally obtain m where "m \<in> set ls" "l_RequestID m = k" by blast
    with k st show "l \<in> set ls \<and> l_RequestID l = k" by (auto simp: stored_def list_all_iff)
  next
    assume "l \<in> set ls \<and> l_RequestID l = k"
    with st show "map_of (st_disk s) k = Some l" by (auto simp: stored_def list_all_iff)
  qed
  show ?case
  proof (cases e)
    case None
    have "wp (load_all d (map fst (st_disk t))) (\<lambda>r u. Q (case r of Inl err \<Rightarrow> Inl err
        | Inr ledgers \<Rightarrow> if st_stray t \<noteq> [] then Inl (errf ''ledger directory contains an unexpected entry'')
                        else Inr (sort_key l_CreatedAt ledgers)) u) t"
    proof (rule wp_mono [OF wp_load_all], goal_cases)
      case (1 r u)
      show ?case by (rule Q) (use 1 observes_trans [OF \<open>observes (\<lambda>_. False) s t\<close>] ls in
          \<open>auto simp: t split: sum.splits if_splits\<close>)
    qed
    then show ?thesis by (simp add: None)
  qed (use 1 in \<open>auto intro!: Q\<close>)
qed

section \<open>The contract of the store\<close>

text \<open>
  What a client of the store may rely on, whatever happens to the file operations; and what
  follows from it for a client that saves and loads.
\<close>

locale ledger_store =
  fixes save :: "Ledger \<Rightarrow> ('s, jerr option) state"
    and load :: "string \<Rightarrow> ('s, jerr + Ledger option) state"
    and lookup :: "'s \<Rightarrow> string \<Rightarrow> Ledger option"
  assumes save_ok: "wp (save l) (\<lambda>e t. e = None \<longrightarrow> lookup t (l_RequestID l) = Some l) s"
    and save_atomic: "wp (save l) (\<lambda>e t. lookup t = lookup s \<or> lookup t = (lookup s)(l_RequestID l \<mapsto> l)) s"
    and load_reads: "wp (load k) (\<lambda>r t. lookup t = lookup s \<and> (\<forall>x. r = Inr x \<longrightarrow> x = lookup s k)) s"
begin

lemma load_after_save:
  "wp (do { e \<leftarrow> save l; r \<leftarrow> load (l_RequestID l); ret (e, r) })
     (\<lambda>(e, r) _. e = None \<longrightarrow> (\<forall>x. r = Inr x \<longrightarrow> x = Some l)) s"
  by (auto intro!: wp_mono [OF save_ok] wp_mono [OF load_reads])

primrec save_all :: "Ledger list \<Rightarrow> ('s, jerr option list) state" where
  "save_all [] = ret []"
| "save_all (l # ls) = do { e \<leftarrow> save l; es \<leftarrow> save_all ls; ret (e # es) }"

text \<open>After any number of saves, each of them failing or not, a request has the ledger it had
  before or one of those saved for it, whole.\<close>

lemma save_all_atomic:
  "wp (save_all ls) (\<lambda>_ t. lookup t k = lookup s k \<or> (\<exists>l \<in> set ls. l_RequestID l = k \<and> lookup t k = Some l)) s"
proof (induction ls arbitrary: s)
  case (Cons l ls)
  show ?case
    unfolding save_all.simps wp_bind
    by (rule wp_mono [OF save_atomic], rule wp_mono [OF Cons.IH]) (auto split: if_splits)
qed simp

end

interpretation store: ledger_store "Save d" "Load d" "\<lambda>s. map_of (st_disk s)"
proof
  show "wp (Save d l) (\<lambda>e t. e = None \<longrightarrow> map_of (st_disk t) (l_RequestID l) = Some l) s" for l s
    by (rule wp_Save) (auto dest: saved_None)
  show "wp (Save d l) (\<lambda>e t. map_of (st_disk t) = map_of (st_disk s) \<or>
      map_of (st_disk t) = (map_of (st_disk s))(l_RequestID l \<mapsto> l)) s" for l s
    by (rule wp_Save) (auto simp: saved_def Let_def update_conv' split: if_splits)
  show "wp (Load d k) (\<lambda>r t. map_of (st_disk t) = map_of (st_disk s) \<and> (\<forall>x. r = Inr x \<longrightarrow> x = map_of (st_disk s) k)) s" for k s
    by (rule wp_Load) (auto simp: observes_def)
qed

end
