(* ===== verification/Jit_Dispatcher.thy ===== *)
theory Jit_Dispatcher
  imports Jit_Store
begin

text \<open>
  The dispatcher: \<open>src/internal/jitdispatcher/dispatcher.go\<close>, one definition per method, in
  the order and with the early returns of the source. A \<open>*Ledger\<close> argument is passed in and
  returned changed. Polling loops run on the fuel \<open>poll_fuel\<close>, computed from the context's
  deadline and the poll interval; \<open>Jit_Liveness\<close> proves that it is never used up. Logging is
  left out.
\<close>

section \<open>Polling\<close>

definition poll_fuel :: "ctxt \<Rightarrow> int \<Rightarrow> 'w jst \<Rightarrow> nat" where
  "poll_fuel ctx interval s =
     (case ctx_deadline ctx of None \<Rightarrow> 0 | Some t \<Rightarrow> nat ((t - st_clock s) div interval) + 2)"

definition poll ::
  "ctxt \<Rightarrow> int \<Rightarrow> (jerr \<Rightarrow> ('w jst, 'r) state) \<Rightarrow> ('c \<Rightarrow> ('w jst, 'r + 'c) state) \<Rightarrow> 'r \<Rightarrow> 'c \<Rightarrow> ('w jst, 'r) state" where
  "poll ctx interval on_err body exhausted c = do {
     n \<leftarrow> gets (poll_fuel ctx interval);
     r \<leftarrow> poll_loop n (sleepContext ctx interval) on_err body c;
     ret (case r of Some x \<Rightarrow> x | None \<Rightarrow> exhausted)
   }"

abbreviation exhausted_err :: jerr where
  "exhausted_err \<equiv> errf ''poll fuel exhausted''"

section \<open>Checks on what GitHub reports\<close>

fun nonterminalStatus :: "string \<Rightarrow> bool" where
  "nonterminalStatus status = (status \<in> {''queued'', ''in_progress'', ''pending'', ''waiting'', ''requested''})"

definition knownExecutionStatus :: "string \<Rightarrow> bool" where
  "knownExecutionStatus status \<longleftrightarrow> status = ''completed'' \<or> nonterminalStatus status"

definition validateRunIdentity :: "WorkflowRun \<Rightarrow> RepositoryPolicy \<Rightarrow> string \<Rightarrow> string \<Rightarrow> jerr option" where
  "validateRunIdentity run policy trustedSHA nonce =
     (let expectedPath = rp_Workflow policy @ ''@'' @ trim_prefix (rp_TrustedRef policy) ''refs/heads/''
      in if wr_Event run \<noteq> ''workflow_dispatch'' \<or> wr_HeadSHA run \<noteq> trustedSHA \<or>
            wr_DisplayTitle run \<noteq> ''CIVM JIT '' @ nonce \<or> wr_Path run \<noteq> expectedPath
         then Some (errf ''run identity does not match trusted dispatch'') else None)"

definition validateBoundRun :: "WorkflowRun \<Rightarrow> RepositoryPolicy \<Rightarrow> string \<Rightarrow> string \<Rightarrow> jerr option" where
  "validateBoundRun run policy trustedSHA nonce =
     (case validateRunIdentity run policy trustedSHA nonce of
        Some e \<Rightarrow> Some e
      | None \<Rightarrow> if (wr_Status run \<noteq> ''queued'' \<and> wr_Status run \<noteq> ''in_progress'') \<or> wr_Conclusion run \<noteq> []
                 then Some (errf ''run initial state is invalid'') else None)"

definition validateExecutedJob :: "WorkflowJob \<Rightarrow> Ledger \<Rightarrow> RepositoryPolicy \<Rightarrow> Identity \<Rightarrow> jerr option" where
  "validateExecutedJob job ledger policy identity =
     (if wj_ID job \<noteq> l_JobID ledger \<or> wj_RunID job \<noteq> l_RunID ledger \<or> wj_Name job \<noteq> rp_JobName policy \<or>
         wj_Labels job \<noteq> [id_Label identity]
      then Some (ambiguous ''executed job identity changed'')
      else if (wj_Status job = ''in_progress'' \<or> wj_Status job = ''completed'') \<and>
         (wj_RunnerID job \<noteq> l_RunnerID ledger \<or> wj_RunnerName job \<noteq> id_RunnerName identity \<or>
          wj_RunnerGroupID job \<noteq> rp_RunnerGroupID policy)
      then Some (ambiguous ''expected job did not execute on the generated JIT runner'')
      else None)"

definition knownDefaultRunnerLabel :: "string \<Rightarrow> bool" where
  "knownDefaultRunnerLabel label \<longleftrightarrow>
     to_lower label \<in> {''self-hosted'', ''linux'', ''x64'', ''arm'', ''arm64''}"

text \<open>The label loop: the number of exact custom labels, or \<open>None\<close> on an unexpected label.\<close>

fun count_custom :: "string \<Rightarrow> RunnerLabel list \<Rightarrow> nat option" where
  "count_custom nonceLabel [] = Some 0"
| "count_custom nonceLabel (label # labels) =
     (if rl_Type label = ''custom'' \<and> rl_Name label = nonceLabel
      then map_option Suc (count_custom nonceLabel labels)
      else if rl_Type label \<noteq> ''read-only'' \<or> \<not> knownDefaultRunnerLabel (rl_Name label) then None
      else count_custom nonceLabel labels)"

definition validateJITRegistration :: "JITRegistration \<Rightarrow> Identity \<Rightarrow> jerr option" where
  "validateJITRegistration registration identity =
     (case jr_Secret registration of
        None \<Rightarrow> Some (ambiguous ''JIT secret is missing or invalid'')
      | Some secret \<Rightarrow>
          if length secret < 16 \<or> maxJITResponse < length secret
          then Some (ambiguous ''JIT secret is missing or invalid'')
          else let runner = jr_Runner registration
          in if rr_ID runner \<le> 0 \<or> rr_Name runner \<noteq> id_RunnerName identity \<or> rr_Status runner \<noteq> ''offline'' \<or> rr_Busy runner
             then Some (ambiguous ''JIT runner identity is invalid'')
             else (case count_custom (id_Label identity) (rr_Labels runner) of
                     None \<Rightarrow> Some (ambiguous ''JIT runner labels are invalid'')
                   | Some n \<Rightarrow> if n \<noteq> 1 then Some (ambiguous ''exact JIT runner label is missing or duplicated'')
                               else None))"

definition runnerHasLabel :: "RemoteRunner \<Rightarrow> string \<Rightarrow> bool" where
  "runnerHasLabel runner expected \<longleftrightarrow>
     length (filter (\<lambda>l. rl_Name l = expected \<and> rl_Type l = ''custom'') (rr_Labels runner)) = 1"

definition authoritativeJITRejection :: "jerr \<Rightarrow> bool" where
  "authoritativeJITRejection err \<longleftrightarrow>
     \<not> errors_Is err ErrAmbiguous \<and>
     (case errors_As is_HTTPError err of
        Some (HTTPError op status rid) \<Rightarrow> 400 \<le> status \<and> status < 500
      | _ \<Rightarrow> False)"

section \<open>Ledger transitions\<close>

definition result_of :: "Ledger \<Rightarrow> Result" where
  "result_of ledger =
     \<lparr> res_RequestID = l_RequestID ledger, res_RunID = l_RunID ledger, res_Status = l_Status ledger, res_Replay = False \<rparr>"

definition noResult :: Result where
  "noResult = \<lparr> res_RequestID = [], res_RunID = 0, res_Status = StatusOther [], res_Replay = False \<rparr>"

definition transition :: "'w Dependencies \<Rightarrow> Ledger \<Rightarrow> Status \<Rightarrow> string \<Rightarrow> ('w jst, Ledger \<times> jerr option) state" where
  "transition d ledger status failureCode = do {
     now \<leftarrow> Now d;
     let ledger = ledger\<lparr>l_Status := status, l_FailureCode := failureCode, l_UpdatedAt := now\<rparr>;
     e \<leftarrow> Save d ledger;
     ret (ledger, map_option (\<lambda>err. Wrap ''persist'' [err]) e)
   }"

definition newLedger :: "'w Dependencies \<Rightarrow> string \<Rightarrow> Request \<Rightarrow> RepositoryPolicy \<Rightarrow> string \<Rightarrow> Identity \<Rightarrow> ('w jst, Ledger) state" where
  "newLedger d requestID request policy trustedSHA identity = do {
     now \<leftarrow> Now d;
     ret \<lparr> l_Version = ledgerVersion, l_RequestID = requestID, l_Repository = rq_Repository request,
           l_CandidateRef = rq_CandidateRef request, l_CandidateSHA = rq_CandidateSHA request,
           l_TrustedSHA = trustedSHA, l_Workflow = rp_Workflow policy, l_WorkflowSHA256 = rp_WorkflowSHA256 policy,
           l_Nonce = id_Nonce identity, l_RunnerLabel = id_Label identity, l_RunnerName = id_RunnerName identity,
           l_WorkFolder = id_WorkFolder identity, l_RunID = 0, l_JobID = 0, l_RunnerID = 0,
           l_LeaseID = id_Nonce identity, l_ProcessPID = 0, l_ProcessStart = 0, l_ProcessGroup = 0,
           l_CgroupPath = [], l_IsolationID = [], l_IsolationBase = [],
           l_RunTerminal = True, l_RunnerGone = True, l_IsolationGone = True, l_CleanupComplete = False,
           l_Status = StatusPrepared, l_CreatedAt = now, l_UpdatedAt = now, l_FailureCode = [] \<rparr>
   }"

section \<open>Waiting for GitHub\<close>

definition getRun :: "'w Dependencies \<Rightarrow> ctxt \<Rightarrow> string \<Rightarrow> int \<Rightarrow> ('w jst, jerr + WorkflowRun) state" where
  "getRun d ctx repository runID = call (EvGetRun repository runID) (gh_GetRun (dp_GitHub d) ctx repository runID)"

definition resolveRef :: "'w Dependencies \<Rightarrow> ctxt \<Rightarrow> string \<Rightarrow> string \<Rightarrow> ('w jst, jerr + string) state" where
  "resolveRef d ctx repository ref = call (EvResolveRef repository ref) (gh_ResolveRef (dp_GitHub d) ctx repository ref)"

definition waitForRun_turn ::
  "'w Dependencies \<Rightarrow> ctxt \<Rightarrow> string \<Rightarrow> RepositoryPolicy \<Rightarrow> Ledger \<Rightarrow> Identity
     \<Rightarrow> unit \<Rightarrow> ('w jst, (jerr + WorkflowRun) + unit) state" where
  "waitForRun_turn d bindCtx repository policy ledger identity _ = do {
     r \<leftarrow> getRun d bindCtx repository (l_RunID ledger);
     ret (case r of
            Inr run \<Rightarrow>
              (case validateBoundRun run policy (l_TrustedSHA ledger) (id_Nonce identity) of
                 Some err \<Rightarrow> Inl (Inl err)
               | None \<Rightarrow> Inl (Inr run))
          | Inl err \<Rightarrow> if \<not> IsHTTPStatus err 404 then Inl (Inl err) else Inr ())
   }"

definition waitForRun ::
  "Config \<Rightarrow> 'w Dependencies \<Rightarrow> ctxt \<Rightarrow> string \<Rightarrow> RepositoryPolicy \<Rightarrow> Ledger \<Rightarrow> Identity \<Rightarrow> ('w jst, jerr + WorkflowRun) state" where
  "waitForRun cfg d ctx repository policy ledger identity = do {
     bindCtx \<leftarrow> timeout ctx (cfg_JobBindTimeout cfg);
     poll bindCtx (cfg_JobPollInterval cfg)
       (\<lambda>_. ret (Inl (ambiguous ''run ID was not observable before timeout'')))
       (waitForRun_turn d bindCtx repository policy ledger identity)
       (Inl exhausted_err) ()
   }"

definition waitForJob_turn ::
  "'w Dependencies \<Rightarrow> ctxt \<Rightarrow> string \<Rightarrow> RepositoryPolicy \<Rightarrow> int \<Rightarrow> string
     \<Rightarrow> unit \<Rightarrow> ('w jst, (jerr + WorkflowJob) + unit) state" where
  "waitForJob_turn d bindCtx repository policy runID label _ = do {
     r \<leftarrow> call (EvListJobs repository runID) (gh_ListJobs (dp_GitHub d) bindCtx repository runID);
     ret (case r of
            Inl err \<Rightarrow> Inl (Inl err)
          | Inr [] \<Rightarrow> Inr ()
          | Inr [job] \<Rightarrow>
              if wj_ID job \<le> 0 \<or> (wj_RunID job \<noteq> 0 \<and> wj_RunID job \<noteq> runID) \<or> wj_Name job \<noteq> rp_JobName policy \<or>
                 wj_Status job \<noteq> ''queued'' \<or> wj_Conclusion job \<noteq> [] \<or> wj_Labels job \<noteq> [label]
              then Inl (Inl (errf ''queued job identity is invalid''))
              else Inl (Inr job)
          | Inr jobs \<Rightarrow> Inl (Inl (ambiguous ''dispatch created duplicate jobs'')))
   }"

definition waitForJob ::
  "Config \<Rightarrow> 'w Dependencies \<Rightarrow> ctxt \<Rightarrow> string \<Rightarrow> RepositoryPolicy \<Rightarrow> int \<Rightarrow> string \<Rightarrow> ('w jst, jerr + WorkflowJob) state" where
  "waitForJob cfg d ctx repository policy runID label = do {
     bindCtx \<leftarrow> timeout ctx (cfg_JobBindTimeout cfg);
     poll bindCtx (cfg_JobPollInterval cfg)
       (\<lambda>_. ret (Inl (ambiguous ''job was not observable before timeout'')))
       (waitForJob_turn d bindCtx repository policy runID label)
       (Inl exhausted_err) ()
   }"

text \<open>What one look at the run and its job decides: an error, completion, or another turn.\<close>

definition completion_verdict ::
  "WorkflowRun \<Rightarrow> WorkflowJob \<Rightarrow> Ledger \<Rightarrow> RepositoryPolicy \<Rightarrow> Identity \<Rightarrow> jerr option + unit" where
  "completion_verdict run job ledger policy identity =
     (case validateExecutedJob job ledger policy identity of
        Some err \<Rightarrow> Inl (Some err)
      | None \<Rightarrow>
          if wr_Status run = ''completed'' \<and> wr_Conclusion run \<noteq> ''success''
          then Inl (Some (errf ''workflow completed without success''))
          else if wj_Status job = ''completed'' \<and> wj_Conclusion job \<noteq> ''success''
          then Inl (Some (errf ''job completed without success''))
          else if wr_Status run = ''completed'' \<and> wj_Status job = ''completed'' then Inl None
          else if \<not> knownExecutionStatus (wr_Status run) \<or> \<not> knownExecutionStatus (wj_Status job)
          then Inl (Some (errf ''workflow or job returned an unknown state''))
          else Inr ())"

definition waitForCompletion_turn ::
  "'w Dependencies \<Rightarrow> ctxt \<Rightarrow> string \<Rightarrow> Ledger \<Rightarrow> RepositoryPolicy \<Rightarrow> Identity
     \<Rightarrow> unit \<Rightarrow> ('w jst, jerr option + unit) state" where
  "waitForCompletion_turn d ctx repository ledger policy identity _ = do {
     r \<leftarrow> getRun d ctx repository (l_RunID ledger);
     (case r of
        Inl err \<Rightarrow> ret (Inl (Some err))
      | Inr run \<Rightarrow>
          if validateRunIdentity run policy (l_TrustedSHA ledger) (id_Nonce identity) \<noteq> None
          then ret (Inl (Some (ambiguous ''bound run identity changed'')))
          else do {
            j \<leftarrow> call (EvGetJob repository (l_JobID ledger)) (gh_GetJob (dp_GitHub d) ctx repository (l_JobID ledger));
            ret (case j of
                   Inl err \<Rightarrow> Inl (Some err)
                 | Inr job \<Rightarrow> completion_verdict run job ledger policy identity)
          })
   }"

definition waitForCompletion ::
  "Config \<Rightarrow> 'w Dependencies \<Rightarrow> ctxt \<Rightarrow> string \<Rightarrow> Ledger \<Rightarrow> RepositoryPolicy \<Rightarrow> Identity \<Rightarrow> ('w jst, jerr option) state" where
  "waitForCompletion cfg d ctx repository ledger policy identity =
     poll ctx (cfg_JobPollInterval cfg) (\<lambda>err. ret (Some err))
       (waitForCompletion_turn d ctx repository ledger policy identity)
       (Some exhausted_err) ()"

section \<open>Stopping what GitHub still runs\<close>

definition waitTerminal_turn ::
  "'w Dependencies \<Rightarrow> ctxt \<Rightarrow> Ledger \<Rightarrow> RepositoryPolicy \<Rightarrow> Identity \<Rightarrow> unit \<Rightarrow> ('w jst, jerr option + unit) state" where
  "waitTerminal_turn d ctx ledger policy identity _ = do {
     r \<leftarrow> getRun d ctx (l_Repository ledger) (l_RunID ledger);
     ret (case r of
            Inl err \<Rightarrow> Inl (Some err)
          | Inr run \<Rightarrow>
              if validateRunIdentity run policy (l_TrustedSHA ledger) (id_Nonce identity) \<noteq> None
              then Inl (Some (ambiguous ''cleanup run identity changed''))
              else if wr_Status run = ''completed''
              then Inl (if wr_Conclusion run = [] then Some (errf ''terminal run has no conclusion'') else None)
              else if \<not> nonterminalStatus (wr_Status run)
              then Inl (Some (errf ''run cancellation returned unknown state''))
              else Inr ())
   }"

definition waitTerminal ::
  "Config \<Rightarrow> 'w Dependencies \<Rightarrow> ctxt \<Rightarrow> Ledger \<Rightarrow> RepositoryPolicy \<Rightarrow> Identity \<Rightarrow> ('w jst, jerr option) state" where
  "waitTerminal cfg d ctx ledger policy identity =
     poll ctx (cfg_JobPollInterval cfg) (\<lambda>err. ret (Some err))
       (waitTerminal_turn d ctx ledger policy identity) (Some exhausted_err) ()"

definition cancelAndWaitTerminal ::
  "Config \<Rightarrow> 'w Dependencies \<Rightarrow> ctxt \<Rightarrow> Ledger \<Rightarrow> RepositoryPolicy \<Rightarrow> Identity \<Rightarrow> ('w jst, jerr option) state" where
  "cancelAndWaitTerminal cfg d ctx ledger policy identity = do {
     r \<leftarrow> getRun d ctx (l_Repository ledger) (l_RunID ledger);
     (case r of
        Inl err \<Rightarrow> ret (Some err)
      | Inr run \<Rightarrow>
          if validateRunIdentity run policy (l_TrustedSHA ledger) (id_Nonce identity) \<noteq> None
          then ret (Some (ambiguous ''cleanup run identity changed''))
          else if \<not> knownExecutionStatus (wr_Status run)
          then ret (Some (errf ''cleanup run returned unknown state''))
          else if wr_Status run = ''completed'' then waitTerminal cfg d ctx ledger policy identity
          else do {
            cancelErr \<leftarrow> call (EvCancelRun (l_Repository ledger) (l_RunID ledger))
                           (gh_CancelRun (dp_GitHub d) ctx (l_Repository ledger) (l_RunID ledger));
            (case cancelErr of
               None \<Rightarrow> waitTerminal cfg d ctx ledger policy identity
             | Some err \<Rightarrow>
                 if \<not> IsHTTPStatus err 409 \<and> \<not> errors_Is err ErrAmbiguous then ret (Some err)
                 else waitTerminal cfg d ctx ledger policy identity)
          })
   }"

text \<open>The two loops of \<open>ensureRunnerGone\<close>: finding the runner by its label, deleting it.\<close>

definition unproven :: "ctxt \<Rightarrow> ctxt \<Rightarrow> jerr \<Rightarrow> ('w jst, jerr) state" where
  "unproven observeCtx ctx err = do {
     now \<leftarrow> gets st_clock;
     ret (if ctx_Err observeCtx now = Some DeadlineExceeded \<and> ctx_Err ctx now = None
          then ambiguous ''JIT creation remains unproven after observation timeout'' else err)
   }"

definition observeRunner_turn ::
  "'w Dependencies \<Rightarrow> ctxt \<Rightarrow> ctxt \<Rightarrow> Ledger \<Rightarrow> unit \<Rightarrow> ('w jst, (Ledger \<times> jerr option) + unit) state" where
  "observeRunner_turn d observeCtx ctx ledger _ = do {
     r \<leftarrow> call (EvFindRunner (l_Repository ledger) (l_RunnerLabel ledger))
            (gh_FindRunnerByLabel (dp_GitHub d) observeCtx (l_Repository ledger) (l_RunnerLabel ledger));
     (case r of
        Inl err \<Rightarrow> do { e \<leftarrow> unproven observeCtx ctx err; ret (Inl (ledger, Some e)) }
      | Inr None \<Rightarrow> ret (Inr ())
      | Inr (Some runner) \<Rightarrow>
          if rr_ID runner \<le> 0 \<or> rr_Name runner \<noteq> l_RunnerName ledger \<or> \<not> runnerHasLabel runner (l_RunnerLabel ledger)
          then ret (Inl (ledger, Some (ambiguous ''exact runner label belongs to another identity'')))
          else do {
            e \<leftarrow> Save d (ledger\<lparr>l_RunnerID := rr_ID runner\<rparr>);
            ret (Inl (ledger\<lparr>l_RunnerID := rr_ID runner\<rparr>, e))
          })
   }"

definition observeRunner :: "Config \<Rightarrow> 'w Dependencies \<Rightarrow> ctxt \<Rightarrow> Ledger \<Rightarrow> ('w jst, Ledger \<times> jerr option) state" where
  "observeRunner cfg d ctx ledger = do {
     observeCtx \<leftarrow> timeout ctx (cfg_JobBindTimeout cfg);
     poll observeCtx (cfg_JobPollInterval cfg)
       (\<lambda>err. do { e \<leftarrow> unproven observeCtx ctx err; ret (ledger, Some e) })
       (observeRunner_turn d observeCtx ctx ledger)
       (ledger, Some exhausted_err) ()
   }"

definition deleteRunner_turn ::
  "'w Dependencies \<Rightarrow> ctxt \<Rightarrow> Ledger \<Rightarrow> bool \<Rightarrow> ('w jst, jerr option + bool) state" where
  "deleteRunner_turn d ctx ledger deleted = do {
     r \<leftarrow> call (EvGetRunner (l_Repository ledger) (l_RunnerID ledger))
            (gh_GetRunner (dp_GitHub d) ctx (l_Repository ledger) (l_RunnerID ledger));
     (case r of
        Inl err \<Rightarrow> ret (Inl (Some err))
      | Inr None \<Rightarrow> ret (Inl None)
      | Inr (Some runner) \<Rightarrow>
          if rr_ID runner \<noteq> l_RunnerID ledger \<or> rr_Name runner \<noteq> l_RunnerName ledger \<or>
             \<not> runnerHasLabel runner (l_RunnerLabel ledger)
          then ret (Inl (Some (ambiguous ''runner identity changed before removal'')))
          else if deleted then ret (Inr True)
          else do {
            e \<leftarrow> call (EvDeleteRunner (l_Repository ledger) (l_RunnerID ledger))
                   (gh_DeleteRunner (dp_GitHub d) ctx (l_Repository ledger) (l_RunnerID ledger));
            ret (case e of Some err \<Rightarrow> Inl (Some err) | None \<Rightarrow> Inr True)
          })
   }"

definition deleteRunner :: "Config \<Rightarrow> 'w Dependencies \<Rightarrow> ctxt \<Rightarrow> Ledger \<Rightarrow> ('w jst, jerr option) state" where
  "deleteRunner cfg d ctx ledger =
     poll ctx (cfg_JobPollInterval cfg) (\<lambda>err. ret (Some err))
       (deleteRunner_turn d ctx ledger) (Some exhausted_err) False"

definition ensureRunnerGone :: "Config \<Rightarrow> 'w Dependencies \<Rightarrow> ctxt \<Rightarrow> Ledger \<Rightarrow> ('w jst, Ledger \<times> jerr option) state" where
  "ensureRunnerGone cfg d ctx ledger = do {
     (ledger, e) \<leftarrow> (if l_RunnerID ledger = 0 then observeRunner cfg d ctx ledger else ret (ledger, None));
     (case e of
        Some err \<Rightarrow> ret (ledger, Some err)
      | None \<Rightarrow> do { e \<leftarrow> deleteRunner cfg d ctx ledger; ret (ledger, e) })
   }"

section \<open>Cleanup\<close>

text \<open>\<open>if err := ...; err != nil { return err }\<close>, with the ledger as the step left it.\<close>

definition and_then ::
  "('w jst, Ledger \<times> jerr option) state \<Rightarrow> (Ledger \<Rightarrow> ('w jst, Ledger \<times> jerr option) state)
     \<Rightarrow> ('w jst, Ledger \<times> jerr option) state" where
  "and_then m f = do {
     (ledger, e) \<leftarrow> m;
     (case e of Some err \<Rightarrow> ret (ledger, Some err) | None \<Rightarrow> f ledger)
   }"

definition recoveryRequest :: "Config \<Rightarrow> Ledger \<Rightarrow> string \<Rightarrow> RecoveryRequest" where
  "recoveryRequest cfg ledger logDirectory =
     \<lparr> rc_DriverExecutable = cfg_IsolationDriver cfg, rc_DriverSHA256 = cfg_DriverSHA256 cfg,
       rc_BaseImageSHA256 = cfg_BaseImageSHA256 cfg, rc_RunnerDirectory = cfg_RunnerDirectory cfg,
       rc_LeaseID = l_LeaseID ledger, rc_IsolationID = l_IsolationID ledger,
       rc_Process = \<lparr> pi_PID = l_ProcessPID ledger, pi_StartTicks = l_ProcessStart ledger,
                      pi_ProcessGroup = l_ProcessGroup ledger, pi_CgroupPath = l_CgroupPath ledger \<rparr>,
       rc_LogDirectory = logDirectory, rc_ShutdownGrace = cfg_ShutdownGrace cfg \<rparr>"

definition clear_process :: "Ledger \<Rightarrow> Ledger" where
  "clear_process ledger =
     ledger\<lparr>l_IsolationGone := True, l_ProcessPID := 0, l_ProcessStart := 0, l_ProcessGroup := 0, l_CgroupPath := []\<rparr>"

definition cleanupIsolation :: "Config \<Rightarrow> 'w Dependencies \<Rightarrow> ctxt \<Rightarrow> string \<Rightarrow> Ledger \<Rightarrow> ('w jst, Ledger \<times> jerr option) state" where
  "cleanupIsolation cfg d ctx logDirectory ledger =
     (if l_IsolationGone ledger then ret (ledger, None)
      else do {
        r \<leftarrow> Recover (dp_Runner d) ctx (recoveryRequest cfg ledger logDirectory);
        (case r of
           Inl err \<Rightarrow> ret (ledger, Some err)
         | Inr receipt \<Rightarrow>
             if \<not> validDestroyedReceipt receipt (l_LeaseID ledger) (l_IsolationID ledger) (cfg_BaseImageSHA256 cfg)
             then ret (ledger, Some (ambiguous ''recovery proof does not match durable state''))
             else do {
               let ledger = clear_process (if l_IsolationID ledger = []
                 then ledger\<lparr>l_IsolationID := ir_IsolationID receipt, l_IsolationBase := ir_BaseSHA256 receipt\<rparr> else ledger);
               e \<leftarrow> Save d ledger;
               ret (ledger, e)
             })
      })"

definition cleanupRun :: "Config \<Rightarrow> 'w Dependencies \<Rightarrow> ctxt \<Rightarrow> Ledger \<Rightarrow> ('w jst, Ledger \<times> jerr option) state" where
  "cleanupRun cfg d ctx ledger =
     (if l_RunTerminal ledger then ret (ledger, None)
      else if l_RunID ledger = 0 then ret (ledger, Some (ambiguous ''dispatched run identity is unknown''))
      else (case Policy cfg (l_Repository ledger) of
        None \<Rightarrow> ret (ledger, Some (errf ''cleanup repository policy is unavailable''))
      | Some policy \<Rightarrow>
          if \<not> validIdentity (ledger_identity ledger)
          then ret (ledger, Some (errf ''cleanup runner identity is invalid''))
          else do {
            e \<leftarrow> cancelAndWaitTerminal cfg d ctx ledger policy (ledger_identity ledger);
            (case e of
               Some err \<Rightarrow> ret (ledger, Some err)
             | None \<Rightarrow> do {
                 e \<leftarrow> Save d (ledger\<lparr>l_RunTerminal := True\<rparr>);
                 ret (ledger\<lparr>l_RunTerminal := True\<rparr>, e)
               })
          }))"

definition cleanupRunner :: "Config \<Rightarrow> 'w Dependencies \<Rightarrow> ctxt \<Rightarrow> Ledger \<Rightarrow> ('w jst, Ledger \<times> jerr option) state" where
  "cleanupRunner cfg d ctx ledger =
     (if l_RunnerGone ledger then ret (ledger, None)
      else do {
        (ledger, e) \<leftarrow> ensureRunnerGone cfg d ctx ledger;
        ret (case e of Some err \<Rightarrow> (ledger, Some err) | None \<Rightarrow> (ledger\<lparr>l_RunnerGone := True\<rparr>, None))
      })"

definition cleanupSeal :: "'w Dependencies \<Rightarrow> Ledger \<Rightarrow> ('w jst, Ledger \<times> jerr option) state" where
  "cleanupSeal d ledger = do {
     let ledger = ledger\<lparr>l_CleanupComplete := l_RunTerminal ledger \<and> l_RunnerGone ledger \<and> l_IsolationGone ledger\<rparr>;
     (if \<not> l_CleanupComplete ledger then ret (ledger, Some (errf ''cleanup postconditions are incomplete''))
      else do {
        now \<leftarrow> Now d;
        let ledger = ledger\<lparr>l_UpdatedAt := now\<rparr>;
        e \<leftarrow> Save d ledger;
        ret (ledger, e)
      })
   }"

definition cleanupLedger :: "Config \<Rightarrow> 'w Dependencies \<Rightarrow> ctxt \<Rightarrow> Ledger \<Rightarrow> ('w jst, Ledger \<times> jerr option) state" where
  "cleanupLedger cfg d ctx ledger = do {
     r \<leftarrow> RequestLogDir d (l_RequestID ledger);
     (case r of
        Inl err \<Rightarrow> ret (ledger, Some err)
      | Inr logDirectory \<Rightarrow>
          and_then (cleanupIsolation cfg d ctx logDirectory ledger) (\<lambda>ledger.
          and_then (cleanupRun cfg d ctx ledger) (\<lambda>ledger.
          and_then (cleanupRunner cfg d ctx ledger) (\<lambda>ledger.
          cleanupSeal d ledger))))
   }"

section \<open>Ending a dispatch\<close>

definition finish_status :: "jerr \<Rightarrow> Status" where
  "finish_status cause = (if errors_Is cause ErrAmbiguous then StatusAmbiguous else StatusFailed)"

definition finishWithoutLease :: "'w Dependencies \<Rightarrow> Ledger \<Rightarrow> string \<Rightarrow> jerr \<Rightarrow> ('w jst, Ledger \<times> Result \<times> jerr option) state" where
  "finishWithoutLease d ledger code cause = do {
     (ledger, transitionErr) \<leftarrow> transition d ledger (finish_status cause) code;
     ret (ledger, result_of ledger, errors_Join [Some cause, transitionErr])
   }"

definition finishError ::
  "Config \<Rightarrow> 'w Dependencies \<Rightarrow> Ledger \<Rightarrow> string \<Rightarrow> jerr \<Rightarrow> ('w jst, Ledger \<times> Result \<times> jerr option) state" where
  "finishError cfg d ledger code cause = do {
     (ledger, transitionErr) \<leftarrow> transition d ledger (finish_status cause) code;
     let cause = (case transitionErr of None \<Rightarrow> Some cause | Some e \<Rightarrow> errors_Join [Some cause, Some e]);
     recoveryCtx \<leftarrow> timeout None (cfg_RecoveryTimeout cfg);
     (ledger, cleanupErr) \<leftarrow> cleanupLedger cfg d recoveryCtx ledger;
     (case cleanupErr of
        None \<Rightarrow> ret (ledger, result_of ledger, cause)
      | Some err \<Rightarrow> do {
          let ledger = ledger\<lparr>l_CleanupComplete := False\<rparr>;
          let cause = errors_Join [cause, Some (Wrap ''cleanup remains unresolved'' [Leaf ErrAmbiguous, err])];
          (if l_Status ledger \<noteq> StatusAmbiguous then do {
             (ledger, e) \<leftarrow> transition d ledger StatusAmbiguous ''cleanup_unresolved'';
             ret (ledger, result_of ledger, errors_Join [cause, e])
           } else ret (ledger, result_of ledger, cause))
        })
   }"

section \<open>Running the bound job\<close>

definition onStarted :: "'w Dependencies \<Rightarrow> Ledger \<Rightarrow> ProcessIdentity \<Rightarrow> ('w jst, Ledger \<times> jerr option) state" where
  "onStarted d ledger process =
     transition d (ledger\<lparr>l_ProcessPID := pi_PID process, l_ProcessStart := pi_StartTicks process,
                          l_ProcessGroup := pi_ProcessGroup process, l_CgroupPath := pi_CgroupPath process\<rparr>)
       StatusRunnerStarted []"

definition onReady :: "'w Dependencies \<Rightarrow> Ledger \<Rightarrow> IsolationReceipt \<Rightarrow> ('w jst, Ledger \<times> jerr option) state" where
  "onReady d ledger receipt =
     transition d (ledger\<lparr>l_IsolationID := ir_IsolationID receipt, l_IsolationBase := ir_BaseSHA256 receipt\<rparr>)
       StatusIsolationReady []"

definition runnerRequest :: "Config \<Rightarrow> Ledger \<Rightarrow> Identity \<Rightarrow> string \<Rightarrow> string \<Rightarrow> RunnerRequest" where
  "runnerRequest cfg ledger identity secret logDirectory =
     \<lparr> rn_DriverExecutable = cfg_IsolationDriver cfg, rn_DriverSHA256 = cfg_DriverSHA256 cfg,
       rn_BaseImageSHA256 = cfg_BaseImageSHA256 cfg, rn_RunnerDirectory = cfg_RunnerDirectory cfg,
       rn_Identity = identity, rn_LeaseID = l_LeaseID ledger, rn_JITConfig = secret,
       rn_LogDirectory = logDirectory, rn_ShutdownGrace = cfg_ShutdownGrace cfg \<rparr>"

definition lifecycle_matches :: "Config \<Rightarrow> Ledger \<Rightarrow> RunnerOutcome \<Rightarrow> bool" where
  "lifecycle_matches cfg ledger outcome \<longleftrightarrow>
     ro_Process outcome = \<lparr> pi_PID = l_ProcessPID ledger, pi_StartTicks = l_ProcessStart ledger,
                            pi_ProcessGroup = l_ProcessGroup ledger, pi_CgroupPath = l_CgroupPath ledger \<rparr> \<and>
     validReadyReceipt (ro_Ready outcome) (l_LeaseID ledger) (cfg_BaseImageSHA256 cfg) \<and>
     l_IsolationID ledger = ir_IsolationID (ro_Ready outcome) \<and>
     l_IsolationBase ledger = ir_BaseSHA256 (ro_Ready outcome) \<and>
     validDestroyedReceipt (ro_Destroyed outcome) (l_LeaseID ledger) (l_IsolationID ledger) (cfg_BaseImageSHA256 cfg)"

text \<open>
  The parts of \<open>run\<close> after the driver has proved the isolation destroyed: the final status, and
  before it the checks that the run is complete, the runner gone and the candidate unmoved.
\<close>

definition concludeStatus ::
  "Config \<Rightarrow> 'w Dependencies \<Rightarrow> Request \<Rightarrow> string \<Rightarrow> Ledger \<Rightarrow> ('w jst, Ledger \<times> Result \<times> jerr option) state" where
  "concludeStatus cfg d request candidateSHA ledger = do {
     let ledger = ledger\<lparr>l_CleanupComplete := l_RunTerminal ledger \<and> l_RunnerGone ledger \<and> l_IsolationGone ledger\<rparr>;
     (if candidateSHA \<noteq> rq_CandidateSHA request then do {
        (ledger, transitionErr) \<leftarrow> transition d ledger StatusStale ''candidate_ref_moved'';
        ret (ledger, result_of ledger, errors_Join [Some (Wrap [] [Leaf ErrStale]), transitionErr])
      }
      else if \<not> l_CleanupComplete ledger then
        finishError cfg d ledger ''cleanup_proof'' (ambiguous ''cleanup proof is incomplete'')
      else do {
        (ledger, e) \<leftarrow> transition d ledger StatusCompleted [];
        (case e of
           Some err \<Rightarrow> do {
             let ledger = ledger\<lparr>l_CleanupComplete := False\<rparr>;
             ret (ledger, result_of ledger, Some (Wrap ''persist completed run'' [Leaf ErrAmbiguous, err]))
           }
         | None \<Rightarrow> ret (ledger, result_of ledger, None))
      })
   }"

definition concludeRun ::
  "Config \<Rightarrow> 'w Dependencies \<Rightarrow> ctxt \<Rightarrow> ctxt \<Rightarrow> Request \<Rightarrow> RepositoryPolicy \<Rightarrow> Ledger \<Rightarrow> Identity
     \<Rightarrow> ('w jst, Ledger \<times> Result \<times> jerr option) state" where
  "concludeRun cfg d ctx runCtx request policy ledger identity = do {
     e \<leftarrow> waitForCompletion cfg d runCtx (rq_Repository request) ledger policy identity;
     (case e of
        Some err \<Rightarrow> finishError cfg d ledger ''run_completion'' err
      | None \<Rightarrow> do {
          (ledger, e) \<leftarrow> ensureRunnerGone cfg d runCtx (ledger\<lparr>l_RunTerminal := True\<rparr>);
          (case e of
             Some err \<Rightarrow> finishError cfg d ledger ''runner_disappearance'' err
           | None \<Rightarrow> do {
               let ledger = ledger\<lparr>l_RunnerGone := True\<rparr>;
               r \<leftarrow> resolveRef d ctx (rq_Repository request) (rq_CandidateRef request);
               (case r of
                  Inl err \<Rightarrow>
                    finishError cfg d ledger ''candidate_revalidate'' (ambiguous ''candidate ref could not be revalidated'')
                | Inr candidateSHA \<Rightarrow> concludeStatus cfg d request candidateSHA ledger)
             })
        })
   }"

definition settleRun ::
  "Config \<Rightarrow> 'w Dependencies \<Rightarrow> ctxt \<Rightarrow> ctxt \<Rightarrow> Request \<Rightarrow> RepositoryPolicy \<Rightarrow> Identity \<Rightarrow> Ledger \<times> RunnerOutcome \<times> jerr option
     \<Rightarrow> ('w jst, Ledger \<times> Result \<times> jerr option) state" where
  "settleRun cfg d ctx runCtx request policy identity = (\<lambda>(ledger, outcome, err).
     (case err of
        Some e \<Rightarrow> finishError cfg d ledger ''runner'' e
      | None \<Rightarrow>
          if \<not> lifecycle_matches cfg ledger outcome
          then finishError cfg d ledger ''runner'' (ambiguous ''runner lifecycle proof does not match durable state'')
          else do {
            let ledger = clear_process ledger;
            saveErr \<leftarrow> Save d ledger;
            (case saveErr of
               Some e \<Rightarrow> finishError cfg d ledger ''runner'' (Wrap [] [e])
             | None \<Rightarrow> concludeRun cfg d ctx runCtx request policy ledger identity)
          }))"

definition run_bound ::
  "Config \<Rightarrow> 'w Dependencies \<Rightarrow> ctxt \<Rightarrow> Request \<Rightarrow> RepositoryPolicy \<Rightarrow> Ledger \<Rightarrow> Identity \<Rightarrow> string
     \<Rightarrow> ('w jst, Ledger \<times> Result \<times> jerr option) state" where
  "run_bound cfg d ctx request policy ledger identity secret = do {
     r \<leftarrow> RequestLogDir d (l_RequestID ledger);
     (case r of
        Inl err \<Rightarrow> finishError cfg d ledger ''log_directory'' err
      | Inr logDirectory \<Rightarrow> do {
          let ledger = ledger\<lparr>l_IsolationGone := False\<rparr>;
          e \<leftarrow> Save d ledger;
          (case e of
             Some _ \<Rightarrow> finishError cfg d ledger ''state_before_isolation'' (ambiguous ''persist isolation intent'')
           | None \<Rightarrow> do {
               runCtx \<leftarrow> timeout ctx (cfg_RunTimeout cfg);
               outcome \<leftarrow> Run (dp_Runner d) runCtx (runnerRequest cfg ledger identity secret logDirectory)
                            (onStarted d) (onReady d) ledger;
               settleRun cfg d ctx runCtx request policy identity outcome
             })
        })
   }"

section \<open>Binding the dispatched run\<close>

definition labelExists :: "'w Dependencies \<Rightarrow> ctxt \<Rightarrow> string \<Rightarrow> string \<Rightarrow> ('w jst, jerr + bool) state" where
  "labelExists d ctx repository label =
     call (EvLabelExists repository label) (gh_RunnerLabelExists (dp_GitHub d) ctx repository label)"

definition generateJIT :: "'w Dependencies \<Rightarrow> ctxt \<Rightarrow> string \<Rightarrow> Identity \<Rightarrow> int \<Rightarrow> ('w jst, jerr + JITRegistration) state" where
  "generateJIT d ctx repository identity groupID =
     call (EvGenerateJIT repository identity groupID) (gh_GenerateJIT (dp_GitHub d) ctx repository identity groupID)"

text \<open>The parts of \<open>bindAndRun\<close> from the answer to the JIT request on, and from the JIT intent on.\<close>

definition acceptJIT ::
  "Config \<Rightarrow> 'w Dependencies \<Rightarrow> ctxt \<Rightarrow> Request \<Rightarrow> RepositoryPolicy \<Rightarrow> Ledger \<Rightarrow> Identity \<Rightarrow> jerr + JITRegistration
     \<Rightarrow> ('w jst, Ledger \<times> Result \<times> jerr option) state" where
  "acceptJIT cfg d ctx request policy ledger identity answer =
     (case answer of
        Inl err \<Rightarrow>
          if authoritativeJITRejection err then do {
            let ledger = ledger\<lparr>l_RunnerGone := True\<rparr>;
            saveErr \<leftarrow> Save d ledger;
            finishError cfg d ledger ''jit''
              (case saveErr of
                 None \<Rightarrow> err
               | Some e \<Rightarrow> Wrap [] [err, Wrap ''persist authoritative JIT rejection'' [Leaf ErrAmbiguous, e]])
          } else finishError cfg d ledger ''jit'' err
      | Inr registration \<Rightarrow>
          (case validateJITRegistration registration identity of
             Some err \<Rightarrow> finishError cfg d ledger ''jit_identity'' err
           | None \<Rightarrow> do {
               (ledger, e) \<leftarrow> transition d (ledger\<lparr>l_RunnerID := rr_ID (jr_Runner registration)\<rparr>) StatusJITCreated [];
               (case e of
                  Some _ \<Rightarrow> finishError cfg d ledger ''state_jit'' (ambiguous ''persist JIT runner identity'')
                | None \<Rightarrow> run_bound cfg d ctx request policy ledger identity
                             (case jr_Secret registration of None \<Rightarrow> [] | Some secret \<Rightarrow> secret))
             }))"

definition registerAndRun ::
  "Config \<Rightarrow> 'w Dependencies \<Rightarrow> ctxt \<Rightarrow> Request \<Rightarrow> RepositoryPolicy \<Rightarrow> Ledger \<Rightarrow> Identity
     \<Rightarrow> ('w jst, Ledger \<times> Result \<times> jerr option) state" where
  "registerAndRun cfg d ctx request policy ledger identity = do {
     let ledger = ledger\<lparr>l_RunnerGone := False\<rparr>;
     e \<leftarrow> Save d ledger;
     (case e of
        Some _ \<Rightarrow> finishError cfg d ledger ''state_before_jit'' (ambiguous ''persist JIT intent'')
      | None \<Rightarrow> do {
          answer \<leftarrow> generateJIT d ctx (rq_Repository request) identity (rp_RunnerGroupID policy);
          acceptJIT cfg d ctx request policy ledger identity answer
        })
   }"

definition bindAndRun ::
  "Config \<Rightarrow> 'w Dependencies \<Rightarrow> ctxt \<Rightarrow> Request \<Rightarrow> RepositoryPolicy \<Rightarrow> Ledger \<Rightarrow> Identity
     \<Rightarrow> ('w jst, Ledger \<times> Result \<times> jerr option) state" where
  "bindAndRun cfg d ctx request policy ledger identity = do {
     r \<leftarrow> waitForRun cfg d ctx (rq_Repository request) policy ledger identity;
     (case r of
        Inl err \<Rightarrow> finishError cfg d ledger ''run_bind'' err
      | Inr run \<Rightarrow> do {
     j \<leftarrow> waitForJob cfg d ctx (rq_Repository request) policy (wr_ID run) (id_Label identity);
     (case j of
        Inl err \<Rightarrow> finishError cfg d ledger ''job_bind'' err
      | Inr job \<Rightarrow> do {
     let ledger = ledger\<lparr>l_JobID := wj_ID job\<rparr>;
     (ledger, e) \<leftarrow> transition d ledger StatusRunBound [];
     (case e of
        Some _ \<Rightarrow> finishError cfg d ledger ''state_run_bound'' (ambiguous ''persist bound job'')
      | None \<Rightarrow> do {
     c \<leftarrow> labelExists d ctx (rq_Repository request) (id_Label identity);
     (case c of
        Inl err \<Rightarrow> finishError cfg d ledger ''label_recheck'' err
      | Inr collision \<Rightarrow>
          if collision then finishError cfg d ledger ''label_race'' (ambiguous ''runner label appeared after dispatch'')
          else registerAndRun cfg d ctx request policy ledger identity)
     })})})
   }"

definition dispatch_inputs :: "Request \<Rightarrow> Identity \<Rightarrow> (string \<times> string) list" where
  "dispatch_inputs request identity =
     [(''candidate_sha'', rq_CandidateSHA request), (''candidate_ref'', rq_CandidateRef request),
      (''dispatch_nonce'', id_Nonce identity), (''runner_label'', id_Label identity)]"

definition acceptDispatch ::
  "Config \<Rightarrow> 'w Dependencies \<Rightarrow> ctxt \<Rightarrow> Request \<Rightarrow> RepositoryPolicy \<Rightarrow> Ledger \<Rightarrow> Identity \<Rightarrow> jerr + DispatchReceipt
     \<Rightarrow> ('w jst, Ledger \<times> Result \<times> jerr option) state" where
  "acceptDispatch cfg d ctx request policy ledger identity answer =
     (case answer of
        Inl err \<Rightarrow>
          finishError cfg d (if errors_Is err ErrAmbiguous then ledger else ledger\<lparr>l_RunTerminal := True\<rparr>) ''dispatch'' err
      | Inr receipt \<Rightarrow>
          if dr_RunID receipt \<le> 0
          then finishError cfg d ledger ''dispatch_identity'' (ambiguous ''dispatch returned no run ID'')
          else do {
            (ledger, e) \<leftarrow> transition d (ledger\<lparr>l_RunID := dr_RunID receipt\<rparr>) StatusWorkflowDispatched [];
            (case e of
               Some _ \<Rightarrow> finishError cfg d ledger ''state_dispatch'' (ambiguous ''persist dispatch identity'')
             | None \<Rightarrow> bindAndRun cfg d ctx request policy ledger identity)
          })"

definition dispatchPrepared ::
  "Config \<Rightarrow> 'w Dependencies \<Rightarrow> ctxt \<Rightarrow> Request \<Rightarrow> RepositoryPolicy \<Rightarrow> Ledger \<Rightarrow> Identity
     \<Rightarrow> ('w jst, Ledger \<times> Result \<times> jerr option) state" where
  "dispatchPrepared cfg d ctx request policy ledger identity = do {
     (ledger, e) \<leftarrow> transition d (ledger\<lparr>l_RunTerminal := False\<rparr>) StatusDispatching [];
     (case e of
        Some err \<Rightarrow> ret (ledger, result_of ledger, Some err)
      | None \<Rightarrow> do {
          answer \<leftarrow> call (EvDispatchWorkflow (rq_Repository request) (rp_Workflow policy) (rp_TrustedRef policy)
                            (dispatch_inputs request identity))
                      (gh_DispatchWorkflow (dp_GitHub d) ctx (rq_Repository request) (rp_Workflow policy) (rp_TrustedRef policy)
                         (dispatch_inputs request identity));
          acceptDispatch cfg d ctx request policy ledger identity answer
        })
   }"

section \<open>Admission: startup reconciliation, replay, authority\<close>

definition releaseOrphan :: "Config \<Rightarrow> 'w Dependencies \<Rightarrow> ctxt \<Rightarrow> LeaseMarker \<Rightarrow> ('w jst, jerr option) state" where
  "releaseOrphan cfg d ctx orphan = do {
     releaseCtx \<leftarrow> timeout ctx (cfg_ShutdownGrace cfg);
     call (EvGateReleaseOrphan orphan) (gt_ReleaseOrphan (dp_Gate d) releaseCtx orphan (cfg_ShutdownGrace cfg))
   }"

text \<open>The scan of the ledgers: whether one owns the orphan lease, and the only incomplete one.\<close>

fun scan_ledgers :: "LeaseMarker option \<Rightarrow> bool \<Rightarrow> Ledger option \<Rightarrow> Ledger list \<Rightarrow> jerr + (bool \<times> Ledger option)" where
  "scan_ledgers orphan matched incomplete [] = Inr (matched, incomplete)"
| "scan_ledgers orphan matched incomplete (ledger # ledgers) =
     (let matched = (matched \<or> (case orphan of None \<Rightarrow> False | Some m \<Rightarrow> l_LeaseID ledger = lm_LeaseID m))
      in if l_CleanupComplete ledger then scan_ledgers orphan matched incomplete ledgers
         else if incomplete \<noteq> None then Inl (errf ''multiple incomplete ledgers violate global admission'')
         else scan_ledgers orphan matched (Some ledger) ledgers)"

definition gateAcquire :: "Config \<Rightarrow> 'w Dependencies \<Rightarrow> ctxt \<Rightarrow> string \<Rightarrow> ('w jst, jerr + LeaseMarker) state" where
  "gateAcquire cfg d ctx leaseID =
     call (EvGateAcquire leaseID)
       (gt_Acquire (dp_Gate d) ctx (cfg_GuardExecutable cfg) leaseID (cfg_QueuePoll cfg) (cfg_ShutdownGrace cfg))"

definition gateRelease :: "'w Dependencies \<Rightarrow> ctxt \<Rightarrow> LeaseMarker \<Rightarrow> ('w jst, jerr option) state" where
  "gateRelease d ctx lease = call (EvGateRelease lease) (gt_Release (dp_Gate d) lease ctx)"

definition gateAbandon :: "'w Dependencies \<Rightarrow> LeaseMarker \<Rightarrow> ('w jst, unit) state" where
  "gateAbandon d lease = do { _ \<leftarrow> call (\<lambda>_. EvGateAbandon lease) (gt_Abandon (dp_Gate d) lease); ret () }"

text \<open>The repair of the incomplete ledger, once the lease is held.\<close>

definition repairLedger :: "Config \<Rightarrow> 'w Dependencies \<Rightarrow> ctxt \<Rightarrow> Ledger \<Rightarrow> ('w jst, jerr option) state" where
  "repairLedger cfg d ctx ledger = do {
     (ledger, e) \<leftarrow> transition d ledger StatusReconciling ''startup_reconciliation'';
     (case e of
        Some err \<Rightarrow> ret (Some err)
      | None \<Rightarrow> do {
     recoveryCtx \<leftarrow> timeout ctx (cfg_RecoveryTimeout cfg);
     (ledger, e) \<leftarrow> cleanupLedger cfg d recoveryCtx ledger;
     (case e of
        Some err \<Rightarrow> ret (Some err)
      | None \<Rightarrow> do {
          now \<leftarrow> Now d;
          Save d (ledger\<lparr>l_Status := StatusAmbiguous, l_FailureCode := ''reconciled_after_restart'', l_UpdatedAt := now\<rparr>)
        })
     })
   }"

text \<open>Repair under the lease the ledger owns, or under one reacquired for it.\<close>

definition reconcileLedger :: "Config \<Rightarrow> 'w Dependencies \<Rightarrow> ctxt \<Rightarrow> LeaseMarker option \<Rightarrow> Ledger \<Rightarrow> ('w jst, jerr option) state" where
  "reconcileLedger cfg d ctx orphan ledger =
     (case orphan of
        Some marker \<Rightarrow>
          if l_LeaseID ledger \<noteq> lm_LeaseID marker
          then ret (Some (errf ''incomplete ledger does not own the active Guard lease''))
          else do {
            e \<leftarrow> repairLedger cfg d ctx ledger;
            (case e of Some err \<Rightarrow> ret (Some err) | None \<Rightarrow> releaseOrphan cfg d ctx marker)
          }
      | None \<Rightarrow> do {
          a \<leftarrow> gateAcquire cfg d ctx (l_LeaseID ledger);
          (case a of
             Inl err \<Rightarrow> ret (Some (Wrap ''reacquire Guard for recovery'' [err]))
           | Inr lease \<Rightarrow> do {
               e \<leftarrow> repairLedger cfg d ctx ledger;
               (case e of
                  Some err \<Rightarrow> do { gateAbandon d lease; ret (Some err) }
                | None \<Rightarrow> do {
                    releaseCtx \<leftarrow> timeout ctx (cfg_ShutdownGrace cfg);
                    gateRelease d releaseCtx lease
                  })
             })
        })"

definition reconcileStartup :: "Config \<Rightarrow> 'w Dependencies \<Rightarrow> ctxt \<Rightarrow> ('w jst, jerr option) state" where
  "reconcileStartup cfg d ctx = do {
     r \<leftarrow> List_ledgers d;
     (case r of
        Inl err \<Rightarrow> ret (Some err)
      | Inr ledgers \<Rightarrow> do {
          o' \<leftarrow> call EvGateOrphan (gt_Orphan (dp_Gate d));
          (case o' of
             Inl err \<Rightarrow> ret (Some err)
           | Inr orphan \<Rightarrow>
               (case scan_ledgers orphan False None ledgers of
                  Inl err \<Rightarrow> ret (Some err)
                | Inr (matchedOrphan, incomplete) \<Rightarrow>
                    if orphan \<noteq> None \<and> \<not> matchedOrphan
                    then ret (Some (errf ''guard lease has no matching durable ledger''))
                    else (case incomplete of
                       None \<Rightarrow> (case orphan of None \<Rightarrow> ret None | Some marker \<Rightarrow> releaseOrphan cfg d ctx marker)
                     | Some ledger \<Rightarrow> reconcileLedger cfg d ctx orphan ledger)))
        })
   }"

definition replay :: "'w Dependencies \<Rightarrow> string \<Rightarrow> Request \<Rightarrow> ('w jst, Result \<times> bool \<times> jerr option) state" where
  "replay d requestID request = do {
     r \<leftarrow> Load d requestID;
     ret (case r of
            Inl err \<Rightarrow> (noResult, False, Some err)
          | Inr None \<Rightarrow> (noResult, False, None)
          | Inr (Some ledger) \<Rightarrow>
              if l_Repository ledger \<noteq> rq_Repository request \<or> l_CandidateRef ledger \<noteq> rq_CandidateRef request \<or>
                 l_CandidateSHA ledger \<noteq> rq_CandidateSHA request
              then (noResult, True, Some (Wrap ''ledger request mismatch'' [Leaf ErrReplay]))
              else let result = \<lparr> res_RequestID = requestID, res_RunID = l_RunID ledger,
                                  res_Status = l_Status ledger, res_Replay = True \<rparr>
              in if l_Status ledger = StatusCompleted \<and> l_CleanupComplete ledger then (result, True, None)
                 else (result, True, Some (Wrap ''existing request'' [Leaf ErrReplay])))
   }"

definition verifyAuthority :: "'w Dependencies \<Rightarrow> ctxt \<Rightarrow> Request \<Rightarrow> RepositoryPolicy \<Rightarrow> ('w jst, jerr + string) state" where
  "verifyAuthority d ctx request policy = do {
     b \<leftarrow> call (EvDefaultBranch (rq_Repository request)) (gh_DefaultBranch (dp_GitHub d) ctx (rq_Repository request));
     (case b of
        Inl err \<Rightarrow> ret (Inl (Wrap ''get default branch'' [err]))
      | Inr defaultBranch \<Rightarrow>
     if rp_TrustedRef policy \<noteq> ''refs/heads/'' @ defaultBranch then ret (Inl (errf ''trusted ref is not the default branch''))
     else do {
     t \<leftarrow> resolveRef d ctx (rq_Repository request) (rp_TrustedRef policy);
     (case t of
        Inl err \<Rightarrow> ret (Inl (Wrap ''resolve trusted ref'' [err]))
      | Inr trustedSHA \<Rightarrow> do {
     w \<leftarrow> call (EvWorkflowContent (rq_Repository request) (rp_Workflow policy) trustedSHA)
            (gh_WorkflowContent (dp_GitHub d) ctx (rq_Repository request) (rp_Workflow policy) trustedSHA);
     (case w of
        Inl err \<Rightarrow> ret (Inl (Wrap ''read trusted workflow'' [err]))
      | Inr workflow \<Rightarrow>
     if dp_sha256hex d workflow \<noteq> rp_WorkflowSHA256 policy then ret (Inl (errf ''trusted workflow digest drift''))
     else do {
     c \<leftarrow> resolveRef d ctx (rq_Repository request) (rq_CandidateRef request);
     ret (case c of
            Inl err \<Rightarrow> Inl (Wrap ''resolve candidate ref'' [err])
          | Inr candidateSHA \<Rightarrow>
              if candidateSHA \<noteq> rq_CandidateSHA request
              then Inl (errf ''candidate SHA does not match its allowlisted ref'') else Inr trustedSHA)
     })})})
   }"

section \<open>Dispatch\<close>

text \<open>The lease is released when the cleanup is complete, and abandoned otherwise.\<close>

definition endLease ::
  "Config \<Rightarrow> 'w Dependencies \<Rightarrow> LeaseMarker \<Rightarrow> Ledger \<times> Result \<times> jerr option \<Rightarrow> ('w jst, Result \<times> jerr option) state" where
  "endLease cfg d lease = (\<lambda>(ledger, result, dispatchErr).
     if l_CleanupComplete ledger then do {
       releaseCtx \<leftarrow> timeout None (cfg_ShutdownGrace cfg);
       releaseErr \<leftarrow> gateRelease d releaseCtx lease;
       (case releaseErr of
          None \<Rightarrow> ret (result, dispatchErr)
        | Some err \<Rightarrow> do {
            (ledger, _) \<leftarrow> transition d (ledger\<lparr>l_CleanupComplete := False\<rparr>) StatusAmbiguous ''guard_release'';
            ret (result_of ledger,
                 errors_Join [dispatchErr, Some (Wrap ''guard lease release failed'' [Leaf ErrAmbiguous, err])])
          })
     } else do {
       gateAbandon d lease;
       ret (result, dispatchErr)
     })"

text \<open>From the granted lease to its end.\<close>

definition dispatchLeased ::
  "Config \<Rightarrow> 'w Dependencies \<Rightarrow> ctxt \<Rightarrow> Request \<Rightarrow> RepositoryPolicy \<Rightarrow> Ledger \<Rightarrow> Identity \<Rightarrow> LeaseMarker
     \<Rightarrow> ('w jst, Result \<times> jerr option) state" where
  "dispatchLeased cfg d ctx request policy ledger identity lease = do {
     r \<leftarrow> dispatchPrepared cfg d ctx request policy ledger identity;
     endLease cfg d lease r
   }"

text \<open>From the new ledger to the lease.\<close>

definition dispatchFresh ::
  "Config \<Rightarrow> 'w Dependencies \<Rightarrow> ctxt \<Rightarrow> Request \<Rightarrow> RepositoryPolicy \<Rightarrow> Ledger \<Rightarrow> Identity \<Rightarrow> ('w jst, Result \<times> jerr option) state" where
  "dispatchFresh cfg d ctx request policy ledger identity = do {
     e \<leftarrow> Save d ledger;
     (case e of
        Some err \<Rightarrow> ret (noResult, Some err)
      | None \<Rightarrow> do {
          l \<leftarrow> gateAcquire cfg d ctx (l_LeaseID ledger);
          (case l of
             Inl err \<Rightarrow> do {
               (_, result, e) \<leftarrow> finishWithoutLease d
                 (ledger\<lparr>l_RunTerminal := True, l_RunnerGone := True, l_IsolationGone := True,
                         l_CleanupComplete := \<not> errors_Is err ErrAmbiguous\<rparr>) ''guard_admission'' err;
               ret (result, e)
             }
           | Inr lease \<Rightarrow> dispatchLeased cfg d ctx request policy ledger identity lease)
        })
   }"

text \<open>From the authorised request to the new ledger.\<close>

definition dispatchNew ::
  "Config \<Rightarrow> 'w Dependencies \<Rightarrow> ctxt \<Rightarrow> Request \<Rightarrow> RepositoryPolicy \<Rightarrow> string \<Rightarrow> ('w jst, Result \<times> jerr option) state" where
  "dispatchNew cfg d ctx request policy requestID = do {
     a \<leftarrow> verifyAuthority d ctx request policy;
     (case a of
        Inl err \<Rightarrow> ret (noResult, Some err)
      | Inr trustedSHA \<Rightarrow> do {
          random \<leftarrow> quiet (dp_Random d);
          (case NewIdentity random of
             Inl err \<Rightarrow> ret (noResult, Some err)
           | Inr identity \<Rightarrow> do {
               c \<leftarrow> labelExists d ctx (rq_Repository request) (id_Label identity);
               (case c of
                  Inl err \<Rightarrow> ret (noResult, Some (Wrap ''check runner label'' [err]))
                | Inr collision \<Rightarrow>
                    if collision then ret (noResult, Some (errf ''runner label collision''))
                    else do {
                      ledger \<leftarrow> newLedger d requestID request policy trustedSHA identity;
                      dispatchFresh cfg d ctx request policy ledger identity
                    })
             })
        })
   }"

text \<open>From the held machine lock on.\<close>

definition dispatchLocked :: "Config \<Rightarrow> 'w Dependencies \<Rightarrow> ctxt \<Rightarrow> Request \<Rightarrow> RepositoryPolicy \<Rightarrow> ('w jst, Result \<times> jerr option) state" where
  "dispatchLocked cfg d ctx request policy = do {
     e \<leftarrow> reconcileStartup cfg d ctx;
     (case e of
        Some err \<Rightarrow> ret (noResult, Some (Wrap ''startup reconciliation failed closed'' [err]))
      | None \<Rightarrow> do {
          let requestID = RequestID (dp_sha256hex d) request;
          (replayed, found, e) \<leftarrow> replay d requestID request;
          (if found \<or> e \<noteq> None then ret (replayed, e)
           else dispatchNew cfg d ctx request policy requestID)
        })
   }"

definition Dispatch :: "Config \<Rightarrow> 'w Dependencies \<Rightarrow> ctxt \<Rightarrow> Request \<Rightarrow> ('w jst, Result \<times> jerr option) state" where
  "Dispatch cfg d ctx request =
     (case Policy cfg (rq_Repository request) of
        None \<Rightarrow> ret (noResult, Some (invalid ''repository is not allowlisted''))
      | Some policy \<Rightarrow>
     (case ValidateRequest request policy of
        Some err \<Rightarrow> ret (noResult, Some err)
      | None \<Rightarrow> do {
     e \<leftarrow> Preflight (dp_Runner d) cfg;
     (case e of
        Some err \<Rightarrow> ret (noResult, Some (Wrap ''local isolation preflight failed'' [err]))
      | None \<Rightarrow> do {
     e \<leftarrow> quiet (gt_Preflight (dp_Gate d) (cfg_GuardExecutable cfg));
     (case e of
        Some err \<Rightarrow> ret (noResult, Some (Wrap ''local Guard preflight failed'' [err]))
      | None \<Rightarrow> do {
     queueCtx \<leftarrow> timeout ctx (cfg_QueueWait cfg);
     e \<leftarrow> quiet (dp_AcquireQueue d queueCtx MachineLockPath (cfg_QueuePoll cfg));
     (case e of
        Some err \<Rightarrow> ret (noResult, Some err)
      | None \<Rightarrow> do {
          r \<leftarrow> dispatchLocked cfg d ctx request policy;
          _ \<leftarrow> quiet (dp_CloseQueue d);
          ret r
        })
     })})}))"

end
