(* ===== verification/Jit_Evidence.thy ===== *)
theory Jit_Evidence
  imports Jit_Dispatcher
begin

text \<open>
  The vocabulary in which the dispatcher's safety is stated, and its algebra.

  A dispatch owns one ledger. The fields of it that never change are its \<open>core\<close>; its flags
  \<open>RunTerminal\<close>, \<open>RunnerGone\<close> and \<open>IsolationGone\<close> claim that nothing is left running.
  \<open>call_ok\<close> says what must be durable, or just observed, when a call with consequences is
  made. \<open>honest\<close> says that a flag is only ever set on evidence: after each call that may have
  left something running there is, later in the trace, the answer that proves it is gone.
  \<open>advance\<close> is both for a stretch of execution, together with the frame: no other ledger is
  touched. It is transitive, so each operation of the dispatcher is shown to be an \<open>advance\<close>
  from those it calls.
\<close>

section \<open>The fixed part of a ledger\<close>

definition core :: "Ledger \<Rightarrow> Ledger" where
  "core l = l\<lparr>l_RunID := 0, l_JobID := 0, l_RunnerID := 0, l_ProcessPID := 0, l_ProcessStart := 0,
     l_ProcessGroup := 0, l_CgroupPath := [], l_IsolationID := [], l_IsolationBase := [],
     l_RunTerminal := False, l_RunnerGone := False, l_IsolationGone := False, l_CleanupComplete := False,
     l_Status := StatusPrepared, l_UpdatedAt := 0, l_FailureCode := []\<rparr>"

lemma core_update [simp]:
  "core (l\<lparr>l_RunID := i\<rparr>) = core l" "core (l\<lparr>l_JobID := i\<rparr>) = core l" "core (l\<lparr>l_RunnerID := i\<rparr>) = core l"
  "core (l\<lparr>l_ProcessPID := i\<rparr>) = core l" "core (l\<lparr>l_ProcessStart := n\<rparr>) = core l"
  "core (l\<lparr>l_ProcessGroup := i\<rparr>) = core l" "core (l\<lparr>l_CgroupPath := z\<rparr>) = core l"
  "core (l\<lparr>l_IsolationID := z\<rparr>) = core l" "core (l\<lparr>l_IsolationBase := z\<rparr>) = core l"
  "core (l\<lparr>l_RunTerminal := b\<rparr>) = core l" "core (l\<lparr>l_RunnerGone := b\<rparr>) = core l"
  "core (l\<lparr>l_IsolationGone := b\<rparr>) = core l" "core (l\<lparr>l_CleanupComplete := b\<rparr>) = core l"
  "core (l\<lparr>l_Status := st\<rparr>) = core l" "core (l\<lparr>l_UpdatedAt := i\<rparr>) = core l"
  "core (l\<lparr>l_FailureCode := z\<rparr>) = core l"
  by (simp_all add: core_def)

lemma core_fields [simp]:
  "l_RequestID (core l) = l_RequestID l" "l_Repository (core l) = l_Repository l"
  "l_CandidateRef (core l) = l_CandidateRef l" "l_CandidateSHA (core l) = l_CandidateSHA l"
  "l_TrustedSHA (core l) = l_TrustedSHA l" "l_Workflow (core l) = l_Workflow l"
  "l_Nonce (core l) = l_Nonce l" "l_RunnerLabel (core l) = l_RunnerLabel l"
  "l_RunnerName (core l) = l_RunnerName l" "l_WorkFolder (core l) = l_WorkFolder l"
  "l_LeaseID (core l) = l_LeaseID l"
  by (simp_all add: core_def)

lemma core_eqD:
  assumes "core l = core m"
  shows "l_RequestID l = l_RequestID m" "l_Repository l = l_Repository m"
    "l_CandidateRef l = l_CandidateRef m" "l_CandidateSHA l = l_CandidateSHA m"
    "l_TrustedSHA l = l_TrustedSHA m" "l_Workflow l = l_Workflow m"
    "l_Nonce l = l_Nonce m" "l_RunnerLabel l = l_RunnerLabel m" "l_RunnerName l = l_RunnerName m"
    "l_WorkFolder l = l_WorkFolder m" "l_LeaseID l = l_LeaseID m" "ledger_identity l = ledger_identity m"
  using assms unfolding ledger_identity_def by (metis core_fields)+

section \<open>Calls with consequences\<close>

text \<open>The ledger of the request \<open>c\<close> is in the directory \<open>D\<close> and satisfies \<open>P\<close>.\<close>

definition holds :: "ledger_dir \<Rightarrow> Ledger \<Rightarrow> (Ledger \<Rightarrow> bool) \<Rightarrow> bool" where
  "holds D c P \<longleftrightarrow> (case map_of D (l_RequestID c) of None \<Rightarrow> False | Some L \<Rightarrow> core L = c \<and> \<not> l_CleanupComplete L \<and> P L)"

fun call_ok :: "Ledger \<Rightarrow> (jevent \<times> ledger_dir) list \<Rightarrow> jevent \<times> ledger_dir \<Rightarrow> bool" where
  "call_ok c pre (EvDispatchWorkflow repo workflow ref inputs r, D) \<longleftrightarrow>
     holds D c (\<lambda>L. \<not> l_RunTerminal L \<and> l_Status L = StatusDispatching \<and> l_RunID L = 0 \<and>
       repo = l_Repository L \<and> workflow = l_Workflow L \<and>
       inputs = [(''candidate_sha'', l_CandidateSHA L), (''candidate_ref'', l_CandidateRef L),
                 (''dispatch_nonce'', l_Nonce L), (''runner_label'', l_RunnerLabel L)])"
| "call_ok c pre (EvGenerateJIT repo identity groupID r, D) \<longleftrightarrow>
     holds D c (\<lambda>L. \<not> l_RunnerGone L \<and> \<not> l_RunTerminal L \<and> l_Status L = StatusRunBound \<and> 0 < l_RunID L \<and>
       0 < l_JobID L \<and> repo = l_Repository L \<and> identity = ledger_identity L)"
| "call_ok c pre (EvDriverStart lease args r, D) \<longleftrightarrow>
     (args \<noteq> [] \<and> hd args = ''run'' \<longrightarrow>
        holds D c (\<lambda>L. \<not> l_IsolationGone L \<and> \<not> l_RunnerGone L \<and> \<not> l_RunTerminal L \<and>
          l_Status L = StatusJITCreated \<and> 0 < l_RunnerID L \<and> lease = l_LeaseID L))"
| "call_ok c pre (EvDriverInput lease, D) \<longleftrightarrow>
     holds D c (\<lambda>L. \<not> l_IsolationGone L \<and> l_Status L = StatusIsolationReady \<and> l_IsolationID L \<noteq> [] \<and> lease = l_LeaseID L)"
| "call_ok c pre (EvDeleteRunner repo runnerID r, D) \<longleftrightarrow>
     repo = l_Repository c \<and> pre \<noteq> [] \<and>
     (case fst (last pre) of
        EvGetRunner repo' runnerID' (Inr (Some runner)) \<Rightarrow>
          repo' = repo \<and> runnerID' = runnerID \<and> rr_ID runner = runnerID \<and> rr_Name runner = l_RunnerName c \<and>
          runnerHasLabel runner (l_RunnerLabel c)
      | _ \<Rightarrow> False)"
| "call_ok c pre (EvCancelRun repo runID r, D) \<longleftrightarrow>
     repo = l_Repository c \<and> pre \<noteq> [] \<and>
     (case fst (last pre) of
        EvGetRun repo' runID' (Inr run) \<Rightarrow>
          repo' = repo \<and> runID' = runID \<and> wr_Event run = ''workflow_dispatch'' \<and> wr_HeadSHA run = l_TrustedSHA c \<and>
          wr_DisplayTitle run = ''CIVM JIT '' @ l_Nonce c \<and> nonterminalStatus (wr_Status run)
      | _ \<Rightarrow> False)"
| "call_ok c pre (EvGateAcquire _ _, D) \<longleftrightarrow> False"
| "call_ok c pre (EvGateRelease _ _, D) \<longleftrightarrow> False"
| "call_ok c pre (EvGateAbandon _, D) \<longleftrightarrow> False"
| "call_ok c pre (EvGateOrphan _, D) \<longleftrightarrow> False"
| "call_ok c pre (EvGateReleaseOrphan _ _, D) \<longleftrightarrow> False"
| "call_ok c pre _ \<longleftrightarrow> True"

fun sound_from :: "Ledger \<Rightarrow> (jevent \<times> ledger_dir) list \<Rightarrow> (jevent \<times> ledger_dir) list \<Rightarrow> bool" where
  "sound_from c pre [] \<longleftrightarrow> True"
| "sound_from c pre (e # evs) \<longleftrightarrow> call_ok c pre e \<and> sound_from c (pre @ [e]) evs"

abbreviation sound :: "Ledger \<Rightarrow> (jevent \<times> ledger_dir) list \<Rightarrow> bool" where
  "sound c \<equiv> sound_from c []"

lemma call_ok_more: "call_ok c pre e \<Longrightarrow> call_ok c (pre' @ pre) e"
proof (cases e)
  case (Pair ev D)
  assume "call_ok c pre e"
  then show ?thesis unfolding Pair by (cases ev) (auto split: jevent.splits)
qed

lemma sound_from_more: "sound_from c pre evs \<Longrightarrow> sound_from c (pre' @ pre) evs"
proof (induction evs arbitrary: pre)
  case (Cons e evs)
  then show ?case using call_ok_more Cons.IH [of "pre @ [e]"] by simp
qed simp

lemma sound_from_append: "sound_from c pre (a @ b) \<longleftrightarrow> sound_from c pre a \<and> sound_from c (pre @ a) b"
  by (induction a arbitrary: pre) auto

lemma sound_append: "sound c a \<Longrightarrow> sound c b \<Longrightarrow> sound c (a @ b)"
  using sound_from_more [of c "[]" b a] by (simp add: sound_from_append)

lemma soundD: "sound c (pre @ e # post) \<Longrightarrow> call_ok c pre e"
  by (simp add: sound_from_append)

section \<open>What a call leaves behind, and what proves it gone\<close>

fun settles :: "(jevent \<Rightarrow> bool) \<Rightarrow> (jevent \<Rightarrow> bool) \<Rightarrow> (jevent \<times> ledger_dir) list \<Rightarrow> bool" where
  "settles owed evidence [] \<longleftrightarrow> True"
| "settles owed evidence (e # evs) \<longleftrightarrow>
     settles owed evidence evs \<and> (owed (fst e) \<longrightarrow> (\<exists>x \<in> set evs. evidence (fst x)))"

lemma settles_append: "settles o' p a \<Longrightarrow> settles o' p b \<Longrightarrow> settles o' p (a @ b)"
  by (induction a) auto

lemma settles_none: "\<forall>x \<in> set evs. \<not> o' (fst x) \<Longrightarrow> settles o' p evs"
  by (induction evs) auto

lemma settles_more: "settles o' p a \<Longrightarrow> \<forall>x \<in> set b. \<not> o' (fst x) \<Longrightarrow> settles o' p (a @ b)"
  by (simp add: settles_append settles_none)

lemma settles_evidence: "\<exists>x \<in> set b. p (fst x) \<Longrightarrow> settles o' p b \<Longrightarrow> settles o' p (a @ b)"
  by (induction a) auto

lemma settles_owed: "settles o' p (e # evs) \<Longrightarrow> o' (fst e) \<Longrightarrow> \<exists>x \<in> set evs. p (fst x)"
  by simp

fun run_owed :: "jevent \<Rightarrow> bool" where
  "run_owed (EvDispatchWorkflow _ _ _ _ (Inl err)) = errors_Is err ErrAmbiguous"
| "run_owed (EvDispatchWorkflow _ _ _ _ (Inr _)) = True"
| "run_owed _ = False"

fun run_evidence :: "Config \<Rightarrow> Ledger \<Rightarrow> jevent \<Rightarrow> bool" where
  "run_evidence cfg l (EvGetRun repo runID (Inr run)) \<longleftrightarrow>
     repo = l_Repository l \<and> runID = l_RunID l \<and> wr_Status run = ''completed'' \<and> wr_Conclusion run \<noteq> [] \<and>
     (case Policy cfg repo of
        None \<Rightarrow> False
      | Some policy \<Rightarrow> validateRunIdentity run policy (l_TrustedSHA l) (l_Nonce l) = None)"
| "run_evidence cfg l _ \<longleftrightarrow> False"

fun runner_owed :: "jevent \<Rightarrow> bool" where
  "runner_owed (EvGenerateJIT _ _ _ (Inl err)) = (\<not> authoritativeJITRejection err)"
| "runner_owed (EvGenerateJIT _ _ _ (Inr _)) = True"
| "runner_owed _ = False"

fun runner_evidence :: "Ledger \<Rightarrow> jevent \<Rightarrow> bool" where
  "runner_evidence l (EvGetRunner repo runnerID (Inr None)) \<longleftrightarrow>
     repo = l_Repository l \<and> runnerID = l_RunnerID l \<and> runnerID \<noteq> 0"
| "runner_evidence l _ \<longleftrightarrow> False"

fun isolation_owed :: "jevent \<Rightarrow> bool" where
  "isolation_owed (EvDriverStart _ args _) = (args \<noteq> [] \<and> hd args = ''run'')"
| "isolation_owed _ = False"

fun isolation_evidence :: "Config \<Rightarrow> Ledger \<Rightarrow> jevent \<Rightarrow> bool" where
  "isolation_evidence cfg l (EvReceipt lease (Inr r)) \<longleftrightarrow>
     lease = l_LeaseID l \<and> validDestroyedReceipt r lease [] (cfg_BaseImageSHA256 cfg)"
| "isolation_evidence cfg l _ \<longleftrightarrow> False"

definition honest :: "Config \<Rightarrow> Ledger \<Rightarrow> (jevent \<times> ledger_dir) list \<Rightarrow> bool" where
  "honest cfg l evs \<longleftrightarrow>
     (l_RunTerminal l \<longrightarrow> settles run_owed (run_evidence cfg l) evs) \<and>
     (l_RunnerGone l \<longrightarrow> settles runner_owed (runner_evidence l) evs) \<and>
     (l_IsolationGone l \<longrightarrow> settles isolation_owed (isolation_evidence cfg l) evs)"

text \<open>Calls that need no precaution and leave nothing behind.\<close>

fun harmless :: "jevent \<Rightarrow> bool" where
  "harmless (EvDispatchWorkflow _ _ _ _ _) = False"
| "harmless (EvGenerateJIT _ _ _ _) = False"
| "harmless (EvDriverStart _ args _) = (args = [] \<or> hd args \<noteq> ''run'')"
| "harmless (EvDriverInput _) = False"
| "harmless (EvDeleteRunner _ _ _) = False"
| "harmless (EvCancelRun _ _ _) = False"
| "harmless (EvGateAcquire _ _) = False"
| "harmless (EvGateRelease _ _) = False"
| "harmless (EvGateAbandon _) = False"
| "harmless (EvGateOrphan _) = False"
| "harmless (EvGateReleaseOrphan _ _) = False"
| "harmless _ = True"

lemma harmless_call_ok: "harmless ev \<Longrightarrow> call_ok c pre (ev, D)"
  by (cases ev) auto

lemma harmless_owed: "harmless ev \<Longrightarrow> \<not> run_owed ev \<and> \<not> runner_owed ev \<and> \<not> isolation_owed ev"
  by (cases ev) auto

lemma sound_harmless: "\<forall>e \<in> set evs. harmless (fst e) \<Longrightarrow> sound_from c pre evs"
  by (induction evs arbitrary: pre) (auto simp: harmless_call_ok)

section \<open>A stretch of a dispatch\<close>

text \<open>\<open>near c D E\<close>: the directories differ at most in the ledger of \<open>c\<close>, which is then one of \<open>c\<close>'s.\<close>

definition near :: "Ledger \<Rightarrow> ledger_dir \<Rightarrow> ledger_dir \<Rightarrow> bool" where
  "near c D E \<longleftrightarrow> (\<forall>k. k \<noteq> l_RequestID c \<longrightarrow> map_of E k = map_of D k) \<and>
     (map_of E (l_RequestID c) = map_of D (l_RequestID c) \<or> (\<exists>L. map_of E (l_RequestID c) = Some L \<and> core L = c)) \<and>
     (wf_dir D \<longrightarrow> wf_dir E)"

lemma near_refl [simp]: "near c D D"
  by (simp add: near_def)

lemma near_trans: "near c D E \<Longrightarrow> near c E F \<Longrightarrow> near c D F"
  by (auto simp: near_def)

definition advance :: "Config \<Rightarrow> 'w jst \<Rightarrow> Ledger \<Rightarrow> 'w jst \<Rightarrow> Ledger \<Rightarrow> bool" where
  "advance cfg s l t l' \<longleftrightarrow>
     grows s t \<and> core l' = core l \<and>
     near (core l) (st_disk s) (st_disk t) \<and> (\<forall>e \<in> set (since s t). near (core l) (st_disk s) (snd e)) \<and>
     sound (core l) (since s t) \<and>
     (\<forall>evs. honest cfg l evs \<longrightarrow> honest cfg l' (evs @ since s t))"

lemma advance_grows: "advance cfg s l t l' \<Longrightarrow> grows s t"
  by (simp add: advance_def)

lemma advance_core: "advance cfg s l t l' \<Longrightarrow> core l' = core l"
  by (simp add: advance_def)

lemma advance_refl [simp]: "advance cfg s l s l"
  by (simp add: advance_def)

lemma advance_trans:
  assumes a: "advance cfg s l t l'" and b: "advance cfg t l' u l''"
  shows "advance cfg s l u l''"
proof -
  have su: "since s u = since s t @ since t u" using since_trans a b unfolding advance_def by blast
  have c: "core l' = core l" using a by (simp add: advance_def)
  have "near (core l) (st_disk s) (snd e)" if "e \<in> set (since t u)" for e
    using a b that c near_trans unfolding advance_def by metis
  moreover have "near (core l) (st_disk s) (st_disk u)"
    using a b c near_trans unfolding advance_def by metis
  moreover have "honest cfg l'' (evs @ since s u)" if "honest cfg l evs" for evs
    using a b that unfolding su advance_def append_assoc [symmetric] by blast
  ultimately show ?thesis
    using a b c sound_append grows_trans unfolding advance_def su by auto
qed

section \<open>Steps of a dispatch\<close>

lemma advance_frame:
  assumes "grows s t" "st_disk t = st_disk s" "sound (core l) (since s t)"
    and "\<forall>e \<in> set (since s t). snd e = st_disk s \<and> (run_owed (fst e) \<longrightarrow> \<not> l_RunTerminal l) \<and>
       (runner_owed (fst e) \<longrightarrow> \<not> l_RunnerGone l) \<and> (isolation_owed (fst e) \<longrightarrow> \<not> l_IsolationGone l)"
  shows "advance cfg s l t l"
  using assms by (auto simp: advance_def honest_def intro!: settles_more)

lemma advance_observes: "observes E s t \<Longrightarrow> (\<And>ev. E ev \<Longrightarrow> harmless ev) \<Longrightarrow> advance cfg s l t l"
  by (rule advance_frame) (auto simp: observes_def intro!: sound_harmless dest: harmless_owed)

lemma advance_quiet: "observes (\<lambda>_. False) s t \<Longrightarrow> advance cfg s l t l"
  by (erule advance_observes) simp

lemma advance_call:
  assumes "observes (\<lambda>ev'. ev' = ev) s t" "since s t = [(ev, st_disk s)]" "call_ok (core l) [] (ev, st_disk s)"
    and "run_owed ev \<Longrightarrow> \<not> l_RunTerminal l" "runner_owed ev \<Longrightarrow> \<not> l_RunnerGone l" "isolation_owed ev \<Longrightarrow> \<not> l_IsolationGone l"
  shows "advance cfg s l t l"
  using assms by (intro advance_frame) (auto simp: observes_def)

text \<open>Changes of the ledger in memory that claim nothing new.\<close>

definition eases :: "Ledger \<Rightarrow> Ledger \<Rightarrow> bool" where
  "eases l l' \<longleftrightarrow> core l' = core l \<and> (l_RunTerminal l' \<longrightarrow> l_RunTerminal l \<and> l_RunID l' = l_RunID l) \<and>
     (l_RunnerGone l' \<longrightarrow> l_RunnerGone l \<and> l_RunnerID l' = l_RunnerID l) \<and> (l_IsolationGone l' \<longrightarrow> l_IsolationGone l)"

lemma run_evidence_cong:
  "core l' = core l \<Longrightarrow> l_RunID l' = l_RunID l \<Longrightarrow> run_evidence cfg l' = run_evidence cfg l"
  by (rule ext, rename_tac ev, case_tac "(cfg, l, ev)" rule: run_evidence.cases)
     (auto simp: core_eqD [of l' l] split: option.splits)

lemma runner_evidence_cong:
  "core l' = core l \<Longrightarrow> l_RunnerID l' = l_RunnerID l \<Longrightarrow> runner_evidence l' = runner_evidence l"
  by (rule ext, rename_tac ev, case_tac "(l, ev)" rule: runner_evidence.cases) (auto simp: core_eqD [of l' l])

lemma isolation_evidence_cong: "core l' = core l \<Longrightarrow> isolation_evidence cfg l' = isolation_evidence cfg l"
  by (rule ext, rename_tac ev, case_tac "(cfg, l, ev)" rule: isolation_evidence.cases) (auto simp: core_eqD [of l' l])

lemma honest_eases: "eases l l' \<Longrightarrow> honest cfg l evs \<Longrightarrow> honest cfg l' evs"
  unfolding eases_def honest_def
  by (auto simp: run_evidence_cong [of l' l] runner_evidence_cong [of l' l] isolation_evidence_cong [of l' l])

lemma advance_eases: "eases l l' \<Longrightarrow> advance cfg s l s l'"
  using honest_eases [of l l' cfg] by (auto simp: advance_def eases_def)

lemma near_update:
  "core l = c \<Longrightarrow> validateLedger l (l_RequestID l) = None \<Longrightarrow> near c D (AList.update (l_RequestID l) l D)"
  by (auto simp: near_def update_conv wf_dir_update)

lemma saved_events: "saved l e s t \<Longrightarrow> x \<in> set (since s t) \<Longrightarrow> harmless (fst x) \<and> snd x = st_disk s"
  by (auto simp: saved_def)

lemma saved_near: "saved l e s t \<Longrightarrow> near (core l) (st_disk s) (st_disk t)"
  by (auto simp: saved_def Let_def near_update split: if_splits)

lemma advance_saved_same:
  assumes "saved l e s t"
  shows "advance cfg s l t l"
proof -
  have ev: "\<forall>x \<in> set (since s t). harmless (fst x) \<and> snd x = st_disk s \<and>
      \<not> run_owed (fst x) \<and> \<not> runner_owed (fst x) \<and> \<not> isolation_owed (fst x)"
    using saved_events [OF assms] harmless_owed by blast
  then show ?thesis
    unfolding advance_def honest_def
    by (auto simp: saved_grows [OF assms] saved_near [OF assms] intro!: sound_harmless settles_more)
qed

lemma advance_saved: "eases l l' \<Longrightarrow> saved l' e s t \<Longrightarrow> advance cfg s l t l'"
  by (rule advance_trans [OF advance_eases advance_saved_same])

section \<open>Setting a flag on evidence\<close>

lemma honest_run_terminal:
  assumes "advance cfg s l t l'" "x \<in> set (since s t)" "run_evidence cfg l' (fst x)"
    "\<forall>y \<in> set (since s t). \<not> run_owed (fst y)"
  shows "advance cfg s l t (l'\<lparr>l_RunTerminal := True\<rparr>)"
proof -
  have "settles run_owed (run_evidence cfg l') (evs @ since s t)" for evs
    using assms(2-4) by (intro settles_evidence settles_none) auto
  then show ?thesis
    using assms(1) run_evidence_cong [of "l'\<lparr>l_RunTerminal := True\<rparr>" l' cfg]
      runner_evidence_cong [of "l'\<lparr>l_RunTerminal := True\<rparr>" l'] isolation_evidence_cong [of "l'\<lparr>l_RunTerminal := True\<rparr>" l' cfg]
    by (simp add: advance_def honest_def)
qed

lemma honest_runner_gone:
  assumes "advance cfg s l t l'" "x \<in> set (since s t)" "runner_evidence l' (fst x)"
    "\<forall>y \<in> set (since s t). \<not> runner_owed (fst y)"
  shows "advance cfg s l t (l'\<lparr>l_RunnerGone := True\<rparr>)"
proof -
  have "settles runner_owed (runner_evidence l') (evs @ since s t)" for evs
    using assms(2-4) by (intro settles_evidence settles_none) auto
  then show ?thesis
    using assms(1) run_evidence_cong [of "l'\<lparr>l_RunnerGone := True\<rparr>" l' cfg]
      runner_evidence_cong [of "l'\<lparr>l_RunnerGone := True\<rparr>" l'] isolation_evidence_cong [of "l'\<lparr>l_RunnerGone := True\<rparr>" l' cfg]
    by (simp add: advance_def honest_def)
qed

lemma session_not_owed: "session_event lease ev \<Longrightarrow> \<not> isolation_owed ev"
  by (cases ev) auto

lemma proved_settles:
  assumes "proved lease r evs" "\<And>ev. ev = EvReceipt lease (Inr r) \<Longrightarrow> p ev"
  shows "settles isolation_owed p (a @ evs)"
proof -
  have "settles isolation_owed p evs"
    using assms
  proof (induction evs)
    case (Cons e evs)
    then show ?case
    proof (cases "proved lease r evs")
      case True
      then obtain D where "(EvReceipt lease (Inr r), D) \<in> set evs"
        using proved_occurs [OF True] by (auto simp: occurs_def)
      with True Cons show ?thesis by force
    next
      case False
      with Cons.prems show ?thesis by (cases e) (auto intro!: settles_none dest: session_not_owed)
    qed
  qed simp
  moreover have "\<exists>x \<in> set evs. p (fst x)" using proved_occurs [OF assms(1)] assms(2) by (force simp: occurs_def)
  ultimately show ?thesis by (rule settles_evidence [rotated])
qed

lemma honest_isolation_gone:
  assumes "advance cfg s l t l'" "proved (l_LeaseID l') r (since s t)"
    "validDestroyedReceipt r (l_LeaseID l') isolation (cfg_BaseImageSHA256 cfg)"
  shows "advance cfg s l t (clear_process l')"
proof -
  have core: "core (clear_process l') = core l'" by (simp add: clear_process_def)
  have "validDestroyedReceipt r (l_LeaseID l') [] (cfg_BaseImageSHA256 cfg)"
    using assms(3) by (auto simp: validDestroyedReceipt_def)
  then have "settles isolation_owed (isolation_evidence cfg l') (evs @ since s t)" for evs
    by (intro proved_settles [OF assms(2)]) auto
  moreover have "l_RunID (clear_process l') = l_RunID l'" "l_RunnerID (clear_process l') = l_RunnerID l'"
    "l_RunTerminal (clear_process l') = l_RunTerminal l'" "l_RunnerGone (clear_process l') = l_RunnerGone l'"
    by (simp_all add: clear_process_def)
  ultimately show ?thesis
    using assms(1) run_evidence_cong [of "clear_process l'" l' cfg]
      runner_evidence_cong [of "clear_process l'" l'] isolation_evidence_cong [of "clear_process l'" l' cfg] core
    by (simp add: advance_def honest_def)
qed

section \<open>Polling\<close>

lemma wp_poll:
  assumes refl: "\<And>s. R s s" and trans: "\<And>s t u. R s t \<Longrightarrow> R t u \<Longrightarrow> R s u"
    and sleeps: "\<And>s t. observes (\<lambda>_. False) s t \<Longrightarrow> R s t"
    and turn: "\<And>c s. wp (turn c) (\<lambda>x t. case x of Inl r \<Rightarrow> Q s r t | Inr _ \<Rightarrow> R s t) s"
    and on_err: "\<And>err s. wp (on_err err) (Q s) s"
    and comp: "\<And>s t r u. R s t \<Longrightarrow> Q t r u \<Longrightarrow> Q s r u"
    and stop: "\<And>s. Q s exhausted s"
  shows "wp (poll ctx interval on_err turn exhausted c) (Q s) s"
proof -
  have "wp (poll_loop n (sleepContext ctx interval) on_err turn c) (\<lambda>r t. Q s (case r of Some x \<Rightarrow> x | None \<Rightarrow> exhausted) t) s" for n
  proof (rule wp_poll_loop [where I = "\<lambda>_. R s" and J = "\<lambda>_. R s"])
    fix c t
    assume t: "R s t"
    show "wp (turn c) (\<lambda>x u. case x of Inl r \<Rightarrow> Q s (case Some r of Some x \<Rightarrow> x | None \<Rightarrow> exhausted) u | Inr _ \<Rightarrow> R s u) t"
      by (rule wp_mono [OF turn]) (auto split: sum.splits intro: comp [OF t] trans [OF t])
    show "wp (sleepContext ctx interval)
       (\<lambda>e u. case e of None \<Rightarrow> R s u
          | Some err \<Rightarrow> wp (on_err err) (\<lambda>r. Q s (case Some r of Some x \<Rightarrow> x | None \<Rightarrow> exhausted)) u) t"
    proof (rule wp_sleepContext_observes)
      fix e u
      assume "observes (\<lambda>_. False) t u"
      then have u: "R s u" using trans [OF t] sleeps by blast
      then show "case e of None \<Rightarrow> R s u
          | Some err \<Rightarrow> wp (on_err err) (\<lambda>r. Q s (case Some r of Some x \<Rightarrow> x | None \<Rightarrow> exhausted)) u"
        by (auto split: option.split intro!: wp_mono [OF on_err] intro: comp [OF u])
    qed
    show "Q s (case None of Some x \<Rightarrow> x | None \<Rightarrow> exhausted) t" by (simp add: comp [OF t stop])
  qed (rule refl)
  then show ?thesis by (simp add: poll_def)
qed

end
