(* ===== verification/Jit_Cleanup.thy ===== *)
theory Jit_Cleanup
  imports Jit_Evidence
begin

text \<open>
  What the dispatcher's waits and its cleanup establish. Each wait that succeeds rests on an
  answer in the trace; \<open>cleanupLedger\<close>, \<open>finishError\<close> and \<open>finishWithoutLease\<close> are an
  \<open>advance\<close> of the ledger, and a ledger they leave with \<open>CleanupComplete\<close> is durable.
\<close>

section \<open>The waits\<close>

lemma wp_getRun:
  "(\<And>r t. observes (\<lambda>ev. ev = EvGetRun repo runID r) s t \<Longrightarrow> since s t = [(EvGetRun repo runID r, st_disk s)] \<Longrightarrow> Q r t) \<Longrightarrow>
   wp (getRun d ctx repo runID) Q s"
  unfolding getRun_def by (rule wp_call_observes)

lemma wp_resolveRef:
  "(\<And>r t. observes (\<lambda>ev. ev = EvResolveRef repo ref r) s t \<Longrightarrow> since s t = [(EvResolveRef repo ref r, st_disk s)] \<Longrightarrow> Q r t) \<Longrightarrow>
   wp (resolveRef d ctx repo ref) Q s"
  unfolding resolveRef_def by (rule wp_call_observes)

text \<open>A wait whose turns only look: the relation carried is \<open>observes harmless\<close>.\<close>

lemma wp_poll_observes:
  assumes turn: "\<And>c s. wp (turn c) (\<lambda>x t. observes harmless s t \<and> (\<forall>r. x = Inl r \<longrightarrow> P r (since s t))) s"
    and on_err: "\<And>err s. wp (on_err err) (\<lambda>r t. observes harmless s t \<and> P r (since s t)) s"
    and more: "\<And>r a b. P r b \<Longrightarrow> P r (a @ b)"
    and stop: "P exhausted []"
  shows "wp (poll ctx interval on_err turn exhausted c) (\<lambda>r t. observes harmless s t \<and> P r (since s t)) s"
proof (rule wp_poll [where R = "observes harmless" and Q = "\<lambda>s r t. observes harmless s t \<and> P r (since s t)"])
  show "wp (turn c) (\<lambda>x t. case x of Inl r \<Rightarrow> observes harmless s t \<and> P r (since s t) | Inr _ \<Rightarrow> observes harmless s t) s" for c s
    by (rule wp_mono [OF turn]) (auto split: sum.split)
  show "observes harmless s t" if "observes (\<lambda>_. False) s t" for s t using that by (rule observes_mono) simp
  show "observes harmless s u \<and> P r (since s u)"
    if "observes harmless s t" "observes harmless t u \<and> P r (since t u)" for s t r u
    using that since_trans [OF observes_grows observes_grows] more observes_trans by metis
qed (auto intro: observes_trans on_err stop)

lemma waitForRun_spec:
  "wp (waitForRun cfg d ctx repo policy l identity) (\<lambda>r t. observes harmless s t \<and>
     (\<forall>run. r = Inr run \<longrightarrow> validateBoundRun run policy (l_TrustedSHA l) (id_Nonce identity) = None \<and>
        occurs (EvGetRun repo (l_RunID l) (Inr run)) (since s t))) s"
proof -
  let ?P = "\<lambda>r evs. \<forall>run. r = Inr run \<longrightarrow> validateBoundRun run policy (l_TrustedSHA l) (id_Nonce identity) = None \<and>
        occurs (EvGetRun repo (l_RunID l) (Inr run)) evs"
  have "wp (poll bindCtx i (\<lambda>_. ret (Inl e)) (waitForRun_turn d bindCtx repo policy l identity) (Inl e') ())
      (\<lambda>r t. observes harmless s t \<and> ?P r (since s t)) s" for bindCtx i e e'
    by (rule wp_poll_observes)
       (auto simp: waitForRun_turn_def intro!: wp_getRun intro: observes_mono split: sum.splits option.splits if_splits)
  then show ?thesis by (simp add: waitForRun_def)
qed

lemma waitForJob_spec:
  "wp (waitForJob cfg d ctx repo policy runID label) (\<lambda>r t. observes harmless s t \<and>
     (\<forall>job. r = Inr job \<longrightarrow> 0 < wj_ID job \<and> wj_Name job = rp_JobName policy \<and> wj_Labels job = [label] \<and>
        occurs (EvListJobs repo runID (Inr [job])) (since s t))) s"
proof -
  let ?P = "\<lambda>r evs. \<forall>job. r = Inr job \<longrightarrow> 0 < wj_ID job \<and> wj_Name job = rp_JobName policy \<and> wj_Labels job = [label] \<and>
        occurs (EvListJobs repo runID (Inr [job])) evs"
  have "wp (poll bindCtx i (\<lambda>_. ret (Inl e)) (waitForJob_turn d bindCtx repo policy runID label) (Inl e') ())
      (\<lambda>r t. observes harmless s t \<and> ?P r (since s t)) s" for bindCtx i e e'
    by (rule wp_poll_observes)
       (auto simp: waitForJob_turn_def intro!: wp_call_observes intro: observes_mono split: sum.splits list.splits if_splits)
  then show ?thesis by (simp add: waitForJob_def)
qed

text \<open>The run and its only job completed with success, the job on the generated runner.\<close>

definition executed :: "string \<Rightarrow> Ledger \<Rightarrow> RepositoryPolicy \<Rightarrow> Identity \<Rightarrow> (jevent \<times> ledger_dir) list \<Rightarrow> bool" where
  "executed repo l policy identity evs \<longleftrightarrow>
     (\<exists>run job. occurs (EvGetRun repo (l_RunID l) (Inr run)) evs \<and> occurs (EvGetJob repo (l_JobID l) (Inr job)) evs \<and>
        validateRunIdentity run policy (l_TrustedSHA l) (id_Nonce identity) = None \<and>
        validateExecutedJob job l policy identity = None \<and>
        wr_Status run = ''completed'' \<and> wr_Conclusion run = ''success'' \<and>
        wj_Status job = ''completed'' \<and> wj_Conclusion job = ''success'')"

lemma executed_append: "executed repo l policy identity evs \<Longrightarrow> executed repo l policy identity (a @ evs)"
  by (auto simp: executed_def)

lemma waitForCompletion_turn_spec:
  "wp (waitForCompletion_turn d ctx repo l policy identity c) (\<lambda>x t. observes harmless s t \<and>
     (\<forall>e. x = Inl e \<longrightarrow> (e = None \<longrightarrow> executed repo l policy identity (since s t)))) s"
  unfolding waitForCompletion_turn_def wp_bind
proof (rule wp_getRun, goal_cases)
  case (1 r t)
  then have t: "observes harmless s t" by (auto intro: observes_mono)
  show ?case
  proof (cases "\<exists>run. r = Inr run \<and> validateRunIdentity run policy (l_TrustedSHA l) (id_Nonce identity) = None")
    case True
    then obtain run where run: "r = Inr run" "validateRunIdentity run policy (l_TrustedSHA l) (id_Nonce identity) = None"
      by blast
    have "wp (call (EvGetJob repo (l_JobID l)) f) (\<lambda>j u. observes harmless s u \<and> (\<forall>e.
        (case j of Inl err \<Rightarrow> Inl (Some err) | Inr job \<Rightarrow> completion_verdict run job l policy identity) = Inl e \<longrightarrow>
        (e = None \<longrightarrow> executed repo l policy identity (since s u)))) t" for f
    proof (rule wp_call_observes, goal_cases)
      case (1 j u)
      then have u: "observes harmless t u" by (auto intro: observes_mono)
      have "since s u = since s t @ since t u" by (rule since_trans [OF observes_grows [OF t] observes_grows [OF u]])
      with 1 observes_trans [OF t u] \<open>since s t = _\<close> run show ?case
        by (auto simp: completion_verdict_def executed_def split: sum.splits option.splits if_splits)
    qed
    then show ?thesis using run by simp
  qed (use t in \<open>auto split: sum.split\<close>)
qed

lemma waitForCompletion_spec:
  "wp (waitForCompletion cfg d ctx repo l policy identity) (\<lambda>e t. observes harmless s t \<and>
     (e = None \<longrightarrow> executed repo l policy identity (since s t))) s"
  unfolding waitForCompletion_def
  by (rule wp_poll_observes [OF waitForCompletion_turn_spec]) (auto intro: executed_append)

lemma waitTerminal_spec:
  "wp (waitTerminal cfg d ctx l policy identity) (\<lambda>e t. observes harmless s t \<and>
     (e = None \<longrightarrow> (\<exists>run. occurs (EvGetRun (l_Repository l) (l_RunID l) (Inr run)) (since s t) \<and>
        validateRunIdentity run policy (l_TrustedSHA l) (id_Nonce identity) = None \<and>
        wr_Status run = ''completed'' \<and> wr_Conclusion run \<noteq> []))) s"
  unfolding waitTerminal_def
  by (rule wp_poll_observes)
     (auto simp: waitTerminal_turn_def intro!: wp_getRun intro: observes_mono split: sum.splits if_splits)

section \<open>Stopping the run and the runner\<close>

lemma validateRunIdentity_None:
  "validateRunIdentity run policy sha nonce = None \<Longrightarrow>
     wr_Event run = ''workflow_dispatch'' \<and> wr_HeadSHA run = sha \<and> wr_DisplayTitle run = ''CIVM JIT '' @ nonce"
  by (auto simp: validateRunIdentity_def Let_def split: if_splits)

text \<open>A stretch that observes nothing owed any more, ending with evidence on success.\<close>

definition run_stopped :: "Config \<Rightarrow> Ledger \<Rightarrow> 'w jst \<Rightarrow> jerr option \<Rightarrow> 'w jst \<Rightarrow> bool" where
  "run_stopped cfg l s e t \<longleftrightarrow> advance cfg s l t l \<and> (\<forall>x \<in> set (since s t). \<not> run_owed (fst x)) \<and>
     (e = None \<longrightarrow> (\<exists>x \<in> set (since s t). run_evidence cfg l (fst x)))"

lemma run_stopped_step:
  assumes "advance cfg s l t l" "\<forall>x \<in> set (since s t). \<not> run_owed (fst x)" "run_stopped cfg l t e u"
  shows "run_stopped cfg l s e u"
  using assms since_trans [OF advance_grows advance_grows, of cfg s l t l cfg l u l] advance_trans
  unfolding run_stopped_def by auto

lemma waitTerminal_stopped:
  assumes "Policy cfg (l_Repository l) = Some policy" "id_Nonce identity = l_Nonce l"
  shows "wp (waitTerminal cfg d ctx l policy identity) (run_stopped cfg l s) s"
proof (rule wp_mono [OF waitTerminal_spec], elim conjE)
  fix e :: "jerr option" and t
  assume t: "observes harmless s t"
    and e: "e = None \<longrightarrow> (\<exists>run. occurs (EvGetRun (l_Repository l) (l_RunID l) (Inr run)) (since s t) \<and>
        validateRunIdentity run policy (l_TrustedSHA l) (id_Nonce identity) = None \<and>
        wr_Status run = ''completed'' \<and> wr_Conclusion run \<noteq> [])"
  have "\<exists>x \<in> set (since s t). run_evidence cfg l (fst x)" if "e = None"
    using e that assms by (force simp: occurs_def)
  then show "run_stopped cfg l s e t"
    using advance_observes [OF t] t harmless_owed unfolding run_stopped_def observes_def by blast
qed

lemma cancelAndWaitTerminal_spec:
  assumes p: "Policy cfg (l_Repository l) = Some policy" "id_Nonce identity = l_Nonce l"
  shows "wp (cancelAndWaitTerminal cfg d ctx l policy identity) (run_stopped cfg l s) s"
  unfolding cancelAndWaitTerminal_def wp_bind
proof (rule wp_getRun, goal_cases)
  case (1 r t)
  then have t: "observes harmless s t" by (auto intro: observes_mono)
  then have st: "advance cfg s l t l" "\<forall>x \<in> set (since s t). \<not> run_owed (fst x)"
    using advance_observes [OF t] 1(2) by auto
  have stop: "run_stopped cfg l s (Some err) t" for err using st by (simp add: run_stopped_def)
  have wait: "wp (waitTerminal cfg d ctx l policy identity) (run_stopped cfg l s) t"
    by (rule wp_mono [OF waitTerminal_stopped [OF p]]) (rule run_stopped_step [OF st])
  have cancel: "wp (call (EvCancelRun (l_Repository l) (l_RunID l)) f)
      (\<lambda>e. wp (case e of None \<Rightarrow> waitTerminal cfg d ctx l policy identity
         | Some err \<Rightarrow> if \<not> IsHTTPStatus err 409 \<and> \<not> errors_Is err ErrAmbiguous then ret (Some err)
                       else waitTerminal cfg d ctx l policy identity) (run_stopped cfg l s)) t"
    if run: "r = Inr run" "validateRunIdentity run policy (l_TrustedSHA l) (id_Nonce identity) = None"
      "nonterminalStatus (wr_Status run)" for run f
  proof (rule wp_call_observes, goal_cases)
    case (1 e u)
    have su: "since s u = since s t @ since t u"
      by (rule since_trans [OF observes_grows [OF t] observes_grows [OF 1(1)]])
    have "advance cfg s l u l"
    proof (rule advance_frame)
      show "sound (core l) (since s u)"
        using su 1 \<open>since s t = _\<close> run p validateRunIdentity_None [OF run(2)] by simp
    qed (use su 1 t \<open>since s t = _\<close> in \<open>auto simp: observes_def intro: grows_trans\<close>)
    moreover have "\<forall>x \<in> set (since s u). \<not> run_owed (fst x)" using su 1 \<open>since s t = _\<close> by simp
    ultimately have step: "run_stopped cfg l s e' v" if "run_stopped cfg l u e' v" for e' v
      by (rule run_stopped_step [OF _ _ that])
    have "run_stopped cfg l s (Some err) u" for err
      using \<open>advance cfg s l u l\<close> \<open>\<forall>x \<in> set (since s u). \<not> run_owed (fst x)\<close> by (simp add: run_stopped_def)
    then show ?case
      using wp_mono [OF waitTerminal_stopped [OF p, of d ctx u] step] by (auto split: option.split)
  qed
  show ?case
    using stop wait cancel by (auto split: sum.split simp: knownExecutionStatus_def)
qed

definition runner_stopped :: "Config \<Rightarrow> Ledger \<Rightarrow> 'w jst \<Rightarrow> jerr option \<Rightarrow> 'w jst \<Rightarrow> bool" where
  "runner_stopped cfg l s e t \<longleftrightarrow> advance cfg s l t l \<and> (\<forall>x \<in> set (since s t). \<not> runner_owed (fst x)) \<and>
     (e = None \<longrightarrow> (\<exists>x \<in> set (since s t). runner_evidence l (fst x)))"

lemma runner_stopped_step:
  assumes "runner_stopped cfg l s (Some err) t" "runner_stopped cfg l t e u"
  shows "runner_stopped cfg l s e u"
  using assms since_trans [OF advance_grows advance_grows, of cfg s l t l cfg l u l] advance_trans
  unfolding runner_stopped_def by auto

lemma runner_stopped_observes: "observes harmless s t \<Longrightarrow> runner_stopped cfg l s (Some err) t"
  unfolding runner_stopped_def using advance_observes [of harmless s t cfg l] harmless_owed
  by (auto simp: observes_def)

lemma deleteRunner_turn_spec:
  assumes "l_RunnerID l \<noteq> 0"
  shows "wp (deleteRunner_turn d ctx l deleted)
     (\<lambda>x t. case x of Inl e \<Rightarrow> runner_stopped cfg l s e t | Inr _ \<Rightarrow> runner_stopped cfg l s (Some err) t) s"
  unfolding deleteRunner_turn_def wp_bind
proof (rule wp_call_observes, goal_cases)
  case (1 r t)
  then have t: "observes harmless s t" by (auto intro: observes_mono)
  have stop: "runner_stopped cfg l s (Some err) t" for err by (rule runner_stopped_observes [OF t])
  then have gone: "runner_stopped cfg l s None t" if "r = Inr None"
    using 1(2) that assms by (simp add: runner_stopped_def)
  have del: "wp (call (EvDeleteRunner (l_Repository l) (l_RunnerID l)) f) R t"
    if run: "r = Inr (Some runner)" "rr_ID runner = l_RunnerID l" "rr_Name runner = l_RunnerName l"
      "runnerHasLabel runner (l_RunnerLabel l)" and R: "\<And>e u. (\<And>err. runner_stopped cfg l s (Some err) u) \<Longrightarrow> R e u"
    for runner f R
  proof (rule wp_call_observes, goal_cases)
    case (1 e u)
    have su: "since s u = since s t @ since t u"
      by (rule since_trans [OF observes_grows [OF t] observes_grows [OF 1(1)]])
    have "advance cfg s l u l"
    proof (rule advance_frame)
      show "sound (core l) (since s u)" using su 1 \<open>since s t = _\<close> run by simp
    qed (use su 1 t \<open>since s t = _\<close> in \<open>auto simp: observes_def intro: grows_trans\<close>)
    moreover have "\<forall>x \<in> set (since s u). \<not> runner_owed (fst x)" using su 1 \<open>since s t = _\<close> by simp
    ultimately show ?case by (intro R) (simp add: runner_stopped_def)
  qed
  show ?case
    using stop gone by (auto split: sum.splits option.splits intro!: del)
qed

lemma deleteRunner_spec:
  assumes "l_RunnerID l \<noteq> 0"
  shows "wp (deleteRunner cfg d ctx l) (runner_stopped cfg l s) s"
  unfolding deleteRunner_def
proof (rule wp_poll [where R = "\<lambda>s. runner_stopped cfg l s (Some exhausted_err)"])
  show "runner_stopped cfg l s (Some exhausted_err) t" if "observes (\<lambda>_. False) s t" for s t
    using that by (auto intro!: runner_stopped_observes elim: observes_mono)
  show "wp (ret (Some err)) (runner_stopped cfg l s) s" for s err
    by (simp add: runner_stopped_observes)
qed (rule runner_stopped_observes [OF observes_refl] deleteRunner_turn_spec [OF assms] | erule (1) runner_stopped_step)+

text \<open>Finding the runner records its identity, durably, before anything is done to it.\<close>

definition observed :: "Config \<Rightarrow> Ledger \<Rightarrow> 'w jst \<Rightarrow> Ledger \<times> jerr option \<Rightarrow> 'w jst \<Rightarrow> bool" where
  "observed cfg l s r t \<longleftrightarrow> advance cfg s l t (fst r) \<and> (\<forall>x \<in> set (since s t). \<not> runner_owed (fst x)) \<and>
     fst r = l\<lparr>l_RunnerID := l_RunnerID (fst r)\<rparr> \<and> (snd r = None \<longrightarrow> 0 < l_RunnerID (fst r))"

lemma observed_step:
  assumes t: "observes harmless s t" and u: "observed cfg l t r u"
  shows "observed cfg l s r u"
proof -
  have "since s u = since s t @ since t u"
    using since_trans [OF observes_grows [OF t] advance_grows] u unfolding observed_def by blast
  moreover have "advance cfg s l u (fst r)"
    using advance_trans [OF advance_observes [OF t]] u unfolding observed_def by blast
  moreover have "\<forall>x \<in> set (since s t). \<not> runner_owed (fst x)"
    using t harmless_owed by (auto simp: observes_def)
  ultimately show ?thesis using u by (auto simp: observed_def)
qed

lemma unproven_spec: "(\<And>e. Q e s) \<Longrightarrow> wp (unproven observeCtx ctx err) Q s"
  by (simp add: unproven_def)

lemma observeRunner_turn_spec:
  assumes l: "\<not> l_RunnerGone l" "l_RunnerID l = 0"
  shows "wp (observeRunner_turn d observeCtx ctx l c)
     (\<lambda>x t. case x of Inl r \<Rightarrow> observed cfg l s r t | Inr _ \<Rightarrow> observes harmless s t) s"
  unfolding observeRunner_turn_def wp_bind
proof (rule wp_call_observes, goal_cases)
  case (1 r t)
  then have t: "observes harmless s t" by (auto intro: observes_mono)
  have stop: "observed cfg l s (l, Some err) t" for err
    using advance_observes [OF t] 1(2) by (simp add: observed_def)
  have save: "wp (Save d (l\<lparr>l_RunnerID := rr_ID runner\<rparr>)) (\<lambda>e. observed cfg l s (l\<lparr>l_RunnerID := rr_ID runner\<rparr>, e)) t"
    if "\<not> rr_ID runner \<le> 0" for runner
  proof (rule wp_Save, rule observed_step [OF t])
    fix e u
    assume u: "saved (l\<lparr>l_RunnerID := rr_ID runner\<rparr>) e t u"
    have "eases l (l\<lparr>l_RunnerID := rr_ID runner\<rparr>)" using l by (simp add: eases_def)
    from advance_saved [OF this u] show "observed cfg l t (l\<lparr>l_RunnerID := rr_ID runner\<rparr>, e) u"
      using that saved_events [OF u] harmless_owed by (auto simp: observed_def)
  qed
  show ?case
    using stop t save by (auto simp: wp_cases split: sum.split option.split intro!: unproven_spec)
qed

lemma observeRunner_spec:
  assumes l: "\<not> l_RunnerGone l" "l_RunnerID l = 0"
  shows "wp (observeRunner cfg d ctx l) (observed cfg l s) s"
proof -
  have none: "observed cfg l s (l, Some err) s" for s err by (simp add: observed_def)
  have "wp (poll observeCtx i (\<lambda>err. do { e \<leftarrow> unproven observeCtx ctx err; ret (l, Some e) })
     (observeRunner_turn d observeCtx ctx l) (l, Some exhausted_err) ()) (observed cfg l s) s" for observeCtx i
  proof (rule wp_poll [where R = "observes harmless"])
    show "observes harmless s t" if "observes (\<lambda>_. False) s t" for s t using that by (rule observes_mono) simp
  qed (rule observes_refl observeRunner_turn_spec [OF l] none | erule (1) observes_trans observed_step | simp add: unproven_def none)+
  then show ?thesis by (simp add: observeRunner_def)
qed

definition runner_gone :: "Config \<Rightarrow> Ledger \<Rightarrow> 'w jst \<Rightarrow> Ledger \<times> jerr option \<Rightarrow> 'w jst \<Rightarrow> bool" where
  "runner_gone cfg l s = (\<lambda>(l', e) t. advance cfg s l t l' \<and>
     l' = l\<lparr>l_RunnerID := l_RunnerID l'\<rparr> \<and> (l_RunnerID l \<noteq> 0 \<longrightarrow> l' = l) \<and>
     (e = None \<longrightarrow> advance cfg s l t (l'\<lparr>l_RunnerGone := True\<rparr>) \<and> (\<exists>x \<in> set (since s t). runner_evidence l' (fst x))))"

lemma deleteRunner_gone:
  assumes t: "advance cfg s l t l'" "l' = l\<lparr>l_RunnerID := l_RunnerID l'\<rparr>" "l_RunnerID l' \<noteq> 0" "l_RunnerID l \<noteq> 0 \<longrightarrow> l' = l"
      "\<forall>x \<in> set (since s t). \<not> runner_owed (fst x)"
  shows "wp (deleteRunner cfg d ctx l') (\<lambda>e. runner_gone cfg l s (l', e)) t"
proof (rule wp_mono [OF deleteRunner_spec [OF t(3)]])
  fix e u
  assume u: "runner_stopped cfg l' t e u"
  then have su: "advance cfg s l u l'" "since s u = since s t @ since t u"
    using advance_trans [OF t(1)] since_trans [OF advance_grows [OF t(1)] advance_grows] unfolding runner_stopped_def by blast+
  have "advance cfg s l u (l'\<lparr>l_RunnerGone := True\<rparr>) \<and> (\<exists>x \<in> set (since s u). runner_evidence l' (fst x))" if "e = None"
  proof -
    from u that obtain x where x: "x \<in> set (since s u)" "runner_evidence l' (fst x)"
      unfolding runner_stopped_def su(2) by auto
    moreover have "\<forall>y \<in> set (since s u). \<not> runner_owed (fst y)" using u t(5) unfolding runner_stopped_def su(2) by auto
    ultimately show ?thesis using honest_runner_gone [OF su(1)] by blast
  qed
  with su t(2, 4) show "runner_gone cfg l s (l', e) u" unfolding runner_gone_def by blast
qed

lemma ensureRunnerGone_spec:
  assumes l: "l_RunnerID l = 0 \<longrightarrow> \<not> l_RunnerGone l"
  shows "wp (ensureRunnerGone cfg d ctx l) (runner_gone cfg l s) s"
proof (cases "l_RunnerID l = 0")
  case True
  show ?thesis
    unfolding ensureRunnerGone_def
  proof (simp add: True, rule wp_mono [OF observeRunner_spec], goal_cases)
    case (3 x t)
    obtain l' e where x: "x = (l', e)" by fastforce
    show ?case using 3 True deleteRunner_gone [of cfg s l t l'] unfolding x by (cases e) (auto simp: observed_def runner_gone_def)
  qed (use True l in auto)
next
  case False
  then show ?thesis using deleteRunner_gone [of cfg s l s l] by (simp add: ensureRunnerGone_def)
qed

section \<open>Cleanup\<close>

lemma wp_transition:
  assumes "\<And>now e e' t. saved (l\<lparr>l_Status := st, l_FailureCode := code, l_UpdatedAt := now\<rparr>) e' s t \<Longrightarrow>
      (e = None \<longleftrightarrow> e' = None) \<Longrightarrow> Q (l\<lparr>l_Status := st, l_FailureCode := code, l_UpdatedAt := now\<rparr>, e) t"
  shows "wp (transition d l st code) Q s"
  unfolding transition_def by (auto simp: Let_def intro!: wp_Save assms)

lemma recover_harmless: "recover_event lease ev \<Longrightarrow> harmless ev"
  by (cases ev) (auto simp: recover_event_def)

lemma eases_isolation_id: "eases l (l\<lparr>l_IsolationID := i, l_IsolationBase := b\<rparr>)"
  by (simp add: eases_def)

lemma cleanupIsolation_spec:
  "wp (cleanupIsolation cfg d ctx logDirectory l) (\<lambda>(l', e) t. advance cfg s l t l' \<and>
     (l_RunnerID l' = l_RunnerID l \<and> l_RunnerGone l' = l_RunnerGone l) \<and> (e = None \<longrightarrow> l_IsolationGone l')) s"
proof (cases "l_IsolationGone l")
  case False
  show ?thesis
    unfolding cleanupIsolation_def
  proof (simp add: False, rule wp_Recover, goal_cases)
    case (1 r t)
    have t: "advance cfg s l t l" by (rule advance_observes [OF 1(1) recover_harmless])
    have save: "wp (Save d (clear_process l')) (\<lambda>e u. advance cfg s l u (clear_process l')) t"
      if "r = Inr receipt" "eases l l'" "validDestroyedReceipt receipt (l_LeaseID l) (l_IsolationID l) (cfg_BaseImageSHA256 cfg)"
      for receipt l'
    proof -
      have core: "core l' = core l" using that(2) by (simp add: eases_def)
      have "advance cfg s l t (clear_process l')"
        using honest_isolation_gone [OF advance_trans [OF t advance_eases [OF that(2)]]] 1(2) [OF that(1)] that(3)
        by (simp add: core_eqD [OF core] recoveryRequest_def)
      then show ?thesis by (intro wp_Save) (rule advance_trans [OF _ advance_saved_same])
    qed
    show ?case
      using t save eases_isolation_id False
      by (auto simp: Let_def clear_process_def eases_def split: sum.split elim!: wp_mono)
  qed
qed (simp add: cleanupIsolation_def)

lemma cleanupRun_spec:
  "wp (cleanupRun cfg d ctx l) (\<lambda>(l', e) t. advance cfg s l t l' \<and>
     (l_RunnerID l' = l_RunnerID l \<and> l_RunnerGone l' = l_RunnerGone l \<and> l_IsolationGone l' = l_IsolationGone l) \<and>
     (e = None \<longrightarrow> l_RunTerminal l')) s"
proof -
  have "wp (cancelAndWaitTerminal cfg d ctx l policy (ledger_identity l))
      (\<lambda>e t. advance cfg s l t l \<and> (e = None \<longrightarrow> advance cfg s l t (l\<lparr>l_RunTerminal := True\<rparr>))) s"
    if "Policy cfg (l_Repository l) = Some policy" for policy
    by (rule wp_mono [OF cancelAndWaitTerminal_spec [OF that]])
       (auto simp: run_stopped_def ledger_identity_def intro: honest_run_terminal)
  then have *: "wp (cancelAndWaitTerminal cfg d ctx l policy (ledger_identity l)) Q s"
    if "Policy cfg (l_Repository l) = Some policy"
      "\<And>e t. advance cfg s l t l \<Longrightarrow> (e = None \<Longrightarrow> advance cfg s l t (l\<lparr>l_RunTerminal := True\<rparr>)) \<Longrightarrow> Q e t"
    for policy Q
    by (rule wp_mono [OF _ that(2)]) (use that(1) in auto)
  show ?thesis
    unfolding cleanupRun_def
    by (auto simp: wp_cases split: option.split intro!: * wp_Save elim: advance_trans [OF _ advance_saved_same])
qed

lemma cleanupRunner_spec:
  "wp (cleanupRunner cfg d ctx l) (\<lambda>(l', e) t. advance cfg s l t l' \<and>
     l_RunTerminal l' = l_RunTerminal l \<and> l_IsolationGone l' = l_IsolationGone l \<and> (e = None \<longrightarrow> l_RunnerGone l')) s"
proof (cases "l_RunnerGone l")
  case False
  show ?thesis
    unfolding cleanupRunner_def
  proof (simp add: False, rule wp_mono [OF ensureRunnerGone_spec], goal_cases)
    case (2 x t)
    obtain l' e where x: "x = (l', e)" by fastforce
    with 2 have l': "l' = l\<lparr>l_RunnerID := l_RunnerID l'\<rparr>" by (simp add: runner_gone_def)
    have "l_RunTerminal l' = l_RunTerminal l" "l_IsolationGone l' = l_IsolationGone l"
      by (subst l', simp)+
    with 2 x show ?case by (auto simp: runner_gone_def split: option.split)
  qed (simp add: False)
qed (simp add: cleanupRunner_def)

definition cleaned :: "Config \<Rightarrow> Ledger \<Rightarrow> 'w jst \<Rightarrow> Ledger \<times> jerr option \<Rightarrow> 'w jst \<Rightarrow> bool" where
  "cleaned cfg l s r t \<longleftrightarrow> advance cfg s l t (fst r) \<and>
     (snd r = None \<longrightarrow> l_CleanupComplete (fst r) \<and> l_RunTerminal (fst r) \<and> l_RunnerGone (fst r) \<and> l_IsolationGone (fst r) \<and>
        stored t (fst r))"

lemma saved_stored: "saved l None s t \<Longrightarrow> stored t l"
  by (simp add: stored_def saved_None)

lemma cleaned_error: "advance cfg s l t l' \<Longrightarrow> cleaned cfg l s (l', Some err) t"
  by (simp add: cleaned_def)

lemma cleanupSeal_spec:
  assumes "advance cfg s l t l'" "l_RunTerminal l'" "l_RunnerGone l'" "l_IsolationGone l'"
  shows "wp (cleanupSeal d l') (cleaned cfg l s) t"
proof -
  have "cleaned cfg l s (l'\<lparr>l_CleanupComplete := True, l_UpdatedAt := now\<rparr>, e) u"
    if u: "saved (l'\<lparr>l_CleanupComplete := True, l_UpdatedAt := now\<rparr>) e t u" for now e u
  proof -
    have "eases l' (l'\<lparr>l_CleanupComplete := True, l_UpdatedAt := now\<rparr>)" by (simp add: eases_def)
    from advance_trans [OF assms(1) advance_saved [OF this u]] assms u show ?thesis
      by (auto simp: cleaned_def dest: saved_stored)
  qed
  then show ?thesis using assms by (auto simp: cleanupSeal_def Let_def intro!: wp_Save)
qed

lemma wp_and_then:
  assumes "wp m (\<lambda>(l, e) t. (e \<noteq> None \<longrightarrow> Q (l, e) t) \<and> (e = None \<longrightarrow> wp (f l) Q t)) s"
  shows "wp (and_then m f) Q s"
  using assms unfolding and_then_def by (auto elim!: wp_mono split: option.split)

lemma cleanupLedger_spec: "wp (cleanupLedger cfg d ctx l) (cleaned cfg l s) s"
  unfolding cleanupLedger_def wp_bind
proof (rule wp_RequestLogDir, goal_cases)
  case (1 r t0)
  have t0: "advance cfg s l t0 l" by (rule advance_quiet [OF 1])
  have runner: "wp (and_then (cleanupRunner cfg d ctx l') (cleanupSeal d)) (cleaned cfg l s) t"
    if "advance cfg s l t l'" "l_RunTerminal l'" "l_IsolationGone l'" for t l'
    by (rule wp_and_then, rule wp_mono [OF cleanupRunner_spec])
       (use that in \<open>auto intro: cleaned_error cleanupSeal_spec elim: advance_trans\<close>)
  have run: "wp (and_then (cleanupRun cfg d ctx l') (\<lambda>l. and_then (cleanupRunner cfg d ctx l) (cleanupSeal d))) (cleaned cfg l s) t"
    if "advance cfg s l t l'" "l_IsolationGone l'" for t l'
    by (intro wp_and_then wp_mono [OF cleanupRun_spec])
       (use that in \<open>auto intro: cleaned_error runner elim: advance_trans\<close>)
  have "wp (and_then (cleanupIsolation cfg d ctx logDirectory l) (\<lambda>l. and_then (cleanupRun cfg d ctx l)
      (\<lambda>l. and_then (cleanupRunner cfg d ctx l) (cleanupSeal d)))) (cleaned cfg l s) t0" for logDirectory
    by (intro wp_and_then wp_mono [OF cleanupIsolation_spec])
       (use t0 in \<open>auto intro: cleaned_error run elim: advance_trans\<close>)
  then show ?case using cleaned_error [OF t0] by (simp split: sum.split)
qed

section \<open>Ending with an error\<close>

text \<open>
  How a dispatch ends: the ledger advanced; when it claims to be cleaned up it is durable, or
  the dispatch reports a moved candidate; when there is no error, \<open>P\<close> holds of the ledger and of
  what happened.
\<close>

definition finishes ::
  "Config \<Rightarrow> (Ledger \<Rightarrow> (jevent \<times> ledger_dir) list \<Rightarrow> bool) \<Rightarrow> Ledger \<Rightarrow> 'w jst \<Rightarrow> Ledger \<times> Result \<times> jerr option \<Rightarrow> 'w jst \<Rightarrow> bool" where
  "finishes cfg P l s = (\<lambda>(l', res, err) t. advance cfg s l t l' \<and> res = result_of l' \<and>
     (l_CleanupComplete l' \<longrightarrow> l_RunTerminal l' \<and> l_RunnerGone l' \<and> l_IsolationGone l' \<and>
        (stored t l' \<or> (\<exists>e. err = Some e \<and> errors_Is e ErrStale))) \<and>
     (err = None \<longrightarrow> l_Status l' = StatusCompleted \<and> l_CleanupComplete l' \<and> stored t l' \<and> P l' (since s t)))"

lemma finishes_step:
  assumes st: "advance cfg s l t l'" and f: "finishes cfg P l' t x u"
    and P: "\<And>m evs. P m evs \<Longrightarrow> P' m (since s t @ evs)"
  shows "finishes cfg P' l s x u"
proof -
  obtain l'' res err where x: "x = (l'', res, err)" by (cases x) auto
  have tu: "advance cfg t l' u l''" using f by (simp add: finishes_def x)
  have "since s u = since s t @ since t u" by (rule since_trans [OF advance_grows [OF st] advance_grows [OF tu]])
  with f advance_trans [OF st tu] P show ?thesis by (auto simp: finishes_def x)
qed

lemma eases_status: "eases l (l\<lparr>l_Status := st, l_FailureCode := code, l_UpdatedAt := now\<rparr>)"
  by (simp add: eases_def)

lemma eases_incomplete: "eases l (l\<lparr>l_CleanupComplete := b\<rparr>)"
  by (simp add: eases_def)

lemma finishError_spec: "wp (finishError cfg d l code cause) (finishes cfg P l s) s"
  unfolding finishError_def wp_bind
proof (rule wp_transition, goal_cases)
  case (1 now e e' t)
  let ?l = "l\<lparr>l_Status := finish_status cause, l_FailureCode := code, l_UpdatedAt := now\<rparr>"
  have t: "advance cfg s l t ?l" by (rule advance_saved [OF eases_status 1(1)])
  show ?case
    unfolding case_prod_conv Let_def wp_bind wp_timeout
  proof (rule wp_mono [OF cleanupLedger_spec], goal_cases)
    case (1 x u)
    obtain l' e' where x: "x = (l', e')" by fastforce
    have u: "advance cfg s l u l'" using advance_trans [OF t] 1 by (simp add: cleaned_def x)
    have u': "advance cfg s l u (l'\<lparr>l_CleanupComplete := False\<rparr>)"
      by (rule advance_trans [OF u advance_eases [OF eases_incomplete]])
    have amb: "wp (transition d (l'\<lparr>l_CleanupComplete := False\<rparr>) StatusAmbiguous code')
        (\<lambda>(m, e) v. advance cfg s l v m \<and> \<not> l_CleanupComplete m) u" for code'
      by (rule wp_transition) (auto intro: advance_trans [OF u' advance_saved [OF eases_status]])
    show ?case
    proof (cases e')
      case None
      then show ?thesis using 1 u by (auto simp: x finishes_def cleaned_def split: option.split)
    next
      case (Some err)
      then show ?thesis
        using u' by (auto simp: x finishes_def split: option.split intro!: wp_mono [OF amb])
    qed
  qed
qed

lemma finishWithoutLease_spec:
  "wp (finishWithoutLease d l code cause) (\<lambda>(l', res, err) t. err \<noteq> None \<and> l_CleanupComplete l' = l_CleanupComplete l \<and>
     (\<exists>e. saved l' e s t) \<and> core l' = core l \<and> res = result_of l') s"
  unfolding finishWithoutLease_def wp_bind by (rule wp_transition) auto

end
