(* ===== verification/Jit_Safety.thy ===== *)
theory Jit_Safety
  imports Jit_Cleanup
begin

text \<open>
  The dispatch itself, from the granted lease to its end, as an \<open>advance\<close> of its ledger: what
  is durable at each call with consequences, what the flags of the ledger rest on, and what a
  dispatch that ends without error has seen.
\<close>

section \<open>The dispatch a ledger belongs to\<close>

definition owner :: "Config \<Rightarrow> Request \<Rightarrow> RepositoryPolicy \<Rightarrow> Identity \<Rightarrow> Ledger \<Rightarrow> bool" where
  "owner cfg request policy identity l \<longleftrightarrow>
     Policy cfg (rq_Repository request) = Some policy \<and> l_Repository l = rq_Repository request \<and>
     l_CandidateRef l = rq_CandidateRef request \<and> l_CandidateSHA l = rq_CandidateSHA request \<and>
     l_Workflow l = rp_Workflow policy \<and> ledger_identity l = identity"

lemma owner_core: "core l' = core l \<Longrightarrow> owner cfg request policy identity l' = owner cfg request policy identity l"
  unfolding owner_def by (simp add: core_eqD [of l' l])

lemma owner_nonce: "owner cfg request policy identity l \<Longrightarrow> id_Nonce identity = l_Nonce l"
  by (auto simp: owner_def ledger_identity_def)

text \<open>The identities GitHub and the driver gave to what the dispatch started.\<close>

definition same_ids :: "Ledger \<Rightarrow> Ledger \<Rightarrow> bool" where
  "same_ids l l' \<longleftrightarrow> core l' = core l \<and> l_RunID l' = l_RunID l \<and> l_JobID l' = l_JobID l \<and> l_RunnerID l' = l_RunnerID l \<and>
     l_IsolationID l' = l_IsolationID l \<and> l_IsolationBase l' = l_IsolationBase l"

lemma executed_cong: "same_ids l l' \<Longrightarrow> executed repo l' policy identity evs = executed repo l policy identity evs"
  unfolding executed_def validateExecutedJob_def by (auto simp: same_ids_def core_eqD [of l' l])

section \<open>The final status\<close>

lemma finishes_error: "advance cfg s l t l' \<Longrightarrow> wp (finishError cfg d l' code cause) (finishes cfg P l s) t"
  by (rule wp_mono [OF finishError_spec [where P = "\<lambda>_ _. False"]]) (erule (1) finishes_step, simp)

lemma errors_Is_stale: "\<exists>e. errors_Join [Some (Wrap [] [Leaf ErrStale]), x] = Some e \<and> errors_Is e ErrStale"
  by (cases x) (auto simp: errors_Join_def errors_Is_def List.map_filter_def)

lemma advance_saved_then: "saved m e s t \<Longrightarrow> eases l m \<Longrightarrow> eases m l' \<Longrightarrow> advance cfg s l t l'"
  by (rule advance_trans [OF advance_saved advance_eases])

lemma concludeStatus_spec:
  "wp (concludeStatus cfg d request sha l) (finishes cfg (\<lambda>l' evs. sha = rq_CandidateSHA request \<and> same_ids l l') l s) s"
proof -
  let ?l = "l\<lparr>l_CleanupComplete := l_RunTerminal l \<and> l_RunnerGone l \<and> l_IsolationGone l\<rparr>"
  have ease: "eases l (?l\<lparr>l_Status := st, l_FailureCode := code, l_UpdatedAt := now\<rparr>)" for st code now
    by (simp add: eases_def)
  consider "sha \<noteq> rq_CandidateSHA request" | "sha = rq_CandidateSHA request" "\<not> l_CleanupComplete ?l"
    | "sha = rq_CandidateSHA request" "l_CleanupComplete ?l" by blast
  then show ?thesis
  proof cases
    case 1
    then show ?thesis
      unfolding concludeStatus_def Let_def
      by (simp, intro wp_transition)
         (use errors_Is_stale in \<open>auto simp: finishes_def intro: advance_saved [OF ease]\<close>)
  next
    case 2
    then show ?thesis
      using finishes_error [OF advance_eases [OF eases_incomplete]] by (simp add: concludeStatus_def Let_def)
  next
    case 3
    then show ?thesis
      unfolding concludeStatus_def Let_def
      by (simp, intro wp_transition)
         (auto simp: finishes_def same_ids_def eases_def split: option.split dest: saved_stored elim!: advance_saved_then)
  qed
qed

section \<open>After the isolation is destroyed\<close>

definition concluded :: "Request \<Rightarrow> RepositoryPolicy \<Rightarrow> Identity \<Rightarrow> Ledger \<Rightarrow> (jevent \<times> ledger_dir) list \<Rightarrow> bool" where
  "concluded request policy identity l evs \<longleftrightarrow>
     executed (rq_Repository request) l policy identity evs \<and>
     occurs (EvGetRunner (rq_Repository request) (l_RunnerID l) (Inr None)) evs \<and>
     occurs (EvResolveRef (rq_Repository request) (rq_CandidateRef request) (Inr (rq_CandidateSHA request))) evs"

lemma executed_evidence:
  assumes "executed (rq_Repository request) l policy identity evs" "owner cfg request policy identity l"
  shows "\<exists>x \<in> set evs. run_evidence cfg l (fst x)"
  using assms owner_nonce [OF assms(2)] unfolding executed_def owner_def by (force simp: occurs_def)

lemma runner_evidence_occurs:
  "x \<in> set evs \<Longrightarrow> runner_evidence l (fst x) \<Longrightarrow> occurs (EvGetRunner (l_Repository l) (l_RunnerID l) (Inr None)) evs"
  by (cases "(l, fst x)" rule: runner_evidence.cases) (auto simp: occurs_def intro: rev_image_eqI)

lemma concludeRun_spec:
  assumes own: "owner cfg request policy identity l" and l: "l_RunnerID l \<noteq> 0"
  shows "wp (concludeRun cfg d ctx runCtx request policy l identity)
     (finishes cfg (\<lambda>l' evs. same_ids l l' \<and> concluded request policy identity l' evs) l s) s"
  unfolding concludeRun_def wp_bind
proof (rule wp_mono [OF waitForCompletion_spec], goal_cases)
  case (1 e t)
  have t: "advance cfg s l t l" "\<forall>x \<in> set (since s t). \<not> run_owed (fst x)"
    using 1 advance_observes [of harmless s t] harmless_owed by (auto simp: observes_def)
  show ?case
  proof (cases e)
    case None
    with 1 have ex: "executed (rq_Repository request) l policy identity (since s t)" by simp
    let ?l = "l\<lparr>l_RunTerminal := True\<rparr>"
    have t': "advance cfg s l t ?l"
      using executed_evidence [OF ex own] t honest_run_terminal by blast
    have ensure: "wp (ensureRunnerGone cfg d runCtx ?l) (runner_gone cfg ?l t) t"
      by (rule ensureRunnerGone_spec) (use l in simp)
    have rest: "wp (resolveRef d ctx (rq_Repository request) (rq_CandidateRef request))
       (\<lambda>r. wp (case r of Inl err \<Rightarrow> finishError cfg d (?l\<lparr>l_RunnerGone := True\<rparr>) code cause
             | Inr sha \<Rightarrow> concludeStatus cfg d request sha (?l\<lparr>l_RunnerGone := True\<rparr>))
           (finishes cfg (\<lambda>l' evs. same_ids l l' \<and> concluded request policy identity l' evs) l s)) u"
      if u: "runner_gone cfg ?l t (?l, None) u" for u code cause
    proof (rule wp_resolveRef, goal_cases)
      case (1 r v)
      let ?m = "?l\<lparr>l_RunnerGone := True\<rparr>"
      have tu: "advance cfg t ?l u ?m" using u by (simp add: runner_gone_def)
      have uv: "advance cfg u ?m v ?m" by (rule advance_observes [OF 1(1)]) simp
      have sv: "advance cfg s l v ?m" by (rule advance_trans [OF advance_trans [OF t' tu] uv])
      have "since s v = (since s t @ since t u) @ since u v"
        using since_trans [OF advance_grows [OF t'] advance_grows [OF tu]]
          since_trans [OF advance_grows [OF advance_trans [OF t' tu]] advance_grows [OF uv]] by simp
      moreover have "occurs (EvGetRunner (rq_Repository request) (l_RunnerID l) (Inr None)) (since t u)"
        using u runner_evidence_occurs [of _ "since t u" ?l] own by (auto simp: runner_gone_def owner_def)
      ultimately have ev: "executed (rq_Repository request) l policy identity (since s v @ evs)"
          "occurs (EvGetRunner (rq_Repository request) (l_RunnerID l) (Inr None)) (since s v)"
          "occurs (EvResolveRef (rq_Repository request) (rq_CandidateRef request) r) (since s v)" for evs
        using ex 1(2) by (auto simp: executed_def)
      have "concluded request policy identity m (since s v @ evs)"
        if "same_ids l m" "r = Inr (rq_CandidateSHA request)" for m evs
        using ev executed_cong [OF that(1)] that(2) that(1) [unfolded same_ids_def] by (simp add: concluded_def)
      then have "finishes cfg (\<lambda>l' evs. same_ids l l' \<and> concluded request policy identity l' evs) l s x w"
        if "finishes cfg (\<lambda>l' evs. sha = rq_CandidateSHA request \<and> same_ids ?m l') ?m v x w" "r = Inr sha" for x w sha
        by (intro finishes_step [OF sv that(1)]) (use that(2) in \<open>auto simp: same_ids_def\<close>)
      then show ?case
        using finishes_error [OF sv] by (auto split: sum.split intro!: wp_mono [OF concludeStatus_spec])
    qed
    show ?thesis
      unfolding None option.case wp_bind
    proof (rule wp_mono [OF ensure], goal_cases)
      case (1 x u)
      obtain l' e where x: "x = (l', e)" by fastforce
      with 1 l have l': "l' = ?l" by (simp add: runner_gone_def)
      then have u: "advance cfg s l u ?l" using advance_trans [OF t'] 1 x by (simp add: runner_gone_def)
      show ?case
        using 1 finishes_error [OF u] rest unfolding x l' by (cases e) (auto simp: Let_def)
    qed
  qed (use finishes_error [OF t(1)] in simp)
qed

section \<open>The driver session of a dispatch\<close>

text \<open>
  The dispatcher as a client of the driver: its state is the ledger, changed by \<open>OnStarted\<close>
  and \<open>OnReady\<close>, whose isolation is recorded as not gone.
\<close>

definition live :: "string \<Rightarrow> Ledger \<Rightarrow> bool" where
  "live lease l \<longleftrightarrow> l_LeaseID l = lease \<and> \<not> l_IsolationGone l \<and> \<not> l_CleanupComplete l"

definition driving :: "Config \<Rightarrow> string \<Rightarrow> 'w jst \<Rightarrow> Ledger \<Rightarrow> 'w jst \<Rightarrow> Ledger \<Rightarrow> bool" where
  "driving cfg lease s l t l' \<longleftrightarrow> grows s t \<and>
     (live lease l \<longrightarrow> advance cfg s l t l' \<and> live lease l' \<and> l_RunID l' = l_RunID l \<and> l_JobID l' = l_JobID l \<and>
        l_RunnerID l' = l_RunnerID l \<and> l_RunTerminal l' = l_RunTerminal l \<and> l_RunnerGone l' = l_RunnerGone l)"

definition process_of :: "Ledger \<Rightarrow> ProcessIdentity" where
  "process_of l = \<lparr> pi_PID = l_ProcessPID l, pi_StartTicks = l_ProcessStart l,
     pi_ProcessGroup = l_ProcessGroup l, pi_CgroupPath = l_CgroupPath l \<rparr>"

definition accepted :: "ProcessIdentity \<Rightarrow> IsolationReceipt \<Rightarrow> Ledger \<Rightarrow> bool" where
  "accepted p r l \<longleftrightarrow> process_of l = p \<and> l_IsolationID l = ir_IsolationID r \<and> l_IsolationBase l = ir_BaseSHA256 r"

lemma driving_trans: "driving cfg lease s l t l' \<Longrightarrow> driving cfg lease t l' u l'' \<Longrightarrow> driving cfg lease s l u l''"
  unfolding driving_def by (auto intro: grows_trans advance_trans)

lemma session_harmless: "session_event lease ev \<Longrightarrow> harmless ev"
  by (cases ev) auto

lemma driving_session: "observes (session_event lease) s t \<Longrightarrow> driving cfg lease s l t l"
  unfolding driving_def using advance_observes session_harmless observes_grows by blast

lemma driving_saved:
  assumes "saved m e s t" "eases l m" "l_RunID m = l_RunID l" "l_JobID m = l_JobID l" "l_RunnerID m = l_RunnerID l"
    "l_RunTerminal m = l_RunTerminal l" "l_RunnerGone m = l_RunnerGone l" "l_IsolationGone m = l_IsolationGone l"
    "l_CleanupComplete m = l_CleanupComplete l"
  shows "driving cfg lease s l t m"
  using assms advance_saved [OF assms(2, 1)] core_eqD(11) [of m l]
  by (auto simp: driving_def live_def eases_def saved_grows)

lemma ready_isolation: "validReadyReceipt r lease base \<Longrightarrow> ir_IsolationID r \<noteq> []"
  by (auto simp: validReadyReceipt_def safeOpaqueID_def)

lemma sound_same: "\<forall>x \<in> set evs. \<forall>pre. call_ok c pre x \<Longrightarrow> sound_from c pre evs"
  by (induction evs arbitrary: pre) auto

interpretation dispatch_driver:
  driver_client "driving cfg lease" "onStarted d" "onReady d" lease base True "\<lambda>p l. process_of l = p" accepted
proof
  fix s t u :: "'a jst" and c c' c'' :: Ledger and p r
  show "driving cfg lease s c t c' \<Longrightarrow> driving cfg lease t c' u c'' \<Longrightarrow> driving cfg lease s c u c''"
    by (rule driving_trans)
  show "driving cfg lease s c t c' \<Longrightarrow> grows s t" by (simp add: driving_def)
  show "observes (session_event lease) s t \<Longrightarrow> driving cfg lease s c t c" by (rule driving_session)
  show "wp (onStarted d c p) (\<lambda>(c', e) t. driving cfg lease s c t c' \<and> (e = None \<longrightarrow> process_of c' = p)) s"
    unfolding onStarted_def
    by (rule wp_transition) (auto simp: process_of_def eases_def elim!: driving_saved)
  show "wp (onReady d c r) (\<lambda>(c', e) t. driving cfg lease s c t c' \<and> (e = None \<longrightarrow> accepted p r c' \<and>
      (\<forall>u. observes (\<lambda>ev. ev = EvDriverInput lease) t u \<longrightarrow> driving cfg lease t c' u c'))) s"
    if p: "process_of c = p" and r: "validReadyReceipt r lease base"
    unfolding onReady_def
  proof (rule wp_transition, goal_cases)
    case (1 now e e' t)
    let ?m = "c\<lparr>l_IsolationID := ir_IsolationID r, l_IsolationBase := ir_BaseSHA256 r,
        l_Status := StatusIsolationReady, l_FailureCode := [], l_UpdatedAt := now\<rparr>"
    have st: "driving cfg lease s c t ?m" by (rule driving_saved [OF 1(1)]) (auto simp: eases_def)
    have "driving cfg lease t ?m u ?m" if e: "e = None" and u: "observes (\<lambda>ev. ev = EvDriverInput lease) t u" for u
    proof -
      have m: "map_of (st_disk t) (l_RequestID c) = Some ?m" using 1 e saved_None by fastforce
      have "advance cfg t ?m u ?m" if "live lease c"
        by (rule advance_frame)
           (use u m that ready_isolation [OF r] in
             \<open>auto simp: observes_def holds_def live_def intro!: sound_same\<close>)
      then show ?thesis using observes_grows [OF u] by (auto simp: driving_def live_def)
    qed
    with st p show ?case by (auto simp: accepted_def process_of_def)
  qed
qed

section \<open>Running the bound job\<close>

definition isolated :: "Config \<Rightarrow> Ledger \<Rightarrow> (jevent \<times> ledger_dir) list \<Rightarrow> bool" where
  "isolated cfg l evs \<longleftrightarrow>
     (\<exists>ready destroyed. occurs (EvReceipt (l_LeaseID l) (Inr ready)) evs \<and> occurs (EvReceipt (l_LeaseID l) (Inr destroyed)) evs \<and>
        validReadyReceipt ready (l_LeaseID l) (cfg_BaseImageSHA256 cfg) \<and> l_IsolationID l = ir_IsolationID ready \<and>
        validDestroyedReceipt destroyed (l_LeaseID l) (l_IsolationID l) (cfg_BaseImageSHA256 cfg))"

definition ran ::
  "Config \<Rightarrow> Request \<Rightarrow> RepositoryPolicy \<Rightarrow> Identity \<Rightarrow> Ledger \<Rightarrow> Ledger \<Rightarrow> (jevent \<times> ledger_dir) list \<Rightarrow> bool" where
  "ran cfg request policy identity l l' evs \<longleftrightarrow>
     l_RunID l' = l_RunID l \<and> l_JobID l' = l_JobID l \<and> l_RunnerID l' = l_RunnerID l \<and>
     concluded request policy identity l' evs \<and> isolated cfg l' evs"

lemma concluded_append: "concluded request policy identity l evs \<Longrightarrow> concluded request policy identity l (a @ evs)"
  by (auto simp: concluded_def executed_append)

lemma launch_driving:
  assumes l: "stored s l" "live (l_LeaseID l) l" "\<not> l_RunnerGone l" "\<not> l_RunTerminal l" "l_Status l = StatusJITCreated" "0 < l_RunnerID l"
    and t: "st_disk t = st_disk s" "observes (launch_event (l_LeaseID l) (''run'' # args)) t u"
  shows "driving cfg (l_LeaseID l) t l u l"
proof -
  have "call_ok (core l) pre x" if "x \<in> set (since t u)" for pre x
  proof -
    have x: "launch_event (l_LeaseID l) (''run'' # args) (fst x)" "snd x = st_disk s"
      using t that by (auto simp: observes_def)
    then show ?thesis
      using l harmless_call_ok [OF session_harmless] unfolding launch_event_def
      by (cases x) (auto simp: holds_def stored_def live_def)
  qed
  moreover have "\<not> run_owed (fst x) \<and> \<not> runner_owed (fst x)" if "x \<in> set (since t u)" for x
    using t(2) that session_harmless harmless_owed unfolding observes_def launch_event_def by fastforce
  ultimately have "advance cfg t l u l"
    by (intro advance_frame) (use t l in \<open>auto simp: observes_def live_def intro: sound_same\<close>)
  then show ?thesis using l(2) observes_grows [OF t(2)] by (simp add: driving_def)
qed

lemma settleRun_spec:
  assumes own: "owner cfg request policy identity l" and l: "l_RunnerID l \<noteq> 0"
    and u: "advance cfg s l u l1" "l_LeaseID l1 = lease"
    and v: "advance cfg u l1 v l2" "l_RunID l2 = l_RunID l" "l_JobID l2 = l_JobID l" "l_RunnerID l2 = l_RunnerID l"
    and run: "err = None \<Longrightarrow> occurs (EvReceipt lease (Inr (ro_Ready outcome))) (since u v) \<and>
        proved lease (ro_Destroyed outcome) (since u v) \<and> accepted (ro_Process outcome) (ro_Ready outcome) l2 \<and>
        validReadyReceipt (ro_Ready outcome) lease (cfg_BaseImageSHA256 cfg) \<and>
        validDestroyedReceipt (ro_Destroyed outcome) lease (ir_IsolationID (ro_Ready outcome)) (cfg_BaseImageSHA256 cfg)"
  shows "wp (settleRun cfg d ctx runCtx request policy identity (l2, outcome, err)) (finishes cfg (ran cfg request policy identity l) l s) v"
proof -
  have sv: "advance cfg s l v l2" by (rule advance_trans [OF u(1) v(1)])
  have lease: "l_LeaseID l2 = lease" using core_eqD(11) [OF advance_core [OF v(1)]] u(2) by simp
  show ?thesis
  proof (cases "err = None \<and> lifecycle_matches cfg l2 outcome")
    case True
    let ?m = "clear_process l2"
    have m: "core ?m = core l2" "l_RunID ?m = l_RunID l" "l_JobID ?m = l_JobID l" "l_RunnerID ?m = l_RunnerID l"
        "l_LeaseID ?m = lease" "l_IsolationID ?m = l_IsolationID l2"
      using v lease by (simp_all add: clear_process_def)
    note r = run [OF conjunct1 [OF True]]
    have um: "advance cfg s l v ?m"
      using advance_trans [OF u(1) honest_isolation_gone [OF v(1)]] r lease by blast
    have "wp (Save d ?m) (\<lambda>e. wp (case e of Some e \<Rightarrow> finishError cfg d ?m code (Wrap [] [e])
         | None \<Rightarrow> concludeRun cfg d ctx runCtx request policy ?m identity)
         (finishes cfg (ran cfg request policy identity l) l s)) v" for code
    proof (rule wp_Save, goal_cases)
      case (1 e w)
      have vw: "advance cfg v ?m w ?m" by (rule advance_saved_same [OF 1])
      have sw: "advance cfg s l w ?m" by (rule advance_trans [OF um vw])
      have own': "owner cfg request policy identity ?m"
        using own owner_core [OF advance_core [OF sw]] by simp
      have "since s w = since s u @ since u v @ since v w"
        using since_trans [OF advance_grows [OF u(1)] advance_grows [OF v(1)]]
          since_trans [OF advance_grows [OF sv] advance_grows [OF vw]] by simp
      then have ev: "occurs (EvReceipt lease (Inr (ro_Ready outcome))) (since s w)"
          "occurs (EvReceipt lease (Inr (ro_Destroyed outcome))) (since s w)"
        using r proved_occurs by auto
      have "ran cfg request policy identity l l' (since s w @ evs)"
        if l': "same_ids ?m l'" "concluded request policy identity l' evs" for l' evs
      proof -
        have "l_LeaseID l' = lease" "l_IsolationID l' = ir_IsolationID (ro_Ready outcome)"
          using l'(1) m r core_eqD(11) [of l' ?m] by (simp_all add: same_ids_def accepted_def)
        then have "isolated cfg l' (since s w @ evs)" unfolding isolated_def using ev r by auto
        then show ?thesis using l' m by (auto simp: ran_def same_ids_def concluded_append)
      qed
      then have "finishes cfg (ran cfg request policy identity l) l s x y"
        if "finishes cfg (\<lambda>l' evs. same_ids ?m l' \<and> concluded request policy identity l' evs) ?m w x y" for x y
        by (intro finishes_step [OF sw that]) auto
      then show ?case
        using finishes_error [OF sw] m(4) l by (auto split: option.split intro!: wp_mono [OF concludeRun_spec [OF own']])
    qed
    then show ?thesis using True by (simp add: settleRun_def Let_def)
  next
    case False
    then show ?thesis using finishes_error [OF sv] by (auto simp: settleRun_def split: option.split)
  qed
qed

lemma run_bound_spec:
  assumes own: "owner cfg request policy identity l"
    and l: "\<not> l_CleanupComplete l" "\<not> l_RunnerGone l" "\<not> l_RunTerminal l" "l_Status l = StatusJITCreated" "0 < l_RunnerID l"
  shows "wp (run_bound cfg d ctx request policy l identity secret) (finishes cfg (ran cfg request policy identity l) l s) s"
  unfolding run_bound_def wp_bind
proof (rule wp_RequestLogDir, goal_cases)
  case (1 r t)
  have t: "advance cfg s l t l" by (rule advance_quiet [OF 1])
  let ?l = "l\<lparr>l_IsolationGone := False\<rparr>"
  have "wp (Save d ?l) (\<lambda>e. wp (case e of Some _ \<Rightarrow> finishError cfg d ?l code cause
         | None \<Rightarrow> do { runCtx \<leftarrow> timeout ctx (cfg_RunTimeout cfg);
             outcome \<leftarrow> Run (dp_Runner d) runCtx (runnerRequest cfg ?l identity secret logDirectory) (onStarted d) (onReady d) ?l;
             settleRun cfg d ctx runCtx request policy identity outcome })
         (finishes cfg (ran cfg request policy identity l) l s)) t" for code cause logDirectory
  proof (rule wp_Save, goal_cases)
    case (1 e u)
    have u: "advance cfg s l u ?l"
      by (rule advance_trans [OF t advance_saved [OF _ 1]]) (simp add: eases_def)
    show ?case
    proof (cases e)
      case None
      have st: "stored u ?l" using 1 None saved_stored by blast
      have "wp (Run (dp_Runner d) runCtx (runnerRequest cfg ?l identity secret logDirectory) (onStarted d) (onReady d) ?l)
          (\<lambda>outcome. wp (settleRun cfg d ctx runCtx request policy identity outcome)
             (finishes cfg (ran cfg request policy identity l) l s)) u" for runCtx
      proof (rule wp_mono [OF dispatch_driver.wp_Run [where cfg = cfg and lease = "l_LeaseID l" and base = "cfg_BaseImageSHA256 cfg"]], goal_cases)
        case (4 t u args)
        show ?case using launch_driving [OF st, of t args u cfg] 4 l by (simp add: live_def)
      next
        case (5 x v)
        obtain l2 outcome err where x: "x = (l2, outcome, err)" by (cases x) auto
        show ?case unfolding x
          by (rule settleRun_spec [OF own _ u]) (use 5 l in \<open>auto simp: x driving_def live_def\<close>)
      qed (auto simp: runnerRequest_def)
      then show ?thesis by (simp add: None)
    qed (use finishes_error [OF u] in simp)
  qed
  then show ?case using finishes_error [OF t] by (simp add: Let_def split: sum.split)
qed

section \<open>Binding and dispatching\<close>

text \<open>
  An intent taken back: the flag was lowered before a call that, as its answer shows, left
  nothing behind.
\<close>

lemma restore_runner_gone:
  assumes "advance cfg s l t l'" "l_RunnerGone l" "l_RunnerID l' = l_RunnerID l" "\<forall>x \<in> set (since s t). \<not> runner_owed (fst x)"
  shows "advance cfg s l t (l'\<lparr>l_RunnerGone := True\<rparr>)"
proof -
  let ?m = "l'\<lparr>l_RunnerGone := True\<rparr>"
  have "run_evidence cfg ?m = run_evidence cfg l'" "isolation_evidence cfg ?m = isolation_evidence cfg l'"
    by (rule run_evidence_cong isolation_evidence_cong; simp)+
  moreover have "runner_evidence ?m = runner_evidence l"
    by (rule runner_evidence_cong) (use advance_core [OF assms(1)] assms(3) in simp_all)
  ultimately show ?thesis
    using assms by (auto simp: advance_def honest_def intro: settles_more)
qed

lemma restore_run_terminal:
  assumes "advance cfg s l t l'" "l_RunTerminal l" "l_RunID l' = l_RunID l" "\<forall>x \<in> set (since s t). \<not> run_owed (fst x)"
  shows "advance cfg s l t (l'\<lparr>l_RunTerminal := True\<rparr>)"
proof -
  let ?m = "l'\<lparr>l_RunTerminal := True\<rparr>"
  have "runner_evidence ?m = runner_evidence l'" "isolation_evidence cfg ?m = isolation_evidence cfg l'"
    by (rule runner_evidence_cong isolation_evidence_cong; simp)+
  moreover have "run_evidence cfg ?m = run_evidence cfg l"
    by (rule run_evidence_cong) (use advance_core [OF assms(1)] assms(3) in simp_all)
  ultimately show ?thesis
    using assms by (auto simp: advance_def honest_def intro: settles_more)
qed

definition registered :: "Request \<Rightarrow> RepositoryPolicy \<Rightarrow> Identity \<Rightarrow> Ledger \<Rightarrow> (jevent \<times> ledger_dir) list \<Rightarrow> bool" where
  "registered request policy identity l evs \<longleftrightarrow>
     (\<exists>registration. occurs (EvGenerateJIT (rq_Repository request) identity (rp_RunnerGroupID policy) (Inr registration)) evs \<and>
        validateJITRegistration registration identity = None \<and> l_RunnerID l = rr_ID (jr_Runner registration))"

definition bound ::
  "Config \<Rightarrow> Request \<Rightarrow> RepositoryPolicy \<Rightarrow> Identity \<Rightarrow> Ledger \<Rightarrow> Ledger \<Rightarrow> (jevent \<times> ledger_dir) list \<Rightarrow> bool" where
  "bound cfg request policy identity l l' evs \<longleftrightarrow> l_RunID l' = l_RunID l \<and>
     concluded request policy identity l' evs \<and> isolated cfg l' evs \<and> registered request policy identity l' evs"

lemma isolated_append: "isolated cfg l evs \<Longrightarrow> isolated cfg l (a @ evs)"
  unfolding isolated_def by auto

lemma validateJITRegistration_id: "validateJITRegistration registration identity = None \<Longrightarrow> 0 < rr_ID (jr_Runner registration)"
  by (auto simp: validateJITRegistration_def Let_def split: option.splits if_splits)

lemma acceptJIT_spec:
  assumes own: "owner cfg request policy identity l"
    and l: "l_RunnerGone l" "l_RunnerID l0 = l_RunnerID l" "l_RunID l0 = l_RunID l"
    and l0: "\<not> l_CleanupComplete l0" "\<not> l_RunnerGone l0" "\<not> l_RunTerminal l0"
    and t: "advance cfg s l t l0" "\<forall>x \<in> set (since s t). runner_owed (fst x) \<longrightarrow>
        fst x = EvGenerateJIT (rq_Repository request) identity (rp_RunnerGroupID policy) answer"
      "occurs (EvGenerateJIT (rq_Repository request) identity (rp_RunnerGroupID policy) answer) (since s t)"
  shows "wp (acceptJIT cfg d ctx request policy l0 identity answer) (finishes cfg (bound cfg request policy identity l) l s) t"
proof (cases answer)
  case (Inl err)
  have "advance cfg s l t (l0\<lparr>l_RunnerGone := True\<rparr>)" if "authoritativeJITRejection err"
    by (rule restore_runner_gone [OF t(1) l(1, 2)]) (use t(2) Inl that in auto)
  then have "wp (Save d (l0\<lparr>l_RunnerGone := True\<rparr>)) (\<lambda>e. wp (finishError cfg d (l0\<lparr>l_RunnerGone := True\<rparr>) code (cause e))
      (finishes cfg (bound cfg request policy identity l) l s)) t" if "authoritativeJITRejection err" for code cause
    by (intro wp_Save finishes_error) (use that in \<open>blast intro: advance_trans [OF _ advance_saved_same]\<close>)
  then show ?thesis
    using Inl finishes_error [OF t(1)] by (auto simp: acceptJIT_def Let_def)
next
  case (Inr registration)
  show ?thesis
  proof (cases "validateJITRegistration registration identity")
    case None
    show ?thesis
      unfolding acceptJIT_def Inr sum.case None option.case wp_bind
    proof (rule wp_transition, goal_cases)
      case (1 now e e' u)
      let ?m = "l0\<lparr>l_RunnerID := rr_ID (jr_Runner registration), l_Status := StatusJITCreated, l_FailureCode := [], l_UpdatedAt := now\<rparr>"
      have su: "advance cfg s l u ?m"
        by (rule advance_trans [OF t(1) advance_saved [OF _ 1(1)]]) (use l0 in \<open>simp add: eases_def\<close>)
      have own': "owner cfg request policy identity ?m" using own owner_core [OF advance_core [OF su]] by simp
      have "since s u = since s t @ since t u"
        by (rule since_trans [OF advance_grows [OF t(1)] saved_grows [OF 1(1)]])
      then have "registered request policy identity l' (since s u @ evs)"
        if "l_RunnerID l' = rr_ID (jr_Runner registration)" for l' evs
        using t(3) that None unfolding registered_def Inr by auto
      then have "bound cfg request policy identity l l' (since s u @ evs)" if "ran cfg request policy identity ?m l' evs" for l' evs
        using that l(3) by (auto simp: bound_def ran_def concluded_append isolated_append)
      then have "finishes cfg (bound cfg request policy identity l) l s x v"
        if "finishes cfg (ran cfg request policy identity ?m) ?m u x v" for x v
        by (rule finishes_step [OF su that])
      then have "wp (run_bound cfg d ctx request policy ?m identity secret) (finishes cfg (bound cfg request policy identity l) l s) u" for secret
        by (intro wp_mono [OF run_bound_spec [OF own']]) (use l0 validateJITRegistration_id [OF None] in simp_all)
      then show ?case using finishes_error [OF su] by (simp split: option.split)
    qed
  qed (use Inr finishes_error [OF t(1)] in \<open>simp add: acceptJIT_def\<close>)
qed

lemma registerAndRun_spec:
  assumes own: "owner cfg request policy identity l"
    and l: "\<not> l_CleanupComplete l" "l_RunnerGone l" "\<not> l_RunTerminal l" "l_Status l = StatusRunBound" "0 < l_RunID l" "0 < l_JobID l"
  shows "wp (registerAndRun cfg d ctx request policy l identity) (finishes cfg (bound cfg request policy identity l) l s) s"
proof -
  let ?l = "l\<lparr>l_RunnerGone := False\<rparr>"
  show ?thesis
    unfolding registerAndRun_def Let_def wp_bind
  proof (rule wp_Save, goal_cases)
    case (1 e t)
    have t: "advance cfg s l t ?l" by (rule advance_saved [OF _ 1]) (simp add: eases_def)
    show ?case
    proof (cases e)
      case None
      then have m: "map_of (st_disk t) (l_RequestID l) = Some ?l" using saved_None 1 by fastforce
      show ?thesis
        unfolding None option.case generateJIT_def wp_bind
      proof (rule wp_call_observes, goal_cases)
        case (1 answer u)
        have "advance cfg t ?l u ?l"
          by (rule advance_call [OF 1]) (use m l own in \<open>auto simp: holds_def owner_def ledger_identity_def\<close>)
        then have su: "advance cfg s l u ?l" by (rule advance_trans [OF t])
        have since: "since s u = since s t @ since t u"
          by (rule since_trans [OF advance_grows [OF t] observes_grows [OF 1(1)]])
        show ?case
        proof (rule acceptJIT_spec [OF own _ _ _ _ _ _ su])
          show "\<forall>x \<in> set (since s u). runner_owed (fst x) \<longrightarrow>
              fst x = EvGenerateJIT (rq_Repository request) identity (rp_RunnerGroupID policy) answer"
            using since 1(2) saved_events [OF \<open>saved ?l e s t\<close>] harmless_owed by auto
        qed (use since 1(2) l in auto)
      qed
    qed (use finishes_error [OF t] in simp)
  qed
qed

lemma registered_append: "registered request policy identity l evs \<Longrightarrow> registered request policy identity l (a @ evs)"
  unfolding registered_def by auto

lemma bound_append: "bound cfg request policy identity l l' evs \<Longrightarrow> bound cfg request policy identity l l' (a @ evs)"
  by (auto simp: bound_def concluded_append isolated_append registered_append)

lemma bindAndRun_spec:
  assumes own: "owner cfg request policy identity l"
    and l: "\<not> l_CleanupComplete l" "l_RunnerGone l" "\<not> l_RunTerminal l" "0 < l_RunID l"
  shows "wp (bindAndRun cfg d ctx request policy l identity) (finishes cfg (bound cfg request policy identity l) l s) s"
  unfolding bindAndRun_def wp_bind
proof (rule wp_mono [OF waitForRun_spec], goal_cases)
  case (1 r t)
  have t: "advance cfg s l t l" using 1 advance_observes by blast
  show ?case
  proof (cases r)
    case (Inr run)
    show ?thesis
      unfolding Inr sum.case wp_bind
    proof (rule wp_mono [OF waitForJob_spec], goal_cases)
      case (1 j u)
      have u: "advance cfg s l u l" using 1 advance_observes advance_trans [OF t] by blast
      show ?case
      proof (cases j)
        case (Inr job)
        with 1 have job: "0 < wj_ID job" by simp
        show ?thesis
          unfolding Inr sum.case Let_def wp_bind
        proof (rule wp_transition, goal_cases)
          case (1 now e e' v)
          let ?m = "l\<lparr>l_JobID := wj_ID job, l_Status := StatusRunBound, l_FailureCode := [], l_UpdatedAt := now\<rparr>"
          have v: "advance cfg s l v ?m"
            by (rule advance_trans [OF u advance_saved [OF _ 1(1)]]) (simp add: eases_def)
          show ?case
          proof (cases e)
            case None
            show ?thesis
              unfolding None case_prod_conv option.case labelExists_def wp_bind
            proof (rule wp_call_observes, goal_cases)
              case (1 collision w)
              have w: "advance cfg s l w ?m"
                by (rule advance_trans [OF v advance_observes [OF 1(1)]]) simp
              have own': "owner cfg request policy identity ?m" using own owner_core [OF advance_core [OF w]] by simp
              have "finishes cfg (bound cfg request policy identity l) l s x y"
                if "finishes cfg (bound cfg request policy identity ?m) ?m w x y" for x y
                by (rule finishes_step [OF w that]) (rule bound_append, simp add: bound_def)
              then have "wp (registerAndRun cfg d ctx request policy ?m identity) (finishes cfg (bound cfg request policy identity l) l s) w"
                by (intro wp_mono [OF registerAndRun_spec [OF own']]) (use l job in simp_all)
              then show ?case using finishes_error [OF w] by (simp split: sum.split)
            qed
          qed (use finishes_error [OF v] in simp)
        qed
      qed (use finishes_error [OF u] in simp)
    qed
  qed (use finishes_error [OF t] in simp)
qed

text \<open>What a dispatch without error has seen, from the accepted dispatch to the end.\<close>

definition dispatched :: "Config \<Rightarrow> Request \<Rightarrow> RepositoryPolicy \<Rightarrow> Identity \<Rightarrow> Ledger \<Rightarrow> (jevent \<times> ledger_dir) list \<Rightarrow> bool" where
  "dispatched cfg request policy identity l evs \<longleftrightarrow>
     (\<exists>receipt. occurs (EvDispatchWorkflow (rq_Repository request) (rp_Workflow policy) (rp_TrustedRef policy)
          (dispatch_inputs request identity) (Inr receipt)) evs \<and> l_RunID l = dr_RunID receipt) \<and>
     registered request policy identity l evs \<and> isolated cfg l evs \<and> concluded request policy identity l evs"

lemma acceptDispatch_spec:
  assumes own: "owner cfg request policy identity l"
    and l: "l_RunTerminal l" "l_RunID l0 = l_RunID l"
    and l0: "\<not> l_CleanupComplete l0" "l_RunnerGone l0" "\<not> l_RunTerminal l0"
    and t: "advance cfg s l t l0" "\<forall>x \<in> set (since s t). run_owed (fst x) \<longrightarrow>
        fst x = EvDispatchWorkflow (rq_Repository request) (rp_Workflow policy) (rp_TrustedRef policy) (dispatch_inputs request identity) answer"
      "occurs (EvDispatchWorkflow (rq_Repository request) (rp_Workflow policy) (rp_TrustedRef policy) (dispatch_inputs request identity) answer) (since s t)"
  shows "wp (acceptDispatch cfg d ctx request policy l0 identity answer) (finishes cfg (dispatched cfg request policy identity) l s) t"
proof (cases answer)
  case (Inl err)
  have "advance cfg s l t (l0\<lparr>l_RunTerminal := True\<rparr>)" if "\<not> errors_Is err ErrAmbiguous"
    by (rule restore_run_terminal [OF t(1) l(1, 2)]) (use t(2) Inl that in auto)
  then show ?thesis
    using Inl finishes_error t(1) by (auto simp: acceptDispatch_def)
next
  case (Inr receipt)
  show ?thesis
  proof (cases "dr_RunID receipt \<le> 0")
    case False
    show ?thesis
      unfolding acceptDispatch_def Inr sum.case if_not_P [OF False] wp_bind
    proof (rule wp_transition, goal_cases)
      case (1 now e e' u)
      let ?m = "l0\<lparr>l_RunID := dr_RunID receipt, l_Status := StatusWorkflowDispatched, l_FailureCode := [], l_UpdatedAt := now\<rparr>"
      have su: "advance cfg s l u ?m"
        by (rule advance_trans [OF t(1) advance_saved [OF _ 1(1)]]) (use l0 in \<open>simp add: eases_def\<close>)
      have own': "owner cfg request policy identity ?m" using own owner_core [OF advance_core [OF su]] by simp
      have "since s u = since s t @ since t u"
        by (rule since_trans [OF advance_grows [OF t(1)] saved_grows [OF 1(1)]])
      then have "dispatched cfg request policy identity l' (since s u @ evs)"
        if "bound cfg request policy identity ?m l' evs" for l' evs
        using t(3) that unfolding Inr bound_def dispatched_def
        by (auto simp: concluded_append isolated_append registered_append)
      then have "finishes cfg (dispatched cfg request policy identity) l s x v"
        if "finishes cfg (bound cfg request policy identity ?m) ?m u x v" for x v
        by (rule finishes_step [OF su that])
      then have "wp (bindAndRun cfg d ctx request policy ?m identity) (finishes cfg (dispatched cfg request policy identity) l s) u"
        by (intro wp_mono [OF bindAndRun_spec [OF own']]) (use l0 False in simp_all)
      then show ?case using finishes_error [OF su] by (simp split: option.split)
    qed
  qed (use Inr finishes_error [OF t(1)] in \<open>simp add: acceptDispatch_def\<close>)
qed

lemma dispatchPrepared_spec:
  assumes own: "owner cfg request policy identity l"
    and l: "\<not> l_CleanupComplete l" "l_RunTerminal l" "l_RunnerGone l" "l_RunID l = 0"
  shows "wp (dispatchPrepared cfg d ctx request policy l identity) (finishes cfg (dispatched cfg request policy identity) l s) s"
  unfolding dispatchPrepared_def wp_bind
proof (rule wp_transition, goal_cases)
  case (1 now e e' t)
  let ?l = "l\<lparr>l_RunTerminal := False, l_Status := StatusDispatching, l_FailureCode := [], l_UpdatedAt := now\<rparr>"
  have t: "advance cfg s l t ?l" by (rule advance_saved [OF _ 1(1)]) (simp add: eases_def)
  show ?case
  proof (cases e)
    case None
    then have m: "map_of (st_disk t) (l_RequestID l) = Some ?l" using saved_None 1 by fastforce
    show ?thesis
      unfolding None case_prod_conv option.case wp_bind
    proof (rule wp_call_observes, goal_cases)
      case (1 answer u)
      have "advance cfg t ?l u ?l"
        by (rule advance_call [OF 1])
           (use m l own in \<open>auto simp: holds_def owner_def dispatch_inputs_def ledger_identity_def\<close>)
      then have su: "advance cfg s l u ?l" by (rule advance_trans [OF t])
      have since: "since s u = since s t @ since t u"
        by (rule since_trans [OF advance_grows [OF t] observes_grows [OF 1(1)]])
      show ?case
      proof (rule acceptDispatch_spec [OF own _ _ _ _ _ su])
        show "\<forall>x \<in> set (since s u). run_owed (fst x) \<longrightarrow> fst x = EvDispatchWorkflow (rq_Repository request)
            (rp_Workflow policy) (rp_TrustedRef policy) (dispatch_inputs request identity) answer"
          using since 1(2) saved_events [OF \<open>saved ?l e' s t\<close>] harmless_owed by auto
      qed (use since 1(2) l in auto)
    qed
  qed (use t l in \<open>simp add: finishes_def\<close>)
qed

end
