(* ===== verification/Jit_Admission.thy ===== *)
theory Jit_Admission
  imports Jit_Safety
begin

text \<open>
  Whole calls of \<open>Dispatch\<close>: startup reconciliation, replay and the lease around a dispatch.
  \<open>orderly\<close> is what every stretch of it keeps of the ledger directory (well-formed, no ledger
  lost, at most one incomplete) and of the calls it makes (each lawful where it is made). It is
  transitive and follows from \<open>advance\<close> when the other ledgers are complete.
\<close>

section \<open>Complete directories\<close>

definition all_complete :: "ledger_dir \<Rightarrow> bool" where
  "all_complete D \<longleftrightarrow> (\<forall>k L. map_of D k = Some L \<longrightarrow> l_CleanupComplete L)"

text \<open>Every incomplete ledger is the one of request \<open>k\<close>.\<close>

definition complete_but :: "string \<Rightarrow> ledger_dir \<Rightarrow> bool" where
  "complete_but k D \<longleftrightarrow> (\<forall>k' L. map_of D k' = Some L \<longrightarrow> k' \<noteq> k \<longrightarrow> l_CleanupComplete L)"

definition single_incomplete :: "ledger_dir \<Rightarrow> bool" where
  "single_incomplete D \<longleftrightarrow> (\<exists>k. complete_but k D)"

lemma all_complete_but: "all_complete D \<Longrightarrow> complete_but k D"
  by (auto simp: all_complete_def complete_but_def)

lemma complete_but_single: "complete_but k D \<Longrightarrow> single_incomplete D"
  by (auto simp: single_incomplete_def)

lemma near_complete_but: "near c D E \<Longrightarrow> complete_but (l_RequestID c) D \<Longrightarrow> complete_but (l_RequestID c) E"
  by (auto simp: near_def complete_but_def)

lemma near_dom: "near c D E \<Longrightarrow> dom (map_of D) \<subseteq> dom (map_of E)"
  by (rule subsetI, rename_tac k, case_tac "k = l_RequestID c") (auto simp: near_def dom_def)

lemma complete_but_stored:
  "complete_but (l_RequestID l) (st_disk t) \<Longrightarrow> stored t l \<Longrightarrow> l_CleanupComplete l \<Longrightarrow> all_complete (st_disk t)"
  unfolding all_complete_def complete_but_def stored_def
  by (rule allI, rename_tac k, case_tac "k = l_RequestID l") auto

text \<open>The directory has the ledger of request \<open>c\<close>, with the same fixed part.\<close>

definition durable :: "ledger_dir \<Rightarrow> Ledger \<Rightarrow> bool" where
  "durable D c \<longleftrightarrow> (\<exists>L. map_of D (l_RequestID c) = Some L \<and> core L = c)"

lemma near_durable: "near c D E \<Longrightarrow> durable D c \<Longrightarrow> durable E c"
  by (auto simp: near_def durable_def)

lemma stored_durable: "stored t l \<Longrightarrow> durable (st_disk t) (core l)"
  by (simp add: stored_def durable_def)

section \<open>Lawful calls\<close>

fun gate_event :: "jevent \<Rightarrow> bool" where
  "gate_event (EvGateAcquire _ _) = True"
| "gate_event (EvGateRelease _ _) = True"
| "gate_event (EvGateAbandon _) = True"
| "gate_event (EvGateOrphan _) = True"
| "gate_event (EvGateReleaseOrphan _ _) = True"
| "gate_event _ = False"

fun release_event :: "jevent \<Rightarrow> bool" where
  "release_event (EvGateRelease _ _) = True"
| "release_event (EvGateReleaseOrphan _ _) = True"
| "release_event _ = False"

text \<open>
  A lease is given back only when every ledger is complete. \<open>stale\<close> stands for the exception:
  the dispatch reports that the candidate moved. Any other call with consequences is one that
  \<open>call_ok\<close> allows to a dispatch whose ledger is on disk when the call is made.
\<close>

definition lawful_at :: "bool \<Rightarrow> (jevent \<times> ledger_dir) list \<Rightarrow> jevent \<times> ledger_dir \<Rightarrow> bool" where
  "lawful_at stale pre e \<longleftrightarrow>
     (if gate_event (fst e) then release_event (fst e) \<longrightarrow> stale \<or> all_complete (snd e)
      else harmless (fst e) \<or> (\<exists>c. durable (snd e) c \<and> call_ok c pre e))"

definition lawful :: "bool \<Rightarrow> (jevent \<times> ledger_dir) list \<Rightarrow> bool" where
  "lawful stale evs \<longleftrightarrow> (\<forall>pre e post. evs = pre @ e # post \<longrightarrow> lawful_at stale pre e)"

lemma lawful_at_more: "lawful_at stale pre e \<Longrightarrow> lawful_at stale (pre' @ pre) e"
  unfolding lawful_at_def by (auto split: if_splits intro: call_ok_more)

lemma lawful_Nil [simp]: "lawful stale []"
  by (simp add: lawful_def)

lemma lawful_append:
  assumes a: "lawful stale a" and b: "lawful stale b"
  shows "lawful stale (a @ b)"
  unfolding lawful_def
proof (intro allI impI)
  fix pre e post
  assume split: "a @ b = pre @ e # post"
  then consider post' where "a = pre @ e # post'" | pre' where "pre = a @ pre'" "b = pre' @ e # post"
    by (auto simp: append_eq_append_conv2 append_eq_Cons_conv)
  then show "lawful_at stale pre e"
    by cases (use a b lawful_at_more in \<open>unfold lawful_def, blast+\<close>)
qed

lemma gate_not_ok: "gate_event ev \<Longrightarrow> \<not> call_ok c pre (ev, D)"
  by (cases ev) auto

lemma sound_lawful:
  assumes "sound c evs" "\<forall>x \<in> set evs. durable (snd x) c"
  shows "lawful stale evs"
  unfolding lawful_def
proof (intro allI impI)
  fix pre e post
  assume evs: "evs = pre @ e # post"
  with assms have "call_ok c pre e" using soundD by blast
  moreover have "\<not> gate_event (fst e)" using \<open>call_ok c pre e\<close> gate_not_ok [of "fst e" c pre "snd e"] by auto
  moreover have "durable (snd e) c" using assms(2) evs by simp
  ultimately show "lawful_at stale pre e" by (auto simp: lawful_at_def)
qed

lemma harmless_no_gate: "harmless ev \<Longrightarrow> \<not> gate_event ev"
  by (cases ev) auto

lemma lawful_gate: "gate_event (fst e) \<Longrightarrow> (release_event (fst e) \<Longrightarrow> stale \<or> all_complete (snd e)) \<Longrightarrow> lawful stale [e]"
  by (auto simp: lawful_def lawful_at_def Cons_eq_append_conv)

lemma lawful_harmless: "\<forall>x \<in> set evs. harmless (fst x) \<Longrightarrow> lawful stale evs"
  by (auto simp: lawful_def lawful_at_def harmless_no_gate)

lemma lawful_mono: "lawful stale evs \<Longrightarrow> (stale \<Longrightarrow> stale') \<Longrightarrow> lawful stale' evs"
  unfolding lawful_def lawful_at_def by (auto split: if_splits)

section \<open>Orderly stretches\<close>

definition keeps_dir :: "ledger_dir \<Rightarrow> ledger_dir \<Rightarrow> bool" where
  "keeps_dir D E \<longleftrightarrow> dom (map_of D) \<subseteq> dom (map_of E) \<and> (wf_dir D \<longrightarrow> wf_dir E) \<and> (single_incomplete D \<longrightarrow> single_incomplete E)"

definition orderly :: "bool \<Rightarrow> 'w jst \<Rightarrow> 'w jst \<Rightarrow> bool" where
  "orderly stale s t \<longleftrightarrow> grows s t \<and> lawful stale (since s t) \<and>
     keeps_dir (st_disk s) (st_disk t) \<and> (\<forall>e \<in> set (since s t). keeps_dir (st_disk s) (snd e))"

lemma keeps_dir_refl [simp]: "keeps_dir D D"
  by (simp add: keeps_dir_def)

lemma keeps_dir_trans: "keeps_dir D E \<Longrightarrow> keeps_dir E F \<Longrightarrow> keeps_dir D F"
  by (auto simp: keeps_dir_def)

lemma orderly_refl [simp]: "orderly stale s s"
  by (simp add: orderly_def)

lemma orderly_grows: "orderly stale s t \<Longrightarrow> grows s t"
  by (simp add: orderly_def)

lemma orderly_weaken: "orderly stale s t \<Longrightarrow> (stale \<Longrightarrow> stale') \<Longrightarrow> orderly stale' s t"
  by (auto simp: orderly_def intro: lawful_mono)

lemma orderly_mono: "orderly False s t \<Longrightarrow> orderly stale s t"
  by (erule orderly_weaken) simp

lemma orderly_trans:
  assumes "orderly stale s t" "orderly stale t u"
  shows "orderly stale s u"
proof -
  have "since s u = since s t @ since t u" by (rule since_trans [OF assms [THEN orderly_grows]])
  then show ?thesis
    using assms unfolding orderly_def by (auto intro: grows_trans lawful_append keeps_dir_trans)
qed

lemma near_keeps_dir:
  assumes "near c D E" "complete_but (l_RequestID c) D"
  shows "keeps_dir D E"
  using near_dom [OF assms(1)] near_complete_but [OF assms] assms complete_but_single unfolding keeps_dir_def near_def
  by simp

lemma orderly_advance:
  assumes a: "advance cfg s l t l'" and c: "complete_but (l_RequestID l) (st_disk s)" and d: "durable (st_disk s) (core l)"
  shows "orderly stale s t"
proof -
  have "keeps_dir (st_disk s) D" "durable D (core l)" if "near (core l) (st_disk s) D" for D
    using near_keeps_dir [OF that] near_durable [OF that d] c by simp_all
  with a show ?thesis unfolding advance_def orderly_def by (auto intro: sound_lawful)
qed

lemma orderly_saved:
  assumes v: "saved l e s t" and c: "complete_but (l_RequestID l) (st_disk s)"
  shows "orderly stale s t"
proof -
  have a: "advance cfg s l t l" for cfg by (rule advance_saved_same [OF v])
  have "keeps_dir (st_disk s) D" if "near (core l) (st_disk s) D" for D
    using near_keeps_dir [OF that] c by simp
  moreover have "lawful stale (since s t)" by (rule lawful_harmless) (use v in \<open>auto simp: saved_def\<close>)
  ultimately show ?thesis using a unfolding advance_def orderly_def by blast
qed

lemma advance_complete_but:
  "advance cfg s l t l' \<Longrightarrow> complete_but (l_RequestID l) (st_disk s) \<Longrightarrow> complete_but (l_RequestID l) (st_disk t)"
  using near_complete_but [of "core l"] by (auto simp: advance_def)

lemma orderly_observes: "observes E s t \<Longrightarrow> (\<And>ev. E ev \<Longrightarrow> harmless ev) \<Longrightarrow> orderly stale s t"
  unfolding orderly_def observes_def by (auto intro: lawful_harmless)

lemma orderly_quiet: "observes (\<lambda>_. False) s t \<Longrightarrow> orderly stale s t"
  by (erule orderly_observes) simp

lemma orderly_gate:
  assumes "observes (\<lambda>ev'. ev' = ev) s t" "since s t = [(ev, st_disk s)]" "gate_event ev"
    and "release_event ev \<Longrightarrow> stale \<or> all_complete (st_disk s)"
  shows "orderly stale s t"
  using assms unfolding orderly_def observes_def by (auto intro: lawful_gate)

section \<open>Startup reconciliation\<close>

lemma scan_ledgers_Inr:
  "scan_ledgers orphan m inc ls = Inr (m', inc') \<Longrightarrow>
     (case inc' of
        None \<Rightarrow> inc = None \<and> (\<forall>l \<in> set ls. l_CleanupComplete l)
      | Some l \<Rightarrow> (inc = Some l \<or> inc = None \<and> l \<in> set ls) \<and> (\<forall>l' \<in> set ls. l' = l \<or> l_CleanupComplete l'))"
  by (induction orphan m inc ls rule: scan_ledgers.induct) (auto simp: Let_def split: if_splits option.splits)

definition repaired :: "Config \<Rightarrow> Ledger \<Rightarrow> 'w jst \<Rightarrow> jerr option \<Rightarrow> 'w jst \<Rightarrow> bool" where
  "repaired cfg l s e t \<longleftrightarrow> (\<exists>l'. advance cfg s l t l' \<and>
     (e = None \<longrightarrow> l_CleanupComplete l' \<and> l_RunTerminal l' \<and> l_RunnerGone l' \<and> l_IsolationGone l' \<and> stored t l'))"

lemma repairLedger_spec: "wp (repairLedger cfg d ctx l) (repaired cfg l s) s"
  unfolding repairLedger_def wp_bind
proof (rule wp_transition, goal_cases)
  case (1 now e e' t)
  let ?l = "l\<lparr>l_Status := StatusReconciling, l_FailureCode := ''startup_reconciliation'', l_UpdatedAt := now\<rparr>"
  have t: "advance cfg s l t ?l" by (rule advance_saved [OF eases_status 1(1)])
  show ?case
  proof (cases e)
    case None
    have "wp (cleanupLedger cfg d ctx' ?l) (\<lambda>r. wp (case r of (ledger, e) \<Rightarrow> (case e of Some err \<Rightarrow> ret (Some err)
        | None \<Rightarrow> do { now \<leftarrow> Now d; Save d (ledger\<lparr>l_Status := StatusAmbiguous, l_FailureCode := code, l_UpdatedAt := now\<rparr>) }))
        (repaired cfg l s)) t" for ctx' code
    proof (rule wp_mono [OF cleanupLedger_spec], goal_cases)
      case (1 x u)
      obtain l' e where x: "x = (l', e)" by fastforce
      have u: "advance cfg s l u l'" using 1 advance_trans [OF t] by (simp add: cleaned_def x)
      have "wp (Save d (l'\<lparr>l_Status := StatusAmbiguous, l_FailureCode := code, l_UpdatedAt := now\<rparr>)) (repaired cfg l s) u"
        if "e = None" for now
      proof (rule wp_Save)
        fix e2 v
        assume v: "saved (l'\<lparr>l_Status := StatusAmbiguous, l_FailureCode := code, l_UpdatedAt := now\<rparr>) e2 u v"
        show "repaired cfg l s e2 v"
          unfolding repaired_def
          by (rule exI, rule conjI [OF advance_trans [OF u advance_saved [OF eases_status v]]])
             (use 1 that v saved_stored in \<open>auto simp: cleaned_def x\<close>)
      qed
      with u show ?case by (auto simp: x repaired_def split: option.split)
    qed
    then show ?thesis by (simp add: None)
  qed (use t in \<open>auto simp: repaired_def\<close>)
qed

lemma repaired_orderly:
  assumes "repaired cfg l s e t" "complete_but (l_RequestID l) (st_disk s)" "durable (st_disk s) (core l)"
  shows "orderly stale s t" "e = None \<Longrightarrow> all_complete (st_disk t)"
proof -
  from assms obtain l' where a: "advance cfg s l t l'" and c: "e = None \<longrightarrow> l_CleanupComplete l' \<and> stored t l'"
    unfolding repaired_def by blast
  show "orderly stale s t" by (rule orderly_advance [OF a assms(2, 3)])
  have "complete_but (l_RequestID l') (st_disk t)"
    using advance_complete_but [OF a assms(2)] core_eqD(1) [OF advance_core [OF a]] by simp
  then show "e = None \<Longrightarrow> all_complete (st_disk t)" using complete_but_stored c by blast
qed

definition reconciled :: "'w jst \<Rightarrow> jerr option \<Rightarrow> 'w jst \<Rightarrow> bool" where
  "reconciled s e t \<longleftrightarrow> orderly False s t \<and> (e = None \<longrightarrow> all_complete (st_disk t))"

lemma reconciled_step: "orderly False s t \<Longrightarrow> reconciled t e u \<Longrightarrow> reconciled s e u"
  by (auto simp: reconciled_def intro: orderly_trans)

lemma reconciled_error: "orderly False s t \<Longrightarrow> reconciled s (Some err) t"
  by (simp add: reconciled_def)

lemma reconciled_complete: "orderly False s t \<Longrightarrow> all_complete (st_disk t) \<Longrightarrow> reconciled s e t"
  by (simp add: reconciled_def)

lemma wp_gate_call:
  assumes "\<And>a. gate_event (mk a)" "\<And>a. release_event (mk a) \<Longrightarrow> stale \<or> all_complete (st_disk s)"
    and Q: "\<And>a t. orderly stale s t \<Longrightarrow> st_disk t = st_disk s \<Longrightarrow> since s t = [(mk a, st_disk s)] \<Longrightarrow> Q a t"
  shows "wp (call mk f) Q s"
proof (rule wp_call_observes)
  fix a t
  assume t: "observes (\<lambda>ev. ev = mk a) s t" "since s t = [(mk a, st_disk s)]"
  show "Q a t" by (rule Q) (use t orderly_gate [OF t] assms in \<open>auto simp: observes_def\<close>)
qed

lemma releaseOrphan_spec:
  assumes "all_complete (st_disk s)"
  shows "wp (releaseOrphan cfg d ctx marker) (reconciled s) s"
  unfolding releaseOrphan_def wp_bind wp_timeout
  by (rule wp_gate_call [where stale = False]) (use assms in \<open>auto intro!: reconciled_complete\<close>)

lemma wp_gateAcquire:
  "(\<And>r t. orderly False s t \<Longrightarrow> st_disk t = st_disk s \<Longrightarrow> since s t = [(EvGateAcquire leaseID r, st_disk s)] \<Longrightarrow> Q r t) \<Longrightarrow>
   wp (gateAcquire cfg d ctx leaseID) Q s"
  unfolding gateAcquire_def by (rule wp_gate_call) simp_all

lemma wp_gateAbandon:
  "(\<And>t. orderly False s t \<Longrightarrow> st_disk t = st_disk s \<Longrightarrow> since s t = [(EvGateAbandon lease, st_disk s)] \<Longrightarrow> Q () t) \<Longrightarrow>
   wp (gateAbandon d lease) Q s"
  unfolding gateAbandon_def wp_bind by (rule wp_gate_call) simp_all

lemma wp_gateRelease:
  "stale \<or> all_complete (st_disk s) \<Longrightarrow>
   (\<And>r t. orderly stale s t \<Longrightarrow> st_disk t = st_disk s \<Longrightarrow> since s t = [(EvGateRelease lease r, st_disk s)] \<Longrightarrow> Q r t) \<Longrightarrow>
   wp (gateRelease d ctx lease) Q s"
  unfolding gateRelease_def by (rule wp_gate_call) simp_all

lemma reconcileLedger_spec:
  assumes c: "complete_but (l_RequestID l) (st_disk s)" "durable (st_disk s) (core l)"
  shows "wp (reconcileLedger cfg d ctx orphan l) (reconciled s) s"
proof (cases orphan)
  case (Some marker)
  have "wp (repairLedger cfg d ctx l) (\<lambda>e. wp (case e of Some err \<Rightarrow> ret (Some err) | None \<Rightarrow> releaseOrphan cfg d ctx marker)
      (reconciled s)) s"
  proof (rule wp_mono [OF repairLedger_spec], goal_cases)
    case (1 e t)
    note r = repaired_orderly [OF 1 c]
    show ?case
      using r(2) wp_mono [OF releaseOrphan_spec reconciled_step [OF r(1)]] reconciled_error [OF r(1)] by (cases e) auto
  qed
  then show ?thesis by (simp add: reconcileLedger_def Some reconciled_error)
next
  case None
  have "wp (repairLedger cfg d ctx l) (\<lambda>e. wp (case e of Some err \<Rightarrow> do { gateAbandon d lease; ret (Some err) }
      | None \<Rightarrow> do { releaseCtx \<leftarrow> timeout ctx (cfg_ShutdownGrace cfg); gateRelease d releaseCtx lease }) (reconciled s)) t"
    if t: "orderly False s t" "st_disk t = st_disk s" for lease t
  proof (rule wp_mono [OF repairLedger_spec], goal_cases)
    case (1 e u)
    have c': "complete_but (l_RequestID l) (st_disk t)" "durable (st_disk t) (core l)" using c t by simp_all
    note r = repaired_orderly [OF 1 c']
    have su: "orderly False s u" by (rule orderly_trans [OF t(1) r(1)])
    show ?case
      using r(2) orderly_trans [OF su]
      by (auto split: option.split intro!: wp_gateAbandon wp_gateRelease [where stale = False] reconciled_error
          intro: reconciled_complete)
  qed
  then show ?thesis
    unfolding reconcileLedger_def None
    by (auto intro!: wp_gateAcquire reconciled_error split: sum.split)
qed

lemma reconcileStartup_spec: "wp (reconcileStartup cfg d ctx) (reconciled s) s"
  unfolding reconcileStartup_def wp_bind
proof (rule wp_List, goal_cases)
  case (1 r t)
  have t: "orderly False s t" "st_disk t = st_disk s" using 1(1) orderly_quiet by (auto simp: observes_def)
  show ?case
  proof (cases r)
    case (Inr ls)
    note ls = 1(2) [OF Inr, THEN conjunct2, rule_format]
    show ?thesis
      unfolding Inr sum.case wp_bind
    proof (rule wp_gate_call [where stale = False], goal_cases)
      case (3 o' u)
      have u: "orderly False s u" by (rule orderly_trans [OF t(1) 3(1)])
      have all: "all_complete (st_disk u)" if "\<forall>l \<in> set ls. l_CleanupComplete l"
        using ls that t(2) 3(2) by (auto simp: all_complete_def)
      have but: "complete_but (l_RequestID l) (st_disk u)" if "\<forall>l' \<in> set ls. l' = l \<or> l_CleanupComplete l'" for l
        using ls that t(2) 3(2) by (auto simp: complete_but_def)
      have dur: "durable (st_disk u) (core l)" if "l \<in> set ls" for l
        using ls that t(2) 3(2) by (auto simp: durable_def)
      have step: "reconciled u e v \<Longrightarrow> reconciled s e v" for e v by (rule reconciled_step [OF u])
      show ?case
        by (auto split: sum.split option.split dest!: scan_ledgers_Inr
            intro!: reconciled_error [OF u] reconciled_complete [OF u] all
              wp_mono [OF releaseOrphan_spec [OF all] step] wp_mono [OF reconcileLedger_spec [OF but dur] step])
    qed simp_all
  qed (use t in \<open>simp add: reconciled_error\<close>)
qed

section \<open>Under the lease\<close>

definition is_stale :: "jerr option \<Rightarrow> bool" where
  "is_stale err \<longleftrightarrow> (\<exists>e. err = Some e \<and> errors_Is e ErrStale)"

lemma is_stale_Join: "is_stale a \<Longrightarrow> is_stale (errors_Join [a, b])"
  unfolding is_stale_def using errors_Is_Join [of "[a, b]"] errors_Join_Some_ex [of "[a, b]"]
  by (metis list.set_intros(1) option.simps(3))

text \<open>Everything the dispatch of \<open>c\<close> started is proved gone.\<close>

definition settled :: "Config \<Rightarrow> Ledger \<Rightarrow> (jevent \<times> ledger_dir) list \<Rightarrow> bool" where
  "settled cfg c evs \<longleftrightarrow> (\<exists>l. core l = c \<and> settles run_owed (run_evidence cfg l) evs \<and>
     settles runner_owed (runner_evidence l) evs \<and> settles isolation_owed (isolation_evidence cfg l) evs)"

definition leased ::
  "Config \<Rightarrow> Request \<Rightarrow> RepositoryPolicy \<Rightarrow> Identity \<Rightarrow> LeaseMarker \<Rightarrow> Ledger \<Rightarrow> 'w jst \<Rightarrow> Result \<times> jerr option \<Rightarrow> 'w jst \<Rightarrow> bool" where
  "leased cfg request policy identity lease l s = (\<lambda>(res, err) t. orderly (is_stale err) s t \<and>
     (\<forall>pre m r D post. since s t = pre @ (EvGateRelease m r, D) # post \<longrightarrow> m = lease \<and> settled cfg (core l) pre) \<and>
     (err = None \<longrightarrow> (\<exists>l'. core l' = core l \<and> stored t l' \<and> l_Status l' = StatusCompleted \<and> l_CleanupComplete l' \<and>
        res = result_of l' \<and> dispatched cfg request policy identity l' (since s t) \<and>
        occurs (EvGateRelease lease None) (since s t))))"

lemma advance_no_gate: "advance cfg s l t l' \<Longrightarrow> x \<in> set (since s t) \<Longrightarrow> \<not> gate_event (fst x)"
  unfolding advance_def using soundD gate_not_ok by (metis in_set_conv_decomp prod.collapse)

lemma unique_release:
  assumes "a @ x # b = pre @ y # post" "\<forall>z \<in> set a. \<not> gate_event (fst z)" "\<forall>z \<in> set b. \<not> gate_event (fst z)" "gate_event (fst y)"
  shows "pre = a \<and> y = x"
  using assms by (auto simp: append_eq_append_conv2 append_eq_Cons_conv Cons_eq_append_conv)

lemma dispatched_append: "dispatched cfg request policy identity l evs \<Longrightarrow> dispatched cfg request policy identity l (evs @ a)"
  unfolding dispatched_def registered_def isolated_def concluded_def executed_def by fastforce

lemma settled_advance:
  assumes "advance cfg s l t l'" "l_RunTerminal l'" "l_RunnerGone l'" "l_IsolationGone l'"
  shows "settled cfg (core l) (since s t)"
proof -
  have "honest cfg l []" by (simp add: honest_def)
  then have "honest cfg l' (since s t)" using assms(1) unfolding advance_def by (metis append_Nil)
  then show ?thesis using assms advance_core [OF assms(1)] unfolding honest_def settled_def by blast
qed

lemma dispatchLeased_spec:
  assumes own: "owner cfg request policy identity l"
    and l: "\<not> l_CleanupComplete l" "l_RunTerminal l" "l_RunnerGone l" "l_RunID l = 0"
    and c: "complete_but (l_RequestID l) (st_disk s)" and dur: "durable (st_disk s) (core l)"
  shows "wp (dispatchLeased cfg d ctx request policy l identity lease) (leased cfg request policy identity lease l s) s"
  unfolding dispatchLeased_def endLease_def wp_bind
proof (rule wp_mono [OF dispatchPrepared_spec [OF own l]], goal_cases)
  case (1 x t)
  obtain l' res err where x: "x = (l', res, err)" by (cases x) auto
  note f = 1 [unfolded x finishes_def case_prod_conv]
  have a: "advance cfg s l t l'" and res: "res = result_of l'" using f by blast+
  have ord: "orderly stale s t" for stale by (rule orderly_advance [OF a c dur])
  have core: "core l' = core l" by (rule advance_core [OF a])
  have c': "complete_but (l_RequestID l') (st_disk t)"
    using advance_complete_but [OF a c] core_eqD(1) [OF core] by simp
  show ?case
  proof (cases "l_CleanupComplete l'")
    case False
    have "wp (gateAbandon d lease) (\<lambda>_. leased cfg request policy identity lease l s (res, err)) t"
    proof (rule wp_gateAbandon)
      fix u
      assume u: "orderly False t u" "since t u = [(EvGateAbandon lease, st_disk t)]"
      have "since s u = since s t @ [(EvGateAbandon lease, st_disk t)]"
        using since_trans [OF advance_grows [OF a] orderly_grows [OF u(1)]] u(2) by simp
      then have "\<not> (since s u = pre @ (EvGateRelease m e, D) # post)" for pre m e D post
        using unique_release [of "since s t" "(EvGateAbandon lease, st_disk t)" "[]" pre "(EvGateRelease m e, D)" post]
          advance_no_gate [OF a] by auto
      then show "leased cfg request policy identity lease l s (res, err) u"
        using orderly_trans [OF ord orderly_mono [OF u(1)]] f False unfolding leased_def by auto
    qed
    then show ?thesis using False by (simp add: x)
  next
    case True
    have ok: "is_stale err \<or> all_complete (st_disk t)"
      using f True complete_but_stored [OF c'] unfolding is_stale_def by blast
    have gone: "settled cfg (core l) (since s t)" using settled_advance [OF a] f True by blast
    have release: "wp (gateRelease d ctx' lease) (\<lambda>e. wp (case e of None \<Rightarrow> ret (res, err)
         | Some e' \<Rightarrow> do { (ledger, _) \<leftarrow> transition d (l'\<lparr>l_CleanupComplete := False\<rparr>) StatusAmbiguous code;
             ret (result_of ledger, errors_Join [err, Some (Wrap msg [Leaf ErrAmbiguous, e'])]) })
         (leased cfg request policy identity lease l s)) t" for ctx' code msg
    proof (rule wp_gateRelease [OF ok], goal_cases)
      case (1 r u)
      have su: "since s u = since s t @ [(EvGateRelease lease r, st_disk t)]"
        using since_trans [OF advance_grows [OF a] orderly_grows [OF 1(1)]] 1(3) by simp
      show ?case
      proof (cases r)
        case None
        have "leased cfg request policy identity lease l s (res, err) u"
          unfolding leased_def
        proof (clarify, intro conjI allI impI)
          show "orderly (is_stale err) s u" by (rule orderly_trans [OF ord 1(1)])
          fix pre m e D post
          assume "since s u = pre @ (EvGateRelease m e, D) # post"
          then show "m = lease" "settled cfg (core l) pre"
            using unique_release [of "since s t" "(EvGateRelease lease r, st_disk t)" "[]" pre "(EvGateRelease m e, D)" post]
              su advance_no_gate [OF a] gone by auto
        next
          assume "err = None"
          moreover have "stored u = stored t" using 1(2) by (simp add: stored_def fun_eq_iff)
          ultimately show "\<exists>l'. core l' = core l \<and> stored u l' \<and> l_Status l' = StatusCompleted \<and> l_CleanupComplete l' \<and>
              res = result_of l' \<and> dispatched cfg request policy identity l' (since s u) \<and>
              occurs (EvGateRelease lease None) (since s u)"
            using f core su None dispatched_append by auto
        qed
        then show ?thesis by (simp add: None)
      next
        case (Some e')
        have c2: "complete_but (l_RequestID l') (st_disk u)" using c' 1(2) by simp
        show ?thesis
          unfolding Some option.case wp_bind
        proof (rule wp_transition, goal_cases)
          case (1 now e2 e3 v)
          let ?m = "l'\<lparr>l_CleanupComplete := False, l_Status := StatusAmbiguous, l_FailureCode := code, l_UpdatedAt := now\<rparr>"
          have uv: "advance cfg u l' v ?m" by (rule advance_saved [OF _ 1(1)]) (simp add: eases_def)
          have "orderly (is_stale err) s v"
            using orderly_trans [OF orderly_trans [OF ord \<open>orderly (is_stale err) t u\<close>] orderly_saved [OF 1(1)]] c2 by simp
          then have "orderly (is_stale (errors_Join [err, Some e])) s v" for e
            by (rule orderly_weaken) (rule is_stale_Join)
          moreover have sv: "since s v = since s t @ (EvGateRelease lease r, st_disk t) # since u v"
            using since_trans [OF grows_trans [OF advance_grows [OF a] orderly_grows [OF \<open>orderly (is_stale err) t u\<close>]] advance_grows [OF uv]] su
            by simp
          moreover have "m = lease \<and> settled cfg (core l) pre" if "since s v = pre @ (EvGateRelease m e, D) # post" for pre m e D post
            using unique_release [of "since s t" "(EvGateRelease lease r, st_disk t)" "since u v" pre "(EvGateRelease m e, D)" post]
              sv that advance_no_gate [OF a] advance_no_gate [OF uv] gone by auto
          ultimately show ?case by (auto simp: leased_def)
        qed
      qed
    qed
    then show ?thesis using True by (simp add: x)
  qed
qed

section \<open>Dispatch\<close>

lemma keeps_verifyAuthority: "keeps (observes harmless) (verifyAuthority d ctx request policy)"
  unfolding verifyAuthority_def resolveRef_def by (intro keeps_rules) simp_all

text \<open>
  What a call of \<open>Dispatch\<close> that returns no error promises of its result: the request is
  completed and cleaned up, durably, and unless it is a replay all of it happened in this call.
\<close>

definition delivered :: "Config \<Rightarrow> Request \<Rightarrow> string \<Rightarrow> 'w jst \<Rightarrow> Result \<Rightarrow> 'w jst \<Rightarrow> bool" where
  "delivered cfg request rid s res t \<longleftrightarrow>
     (\<exists>L policy. map_of (st_disk t) rid = Some L \<and> Policy cfg (rq_Repository request) = Some policy \<and>
        l_Status L = StatusCompleted \<and> l_CleanupComplete L \<and>
        l_Repository L = rq_Repository request \<and> l_CandidateRef L = rq_CandidateRef request \<and> l_CandidateSHA L = rq_CandidateSHA request \<and>
        res_RequestID res = rid \<and> res_RunID res = l_RunID L \<and> res_Status res = StatusCompleted \<and>
        (\<not> res_Replay res \<longrightarrow> dispatched cfg request policy (ledger_identity L) L (since s t) \<and>
           (\<exists>lease. occurs (EvGateRelease lease None) (since s t))))"

definition answered :: "Config \<Rightarrow> Request \<Rightarrow> string \<Rightarrow> 'w jst \<Rightarrow> Result \<times> jerr option \<Rightarrow> 'w jst \<Rightarrow> bool" where
  "answered cfg request rid s = (\<lambda>(res, err) t. orderly (is_stale err) s t \<and> (err = None \<longrightarrow> delivered cfg request rid s res t))"

lemma answered_error: "orderly False s t \<Longrightarrow> answered cfg request rid s (res, Some err) t"
  by (simp add: answered_def orderly_mono)

lemma dispatched_prepend: "dispatched cfg request policy identity l evs \<Longrightarrow> dispatched cfg request policy identity l (a @ evs)"
  unfolding dispatched_def by (auto simp: registered_append isolated_append concluded_append)

definition fresh :: "Config \<Rightarrow> Request \<Rightarrow> RepositoryPolicy \<Rightarrow> Identity \<Rightarrow> string \<Rightarrow> Ledger \<Rightarrow> bool" where
  "fresh cfg request policy identity rid l \<longleftrightarrow> owner cfg request policy identity l \<and> l_RequestID l = rid \<and> l_LeaseID l = id_Nonce identity \<and>
     \<not> l_CleanupComplete l \<and> l_RunTerminal l \<and> l_RunnerGone l \<and> l_IsolationGone l \<and> l_RunID l = 0"

lemma wp_newLedger:
  assumes "Policy cfg (rq_Repository request) = Some policy"
    and "\<And>l. fresh cfg request policy identity rid l \<Longrightarrow> Q l s"
  shows "wp (newLedger d rid request policy sha identity) Q s"
  using assms(1) unfolding newLedger_def
  by (auto intro!: assms(2) simp: fresh_def owner_def ledger_identity_def)

text \<open>From the durable fresh ledger on.\<close>

lemma leased_answered:
  assumes own: "fresh cfg request policy identity rid l"
    and st: "orderly False s t" and u: "leased cfg request policy identity lease l t x u"
  shows "answered cfg request rid s x u"
proof -
  obtain res err where x: "x = (res, err)" by fastforce
  have tu: "orderly (is_stale err) t u" using u by (simp add: leased_def x)
  have "delivered cfg request rid s res u" if "err = None"
  proof -
    from u that obtain l' where l': "core l' = core l" "stored u l'" "l_Status l' = StatusCompleted" "l_CleanupComplete l'"
        "res = result_of l'" "dispatched cfg request policy identity l' (since t u)"
        "occurs (EvGateRelease lease None) (since t u)"
      by (auto simp: leased_def x)
    have "since s u = since s t @ since t u" by (rule since_trans [OF orderly_grows [OF st] orderly_grows [OF tu]])
    with l' own show ?thesis
      using core_eqD [OF l'(1)] unfolding delivered_def fresh_def owner_def stored_def
      by (auto simp: result_of_def dispatched_prepend)
  qed
  then show ?thesis using orderly_trans [OF orderly_mono [OF st] tu] by (simp add: answered_def x)
qed

lemma dispatchFresh_spec:
  assumes own: "fresh cfg request policy identity rid l" and st: "orderly False s t" "all_complete (st_disk t)"
  shows "wp (dispatchFresh cfg d ctx request policy l identity) (answered cfg request rid s) t"
  unfolding dispatchFresh_def wp_bind
proof (rule wp_Save, goal_cases)
  case (1 e u)
  have tu: "advance cfg t l u l" by (rule advance_saved_same [OF 1])
  have c: "complete_but (l_RequestID l) (st_disk t)" by (rule all_complete_but [OF st(2)])
  have u: "orderly False s u" by (rule orderly_trans [OF st(1) orderly_saved [OF 1 c]])
  show ?case
  proof (cases e)
    case None
    have du: "durable (st_disk u) (core l)" using 1 None by (simp add: saved_stored stored_durable)
    show ?thesis
      unfolding None option.case wp_bind
    proof (rule wp_gateAcquire, goal_cases)
      case (1 r v)
      have v: "orderly False s v" by (rule orderly_trans [OF u 1(1)])
      have cv: "complete_but (l_RequestID l) (st_disk v)" using advance_complete_but [OF tu c] 1(2) by simp
      show ?case
      proof (cases r)
        case (Inl err)
        let ?m = "\<lambda>b. l\<lparr>l_RunTerminal := True, l_RunnerGone := True, l_IsolationGone := True, l_CleanupComplete := b\<rparr>"
        have "answered cfg request rid s (res, e') w" if "saved m e2 v w" "core m = core l" "eases l m" "e' \<noteq> None" for m e2 w res e'
          using orderly_trans [OF v orderly_saved [OF that(1)]] cv core_eqD(1) [OF that(2)] that(4) by (auto intro: answered_error)
        then have "wp (finishWithoutLease d (?m b) code err) (\<lambda>(_, result, e). answered cfg request rid s (result, e)) v" for b code
          unfolding finishWithoutLease_def wp_bind
          by (intro wp_transition) (use own in \<open>fastforce simp: eases_def fresh_def\<close>)
        then have "wp (finishWithoutLease d (?m b) code err) (\<lambda>x. wp (case x of (_, y) \<Rightarrow> ret y) (answered cfg request rid s)) v" for b code
          by (rule wp_mono) auto
        then show ?thesis by (simp add: Inl)
      next
        case (Inr lease)
        show ?thesis
          unfolding Inr sum.case
          by (rule wp_mono [OF dispatchLeased_spec [OF _ _ _ _ _ cv]])
             (use own leased_answered [OF own v] du 1(2) in \<open>auto simp: fresh_def\<close>)
      qed
    qed
  qed (use u in \<open>simp add: answered_error\<close>)
qed

lemma dispatchNew_spec:
  assumes pol: "Policy cfg (rq_Repository request) = Some policy" and st: "orderly False s t" "all_complete (st_disk t)"
  shows "wp (dispatchNew cfg d ctx request policy rid) (answered cfg request rid s) t"
  unfolding dispatchNew_def wp_bind
proof (rule wp_keeps_observes [OF keeps_verifyAuthority], goal_cases)
  case (1 a u)
  have u: "orderly False s u" "st_disk u = st_disk t"
    using orderly_trans [OF st(1) orderly_observes [OF 1]] 1 by (auto simp: observes_def)
  show ?case
  proof (cases a)
    case (Inr sha)
    show ?thesis
      unfolding Inr sum.case wp_bind
    proof (rule wp_quiet_observes, goal_cases)
      case (1 random v)
      have v: "orderly False s v" "st_disk v = st_disk t"
        using orderly_trans [OF u(1) orderly_quiet [OF 1(1)]] 1(1) u(2) by (auto simp: observes_def)
      show ?case
      proof (cases "NewIdentity random")
        case (Inr identity)
        show ?thesis
          unfolding Inr sum.case wp_bind labelExists_def
        proof (rule wp_call_observes, goal_cases)
          case (1 c w)
          have w: "orderly False s w"
            by (rule orderly_trans [OF v(1) orderly_observes [OF 1(1)]]) simp
          have "all_complete (st_disk w)" using st(2) v(2) 1(1) by (simp add: observes_def)
          then show ?case
            using w by (auto split: sum.split intro!: answered_error wp_newLedger [OF pol] dispatchFresh_spec [OF _ w])
        qed
      qed (use v in \<open>simp add: answered_error\<close>)
    qed
  qed (use u in \<open>simp add: answered_error\<close>)
qed

lemma wp_replay:
  assumes Q: "\<And>res found e t. observes (\<lambda>_. False) s t \<Longrightarrow> (found \<or> e \<noteq> None \<longrightarrow> e = None \<longrightarrow> res_Replay res \<and>
       (\<exists>L. map_of (st_disk s) rid = Some L \<and> l_Status L = StatusCompleted \<and> l_CleanupComplete L \<and>
          l_Repository L = rq_Repository request \<and> l_CandidateRef L = rq_CandidateRef request \<and> l_CandidateSHA L = rq_CandidateSHA request \<and>
          res_RequestID res = rid \<and> res_RunID res = l_RunID L \<and> res_Status res = StatusCompleted)) \<Longrightarrow>
     (\<not> found \<and> e = None \<longrightarrow> map_of (st_disk s) rid = None) \<Longrightarrow> Q (res, found, e) t"
  shows "wp (replay d rid request) Q s"
  unfolding replay_def wp_bind
  by (rule wp_Load) (auto split: sum.split option.split intro!: Q simp: Let_def dest!: sym [of "Some _"])

lemma dispatchLocked_spec:
  assumes pol: "Policy cfg (rq_Repository request) = Some policy"
  shows "wp (dispatchLocked cfg d ctx request policy) (answered cfg request (RequestID (dp_sha256hex d) request) s) s"
  unfolding dispatchLocked_def wp_bind
proof (rule wp_mono [OF reconcileStartup_spec], goal_cases)
  case (1 e t)
  then have t: "orderly False s t" by (simp add: reconciled_def)
  show ?case
  proof (cases e)
    case None
    with 1 have all: "all_complete (st_disk t)" by (simp add: reconciled_def)
    show ?thesis
      unfolding None option.case Let_def wp_bind
    proof (rule wp_replay, goal_cases)
      case (1 res found e u)
      have u: "orderly False s u" "st_disk u = st_disk t"
        using orderly_trans [OF t orderly_quiet [OF 1(1)]] 1(1) by (auto simp: observes_def)
      have new: "wp (dispatchNew cfg d ctx request policy (RequestID (dp_sha256hex d) request))
          (answered cfg request (RequestID (dp_sha256hex d) request) s) u"
        using dispatchNew_spec [OF pol u(1)] all u(2) by simp
      have "answered cfg request (RequestID (dp_sha256hex d) request) s (res, e) u" if "found \<or> e \<noteq> None"
        using 1(2) that orderly_mono [OF u(1)] u(2) pol by (auto simp: answered_def delivered_def)
      with new show ?case by auto
    qed
  qed (use t in \<open>simp add: answered_error\<close>)
qed

lemma keeps_Preflight: "keeps (observes E) (Preflight dv cfg)"
  unfolding Preflight_def by (intro keeps_rules) simp_all

lemma answered_step:
  assumes st: "orderly False s t" and u: "answered cfg request rid t x u"
  shows "answered cfg request rid s x u"
proof -
  obtain res err where x: "x = (res, err)" by fastforce
  have tu: "orderly (is_stale err) t u" using u by (simp add: answered_def x)
  have "since s u = since s t @ since t u" by (rule since_trans [OF orderly_grows [OF st] orderly_grows [OF tu]])
  then have "delivered cfg request rid t res u \<Longrightarrow> delivered cfg request rid s res u"
    unfolding delivered_def by (auto simp: dispatched_prepend)
  then show ?thesis using u orderly_trans [OF orderly_mono [OF st] tu] by (auto simp: answered_def x)
qed

lemma answered_then:
  assumes t: "answered cfg request rid s (res, err) t" and u: "observes (\<lambda>_. False) t u"
  shows "answered cfg request rid s (res, err) u"
proof -
  have st: "orderly (is_stale err) s t" using t by (simp add: answered_def)
  have "since t u = []" using u by (cases "since t u") (auto simp: observes_def)
  then have "since s u = since s t" "st_disk u = st_disk t"
    using since_trans [OF orderly_grows [OF st] observes_grows [OF u]] u by (simp_all add: observes_def)
  moreover have "orderly (is_stale err) s u" by (rule orderly_trans [OF st orderly_quiet [OF u]])
  ultimately show ?thesis using t by (simp add: answered_def delivered_def)
qed

lemma Dispatch_spec: "wp (Dispatch cfg d ctx request) (answered cfg request (RequestID (dp_sha256hex d) request) s) s"
proof (cases "Policy cfg (rq_Repository request)")
  case (Some policy)
  let ?Q = "answered cfg request (RequestID (dp_sha256hex d) request) s"
  have look: "wp (quiet f) R t" if "orderly False s t" "\<And>a u. orderly False s u \<Longrightarrow> R a u" for f :: "('a, 'b) op" and R t
    by (rule wp_quiet_observes) (rule that(2), rule orderly_trans [OF that(1) orderly_quiet])
  have pre: "wp (Preflight (dp_Runner d) cfg) R s" if "\<And>a u. orderly False s u \<Longrightarrow> R a u" for R
    by (rule wp_keeps_observes [OF keeps_Preflight]) (rule that, rule orderly_quiet)
  have locked: "wp (dispatchLocked cfg d ctx request policy) (\<lambda>r. wp (quiet (dp_CloseQueue d)) (\<lambda>_. ?Q r)) t" if t: "orderly False s t" for t
  proof (rule wp_mono [OF dispatchLocked_spec [OF Some]], rule wp_quiet_observes)
    fix r u a v
    assume "answered cfg request (RequestID (dp_sha256hex d) request) t r u" "observes (\<lambda>_. False) u v"
    then show "?Q r v" by (cases r) (simp add: answered_step [OF t] answered_then)
  qed
  show ?thesis
    unfolding Dispatch_def Some option.case
    by (auto split: option.split intro!: pre look locked answered_error)
qed (simp add: Dispatch_def answered_error)

end
