(* ===== verification/Jit_Scenario.thy ===== *)
theory Jit_Scenario
  imports Jit_Admission
begin

text \<open>
  A concrete world in which a whole dispatch succeeds. It shows that the hypotheses of the
  theorems about \<open>Dispatch\<close> can be met, and that the model runs: \<open>demo_success\<close> executes
  \<open>Dispatch\<close> from validation to the released lease. The world is the number of receipts the
  isolation driver has given: none before it is ready, one while the job runs, two once the
  isolation is destroyed; and three once the runner, still registered then, is deleted. Each stage of the program has a lemma with an arbitrary continuation,
  so that the states stay small.
\<close>

definition demo_hex :: string where
  "demo_hex = replicate 64 (CHR ''0'')"

definition demo_sha :: string where
  "demo_sha = replicate 40 (CHR ''a'')"

definition demo_label :: string where
  "demo_label = ''civm-jit-'' @ demo_hex"

definition demo_cgroup :: string where
  "demo_cgroup = ''/cg/civm-jit-'' @ demo_hex"

definition demo_work :: string where
  "demo_work = ''_work/jit-'' @ demo_hex"

definition demo_title :: string where
  "demo_title = ''CIVM JIT '' @ demo_hex"

definition demo_name :: string where
  "demo_name = ''civm-jit-'' @ take 16 demo_hex"

definition demo_policy :: RepositoryPolicy where
  "demo_policy = \<lparr> rp_Repository = ''acme/app'', rp_TrustedRef = ''refs/heads/main'', rp_Workflow = ''.github/workflows/jit.yml'',
     rp_WorkflowSHA256 = demo_hex, rp_CandidateRefs = [''refs/heads/topic''], rp_RunnerGroupID = 1, rp_JobName = ''build'' \<rparr>"

definition demo_config :: Config where
  "demo_config = \<lparr> cfg_APIBaseURL = ''https://api.github.com'', cfg_APIVersion = SupportedAPIVersion, cfg_StateDir = ''/var/civm'',
     cfg_RunnerDirectory = ''/opt/runner'', cfg_GuardExecutable = ''/opt/guard'', cfg_IsolationDriver = ''/opt/driver'',
     cfg_DriverSHA256 = demo_hex, cfg_BaseImageSHA256 = demo_hex, cfg_QueueWait = second, cfg_QueuePoll = second,
     cfg_HTTPTimeout = second, cfg_JobPollInterval = second, cfg_JobBindTimeout = second, cfg_RunTimeout = minute,
     cfg_ShutdownGrace = second, cfg_RecoveryTimeout = second, cfg_Repositories = [demo_policy] \<rparr>"

definition demo_request :: Request where
  "demo_request = \<lparr> rq_Repository = ''acme/app'', rq_CandidateRef = ''refs/heads/topic'', rq_CandidateSHA = demo_sha,
     rq_Idempotency = ''request-000000001'' \<rparr>"

definition demo_identity :: Identity where
  "demo_identity = \<lparr> id_Nonce = demo_hex, id_Label = demo_label, id_RunnerName = demo_name,
     id_WorkFolder = demo_work \<rparr>"

definition demo_run :: "nat \<Rightarrow> WorkflowRun" where
  "demo_run w = \<lparr> wr_ID = 7, wr_Event = ''workflow_dispatch'', wr_HeadSHA = demo_sha, wr_DisplayTitle = demo_title,
     wr_Path = ''.github/workflows/jit.yml@main'', wr_Status = (if w < 2 then ''queued'' else ''completed''),
     wr_Conclusion = (if w < 2 then [] else ''success'') \<rparr>"

definition demo_job :: "nat \<Rightarrow> WorkflowJob" where
  "demo_job w = \<lparr> wj_ID = 8, wj_RunID = 7, wj_Name = ''build'', wj_Status = (if w < 2 then ''queued'' else ''completed''),
     wj_Conclusion = (if w < 2 then [] else ''success''), wj_Labels = [demo_label],
     wj_RunnerID = 9, wj_RunnerName = demo_name, wj_RunnerGroupID = 1 \<rparr>"

definition demo_runner :: RemoteRunner where
  "demo_runner = \<lparr> rr_ID = 9, rr_Name = demo_name, rr_Status = ''offline'', rr_Busy = False,
     rr_Labels = [\<lparr> rl_Name = demo_label, rl_Type = ''custom'' \<rparr>] \<rparr>"

definition demo_receipt :: "nat \<Rightarrow> IsolationReceipt" where
  "demo_receipt w = \<lparr> ir_Protocol = 1, ir_Event = (if w = 0 then ''ready'' else ''destroyed''), ir_LeaseID = demo_hex,
     ir_IsolationID = ''isolation-0000001'', ir_BaseSHA256 = demo_hex, ir_Disposable = True, ir_HostMounts = False,
     ir_HostDocker = False, ir_ProductSecrets = False, ir_Destroyed = (0 < w), ir_ResetVerified = (0 < w) \<rparr>"

definition demo_process :: ProcessIdentity where
  "demo_process = \<lparr> pi_PID = 5, pi_StartTicks = 6, pi_ProcessGroup = 5, pi_CgroupPath = demo_cgroup \<rparr>"

definition demo_marker :: LeaseMarker where
  "demo_marker = \<lparr> lm_Version = 1, lm_LeaseID = demo_hex, lm_AdmissionID = ''admission'', lm_HolderPID = 4, lm_StartTicks = 3 \<rparr>"

text \<open>Answers take no time; only sleeping does.\<close>

definition demo_answer :: "(nat \<Rightarrow> 'a) \<Rightarrow> (nat, 'a) op" where
  "demo_answer f w = (f w, 0, w)"

definition demo_github :: "nat github" where
  "demo_github = \<lparr>
     gh_DefaultBranch = \<lambda>_ _. demo_answer (\<lambda>_. Inr ''main''),
     gh_ResolveRef = \<lambda>_ _ _. demo_answer (\<lambda>_. Inr demo_sha),
     gh_WorkflowContent = \<lambda>_ _ _ _. demo_answer (\<lambda>_. Inr ''on: workflow_dispatch''),
     gh_RunnerLabelExists = \<lambda>_ _ _. demo_answer (\<lambda>_. Inr False),
     gh_DispatchWorkflow = \<lambda>_ _ _ _ _. demo_answer (\<lambda>_. Inr \<lparr> dr_RunID = 7, dr_RunURL = [], dr_HTMLURL = [] \<rparr>),
     gh_GetRun = \<lambda>_ _ _. demo_answer (\<lambda>w. Inr (demo_run w)),
     gh_ListJobs = \<lambda>_ _ _. demo_answer (\<lambda>w. Inr [demo_job w]),
     gh_GetJob = \<lambda>_ _ _. demo_answer (\<lambda>w. Inr (demo_job w)),
     gh_GenerateJIT = \<lambda>_ _ _ _. demo_answer (\<lambda>_. Inr \<lparr> jr_Secret = Some ''0123456789abcdef'', jr_Runner = demo_runner \<rparr>),
     gh_FindRunnerByLabel = \<lambda>_ _ _. demo_answer (\<lambda>_. Inr None),
     gh_GetRunner = \<lambda>_ _ _. demo_answer (\<lambda>w. Inr (if w < 3 then Some demo_runner else None)),
     gh_DeleteRunner = \<lambda>_ _ _ w. (None, 0, Suc w),
     gh_CancelRun = \<lambda>_ _ _. demo_answer (\<lambda>_. None) \<rparr>"

definition demo_gate :: "nat gate" where
  "demo_gate = \<lparr>
     gt_Preflight = \<lambda>_. demo_answer (\<lambda>_. None),
     gt_Acquire = \<lambda>_ _ _ _ _. demo_answer (\<lambda>_. Inr demo_marker),
     gt_Orphan = demo_answer (\<lambda>_. Inr None),
     gt_ReleaseOrphan = \<lambda>_ _ _. demo_answer (\<lambda>_. None),
     gt_Release = \<lambda>_ _. demo_answer (\<lambda>_. None),
     gt_Abandon = \<lambda>_. demo_answer (\<lambda>_. None) \<rparr>"

definition demo_driver :: "nat driver" where
  "demo_driver = \<lparr>
     dv_validateTrustedExecutable = \<lambda>_ _. demo_answer (\<lambda>_. None),
     dv_validateTrustedDirectory = \<lambda>_. demo_answer (\<lambda>_. None),
     dv_logDirectoryOwnerOnly = \<lambda>_. demo_answer (\<lambda>_. True),
     dv_openLog = \<lambda>_ _. demo_answer (\<lambda>_. None),
     dv_pipe = demo_answer (\<lambda>_. None),
     dv_prepare = \<lambda>_. demo_answer (\<lambda>_. None),
     dv_stdinPipe = demo_answer (\<lambda>_. None),
     dv_start = \<lambda>_. demo_answer (\<lambda>_. None),
     dv_closePreparation = demo_answer (\<lambda>_. None),
     dv_attach = \<lambda>_. demo_answer (\<lambda>_. Inr demo_process),
     dv_readReceipt = \<lambda>_ w. (Inr (demo_receipt w), 0, Suc w),
     dv_writeInput = \<lambda>_. demo_answer (\<lambda>_. None),
     dv_closeInput = demo_answer (\<lambda>_. None),
     dv_wait = \<lambda>_. demo_answer (\<lambda>_. Inl None),
     dv_waitForExit = \<lambda>_. demo_answer (\<lambda>_. None),
     dv_signalAndWait = \<lambda>_. demo_answer (\<lambda>_. None),
     dv_marshalInput = \<lambda>_ config. config,
     dv_flush = demo_answer (\<lambda>_. None),
     ct_Terminate = \<lambda>_ _. demo_answer (\<lambda>_. None),
     ct_Recover = \<lambda>_ _ _ _. demo_answer (\<lambda>_. None) \<rparr>"

definition demo_store :: "nat storage" where
  "demo_store = \<lparr> fs_save = \<lambda>_. demo_answer (\<lambda>_. SaveOK), fs_read = \<lambda>_. demo_answer (\<lambda>_. None),
     fs_readDir = demo_answer (\<lambda>_. None), fs_ensureLogDir = \<lambda>_. demo_answer (\<lambda>_. None) \<rparr>"

definition demo :: "nat Dependencies" where
  "demo = \<lparr> dp_GitHub = demo_github, dp_Store = demo_store, dp_Runner = demo_driver, dp_Gate = demo_gate,
     dp_logDir = ''/var/civm/logs'', dp_Random = demo_answer (\<lambda>_. replicate 32 0), dp_Now = (\<lambda>_. 1),
     dp_AcquireQueue = (\<lambda>_ _ _. demo_answer (\<lambda>_. None)), dp_CloseQueue = demo_answer (\<lambda>_. ()), dp_sha256hex = (\<lambda>_. demo_hex) \<rparr>"

definition demo_start :: "nat jst" where
  "demo_start = \<lparr> st_ext = 0, st_clock = 0, st_disk = [], st_stray = [], st_trace = [] \<rparr>"

named_theorems demo_simps

lemma demo_strings [demo_simps]:
  "digestRE demo_hex" "requestIDRE demo_hex" "shaRE demo_sha" "digestRE demo_hex"
  "length demo_hex = 64" "demo_hex \<noteq> []"
  "validateRepository ''acme/app'' = None" "validateRef ''refs/heads/topic'' = None"
  "workflowRE ''.github/workflows/jit.yml''" "idempotencyRE ''request-000000001''"
  "safeOpaqueID ''isolation-0000001''"
  "path_IsAbs demo_cgroup" "path_Clean demo_cgroup = demo_cgroup" "path_Base demo_cgroup = CHR ''c'' # ''ivm-jit-'' @ demo_hex"
  by code_simp+


lemma demo_wp_call [demo_simps]:
  "wp (call ev f) Q s = (case f (st_ext s) of (a, dt, w) \<Rightarrow>
     Q a (s\<lparr>st_ext := w, st_clock := st_clock s + int dt, st_trace := st_trace s @ [(ev a, st_disk s)]\<rparr>))"
  by (simp add: wp_def call_def split: prod.split)

lemma demo_wp_quiet [demo_simps]:
  "wp (quiet f) Q s = (case f (st_ext s) of (a, dt, w) \<Rightarrow> Q a (s\<lparr>st_ext := w, st_clock := st_clock s + int dt\<rparr>))"
  by (simp add: wp_def quiet_def split: prod.split)

lemma demo_poll [demo_simps]:
  "poll_loop (numeral k) slp on_err body c = do {
     x \<leftarrow> body c;
     (case x of
        Inl r \<Rightarrow> ret (Some r)
      | Inr c' \<Rightarrow> do {
          e \<leftarrow> slp;
          (case e of
             Some err \<Rightarrow> do { r \<leftarrow> on_err err; ret (Some r) }
           | None \<Rightarrow> poll_loop (pred_numeral k) slp on_err body c')
        })
   }"
  by (simp add: numeral_eq_Suc)

lemma demo_identity [demo_simps]:
  "NewIdentity (replicate 32 0) = Inr demo_identity"
  "validIdentity demo_identity"
  by code_simp+

lemma demo_remote [demo_simps]:
  "validateBoundRun (demo_run 0) demo_policy demo_sha demo_hex = None"
  "validateRunIdentity (demo_run 2) demo_policy demo_sha demo_hex = None"
  "validateJITRegistration \<lparr> jr_Secret = Some ''0123456789abcdef'', jr_Runner = demo_runner \<rparr> demo_identity = None"
  "validReadyReceipt (demo_receipt 0) demo_hex demo_hex"
  "validDestroyedReceipt (demo_receipt (Suc 0)) demo_hex ''isolation-0000001'' demo_hex"
  "ir_IsolationID (demo_receipt w) = ''isolation-0000001''" "ir_BaseSHA256 (demo_receipt w) = demo_hex"
  "wr_ID (demo_run w) = 7"
  "wj_ID (demo_job 0) = 8" "wj_RunID (demo_job 0) = 7" "wj_Name (demo_job 0) = ''build''" "wj_Status (demo_job 0) = ''queued''"
  "wj_Conclusion (demo_job 0) = []" "wj_Labels (demo_job 0) = [demo_label]"
  by (code_simp, code_simp, simp add: validateJITRegistration_def maxJITResponse_def demo_runner_def demo_identity_def, code_simp, code_simp,
      simp_all add: demo_receipt_def demo_run_def demo_job_def)

lemma demo_verdict [demo_simps]:
  "l_JobID l = 8 \<Longrightarrow> l_RunID l = 7 \<Longrightarrow> l_RunnerID l = 9 \<Longrightarrow> completion_verdict (demo_run 2) (demo_job 2) l demo_policy demo_identity = Inl None"
  by (simp add: completion_verdict_def validateExecutedJob_def demo_run_def demo_job_def demo_policy_def demo_identity_def)

lemma ledger_identity_demo [demo_simps]:
  "l_Nonce l = demo_hex \<Longrightarrow> l_RunnerLabel l = demo_label \<Longrightarrow> l_RunnerName l = demo_name \<Longrightarrow> l_WorkFolder l = demo_work
     \<Longrightarrow> ledger_identity l = demo_identity"
  by (simp add: ledger_identity_def demo_identity_def)

lemma demo_fields [demo_simps]:
  "dp_GitHub demo = demo_github" "dp_Store demo = demo_store" "dp_Runner demo = demo_driver" "dp_Gate demo = demo_gate"
  "dp_logDir demo = ''/var/civm/logs''" "dp_Random demo = demo_answer (\<lambda>_. replicate 32 0)" "dp_Now demo = (\<lambda>_. 1)"
  "dp_AcquireQueue demo = (\<lambda>_ _ _. demo_answer (\<lambda>_. None))" "dp_CloseQueue demo = demo_answer (\<lambda>_. ())" "dp_sha256hex demo = (\<lambda>_. demo_hex)"
  by (simp_all add: demo_def)

lemma demo_path [demo_simps]:
  "validateAbsoluteDir (path_Join ''/var/civm/logs'' demo_hex) = None"
  "validateAbsoluteDir ''/opt/runner'' = None"
  "rn_LogDirectory \<lparr>rn_DriverExecutable = a, rn_DriverSHA256 = b, rn_BaseImageSHA256 = c, rn_RunnerDirectory = d', rn_Identity = e, rn_LeaseID = f, rn_JITConfig = g, rn_LogDirectory = h, rn_ShutdownGrace = i\<rparr> = h"
  by (code_simp, code_simp, simp)

lemma demo_github_fields [demo_simps]:
  "gh_DefaultBranch demo_github = (\<lambda>_ _. demo_answer (\<lambda>_. Inr ''main''))" "gh_ResolveRef demo_github = (\<lambda>_ _ _. demo_answer (\<lambda>_. Inr demo_sha))"
  "gh_WorkflowContent demo_github = (\<lambda>_ _ _ _. demo_answer (\<lambda>_. Inr ''on: workflow_dispatch''))" "gh_RunnerLabelExists demo_github = (\<lambda>_ _ _. demo_answer (\<lambda>_. Inr False))"
  "gh_DispatchWorkflow demo_github = (\<lambda>_ _ _ _ _. demo_answer (\<lambda>_. Inr \<lparr> dr_RunID = 7, dr_RunURL = [], dr_HTMLURL = [] \<rparr>))" "gh_GetRun demo_github = (\<lambda>_ _ _. demo_answer (\<lambda>w. Inr (demo_run w)))"
  "gh_ListJobs demo_github = (\<lambda>_ _ _. demo_answer (\<lambda>w. Inr [demo_job w]))" "gh_GetJob demo_github = (\<lambda>_ _ _. demo_answer (\<lambda>w. Inr (demo_job w)))"
  "gh_GenerateJIT demo_github = (\<lambda>_ _ _ _. demo_answer (\<lambda>_. Inr \<lparr> jr_Secret = Some ''0123456789abcdef'', jr_Runner = demo_runner \<rparr>))" "gh_FindRunnerByLabel demo_github = (\<lambda>_ _ _. demo_answer (\<lambda>_. Inr None))"
  "gh_GetRunner demo_github = (\<lambda>_ _ _. demo_answer (\<lambda>w. Inr (if w < 3 then Some demo_runner else None)))" "gh_DeleteRunner demo_github = (\<lambda>_ _ _ w. (None, 0, Suc w))"
  "gh_CancelRun demo_github = (\<lambda>_ _ _. demo_answer (\<lambda>_. None))"
  by (simp_all add: demo_github_def)

lemma demo_gate_fields [demo_simps]:
  "gt_Preflight demo_gate = (\<lambda>_. demo_answer (\<lambda>_. None))" "gt_Acquire demo_gate = (\<lambda>_ _ _ _ _. demo_answer (\<lambda>_. Inr demo_marker))"
  "gt_Orphan demo_gate = (demo_answer (\<lambda>_. Inr None))" "gt_ReleaseOrphan demo_gate = (\<lambda>_ _ _. demo_answer (\<lambda>_. None))"
  "gt_Release demo_gate = (\<lambda>_ _. demo_answer (\<lambda>_. None))" "gt_Abandon demo_gate = (\<lambda>_. demo_answer (\<lambda>_. None))"
  by (simp_all add: demo_gate_def)

lemma demo_driver_fields [demo_simps]:
  "dv_validateTrustedExecutable demo_driver = (\<lambda>_ _. demo_answer (\<lambda>_. None))" "dv_validateTrustedDirectory demo_driver = (\<lambda>_. demo_answer (\<lambda>_. None))"
  "dv_logDirectoryOwnerOnly demo_driver = (\<lambda>_. demo_answer (\<lambda>_. True))" "dv_openLog demo_driver = (\<lambda>_ _. demo_answer (\<lambda>_. None))"
  "dv_pipe demo_driver = (demo_answer (\<lambda>_. None))" "dv_prepare demo_driver = (\<lambda>_. demo_answer (\<lambda>_. None))"
  "dv_stdinPipe demo_driver = (demo_answer (\<lambda>_. None))" "dv_start demo_driver = (\<lambda>_. demo_answer (\<lambda>_. None))"
  "dv_closePreparation demo_driver = (demo_answer (\<lambda>_. None))" "dv_attach demo_driver = (\<lambda>_. demo_answer (\<lambda>_. Inr demo_process))"
  "dv_readReceipt demo_driver = (\<lambda>_ w. (Inr (demo_receipt w), 0, Suc w))" "dv_writeInput demo_driver = (\<lambda>_. demo_answer (\<lambda>_. None))"
  "dv_closeInput demo_driver = (demo_answer (\<lambda>_. None))" "dv_wait demo_driver = (\<lambda>_. demo_answer (\<lambda>_. Inl None))"
  "dv_waitForExit demo_driver = (\<lambda>_. demo_answer (\<lambda>_. None))" "dv_signalAndWait demo_driver = (\<lambda>_. demo_answer (\<lambda>_. None))"
  "dv_marshalInput demo_driver = (\<lambda>_ config. config)" "dv_flush demo_driver = (demo_answer (\<lambda>_. None))"
  "ct_Terminate demo_driver = (\<lambda>_ _. demo_answer (\<lambda>_. None))" "ct_Recover demo_driver = (\<lambda>_ _ _ _. demo_answer (\<lambda>_. None))"
  by (simp_all add: demo_driver_def)

lemma demo_store_fields [demo_simps]:
  "fs_save demo_store = (\<lambda>_. demo_answer (\<lambda>_. SaveOK))" "fs_read demo_store = (\<lambda>_. demo_answer (\<lambda>_. None))"
  "fs_readDir demo_store = (demo_answer (\<lambda>_. None))" "fs_ensureLogDir demo_store = (\<lambda>_. demo_answer (\<lambda>_. None))"
  by (simp_all add: demo_store_def)

lemma demo_data [demo_simps]:
  "cfg_APIBaseURL demo_config = ''https://api.github.com''" "cfg_APIVersion demo_config = SupportedAPIVersion" "cfg_StateDir demo_config = ''/var/civm''" "cfg_RunnerDirectory demo_config = ''/opt/runner''"
  "cfg_GuardExecutable demo_config = ''/opt/guard''" "cfg_IsolationDriver demo_config = ''/opt/driver''" "cfg_DriverSHA256 demo_config = demo_hex" "cfg_BaseImageSHA256 demo_config = demo_hex"
  "cfg_QueueWait demo_config = second" "cfg_QueuePoll demo_config = second" "cfg_HTTPTimeout demo_config = second" "cfg_JobPollInterval demo_config = second"
  "cfg_JobBindTimeout demo_config = second" "cfg_RunTimeout demo_config = minute" "cfg_ShutdownGrace demo_config = second" "cfg_RecoveryTimeout demo_config = second"
  "cfg_Repositories demo_config = [demo_policy]" "rq_Repository demo_request = ''acme/app''" "rq_CandidateRef demo_request = ''refs/heads/topic''" "rq_CandidateSHA demo_request = demo_sha"
  "rq_Idempotency demo_request = ''request-000000001''" "rp_Repository demo_policy = ''acme/app''" "rp_TrustedRef demo_policy = ''refs/heads/main''" "rp_Workflow demo_policy = ''.github/workflows/jit.yml''"
  "rp_WorkflowSHA256 demo_policy = demo_hex" "rp_CandidateRefs demo_policy = [''refs/heads/topic'']" "rp_RunnerGroupID demo_policy = 1" "rp_JobName demo_policy = ''build''"
  "rr_ID demo_runner = 9" "rr_Name demo_runner = demo_name" "rr_Status demo_runner = ''offline''" "rr_Busy demo_runner = False"
  "rr_Labels demo_runner = [\<lparr> rl_Name = demo_label, rl_Type = ''custom'' \<rparr>]" "pi_PID demo_process = 5" "pi_StartTicks demo_process = 6"
  "pi_ProcessGroup demo_process = 5" "pi_CgroupPath demo_process = demo_cgroup" "lm_Version demo_marker = 1" "lm_LeaseID demo_marker = demo_hex"
  "lm_AdmissionID demo_marker = ''admission''" "lm_HolderPID demo_marker = 4" "lm_StartTicks demo_marker = 3"
  by (simp_all add: demo_config_def demo_request_def demo_policy_def demo_runner_def demo_process_def demo_marker_def)

lemmas demo_defs = demo_github_fields demo_gate_fields demo_driver_fields demo_store_fields demo_answer_def

lemma demo_identity_fields [demo_simps]:
  "id_Nonce demo_identity = demo_hex" "id_Label demo_identity = demo_label" "id_RunnerName demo_identity = demo_name"
  "id_WorkFolder demo_identity = demo_work"
  by (simp_all add: demo_identity_def)


definition demo_ledger :: Ledger where
  "demo_ledger = \<lparr> l_Version = 2, l_RequestID = demo_hex, l_Repository = ''acme/app'', l_CandidateRef = ''refs/heads/topic'',
     l_CandidateSHA = demo_sha, l_TrustedSHA = demo_sha, l_Workflow = ''.github/workflows/jit.yml'', l_WorkflowSHA256 = demo_hex,
     l_Nonce = demo_hex, l_RunnerLabel = demo_label, l_RunnerName = demo_name, l_WorkFolder = demo_work,
     l_RunID = 0, l_JobID = 0, l_RunnerID = 0, l_LeaseID = demo_hex, l_ProcessPID = 0, l_ProcessStart = 0,
     l_ProcessGroup = 0, l_CgroupPath = [], l_IsolationID = [], l_IsolationBase = [],
     l_RunTerminal = True, l_RunnerGone = True, l_IsolationGone = True, l_CleanupComplete = False,
     l_Status = StatusPrepared, l_CreatedAt = 1, l_UpdatedAt = 1, l_FailureCode = [] \<rparr>"

lemma demo_ledger_fields [demo_simps]:
  "l_Version demo_ledger = 2" "l_RequestID demo_ledger = demo_hex" "l_Repository demo_ledger = ''acme/app''"
  "l_CandidateRef demo_ledger = ''refs/heads/topic''" "l_CandidateSHA demo_ledger = demo_sha" "l_TrustedSHA demo_ledger = demo_sha"
  "l_Workflow demo_ledger = ''.github/workflows/jit.yml''" "l_WorkflowSHA256 demo_ledger = demo_hex"
  "l_Nonce demo_ledger = demo_hex" "l_RunnerLabel demo_ledger = demo_label" "l_RunnerName demo_ledger = demo_name"
  "l_WorkFolder demo_ledger = demo_work" "l_RunID demo_ledger = 0" "l_JobID demo_ledger = 0" "l_RunnerID demo_ledger = 0"
  "l_LeaseID demo_ledger = demo_hex" "l_ProcessPID demo_ledger = 0" "l_ProcessStart demo_ledger = 0" "l_ProcessGroup demo_ledger = 0"
  "l_CgroupPath demo_ledger = []" "l_IsolationID demo_ledger = []" "l_IsolationBase demo_ledger = []" "l_RunTerminal demo_ledger"
  "l_RunnerGone demo_ledger" "l_IsolationGone demo_ledger" "\<not> l_CleanupComplete demo_ledger"
  "l_Status demo_ledger = StatusPrepared" "l_CreatedAt demo_ledger = 1" "l_UpdatedAt demo_ledger = 1"
  "l_FailureCode demo_ledger = []"
  by (simp_all add: demo_ledger_def)

lemma wp_demo_Save:
  assumes "validateLedger l (l_RequestID l) = None" "\<And>t. st_ext t = st_ext s \<Longrightarrow> st_clock t = st_clock s \<Longrightarrow> (\<And>e. e \<in> set (st_trace s) \<Longrightarrow> e \<in> set (st_trace t)) \<Longrightarrow> Q None t"
  shows "wp (Save demo l) Q s"
  using assms(1) unfolding Save_def
  by (auto simp: demo_wp_call demo_fields demo_defs ledgerPath_def validateLedger_def put_ledger_def split: if_splits intro!: assms(2))

lemma wp_demo_transition:
  assumes "validateLedger (l\<lparr>l_Status := st, l_FailureCode := code, l_UpdatedAt := 1\<rparr>) (l_RequestID l) = None"
    "\<And>t. st_ext t = st_ext s \<Longrightarrow> st_clock t = st_clock s \<Longrightarrow> (\<And>e. e \<in> set (st_trace s) \<Longrightarrow> e \<in> set (st_trace t)) \<Longrightarrow> Q (l\<lparr>l_Status := st, l_FailureCode := code, l_UpdatedAt := 1\<rparr>, None) t"
  shows "wp (transition demo l st code) Q s"
  using assms unfolding transition_def by (simp add: demo_fields wp_demo_Save Let_def)

lemmas demo_valid = validateLedger_def ledgerVersion_def demo_simps

lemma wp_poll_now:
  assumes "wp (body c) (\<lambda>x t. \<exists>r. x = Inl r \<and> Q r t) s"
  shows "wp (poll (Some (T, e)) interval on_err body exhausted c) Q s"
  unfolding poll_def wp_bind
  by (simp add: poll_fuel_def ctx_deadline_def numeral_2_eq_2) (rule wp_mono [OF assms], auto)

definition demo_ledger_done :: Ledger where
  "demo_ledger_done = demo_ledger\<lparr>l_RunID := 7, l_JobID := 8, l_RunnerID := 9, l_IsolationID := ''isolation-0000001'',
     l_IsolationBase := demo_hex, l_RunTerminal := False, l_RunnerGone := False, l_Status := StatusIsolationReady, l_FailureCode := [], l_UpdatedAt := 1\<rparr>"

lemmas demo_eval = demo_simps demo_defs demo_ledger_done_def Let_def

lemma wp_weak_cong: "m = m' \<Longrightarrow> s = s' \<Longrightarrow> wp m Q s = wp m' Q s'"
  by simp

lemma bind_weak_cong: "m = m' \<Longrightarrow> State_Monad.bind m f = State_Monad.bind m' f"
  by simp

lemma demo_waitForCompletion:
  assumes w: "st_ext s = 2" and Q: "\<And>t. st_ext t = 2 \<Longrightarrow> st_clock t = st_clock s \<Longrightarrow> Q None t"
  shows "wp (waitForCompletion demo_config demo (Some (T, DeadlineExceeded)) ''acme/app'' demo_ledger_done demo_policy demo_identity) Q s"
  unfolding waitForCompletion_def
  by (rule wp_poll_now) (simp add: waitForCompletion_turn_def getRun_def demo_eval w Q cong: wp_weak_cong bind_weak_cong)

text \<open>The runner is seen, deleted and seen gone.\<close>

definition demo_deleted :: "nat jst \<Rightarrow> bool" where
  "demo_deleted t \<longleftrightarrow> (\<exists>D. (EvDeleteRunner ''acme/app'' 9 None, D) \<in> set (st_trace t))"

lemma demo_deleted_append [simp]: "demo_deleted t \<Longrightarrow> demo_deleted (t\<lparr>st_trace := st_trace t @ evs\<rparr>)"
  by (auto simp: demo_deleted_def)

lemma wp_demo_sleep:
  "st_clock s + second < T \<Longrightarrow> wp (sleepContext (Some (T, e)) second) Q s = Q None (s\<lparr>st_clock := st_clock s + second\<rparr>)"
  by (simp add: wp_def sleepContext_def)

lemma demo_runner_gone:
  assumes w: "st_ext s = 2" and T: "st_clock s + 2 * second \<le> T"
    and l: "l_Repository l = ''acme/app''" "l_RunnerID l = 9" "l_RunnerName l = demo_name" "l_RunnerLabel l = demo_label"
    and Q: "\<And>t. demo_deleted t \<Longrightarrow> Q None t"
  shows "wp (deleteRunner demo_config demo (Some (T, DeadlineExceeded)) l) Q s"
proof -
  have label: "runnerHasLabel demo_runner demo_label" by (simp add: runnerHasLabel_def demo_simps)
  have "\<exists>n. poll_fuel (Some (T, DeadlineExceeded)) second s = Suc (Suc n)"
    by (simp add: poll_fuel_def ctx_deadline_def numeral_2_eq_2)
  then obtain n where n: "poll_fuel (Some (T, DeadlineExceeded)) second s = Suc (Suc n)" ..
  show ?thesis
    unfolding deleteRunner_def poll_def demo_data
    using T by (simp add: n deleteRunner_turn_def wp_demo_sleep demo_eval w l label cong: wp_weak_cong bind_weak_cong)
      (rule Q, auto simp: demo_deleted_def)
qed

lemma demo_completion:
  assumes w: "st_ext s = 2" and T: "T = st_clock s + minute"
    and Q: "\<And>r t l. \<not> res_Replay r \<Longrightarrow> l_CleanupComplete l \<Longrightarrow> demo_deleted t \<Longrightarrow> Q (l, r, None) t"
  shows "wp (concludeRun demo_config demo None (Some (T, DeadlineExceeded)) demo_request demo_policy demo_ledger_done demo_identity) Q s"
  unfolding concludeRun_def demo_data wp_bind
proof (rule demo_waitForCompletion [OF w], goal_cases)
  case (1 t)
  show ?case
    unfolding ensureRunnerGone_def wp_bind option.case
    apply (simp add: demo_eval cong: wp_weak_cong bind_weak_cong)
    apply (rule demo_runner_gone)
          apply (simp_all add: 1 T demo_simps)
    apply (simp add: demo_eval resolveRef_def concludeStatus_def cong: wp_weak_cong bind_weak_cong)
    apply (rule wp_demo_transition)
     apply (simp add: demo_valid)
    apply simp
    apply (rule Q)
      apply (auto simp: result_of_def demo_deleted_def)
    done
qed

lemma demo_verifyAuthority:
  assumes w: "st_ext s = 0" and Q: "\<And>t. st_ext t = 0 \<Longrightarrow> st_clock t = st_clock s \<Longrightarrow> Q (Inr demo_sha) t"
  shows "wp (verifyAuthority demo None demo_request demo_policy) Q s"
  unfolding verifyAuthority_def by (simp add: resolveRef_def demo_eval w Q cong: wp_weak_cong bind_weak_cong)

definition demo_ledger_dispatched :: Ledger where
  "demo_ledger_dispatched = demo_ledger\<lparr>l_RunID := 7, l_RunTerminal := False, l_Status := StatusWorkflowDispatched, l_FailureCode := [], l_UpdatedAt := 1\<rparr>"

lemma demo_waitForRun:
  assumes w: "st_ext s = 0" and Q: "\<And>t. st_ext t = 0 \<Longrightarrow> st_clock t = st_clock s \<Longrightarrow> Q (Inr (demo_run 0)) t"
  shows "wp (waitForRun demo_config demo None ''acme/app'' demo_policy demo_ledger_dispatched demo_identity) Q s"
  unfolding waitForRun_def
  by (simp add: WithTimeout_def, rule wp_poll_now)
    (simp add: waitForRun_turn_def getRun_def demo_ledger_dispatched_def demo_eval w Q cong: wp_weak_cong bind_weak_cong)

lemma demo_waitForJob:
  assumes w: "st_ext s = 0" and Q: "\<And>t. st_ext t = 0 \<Longrightarrow> st_clock t = st_clock s \<Longrightarrow> Q (Inr (demo_job 0)) t"
  shows "wp (waitForJob demo_config demo None ''acme/app'' demo_policy 7 demo_label) Q s"
  unfolding waitForJob_def
  by (simp add: WithTimeout_def, rule wp_poll_now)
    (simp add: waitForJob_turn_def demo_eval w Q cong: wp_weak_cong bind_weak_cong)

lemma demo_execDriver_start:
  assumes w: "st_ext s = w" and Q: "\<And>t. st_ext t = w \<Longrightarrow> st_clock t = st_clock s \<Longrightarrow> Q (Inr demo_process) t"
  shows "wp (execDriver_start demo_driver request) Q s"
  unfolding execDriver_start_def by (simp add: demo_eval w Q cong: wp_weak_cong bind_weak_cong)

lemma demo_execDriver_finish:
  assumes w: "st_ext s = Suc 0" and i: "dx_Input request \<noteq> None" and Q: "\<And>t. st_ext t = 2 \<Longrightarrow> st_clock t = st_clock s \<Longrightarrow> Q ([r, demo_receipt (Suc 0)], None) t"
  shows "wp (execDriver_finish demo_driver ctx request process [r]) Q s"
  unfolding execDriver_finish_def
  by (simp add: demo_eval readReceipt_def execDriver_wait_def errors_Join_def w i Q numeral_2_eq_2 cong: wp_weak_cong bind_weak_cong)

definition demo_ledger_jit :: Ledger where
  "demo_ledger_jit = demo_ledger\<lparr>l_RunID := 7, l_JobID := 8, l_RunnerID := 9, l_RunTerminal := False, l_RunnerGone := False,
     l_IsolationGone := False, l_Status := StatusJITCreated, l_FailureCode := [], l_UpdatedAt := 1\<rparr>"

definition demo_ledger_live :: Ledger where
  "demo_ledger_live = demo_ledger_jit\<lparr>l_ProcessPID := 5, l_ProcessStart := 6, l_ProcessGroup := 5, l_CgroupPath := demo_cgroup,
     l_IsolationID := ''isolation-0000001'', l_IsolationBase := demo_hex, l_Status := StatusIsolationReady, l_FailureCode := [], l_UpdatedAt := 1\<rparr>"

lemma demo_execDriver:
  assumes w: "st_ext s = 0" and x: "dx_Input x = Some input" "dx_LeaseID x = demo_hex" "dx_BaseImageSHA256 x = demo_hex"
    and Q: "\<And>t. st_ext t = 2 \<Longrightarrow> st_clock t = st_clock s \<Longrightarrow> Q (demo_ledger_live, [demo_receipt 0, demo_receipt (Suc 0)], demo_process, None) t"
  shows "wp (execDriver demo_driver ctx x (onStarted demo) (onReady demo) demo_ledger_jit) Q s"
  unfolding execDriver_def wp_bind onStarted_def
proof (rule demo_execDriver_start [OF w], simp, rule wp_demo_transition, goal_cases)
  case (1 t)
  then show ?case by (simp add: demo_ledger_jit_def demo_valid demo_data)
next
  case (2 t u)
  show ?case
    unfolding execDriver_session_def readReceipt_def
    apply (simp add: demo_eval execDriver_handover_def onReady_def 2 x cong: wp_weak_cong bind_weak_cong)
    apply (rule wp_demo_transition)
     apply (simp add: demo_ledger_jit_def demo_valid demo_data)
    apply (simp add: execDriver_input_def demo_eval 2 cong: wp_weak_cong bind_weak_cong)
    apply (rule demo_execDriver_finish)
    apply simp
    apply (simp add: x)
    using Q
    apply (simp add: demo_ledger_jit_def demo_ledger_live_def demo_eval)
    done
qed

lemma demo_Run:
  assumes w: "st_ext s = 0" and Q: "\<And>t outcome. st_ext t = 2 \<Longrightarrow> st_clock t = st_clock s \<Longrightarrow> lifecycle_matches demo_config demo_ledger_live outcome \<Longrightarrow> Q (demo_ledger_live, outcome, None) t"
  shows "wp (Run demo_driver ctx (runnerRequest demo_config demo_ledger_jit demo_identity ''0123456789abcdef'' (path_Join ''/var/civm/logs'' demo_hex))
     (onStarted demo) (onReady demo) demo_ledger_jit) Q s"
  unfolding Run_def validateRunnerRequest_def
  apply (simp add: runnerRequest_def demo_ledger_jit_def demo_eval w maxJITResponse_def cong: wp_weak_cong bind_weak_cong)
  apply (simp add: runDriver_def flip: demo_ledger_jit_def)
  apply (rule demo_execDriver)
  apply (simp add: w)
  apply simp
  apply simp
  apply simp
  apply (simp add: demo_eval)
  apply (rule Q)
    apply simp_all
  apply (simp add: lifecycle_matches_def demo_ledger_live_def demo_ledger_jit_def demo_eval)
  done

lemma demo_settleRun:
  assumes w: "st_ext s = 2" and T: "T = st_clock s + minute" and m: "lifecycle_matches demo_config demo_ledger_live outcome"
    and Q: "\<And>r t l. \<not> res_Replay r \<Longrightarrow> l_CleanupComplete l \<Longrightarrow> demo_deleted t \<Longrightarrow> Q (l, r, None) t"
  shows "wp (settleRun demo_config demo None (Some (T, DeadlineExceeded)) demo_request demo_policy demo_identity (demo_ledger_live, outcome, None)) Q s"
proof -
  have l: "clear_process demo_ledger_live = demo_ledger_done"
    by (simp add: clear_process_def demo_ledger_live_def demo_ledger_jit_def demo_ledger_done_def demo_ledger_def)
  have v: "validateLedger demo_ledger_done (l_RequestID demo_ledger_done) = None"
    by (simp add: demo_ledger_done_def demo_valid)
  show ?thesis
    unfolding settleRun_def by (simp add: m l Let_def) (rule wp_demo_Save [OF v], simp, rule demo_completion, simp_all add: w T Q)
qed

lemma demo_run_bound:
  assumes w: "st_ext s = 0" and l: "l\<lparr>l_IsolationGone := False\<rparr> = demo_ledger_jit" "l_RequestID l = demo_hex"
    and Q: "\<And>r t l. \<not> res_Replay r \<Longrightarrow> l_CleanupComplete l \<Longrightarrow> demo_deleted t \<Longrightarrow> Q (l, r, None) t"
  shows "wp (run_bound demo_config demo None demo_request demo_policy l demo_identity ''0123456789abcdef'') Q s"
proof -
  have v: "validateLedger demo_ledger_jit (l_RequestID demo_ledger_jit) = None"
    by (simp add: demo_ledger_jit_def demo_valid)
  show ?thesis
    unfolding run_bound_def RequestLogDir_def
    by (simp add: l demo_eval w WithTimeout_def cong: wp_weak_cong bind_weak_cong)
      (rule wp_demo_Save [OF v], simp add: demo_simps WithTimeout_def, rule demo_Run, simp, simp add: demo_settleRun Q)
qed

lemma demo_bindAndRun:
  assumes w: "st_ext s = 0" and l: "l = demo_ledger_dispatched"
    and Q: "\<And>r t l. \<not> res_Replay r \<Longrightarrow> l_CleanupComplete l \<Longrightarrow> demo_deleted t \<Longrightarrow> Q (l, r, None) t"
  shows "wp (bindAndRun demo_config demo None demo_request demo_policy l demo_identity) Q s"
  unfolding l bindAndRun_def demo_data demo_identity_fields wp_bind
  apply (rule demo_waitForRun [OF w], simp add: demo_simps)
  apply (rule demo_waitForJob, assumption)
  apply (simp add: demo_simps Let_def)
  apply (rule wp_demo_transition)
   apply (simp add: demo_ledger_dispatched_def demo_valid)
  apply (simp add: labelExists_def demo_eval registerAndRun_def cong: wp_weak_cong bind_weak_cong)
  apply (rule wp_demo_Save)
   apply (simp add: demo_ledger_dispatched_def demo_valid)
  apply (simp add: generateJIT_def acceptJIT_def demo_eval cong: wp_weak_cong bind_weak_cong)
  apply (rule wp_demo_transition)
   apply (simp add: demo_ledger_dispatched_def demo_valid)
  apply simp
  apply (rule demo_run_bound)
     apply (simp_all add: demo_ledger_dispatched_def demo_ledger_jit_def demo_simps Q)
  done

lemma demo_dispatchLeased:
  assumes w: "st_ext s = 0" and l: "l = demo_ledger" and Q: "\<And>r t. \<not> res_Replay r \<Longrightarrow> demo_deleted t \<Longrightarrow> Q (r, None) t"
  shows "wp (dispatchLeased demo_config demo None demo_request demo_policy l demo_identity demo_marker) Q s"
  unfolding l dispatchLeased_def endLease_def dispatchPrepared_def wp_bind
  apply (rule wp_demo_transition)
   apply (simp add: demo_valid)
  apply (simp add: w dispatch_inputs_def acceptDispatch_def demo_eval cong: wp_weak_cong bind_weak_cong)
  apply (rule wp_demo_transition)
   apply (simp add: demo_valid)
  apply simp
  apply (rule demo_bindAndRun)
    apply (simp_all add: demo_ledger_dispatched_def gateRelease_def demo_eval Q cong: wp_weak_cong bind_weak_cong)
  done

lemma demo_dispatchNew:
  assumes w: "st_ext s = 0" and Q: "\<And>r t. \<not> res_Replay r \<Longrightarrow> demo_deleted t \<Longrightarrow> Q (r, None) t"
  shows "wp (dispatchNew demo_config demo None demo_request demo_policy demo_hex) Q s"
  unfolding dispatchNew_def wp_bind
  apply (rule demo_verifyAuthority [OF w])
  apply (simp add: demo_eval labelExists_def newLedger_def ledgerVersion_def dispatchFresh_def
      cong: wp_weak_cong bind_weak_cong)
  apply (rule wp_demo_Save)
   apply (simp add: demo_valid)
  apply (simp add: gateAcquire_def demo_eval cong: wp_weak_cong bind_weak_cong)
  apply (rule demo_dispatchLeased)
    apply (simp_all add: demo_ledger_def Q)
  done

lemma demo_success: "wp (Dispatch demo_config demo None demo_request) (\<lambda>(r, e) t. e = None \<and> \<not> res_Replay r \<and> demo_deleted t) demo_start"
  unfolding Dispatch_def
  apply (simp add: demo_eval demo_start_def Policy_def ValidateRequest_def Preflight_def cong: wp_weak_cong bind_weak_cong)
  apply (simp add: dispatchLocked_def reconcileStartup_def List_ledgers_def demo_eval replay_def Load_def ledgerPath_def RequestID_def
      cong: wp_weak_cong bind_weak_cong)
  apply (rule demo_dispatchNew)
   apply (simp_all add: demo_eval)
  done

end
