(* ===== verification/Jit_Contract.thy ===== *)
theory Jit_Contract
  imports Jit_Scenario
begin

text \<open>
  What a whole call of \<open>Dispatch\<close> guarantees, for every behaviour of GitHub, of the isolation
  driver, of the resource gate and of the file system. The statements are read off the
  specification \<open>Dispatch_spec\<close>, and each is applied to the successful dispatch of
  \<open>Jit_Scenario\<close>.
\<close>

section \<open>Vocabulary\<close>

abbreviation after :: "Config \<Rightarrow> 'w Dependencies \<Rightarrow> ctxt \<Rightarrow> Request \<Rightarrow> 'w jst \<Rightarrow> (Result \<times> jerr option) \<times> 'w jst" where
  "after cfg d ctx request s \<equiv> run_state (Dispatch cfg d ctx request) s"

text \<open>An incomplete ledger with property \<open>P\<close> is on disk.\<close>

definition recorded :: "ledger_dir \<Rightarrow> (Ledger \<Rightarrow> bool) \<Rightarrow> bool" where
  "recorded D P \<longleftrightarrow> (\<exists>k L. map_of D k = Some L \<and> \<not> l_CleanupComplete L \<and> P L)"

text \<open>The intent that must be durable when a call that creates something is made.\<close>

fun write_ahead :: "jevent \<Rightarrow> ledger_dir \<Rightarrow> bool" where
  "write_ahead (EvDispatchWorkflow repo workflow ref inputs r) D \<longleftrightarrow>
     recorded D (\<lambda>L. l_Status L = StatusDispatching \<and> \<not> l_RunTerminal L \<and> l_RunID L = 0 \<and>
       repo = l_Repository L \<and> workflow = l_Workflow L \<and>
       inputs = [(''candidate_sha'', l_CandidateSHA L), (''candidate_ref'', l_CandidateRef L),
                 (''dispatch_nonce'', l_Nonce L), (''runner_label'', l_RunnerLabel L)])"
| "write_ahead (EvGenerateJIT repo identity groupID r) D \<longleftrightarrow>
     recorded D (\<lambda>L. l_Status L = StatusRunBound \<and> \<not> l_RunnerGone L \<and> 0 < l_RunID L \<and> 0 < l_JobID L \<and>
       repo = l_Repository L \<and> identity = ledger_identity L)"
| "write_ahead (EvDriverStart lease args r) D \<longleftrightarrow>
     (if args \<noteq> [] \<and> hd args = ''run''
      then recorded D (\<lambda>L. l_Status L = StatusJITCreated \<and> \<not> l_IsolationGone L \<and> 0 < l_RunnerID L \<and> lease = l_LeaseID L)
      else True)"
| "write_ahead (EvDriverInput lease) D \<longleftrightarrow>
     recorded D (\<lambda>L. l_Status L = StatusIsolationReady \<and> \<not> l_IsolationGone L \<and> l_IsolationID L \<noteq> [] \<and> lease = l_LeaseID L)"
| "write_ahead _ D \<longleftrightarrow> True"

text \<open>
  A runner is deleted, or a run cancelled, only right after GitHub has shown exactly that
  runner or run with the identity of a ledger on disk.
\<close>

fun targeted :: "(jevent \<times> ledger_dir) list \<Rightarrow> jevent \<Rightarrow> ledger_dir \<Rightarrow> bool" where
  "targeted pre (EvDeleteRunner repo runnerID r) D \<longleftrightarrow>
     (\<exists>k L E runner. map_of D k = Some L \<and> repo = l_Repository L \<and>
        pre \<noteq> [] \<and> last pre = (EvGetRunner repo runnerID (Inr (Some runner)), E) \<and>
        rr_ID runner = runnerID \<and> rr_Name runner = l_RunnerName L \<and> runnerHasLabel runner (l_RunnerLabel L))"
| "targeted pre (EvCancelRun repo runID r) D \<longleftrightarrow>
     (\<exists>k L E run. map_of D k = Some L \<and> repo = l_Repository L \<and>
        pre \<noteq> [] \<and> last pre = (EvGetRun repo runID (Inr run), E) \<and>
        wr_Event run = ''workflow_dispatch'' \<and> wr_HeadSHA run = l_TrustedSHA L \<and>
        wr_DisplayTitle run = ''CIVM JIT '' @ l_Nonce L \<and> nonterminalStatus (wr_Status run))"
| "targeted pre _ D \<longleftrightarrow> True"

section \<open>From the specification to runs\<close>

lemma wp_run: "wp m Q s \<Longrightarrow> run_state m s = (a, t) \<Longrightarrow> Q a t"
  by (simp add: wp_def)

lemma Dispatch_run:
  "after cfg d ctx request s = (x, t) \<Longrightarrow> answered cfg request (RequestID (dp_sha256hex d) request) s x t"
  by (rule wp_run [OF Dispatch_spec])

lemma Dispatch_lawful:
  "after cfg d ctx request s = ((res, err), t) \<Longrightarrow> since s t = pre @ e # post \<Longrightarrow> lawful_at (is_stale err) pre e"
  using Dispatch_run [of cfg d ctx request s "(res, err)" t] unfolding answered_def orderly_def lawful_def by blast

lemma call_ok_write_ahead:
  assumes "call_ok c pre (ev, D)"
  shows "write_ahead ev D"
proof -
  have "holds D c P \<Longrightarrow> (\<And>L. P L \<Longrightarrow> R L) \<Longrightarrow> recorded D R" for P R
    by (auto simp: holds_def recorded_def split: option.splits)
  with assms show ?thesis by (cases ev) auto
qed

lemma harmless_write_ahead: "harmless ev \<Longrightarrow> write_ahead ev D"
  by (cases ev) auto

lemma call_ok_targeted:
  assumes "call_ok c pre (ev, D)" "durable D c"
  shows "targeted pre ev D"
proof -
  obtain L where L: "map_of D (l_RequestID c) = Some L" "core L = c" using assms(2) by (auto simp: durable_def)
  then have f: "l_Repository c = l_Repository L" "l_RunnerName c = l_RunnerName L" "l_RunnerLabel c = l_RunnerLabel L"
      "l_TrustedSHA c = l_TrustedSHA L" "l_Nonce c = l_Nonce L"
    by auto
  have last: "last pre = (fst (last pre), snd (last pre))" by simp
  show ?thesis
    using assms(1) L(1) f by (cases ev) (auto split: jevent.splits sum.splits option.splits, (metis last)+)
qed

lemma harmless_targeted: "harmless ev \<Longrightarrow> targeted pre ev D"
  by (cases ev) auto

lemma Dispatch_call:
  assumes run: "after cfg d ctx request s = ((res, err), t)" and split: "since s t = pre @ (ev, D) # post"
  shows "write_ahead ev D" "targeted pre ev D" "release_event ev \<Longrightarrow> is_stale err \<or> all_complete D"
proof -
  have gate: "write_ahead ev D" "targeted pre ev D" if "gate_event ev" using that by (cases ev; simp)+
  have ok: "lawful_at (is_stale err) pre (ev, D)" by (rule Dispatch_lawful [OF run split])
  show "write_ahead ev D" "targeted pre ev D"
    using ok gate harmless_write_ahead harmless_targeted call_ok_write_ahead call_ok_targeted
    unfolding lawful_at_def fst_conv snd_conv by (metis)+
  have "release_event ev \<Longrightarrow> gate_event ev" by (cases ev) auto
  then show "release_event ev \<Longrightarrow> is_stale err \<or> all_complete D" using ok by (simp add: lawful_at_def)
qed

lemma Dispatch_event:
  assumes "after cfg d ctx request s = (x, t)" "e \<in> set (since s t)"
  shows "write_ahead (fst e) (snd e)" "keeps_dir (st_disk s) (snd e)"
proof -
  obtain pre post where "since s t = pre @ e # post" using assms(2) by (meson split_list)
  then show "write_ahead (fst e) (snd e)"
    using Dispatch_call(1) [of cfg d ctx request s "fst x" "snd x" t pre "fst e" "snd e" post] assms(1) by simp
  show "keeps_dir (st_disk s) (snd e)" using Dispatch_run [OF assms(1)] assms(2) by (auto simp: answered_def orderly_def split: prod.splits)
qed

text \<open>The scenario, and the calls it makes.\<close>

lemma demo_runs:
  obtains res t L where "after demo_config demo None demo_request demo_start = ((res, None), t)" "\<not> res_Replay res"
    "dispatched demo_config demo_request demo_policy (ledger_identity L) L (since demo_start t)"
    "\<exists>lease. occurs (EvGateRelease lease None) (since demo_start t)" "demo_deleted t" "since demo_start t = st_trace t"
proof -
  obtain res e t where run: "after demo_config demo None demo_request demo_start = ((res, e), t)" by (metis surj_pair)
  have ok: "e = None" "\<not> res_Replay res" "demo_deleted t" using wp_run [OF demo_success run] by simp_all
  have "since demo_start t = st_trace t" by (simp add: since_def demo_start_def)
  have "Policy demo_config (rq_Repository demo_request) = Some demo_policy" by (simp add: Policy_def demo_simps)
  with \<open>since demo_start t = st_trace t\<close> show thesis
    using that Dispatch_run [OF run] run ok unfolding answered_def delivered_def by auto
qed

section \<open>Theorems\<close>

text \<open>
  C1. When \<open>Dispatch\<close> reports success for a request it did not find already recorded, the
  workflow was dispatched with exactly the inputs of the request and the fresh nonce, the run
  and its single job completed successfully on the registered just-in-time runner, the isolation
  proved itself ready and later destroyed, the runner was seen gone, the candidate ref still
  pointed to the requested commit, and the durable ledger of the request says completed.
\<close>

theorem Dispatch_success:
  assumes "after cfg d ctx request s = ((res, None), t)" "\<not> res_Replay res"
  shows "\<exists>L policy. map_of (st_disk t) (RequestID (dp_sha256hex d) request) = Some L \<and>
     Policy cfg (rq_Repository request) = Some policy \<and> l_Status L = StatusCompleted \<and> l_CleanupComplete L \<and>
     l_Repository L = rq_Repository request \<and> l_CandidateRef L = rq_CandidateRef request \<and>
     l_CandidateSHA L = rq_CandidateSHA request \<and> res_RunID res = l_RunID L \<and> res_Status res = StatusCompleted \<and>
     dispatched cfg request policy (ledger_identity L) L (since s t)"
  using Dispatch_run [OF assms(1)] assms(2) unfolding answered_def delivered_def by auto

theorem Dispatch_success_witness:
  "\<exists>res t. after demo_config demo None demo_request demo_start = ((res, None), t) \<and> \<not> res_Replay res \<and>
     (\<exists>L policy. map_of (st_disk t) (RequestID (dp_sha256hex demo) demo_request) = Some L \<and>
        dispatched demo_config demo_request policy (ledger_identity L) L (since demo_start t))"
proof -
  obtain res t where "after demo_config demo None demo_request demo_start = ((res, None), t)" "\<not> res_Replay res"
    by (rule demo_runs)
  then show ?thesis using Dispatch_success by blast
qed

text \<open>
  C2. Write-ahead: whenever \<open>Dispatch\<close> asks GitHub to dispatch a workflow, asks for a
  just-in-time runner, starts the isolation driver or hands it the runner configuration, an
  incomplete ledger recording exactly that intent is already on disk, so a crash at any later
  moment leaves it to startup reconciliation.
\<close>

theorem Dispatch_write_ahead:
  assumes "after cfg d ctx request s = (x, t)" "(ev, D) \<in> set (since s t)"
  shows "write_ahead ev D"
  using Dispatch_event(1) [OF assms] by simp

theorem Dispatch_write_ahead_witness:
  "\<exists>x t repo workflow ref inputs r D. after demo_config demo None demo_request demo_start = (x, t) \<and>
     (EvDispatchWorkflow repo workflow ref inputs r, D) \<in> set (since demo_start t) \<and>
     write_ahead (EvDispatchWorkflow repo workflow ref inputs r) D"
proof -
  obtain res t L where run: "after demo_config demo None demo_request demo_start = ((res, None), t)"
    and "dispatched demo_config demo_request demo_policy (ledger_identity L) L (since demo_start t)"
    by (rule demo_runs)
  then obtain repo workflow ref inputs r D where ev: "(EvDispatchWorkflow repo workflow ref inputs r, D) \<in> set (since demo_start t)"
    unfolding dispatched_def occurs_def by auto
  show ?thesis using run ev Dispatch_write_ahead [OF run ev] by blast
qed

text \<open>
  C3. The resource lease is given back only when every ledger on disk is complete, so nothing
  of any request is still running; the only exception is a dispatch that reports the candidate
  ref as moved.
\<close>

theorem Dispatch_release:
  assumes "after cfg d ctx request s = ((res, err), t)" "(ev, D) \<in> set (since s t)" "release_event ev" "\<not> is_stale err"
  shows "all_complete D"
proof -
  obtain pre post where "since s t = pre @ (ev, D) # post" using assms(2) by (meson split_list)
  then show ?thesis using Dispatch_call(3) assms by blast
qed

theorem Dispatch_release_witness:
  "\<exists>res t lease D. after demo_config demo None demo_request demo_start = ((res, None), t) \<and>
     (EvGateRelease lease None, D) \<in> set (since demo_start t) \<and> all_complete D"
proof -
  obtain res t L where run: "after demo_config demo None demo_request demo_start = ((res, None), t)"
    and "\<exists>lease. occurs (EvGateRelease lease None) (since demo_start t)"
    by (rule demo_runs)
  then obtain lease D where ev: "(EvGateRelease lease None, D) \<in> set (since demo_start t)"
    unfolding occurs_def by auto
  have "all_complete D" by (rule Dispatch_release [OF run ev]) (simp_all add: is_stale_def)
  with run ev show ?thesis by blast
qed

text \<open>
  C4. A runner is deleted and a run cancelled only when the last answer from GitHub showed that
  very runner or run, with the name, label, trusted commit and nonce of a ledger on disk.
\<close>

theorem Dispatch_targets:
  assumes "after cfg d ctx request s = (x, t)" "since s t = pre @ (ev, D) # post"
  shows "targeted pre ev D"
  using Dispatch_call(2) assms by (metis surj_pair)

theorem Dispatch_targets_witness:
  "\<exists>x t pre r D post. after demo_config demo None demo_request demo_start = (x, t) \<and>
     since demo_start t = pre @ (EvDeleteRunner ''acme/app'' 9 r, D) # post \<and> targeted pre (EvDeleteRunner ''acme/app'' 9 r) D"
proof -
  obtain res t where run: "after demo_config demo None demo_request demo_start = ((res, None), t)"
    and "demo_deleted t" "since demo_start t = st_trace t"
    by (rule demo_runs)
  then obtain pre D post where ev: "since demo_start t = pre @ (EvDeleteRunner ''acme/app'' 9 None, D) # post"
    unfolding demo_deleted_def by (metis split_list)
  show ?thesis using run ev Dispatch_targets [OF run ev] by blast
qed

section \<open>The store and the driver\<close>



text \<open>
  C11. A recovery that reports the isolation destroyed has read, from the driver it started and
  after terminating the containment of the old one, a receipt that names the lease and the
  isolation, was made from the configured base image, and says destroyed and verified; no
  driver was started after that receipt.
\<close>

theorem Recover_proves:
  assumes "run_state (Recover dv ctx request) s = (Inr r, t)"
  shows "proved (rc_LeaseID request) r (since s t) \<and>
    validDestroyedReceipt r (rc_LeaseID request) (rc_IsolationID request) (rc_BaseImageSHA256 request) \<and> st_disk t = st_disk s"
proof -
  have "wp (Recover dv ctx request) (\<lambda>x t. \<forall>r. x = Inr r \<longrightarrow> proved (rc_LeaseID request) r (since s t) \<and>
      validDestroyedReceipt r (rc_LeaseID request) (rc_IsolationID request) (rc_BaseImageSHA256 request) \<and> st_disk t = st_disk s) s"
    by (rule wp_Recover) (auto simp: observes_def)
  from wp_run [OF this assms] show ?thesis by simp
qed

definition demo_recovery :: RecoveryRequest where
  "demo_recovery = recoveryRequest demo_config demo_ledger_live (path_Join ''/var/civm/logs'' demo_hex)"

lemma demo_recoverDriver:
  assumes w: "st_ext s = Suc 0" and r: "rc_LeaseID request = demo_hex" "rc_IsolationID request = ''isolation-0000001''"
    "rc_BaseImageSHA256 request = demo_hex"
  shows "wp (recoverDriver demo_driver None request) (\<lambda>x _. \<not> isl x) s"
  unfolding recoverDriver_def execDriver_def wp_bind
  apply (rule demo_execDriver_start [OF w])
  apply (simp add: execDriver_session_def readReceipt_def demo_eval r cong: wp_weak_cong bind_weak_cong)
  apply (simp add: execDriver_finish_def execDriver_wait_def errors_Join_def demo_eval r cong: wp_weak_cong bind_weak_cong)
  done

lemma demo_Recover:
  assumes w: "st_ext s = Suc 0"
  shows "wp (Recover demo_driver None demo_recovery) (\<lambda>x _. \<not> isl x) s"
proof -
  have r: "rc_LeaseID demo_recovery = demo_hex" "rc_IsolationID demo_recovery = ''isolation-0000001''"
    "rc_BaseImageSHA256 demo_recovery = demo_hex" "validateRecoveryRequest demo_recovery = None"
    by (simp_all add: demo_recovery_def recoveryRequest_def validateRecoveryRequest_def demo_ledger_live_def demo_ledger_jit_def demo_simps)
  show ?thesis
    unfolding Recover_def recoverContainment_def r
    by (simp add: demo_eval w demo_recoverDriver r cong: wp_weak_cong bind_weak_cong)
qed

theorem Recover_proves_witness:
  "\<exists>r t. run_state (Recover demo_driver None demo_recovery) (demo_start\<lparr>st_ext := 1\<rparr>) = (Inr r, t) \<and>
     proved (rc_LeaseID demo_recovery) r (since (demo_start\<lparr>st_ext := 1\<rparr>) t)"
proof -
  obtain x t where run: "run_state (Recover demo_driver None demo_recovery) (demo_start\<lparr>st_ext := 1\<rparr>) = (x, t)" by fastforce
  have "\<not> isl x" by (rule wp_run [OF demo_Recover run]) simp
  then obtain r where "x = Inr r" by (cases x) auto
  then show ?thesis using run Recover_proves by blast
qed

end
