(* ===== verification/Jit_Lifetime.thy ===== *)
theory Jit_Lifetime
  imports Jit_Contract
begin

text \<open>
  A request dispatches its workflow at most once, over the whole lifetime of the ledger
  directory. \<open>skips\<close> says that a stretch of execution makes no workflow dispatch; every
  operation but the one call in \<open>dispatchPrepared\<close> has it. \<open>lifetime\<close> are the states reached
  by any sequence of calls of \<open>Dispatch\<close>, each of which may be cut off by a crash between any
  two effects, with the ledger directory as it is on disk at that moment.
\<close>

section \<open>Stretches without a workflow dispatch\<close>

fun dispatch_event :: "jevent \<Rightarrow> bool" where
  "dispatch_event (EvDispatchWorkflow _ _ _ _ _) = True"
| "dispatch_event _ = False"

definition skips :: "'w jst \<Rightarrow> 'w jst \<Rightarrow> bool" where
  "skips s t \<longleftrightarrow> grows s t \<and> filter (dispatch_event \<circ> fst) (since s t) = []"

lemma skips_refl [simp]: "skips s s"
  by (simp add: skips_def)

lemma skips_trans:
  assumes "skips s t" "skips t u"
  shows "skips s u"
proof -
  have "since s u = since s t @ since t u" by (rule since_trans) (use assms in \<open>simp_all add: skips_def\<close>)
  then show ?thesis using assms grows_trans [of s t u] by (simp add: skips_def)
qed

lemma reflp_skips [simp]: "reflp skips"
  by (simp add: reflp_def)

lemma transp_skips [simp]: "transp skips"
  by (auto simp: transp_def intro: skips_trans)

lemma observes_skips: "observes E s t \<Longrightarrow> (\<And>ev. E ev \<Longrightarrow> \<not> dispatch_event ev) \<Longrightarrow> skips s t"
  by (auto simp: skips_def observes_def filter_empty_conv)

named_theorems skip

lemma skips_call [skip]: "(\<And>a. \<not> dispatch_event (mk a)) \<Longrightarrow> keeps skips (call mk f)"
  by (rule keepsI_wp, rule wp_call_observes) (auto intro: observes_skips)

lemma skips_quiet [skip]: "keeps skips (quiet f)"
  by (rule keepsI_wp, rule wp_quiet_observes) (auto intro: observes_skips)

lemma skips_sleepContext [skip]: "keeps skips (sleepContext c d)"
  by (rule keepsI_wp, rule wp_sleepContext_observes) (auto intro: observes_skips)

lemma skips_timeout [skip]: "keeps skips (timeout c d)"
  by (simp add: timeout_def)

lemma skips_Now [skip]: "keeps skips (Now d)"
  by (simp add: Now_def)

lemma skips_modify [skip]: "(\<And>s. st_trace (f s) = st_trace s \<and> st_clock (f s) = st_clock s) \<Longrightarrow> keeps skips (modify f)"
  by (simp add: keeps_def skips_def grows_def since_def)

lemma skips_return [skip]: "keeps skips (ret a)"
  by simp

lemma skips_gets [skip]: "keeps skips (gets f)"
  by simp

lemma skips_bind [skip]: "keeps skips m \<Longrightarrow> (\<And>a. keeps skips (f a)) \<Longrightarrow> keeps skips (State_Monad.bind m f)"
  by (rule keeps_bind) simp_all

lemma skips_poll [skip]:
  "(\<And>err. keeps skips (on_err err)) \<Longrightarrow> (\<And>c. keeps skips (body c)) \<Longrightarrow> keeps skips (poll ctx interval on_err body exhausted c)"
  unfolding poll_def by (intro skip keeps_poll_loop) (simp_all add: skip)

lemma skips_case_list [skip]:
  "(x = [] \<Longrightarrow> keeps skips m) \<Longrightarrow> (\<And>a as. x = a # as \<Longrightarrow> keeps skips (f a as)) \<Longrightarrow> keeps skips (case x of [] \<Rightarrow> m | a # as \<Rightarrow> f a as)"
  by (cases x) auto

lemma skips_case_outcome [skip]:
  "keeps skips m \<Longrightarrow> (\<And>e b. keeps skips (f e b)) \<Longrightarrow> (\<And>e. keeps skips (g e)) \<Longrightarrow>
   keeps skips (case x of SaveOK \<Rightarrow> m | SaveFailed e b \<Rightarrow> f e b | SaveRenamed e \<Rightarrow> g e)"
  by (cases x) auto

lemmas skip_case [skip] = keeps_cases

section \<open>The operations\<close>

lemma skips_Save [skip]: "keeps skips (Save d l)"
  unfolding Save_def by (intro skip) (simp_all add: put_ledger_def)

lemma skips_transition [skip]: "keeps skips (transition d l st code)"
  unfolding transition_def by (intro skip)

lemma skips_RequestLogDir [skip]: "keeps skips (RequestLogDir d rid)"
  unfolding RequestLogDir_def by (intro skip)

lemma skips_Load [skip]: "keeps skips (Load d rid)"
  unfolding Load_def by (intro skip)

lemma skips_load_all [skip]: "keeps skips (load_all d ids)"
  by (induction ids) (auto intro!: skip)

lemma skips_List [skip]: "keeps skips (List_ledgers d)"
  unfolding List_ledgers_def by (intro skip)

lemma skips_Preflight [skip]: "keeps skips (Preflight dv cfg)"
  unfolding Preflight_def by (intro skip)

lemma skips_recoverContainment [skip]: "keeps skips (recoverContainment dv ctx lease process grace)"
  unfolding recoverContainment_def by (intro skip) simp

lemma skips_stopAndWait [skip]: "keeps skips (stopAndWait dv process grace)"
  unfolding stopAndWait_def by (intro skip) simp

lemma skips_stopUnidentified [skip]: "keeps skips (stopUnidentifiedAndWait dv lease grace)"
  unfolding stopUnidentifiedAndWait_def by (intro skip)

lemma skips_readReceipt [skip]: "keeps skips (readReceipt dv ctx lease)"
  unfolding readReceipt_def by (intro skip) simp

lemma skips_execDriver_start [skip]: "keeps skips (execDriver_start dv request)"
  unfolding execDriver_start_def by (intro skip) simp

lemma skips_execDriver_wait [skip]: "keeps skips (execDriver_wait dv ctx request process e)"
  unfolding execDriver_wait_def by (intro skip) simp

lemma skips_execDriver_finish [skip]: "keeps skips (execDriver_finish dv ctx request process rs)"
  unfolding execDriver_finish_def by (intro skip)

lemma skips_execDriver [skip]:
  assumes "\<And>c p. keeps skips (started c p)" "\<And>c r. keeps skips (ready c r)"
  shows "keeps skips (execDriver dv ctx request started ready c)"
  unfolding execDriver_def execDriver_session_def execDriver_handover_def execDriver_input_def
  by (intro skip assms) simp

lemma skips_validateRunnerRequest [skip]: "keeps skips (validateRunnerRequest dv request)"
  unfolding validateRunnerRequest_def by (intro skip)

lemma skips_Run [skip]:
  assumes "\<And>c p. keeps skips (started c p)" "\<And>c r. keeps skips (ready c r)"
  shows "keeps skips (Run dv ctx request started ready c)"
  unfolding Run_def runDriver_def by (intro skip assms)

lemma skips_Recover [skip]: "keeps skips (Recover dv ctx request)"
  unfolding Recover_def recoverDriver_def by (intro skip)

section \<open>The dispatcher\<close>

lemma skips_getRun [skip]: "keeps skips (getRun d ctx repo run)"
  unfolding getRun_def by (intro skip) simp

lemma skips_resolveRef [skip]: "keeps skips (resolveRef d ctx repo ref)"
  unfolding resolveRef_def by (intro skip) simp

lemma skips_waitForRun [skip]: "keeps skips (waitForRun cfg d ctx repo policy l identity)"
  unfolding waitForRun_def waitForRun_turn_def by (intro skip)

lemma skips_waitForJob [skip]: "keeps skips (waitForJob cfg d ctx repo policy run label)"
  unfolding waitForJob_def waitForJob_turn_def by (intro skip) simp

lemma skips_waitForCompletion [skip]: "keeps skips (waitForCompletion cfg d ctx repo l policy identity)"
  unfolding waitForCompletion_def waitForCompletion_turn_def by (intro skip) simp

lemma skips_waitTerminal [skip]: "keeps skips (waitTerminal cfg d ctx l policy identity)"
  unfolding waitTerminal_def waitTerminal_turn_def by (intro skip)

lemma skips_cancelAndWaitTerminal [skip]: "keeps skips (cancelAndWaitTerminal cfg d ctx l policy identity)"
  unfolding cancelAndWaitTerminal_def by (intro skip) simp

lemma skips_unproven [skip]: "keeps skips (unproven c1 c2 err)"
  unfolding unproven_def by (intro skip)

lemma skips_observeRunner [skip]: "keeps skips (observeRunner cfg d ctx l)"
  unfolding observeRunner_def observeRunner_turn_def by (intro skip) simp

lemma skips_deleteRunner [skip]: "keeps skips (deleteRunner cfg d ctx l)"
  unfolding deleteRunner_def deleteRunner_turn_def by (intro skip) simp_all

lemma skips_ensureRunnerGone [skip]: "keeps skips (ensureRunnerGone cfg d ctx l)"
  unfolding ensureRunnerGone_def by (intro skip)

lemma skips_and_then [skip]: "keeps skips m \<Longrightarrow> (\<And>l. keeps skips (f l)) \<Longrightarrow> keeps skips (and_then m f)"
  unfolding and_then_def by (intro skip)

lemma skips_cleanupIsolation [skip]: "keeps skips (cleanupIsolation cfg d ctx log l)"
  unfolding cleanupIsolation_def by (intro skip)

lemma skips_cleanupRun [skip]: "keeps skips (cleanupRun cfg d ctx l)"
  unfolding cleanupRun_def by (intro skip)

lemma skips_cleanupRunner [skip]: "keeps skips (cleanupRunner cfg d ctx l)"
  unfolding cleanupRunner_def by (intro skip)

lemma skips_cleanupSeal [skip]: "keeps skips (cleanupSeal d l)"
  unfolding cleanupSeal_def by (intro skip)

lemma skips_cleanupLedger [skip]: "keeps skips (cleanupLedger cfg d ctx l)"
  unfolding cleanupLedger_def by (intro skip)

lemma skips_finishWithoutLease [skip]: "keeps skips (finishWithoutLease d l code err)"
  unfolding finishWithoutLease_def by (intro skip)

lemma skips_finishError [skip]: "keeps skips (finishError cfg d l code err)"
  unfolding finishError_def by (intro skip)

lemma skips_concludeStatus [skip]: "keeps skips (concludeStatus cfg d request sha l)"
  unfolding concludeStatus_def by (intro skip)

lemma skips_concludeRun [skip]: "keeps skips (concludeRun cfg d ctx runCtx request policy l identity)"
  unfolding concludeRun_def by (intro skip)

lemma skips_settleRun [skip]: "keeps skips (settleRun cfg d ctx runCtx request policy identity r)"
  unfolding settleRun_def by (intro skip)

lemma skips_onStarted [skip]: "keeps skips (onStarted d l p)"
  unfolding onStarted_def by (intro skip)

lemma skips_onReady [skip]: "keeps skips (onReady d l r)"
  unfolding onReady_def by (intro skip)

lemma skips_run_bound [skip]: "keeps skips (run_bound cfg d ctx request policy l identity secret)"
  unfolding run_bound_def by (intro skip)

lemma skips_labelExists [skip]: "keeps skips (labelExists d ctx repo label)"
  unfolding labelExists_def by (intro skip) simp

lemma skips_generateJIT [skip]: "keeps skips (generateJIT d ctx repo identity groupID)"
  unfolding generateJIT_def by (intro skip) simp

lemma skips_acceptJIT [skip]: "keeps skips (acceptJIT cfg d ctx request policy l identity reply)"
  unfolding acceptJIT_def by (intro skip)

lemma skips_bindAndRun [skip]: "keeps skips (bindAndRun cfg d ctx request policy l identity)"
  unfolding bindAndRun_def registerAndRun_def by (intro skip)

lemma skips_acceptDispatch [skip]: "keeps skips (acceptDispatch cfg d ctx request policy l identity reply)"
  unfolding acceptDispatch_def by (intro skip)

lemma skips_gate [skip]:
  "keeps skips (gateAcquire cfg d ctx lease)" "keeps skips (gateRelease d ctx m)" "keeps skips (gateAbandon d m)"
  unfolding gateAcquire_def gateRelease_def gateAbandon_def by (intro skip, simp)+

lemma skips_reconcileStartup [skip]: "keeps skips (reconcileStartup cfg d ctx)"
  unfolding reconcileStartup_def reconcileLedger_def releaseOrphan_def repairLedger_def by (intro skip) simp_all

lemma skips_replay [skip]: "keeps skips (replay d rid request)"
  unfolding replay_def by (intro skip)

lemma skips_verifyAuthority [skip]: "keeps skips (verifyAuthority d ctx request policy)"
  unfolding verifyAuthority_def by (intro skip) simp_all

lemma skips_newLedger [skip]: "keeps skips (newLedger d rid request policy sha identity)"
  unfolding newLedger_def by (intro skip)

section \<open>At most one dispatch in a call\<close>

definition one_dispatch :: "'w jst \<Rightarrow> 'w jst \<Rightarrow> bool" where
  "one_dispatch s t \<longleftrightarrow> grows s t \<and> length (filter (dispatch_event \<circ> fst) (since s t)) \<le> 1"

lemma skips_one: "skips s t \<Longrightarrow> one_dispatch s t"
  by (simp add: skips_def one_dispatch_def)

lemma one_then_skips:
  assumes "one_dispatch s t" "skips t u"
  shows "one_dispatch s u"
proof -
  have "since s u = since s t @ since t u" by (rule since_trans) (use assms in \<open>simp_all add: one_dispatch_def skips_def\<close>)
  then show ?thesis using assms grows_trans [of s t u] by (simp add: one_dispatch_def skips_def)
qed

lemma skips_then_one:
  assumes "skips s t" "one_dispatch t u"
  shows "one_dispatch s u"
proof -
  have "since s u = since s t @ since t u" by (rule since_trans) (use assms in \<open>simp_all add: one_dispatch_def skips_def\<close>)
  then show ?thesis using assms grows_trans [of s t u] by (simp add: one_dispatch_def skips_def)
qed

lemma wp_skips_then: "keeps skips m \<Longrightarrow> one_dispatch s t \<Longrightarrow> wp m (\<lambda>_. one_dispatch s) t"
  by (rule wp_mono [OF keeps_wp [where R = skips and s = t]]) (auto intro: one_then_skips)

lemma dispatchPrepared_one: "wp (dispatchPrepared cfg d ctx request policy l identity) (\<lambda>_. one_dispatch s) s"
  unfolding dispatchPrepared_def wp_bind
proof (rule wp_mono [OF keeps_wp [OF skips_transition]], goal_cases)
  case (1 x t)
  obtain l' e where x: "x = (l', e)" by fastforce
  have call: "wp (call mk f) (\<lambda>reply. wp (acceptDispatch cfg d ctx request policy l' identity reply) (\<lambda>_. one_dispatch s)) t" for mk f
  proof (rule wp_call_observes)
    fix a u
    assume u: "observes (\<lambda>ev. ev = mk a) t u" "since t u = [(mk a, st_disk t)]"
    have "one_dispatch t u" using u by (simp add: one_dispatch_def observes_def)
    then show "wp (acceptDispatch cfg d ctx request policy l' identity a) (\<lambda>_. one_dispatch s) u"
      by (intro wp_skips_then skip skips_then_one [OF 1])
  qed
  show ?case using 1 call by (auto simp: x skips_one split: option.split)
qed

section \<open>The ledger a lease is held for\<close>

definition framed :: "Ledger \<Rightarrow> 'w jst \<Rightarrow> 'w jst \<Rightarrow> bool" where
  "framed c s t \<longleftrightarrow> grows s t \<and> near c (st_disk s) (st_disk t) \<and> (\<forall>x \<in> set (since s t). near c (st_disk s) (snd x))"

lemma framed_trans:
  assumes "framed c s t" "framed c t u"
  shows "framed c s u"
proof -
  have "since s u = since s t @ since t u" by (rule since_trans) (use assms in \<open>simp_all add: framed_def\<close>)
  moreover have "near c (st_disk s) D" if "near c (st_disk t) D" for D
    using near_trans [OF _ that] assms(1) by (simp add: framed_def)
  ultimately show ?thesis using assms grows_trans [of s t u] by (simp add: framed_def ball_Un)
qed

lemma framed_advance: "advance cfg s l t l' \<Longrightarrow> framed (core l) s t"
  by (simp add: advance_def framed_def)

lemma framed_observes: "observes E s t \<Longrightarrow> framed c s t"
  by (simp add: observes_def framed_def)

lemma framed_saved: "saved l e s t \<Longrightarrow> core l = c \<Longrightarrow> framed c s t"
  using framed_advance [OF advance_saved_same] by auto

lemma dispatchLeased_framed:
  assumes own: "owner cfg request policy identity l"
    and l: "\<not> l_CleanupComplete l" "l_RunTerminal l" "l_RunnerGone l" "l_RunID l = 0"
  shows "wp (dispatchLeased cfg d ctx request policy l identity lease) (\<lambda>_ t. framed (core l) s t \<and> one_dispatch s t) s"
  unfolding dispatchLeased_def wp_bind
proof (rule wp_mono [OF wp_conj [OF dispatchPrepared_spec [OF own l] dispatchPrepared_one]], goal_cases)
  case (1 x t)
  obtain l' res err where x: "x = (l', res, err)" by (cases x) auto
  have a: "advance cfg s l t l'" using 1 by (simp add: x finishes_def)
  have t: "framed (core l) s t" "core l' = core l" using framed_advance [OF a] advance_core [OF a] by auto
  have look: "framed (core l) s u" if "observes (\<lambda>ev. ev = e) t u" for e u
    by (rule framed_trans [OF t(1) framed_observes [OF that]])
  have save: "framed (core l) s v" if "observes (\<lambda>ev. ev = e) t u" "saved m e' u v" "core m = core l" for e u m e' v
    by (rule framed_trans [OF look [OF that(1)] framed_saved [OF that(2, 3)]])
  have "wp (endLease cfg d lease x) (\<lambda>_. framed (core l) s) t"
    unfolding endLease_def gateRelease_def gateAbandon_def x
    by (auto intro!: wp_call_observes wp_transition split: option.split)
       ((erule (1) save, simp add: t(2)) | erule look)+
  moreover have "wp (endLease cfg d lease x) (\<lambda>_. one_dispatch s) t"
    unfolding endLease_def by (rule wp_skips_then) (use 1 in \<open>auto intro!: skip\<close>)
  ultimately show ?case by (rule wp_conj)
qed

section \<open>Dispatch\<close>

text \<open>
  \<open>owned rid s t\<close>: throughout, the ledger of \<open>rid\<close> is on disk and no other ledger is incomplete.
  \<open>tried rid s t\<close>: no workflow was dispatched, or \<open>rid\<close> was not on disk before and at most
  one was dispatched, in a stretch owned by \<open>rid\<close>.
\<close>

definition owns :: "string \<Rightarrow> ledger_dir \<Rightarrow> bool" where
  "owns rid D \<longleftrightarrow> rid \<in> dom (map_of D) \<and> complete_but rid D"

definition owned :: "string \<Rightarrow> 'w jst \<Rightarrow> 'w jst \<Rightarrow> bool" where
  "owned rid s t \<longleftrightarrow> one_dispatch s t \<and> owns rid (st_disk t) \<and> (\<forall>x \<in> set (since s t). owns rid (snd x))"

definition tried :: "string \<Rightarrow> 'w jst \<Rightarrow> 'w jst \<Rightarrow> bool" where
  "tried rid s t \<longleftrightarrow> skips s t \<or> (map_of (st_disk s) rid = None \<and> (\<exists>u. skips s u \<and> owned rid u t))"

definition approach :: "string \<Rightarrow> 'w jst \<Rightarrow> 'w jst \<Rightarrow> bool" where
  "approach rid s t \<longleftrightarrow> skips s t \<and> (map_of (st_disk t) rid = None \<longrightarrow> map_of (st_disk s) rid = None)"

lemma approach_refl [simp]: "approach rid s s"
  by (simp add: approach_def)

lemma approach_trans: "approach rid s t \<Longrightarrow> approach rid t u \<Longrightarrow> approach rid s u"
  by (auto simp: approach_def intro: skips_trans)

lemma approach_observes: "observes E s t \<Longrightarrow> (\<And>ev. E ev \<Longrightarrow> \<not> dispatch_event ev) \<Longrightarrow> approach rid s t"
  by (simp add: approach_def observes_skips) (simp add: observes_def)

lemma approach_tried: "approach rid s t \<Longrightarrow> tried rid s t"
  by (simp add: approach_def tried_def)

lemma near_owns: "near c D E \<Longrightarrow> l_RequestID c = rid \<Longrightarrow> owns rid D \<Longrightarrow> owns rid E"
  using near_complete_but [of c D E] near_dom [of c D E] by (auto simp: owns_def)

lemma dispatchLeased_tried:
  assumes own: "fresh cfg request policy identity rid l" and u: "skips s u" "map_of (st_disk s) rid = None" "owns rid (st_disk u)"
  shows "wp (dispatchLeased cfg d ctx request policy l identity lease) (\<lambda>_. tried rid s) u"
proof (rule wp_mono [OF dispatchLeased_framed [where s = u]], goal_cases)
  case (6 r t)
  have "near (core l) (st_disk u) D \<Longrightarrow> owns rid D" for D
    using near_owns [of "core l"] own u(3) by (simp add: fresh_def)
  then have "owned rid u t" using 6 by (simp add: owned_def framed_def)
  then show ?case using u by (auto simp: tried_def)
qed (use own in \<open>simp_all add: fresh_def\<close>)

lemma dispatchFresh_tried:
  assumes own: "fresh cfg request policy identity rid l" and t: "skips s t" "map_of (st_disk s) rid = None" "all_complete (st_disk t)"
  shows "wp (dispatchFresh cfg d ctx request policy l identity) (\<lambda>_. tried rid s) t"
  unfolding dispatchFresh_def wp_bind
proof (rule wp_mono [OF wp_conj [OF keeps_wp [OF skips_Save]]], rule wp_Save, assumption, goal_cases)
  case (1 e u)
  then have su: "skips s u" using skips_trans [OF t(1)] by blast
  have tail: "wp m (\<lambda>_. tried rid s) v" if "keeps skips m" "skips s v" for m :: "('a jst, 'b) state" and v
    by (rule wp_mono [OF keeps_wp [OF that(1)]]) (use skips_trans [OF that(2)] in \<open>auto simp: tried_def\<close>)
  show ?case
  proof (cases e)
    case None
    have own_u: "owns rid (st_disk u)"
      using 1 None own all_complete_but [OF t(3)] saved_stored [of l t u]
        near_complete_but [OF saved_near, of l None t u]
      by (auto simp: owns_def fresh_def stored_def)
    have acquire: "wp (gateAcquire cfg d ctx (l_LeaseID l)) (\<lambda>_ v. st_disk v = st_disk u) u" by (rule wp_gateAcquire)
    show ?thesis
      unfolding None option.case wp_bind
    proof (rule wp_mono [OF wp_conj [OF keeps_wp [OF skips_gate(1)] acquire]], goal_cases)
      case (1 r v)
      then have v: "skips s v" "owns rid (st_disk v)" using skips_trans [OF su] own_u by auto
      have "wp (do { (_, result, e) \<leftarrow> finishWithoutLease d m code err; ret (result, e) }) (\<lambda>_. tried rid s) v" for m code err
        by (rule tail [OF _ v(1)]) (intro skip)
      then show ?case
        by (cases r) (auto intro!: dispatchLeased_tried [OF own v(1) t(2) v(2)])
    qed
  qed (use su in \<open>simp add: tried_def\<close>)
qed

lemma dispatchNew_tried:
  assumes pol: "Policy cfg (rq_Repository request) = Some policy"
    and t: "skips s t" "map_of (st_disk s) rid = None" "all_complete (st_disk t)"
  shows "wp (dispatchNew cfg d ctx request policy rid) (\<lambda>_. tried rid s) t"
  unfolding dispatchNew_def wp_bind
proof (rule wp_mono [OF wp_conj [OF keeps_wp [OF skips_verifyAuthority] keeps_wp [OF keeps_verifyAuthority]]], goal_cases)
  case (1 a u)
  then have u: "skips s u" "st_disk u = st_disk t" using skips_trans [OF t(1)] by (auto simp: observes_def)
  have done': "tried rid s v" if "skips s v" for v using that by (simp add: tried_def)
  have look: "skips s w" if "skips s v" "observes E v w" "\<And>ev. E ev \<Longrightarrow> \<not> dispatch_event ev" for E v w
    using that skips_trans [OF _ observes_skips] by blast
  have fresh: "wp (labelExists d ctx repo label) (\<lambda>c. wp (case c of
        Inl err \<Rightarrow> ret (noResult, Some (Wrap ''check runner label'' [err]))
      | Inr collision \<Rightarrow> if collision then ret (noResult, Some (errf ''runner label collision''))
          else do { ledger \<leftarrow> newLedger d rid request policy sha identity; dispatchFresh cfg d ctx request policy ledger identity })
      (\<lambda>_. tried rid s)) v" if "skips s v" "st_disk v = st_disk t" for v sha identity repo label
    unfolding labelExists_def
  proof (rule wp_call_observes)
    fix c w
    assume w: "observes (\<lambda>ev. ev = EvLabelExists repo label c) v w"
    have "skips s w" "all_complete (st_disk w)"
      using look [OF that(1) w] that(2) t(3) w by (auto simp: observes_def)
    then show "wp (case c of
        Inl err \<Rightarrow> ret (noResult, Some (Wrap ''check runner label'' [err]))
      | Inr collision \<Rightarrow> if collision then ret (noResult, Some (errf ''runner label collision''))
          else do { ledger \<leftarrow> newLedger d rid request policy sha identity; dispatchFresh cfg d ctx request policy ledger identity })
      (\<lambda>_. tried rid s) w"
      by (auto split: sum.split intro!: done' wp_newLedger [OF pol] dispatchFresh_tried t(2))
  qed
  show ?case
  proof (cases a)
    case (Inr sha)
    show ?thesis
      unfolding Inr sum.case wp_bind
    proof (rule wp_quiet_observes, goal_cases)
      case (1 random v)
      have v: "skips s v" "st_disk v = st_disk t" using look [OF u(1) 1(1)] 1(1) u(2) by (auto simp: observes_def)
      show ?case using fresh [OF v] by (auto split: sum.split intro: done' [OF v(1)])
    qed
  qed (use u in \<open>simp add: done'\<close>)
qed

lemma dispatchLocked_tried:
  assumes pol: "Policy cfg (rq_Repository request) = Some policy"
  shows "wp (dispatchLocked cfg d ctx request policy) (\<lambda>_. tried (RequestID (dp_sha256hex d) request) s) s"
  unfolding dispatchLocked_def wp_bind
proof (rule wp_mono [OF wp_conj [OF keeps_wp [OF skips_reconcileStartup] reconcileStartup_spec]], goal_cases)
  case (1 e t)
  let ?rid = "RequestID (dp_sha256hex d) request"
  have t: "skips s t" "dom (map_of (st_disk s)) \<subseteq> dom (map_of (st_disk t))" "e = None \<Longrightarrow> all_complete (st_disk t)"
    using 1 by (auto simp: reconciled_def orderly_def keeps_dir_def)
  show ?case
  proof (cases e)
    case None
    show ?thesis
      unfolding None option.case Let_def wp_bind
    proof (rule wp_replay, goal_cases)
      case (1 res found e u)
      have u: "skips s u" "st_disk u = st_disk t"
        using skips_trans [OF t(1) observes_skips [OF 1(1)]] 1(1) by (auto simp: observes_def)
      have "wp (dispatchNew cfg d ctx request policy ?rid) (\<lambda>_. tried ?rid s) u" if "\<not> found" "e = None"
      proof (rule dispatchNew_tried [OF pol u(1)])
        show "map_of (st_disk s) ?rid = None" using 1(3) that t(2) by (auto simp: subset_iff domIff)
        show "all_complete (st_disk u)" using t(3) None u(2) by simp
      qed
      then show ?case using u(1) by (auto simp: tried_def)
    qed
  qed (use t in \<open>simp add: tried_def\<close>)
qed

lemma tried_step: "approach rid s t \<Longrightarrow> tried rid t u \<Longrightarrow> tried rid s u"
  unfolding tried_def approach_def by (auto intro: skips_trans)

lemma tried_then:
  assumes t: "tried rid s t" and u: "observes (\<lambda>_. False) t u"
  shows "tried rid s u"
proof -
  have skip: "skips t u" by (rule observes_skips [OF u]) simp
  have "since t u = []" using u by (cases "since t u") (auto simp: observes_def)
  then have "owned rid v t \<Longrightarrow> owned rid v u" for v
    using since_trans [OF _ observes_grows [OF u], of v] one_then_skips [OF _ skip, of v] u
    by (auto simp: owned_def one_dispatch_def observes_def)
  then show ?thesis using t skips_trans [OF _ skip] by (auto simp: tried_def)
qed

lemma approach_quiet: "observes (\<lambda>_. False) s t \<Longrightarrow> approach rid s t"
  by (erule approach_observes) simp

lemma Dispatch_tried: "wp (Dispatch cfg d ctx request) (\<lambda>_. tried (RequestID (dp_sha256hex d) request) s) s"
proof (cases "Policy cfg (rq_Repository request)")
  case (Some policy)
  let ?rid = "RequestID (dp_sha256hex d) request"
  have look: "wp (quiet f) R t" if "approach ?rid s t" "\<And>a u. approach ?rid s u \<Longrightarrow> R a u" for f :: "('a, 'b) op" and R t
    by (rule wp_quiet_observes) (rule that(2), rule approach_trans [OF that(1) approach_quiet])
  have pre: "wp (Preflight (dp_Runner d) cfg) R s" if "\<And>a u. approach ?rid s u \<Longrightarrow> R a u" for R
    by (rule wp_keeps_observes [OF keeps_Preflight [where E = "\<lambda>_. False"]]) (rule that, rule approach_quiet)
  have locked: "wp (dispatchLocked cfg d ctx request policy) (\<lambda>r. wp (quiet (dp_CloseQueue d)) (\<lambda>_. tried ?rid s)) t" if "approach ?rid s t" for t
    by (rule wp_mono [OF dispatchLocked_tried [OF Some]], rule wp_quiet_observes) (rule tried_then, rule tried_step [OF that], auto)
  show ?thesis
    unfolding Dispatch_def Some option.case
    by (auto split: option.split intro!: pre look locked approach_tried)
qed (simp add: Dispatch_def tried_def)

section \<open>The lifetime of a ledger directory\<close>

text \<open>
  A crash can come just before the effect \<open>e\<close> or just after it, before anything else was done.
  Between calls the world may change, but not the ledgers.
\<close>

inductive lifetime :: "'w jst \<Rightarrow> bool" where
  lifetime_start: "st_disk s = [] \<Longrightarrow> st_trace s = [] \<Longrightarrow> lifetime s"
| lifetime_call: "lifetime s \<Longrightarrow> after cfg d ctx request s = (x, t) \<Longrightarrow> lifetime t"
| lifetime_crash: "lifetime s \<Longrightarrow> after cfg d ctx request s = (x, t) \<Longrightarrow> since s t = pre @ e # post \<Longrightarrow>
    evs = [] \<or> evs = [e] \<Longrightarrow> st_disk u = snd e \<Longrightarrow> st_trace u = st_trace s @ pre @ evs \<Longrightarrow> lifetime u"
| lifetime_idle: "lifetime s \<Longrightarrow> st_disk t = st_disk s \<Longrightarrow> st_trace t = st_trace s \<Longrightarrow> lifetime t"

inductive_cases lifetimeE: "lifetime s"

text \<open>A workflow dispatch made for request \<open>rid\<close>: its ledger was the incomplete one.\<close>

definition for_request :: "string \<Rightarrow> jevent \<times> ledger_dir \<Rightarrow> bool" where
  "for_request rid e \<longleftrightarrow> dispatch_event (fst e) \<and> (\<exists>L. map_of (snd e) rid = Some L \<and> \<not> l_CleanupComplete L)"

lemma orderly_Dispatch:
  assumes "after cfg d ctx request s = (x, t)"
  shows "keeps_dir (st_disk s) (st_disk t)" "e \<in> set (since s t) \<Longrightarrow> keeps_dir (st_disk s) (snd e)" "grows s t"
  using Dispatch_run [OF assms] by (auto simp: answered_def orderly_def split: prod.splits)

lemma for_request_dispatch: "filter (dispatch_event \<circ> fst) evs = [] \<Longrightarrow> filter (for_request rid) evs = []"
  by (auto simp: filter_empty_conv for_request_def)

lemma for_request_count: "length (filter (for_request rid) evs) \<le> length (filter (dispatch_event \<circ> fst) evs)"
  by (induction evs) (auto simp: for_request_def)

text \<open>What a call, or the part of it before a crash, adds to the dispatches of a request.\<close>

definition added :: "string \<Rightarrow> (jevent \<times> ledger_dir) list \<Rightarrow> ledger_dir \<Rightarrow> ledger_dir \<Rightarrow> bool" where
  "added rid evs D E \<longleftrightarrow> length (filter (for_request rid) evs) \<le> 1 \<and> dom (map_of D) \<subseteq> dom (map_of E) \<and>
     (filter (for_request rid) evs \<noteq> [] \<longrightarrow> map_of D rid = None \<and> map_of E rid \<noteq> None)"

lemma owned_other: "\<forall>x \<in> set b. owns rid (snd x) \<Longrightarrow> rid' \<noteq> rid \<Longrightarrow> filter (for_request rid') b = []"
  by (auto simp: filter_empty_conv for_request_def owns_def complete_but_def)

lemma tried_added:
  assumes t: "tried rid s t" and E: "dom (map_of (st_disk s)) \<subseteq> dom (map_of E)"
    and evs: "prefix evs (since s t)"
    and last: "\<And>a b. since s t = a @ b \<Longrightarrow> \<not> prefix evs a \<Longrightarrow> E = st_disk t \<or> (\<exists>x \<in> set b. E = snd x)"
  shows "added rid' evs (st_disk s) E"
proof (cases "skips s t")
  case True
  then have "filter (dispatch_event \<circ> fst) evs = []" using evs by (auto simp: skips_def prefix_def)
  from for_request_dispatch [OF this] show ?thesis using E by (simp add: added_def)
next
  case False
  with t obtain u where s: "map_of (st_disk s) rid = None" and u: "skips s u" "owned rid u t" by (auto simp: tried_def)
  have split: "since s t = since s u @ since u t"
    using u by (intro since_trans) (simp_all add: skips_def owned_def one_dispatch_def)
  have "filter (dispatch_event \<circ> fst) (since s t) = filter (dispatch_event \<circ> fst) (since u t)"
    using split u(1) by (simp add: skips_def)
  then have "length (filter (dispatch_event \<circ> fst) (since s t)) \<le> 1" using u(2) by (simp add: owned_def one_dispatch_def)
  moreover have "length (filter (dispatch_event \<circ> fst) evs) \<le> length (filter (dispatch_event \<circ> fst) (since s t))"
    using evs by (auto simp: prefix_def)
  ultimately have one: "length (filter (for_request rid') evs) \<le> 1" using for_request_count [of rid' evs] by linarith
  have "map_of (st_disk s) rid' = None \<and> map_of E rid' \<noteq> None" if some: "filter (for_request rid') evs \<noteq> []"
  proof -
    have "\<not> prefix evs (since s u)"
      using some u(1) for_request_dispatch by (auto simp: skips_def prefix_def)
    then have "owns rid E" using last [OF split] u(2) by (auto simp: owned_def)
    moreover have "rid' = rid"
    proof (rule ccontr)
      assume "rid' \<noteq> rid"
      then have "filter (for_request rid') (since s t) = []"
        using owned_other [of "since u t" rid rid'] u for_request_dispatch split by (simp add: owned_def skips_def)
      with some evs show False by (auto simp: prefix_def)
    qed
    ultimately show ?thesis using s by (auto simp: owns_def)
  qed
  then show ?thesis using one E by (auto simp: added_def)
qed

lemma Dispatch_added:
  assumes run: "after cfg d ctx request s = (x, t)"
  shows "added rid (since s t) (st_disk s) (st_disk t)"
    and "since s t = pre @ e # post \<Longrightarrow> evs = [] \<or> evs = [e] \<Longrightarrow> added rid (pre @ evs) (st_disk s) (snd e)"
proof -
  have t: "tried (RequestID (dp_sha256hex d) request) s t" by (rule wp_run [OF Dispatch_tried run])
  note dir = orderly_Dispatch [OF run]
  show "added rid (since s t) (st_disk s) (st_disk t)"
    by (rule tried_added [OF t]) (use dir(1) in \<open>auto simp: keeps_dir_def\<close>)
  assume split: "since s t = pre @ e # post" and evs: "evs = [] \<or> evs = [e]"
  show "added rid (pre @ evs) (st_disk s) (snd e)"
  proof (rule tried_added [OF t])
    show "dom (map_of (st_disk s)) \<subseteq> dom (map_of (snd e))" using dir(2) split by (auto simp: keeps_dir_def)
    show "prefix (pre @ evs) (since s t)" using split evs by auto
    fix a b
    assume ab: "since s t = a @ b" "\<not> prefix (pre @ evs) a"
    have "e \<in> set b"
    proof (rule ccontr)
      assume "e \<notin> set b"
      have "pre @ e # post = a @ b" using ab(1) split by simp
      then obtain us where "pre = a @ us \<and> us @ e # post = b \<or> pre @ us = a \<and> e # post = us @ b"
        unfolding append_eq_append_conv2 by blast
      with \<open>e \<notin> set b\<close> have "\<exists>r. a = pre @ e # r" by (cases us) auto
      with ab(2) evs show False by (auto simp: prefix_def)
    qed
    then show "snd e = st_disk t \<or> (\<exists>x \<in> set b. snd e = snd x)" by blast
  qed
qed

lemma added_dispatches:
  assumes "added rid evs D E" "length (filter (for_request rid) tr) \<le> 1" "filter (for_request rid) tr \<noteq> [] \<Longrightarrow> map_of D rid \<noteq> None"
  shows "length (filter (for_request rid) (tr @ evs)) \<le> 1 \<and> (filter (for_request rid) (tr @ evs) \<noteq> [] \<longrightarrow> map_of E rid \<noteq> None)"
proof (cases "filter (for_request rid) evs = []")
  case True
  then show ?thesis using assms by (auto simp: added_def domIff subset_iff)
next
  case False
  then have "filter (for_request rid) tr = []" using assms by (auto simp: added_def)
  then show ?thesis using assms(1) False by (simp add: added_def)
qed

lemma lifetime_dispatches:
  "lifetime s \<Longrightarrow> length (filter (for_request rid) (st_trace s)) \<le> 1 \<and>
     (filter (for_request rid) (st_trace s) \<noteq> [] \<longrightarrow> map_of (st_disk s) rid \<noteq> None)"
proof (induction rule: lifetime.induct)
  case (lifetime_call s cfg d ctx request x t)
  have "st_trace t = st_trace s @ since s t" by (rule grows_trace [OF orderly_Dispatch(3) [OF lifetime_call.hyps(2)]])
  then show ?case
    using added_dispatches [OF Dispatch_added(1) [OF lifetime_call.hyps(2)], of rid "st_trace s"] lifetime_call.IH by simp
next
  case (lifetime_crash s cfg d ctx request x t pre e post evs u)
  then show ?case
    using added_dispatches [OF Dispatch_added(2) [OF lifetime_crash.hyps(2, 3, 4)], of rid "st_trace s"] by simp
qed simp_all

lemma lifetime_directory: "lifetime s \<Longrightarrow> wf_dir (st_disk s) \<and> single_incomplete (st_disk s)"
proof (induction rule: lifetime.induct)
  case (lifetime_start s)
  then show ?case by (simp add: single_incomplete_def complete_but_def)
next
  case (lifetime_call s cfg d ctx request x t)
  then show ?case using orderly_Dispatch(1) [OF lifetime_call.hyps(2)] by (simp add: keeps_dir_def)
next
  case (lifetime_crash s cfg d ctx request x t pre e post evs u)
  then show ?case using orderly_Dispatch(2) [OF lifetime_crash.hyps(2), of e] by (simp add: keeps_dir_def)
qed simp_all

lemma lifetime_events:
  "lifetime s \<Longrightarrow> e \<in> set (st_trace s) \<Longrightarrow> write_ahead (fst e) (snd e) \<and> single_incomplete (snd e)"
proof (induction rule: lifetime.induct)
  case (lifetime_call s cfg d ctx request x t)
  have t: "st_trace t = st_trace s @ since s t" by (rule grows_trace [OF orderly_Dispatch(3) [OF lifetime_call.hyps(2)]])
  have "write_ahead (fst e) (snd e) \<and> single_incomplete (snd e)" if "e \<in> set (since s t)"
    using Dispatch_event [OF lifetime_call.hyps(2) that] lifetime_directory [OF lifetime_call.hyps(1)] by (simp add: keeps_dir_def)
  then show ?case using lifetime_call.IH lifetime_call.prems t by auto
next
  case (lifetime_crash s cfg d ctx request x t pre e' post evs u)
  have "write_ahead (fst e) (snd e) \<and> single_incomplete (snd e)" if "e \<in> set (since s t)"
    using Dispatch_event [OF lifetime_crash.hyps(2) that] lifetime_directory [OF lifetime_crash.hyps(1)] by (simp add: keeps_dir_def)
  then show ?case using lifetime_crash by auto
qed simp_all

section \<open>Theorems\<close>

text \<open>
  C5. At most once: over the whole lifetime of a ledger directory, with any number of calls of
  \<open>Dispatch\<close> and of crashes, every workflow dispatch belongs to exactly one request, and no
  request has more than one.
\<close>

theorem Dispatch_at_most_once:
  assumes "lifetime s"
  shows "length (filter (for_request rid) (st_trace s)) \<le> 1 \<and>
    (\<forall>e \<in> set (st_trace s). dispatch_event (fst e) \<longrightarrow> (\<exists>!rid. for_request rid e))"
proof (intro conjI ballI impI)
  show "length (filter (for_request rid) (st_trace s)) \<le> 1" using lifetime_dispatches [OF assms] by blast
  fix e
  assume e: "e \<in> set (st_trace s)" "dispatch_event (fst e)"
  then have "write_ahead (fst e) (snd e)" "single_incomplete (snd e)" using lifetime_events [OF assms] by blast+
  moreover have "write_ahead ev D \<Longrightarrow> dispatch_event ev \<Longrightarrow> recorded D (\<lambda>_. True)" for ev D
    by (cases ev) (auto simp: recorded_def)
  ultimately show "\<exists>!rid. for_request rid e"
    using e(2) unfolding recorded_def for_request_def single_incomplete_def complete_but_def by metis
qed

text \<open>The scenario as a lifetime: one call on an empty directory.\<close>

lemma demo_lifetime:
  obtains t :: "nat jst" and e where "lifetime t" "e \<in> set (st_trace t)" "dispatch_event (fst e)"
proof -
  obtain res t L where run: "after demo_config demo None demo_request demo_start = ((res, None), t)"
    and d: "dispatched demo_config demo_request demo_policy (ledger_identity L) L (since demo_start t)"
    and tr: "since demo_start t = st_trace t"
    by (rule demo_runs)
  have "lifetime t" by (rule lifetime_call [OF lifetime_start run]) (simp_all add: demo_start_def)
  moreover obtain e where "e \<in> set (st_trace t)" "dispatch_event (fst e)"
    using d tr unfolding dispatched_def occurs_def by auto
  ultimately show thesis using that by blast
qed

theorem Dispatch_at_most_once_witness:
  "\<exists>(t :: nat jst) rid. lifetime t \<and> length (filter (for_request rid) (st_trace t)) = 1"
proof -
  obtain t :: "nat jst" and e where t: "lifetime t" and e: "e \<in> set (st_trace t)" "dispatch_event (fst e)" by (rule demo_lifetime)
  then obtain rid where rid: "for_request rid e" using Dispatch_at_most_once [OF t] by blast
  have "filter (for_request rid) (st_trace t) \<noteq> []" using e rid by (auto simp: filter_empty_conv)
  then have "length (filter (for_request rid) (st_trace t)) = 1"
    using Dispatch_at_most_once [OF t, of rid] by (cases "filter (for_request rid) (st_trace t)") auto
  with t show ?thesis by blast
qed

text \<open>
  C7. Crash consistency: in every state of such a lifetime, also right after a crash, the
  ledger directory holds only ledgers that validate, under their own request identifier and
  without duplicates, and at most one of them is incomplete, so that startup reconciliation
  finds the directory in the shape it requires.
\<close>

theorem lifetime_wf:
  assumes "lifetime s"
  shows "wf_dir (st_disk s) \<and> single_incomplete (st_disk s)"
  by (rule lifetime_directory [OF assms])

theorem lifetime_wf_witness:
  "\<exists>t :: nat jst. lifetime t \<and> st_trace t \<noteq> [] \<and> wf_dir (st_disk t) \<and> single_incomplete (st_disk t)"
proof -
  obtain t :: "nat jst" and e where t: "lifetime t" and e: "e \<in> set (st_trace t)" by (rule demo_lifetime)
  then show ?thesis using lifetime_wf [OF t] by (intro exI [of _ t]) auto
qed

section \<open>Replays\<close>

text \<open>With every ledger complete, startup reconciliation touches nothing but an orphaned lease.\<close>

fun idle_event :: "jevent \<Rightarrow> bool" where
  "idle_event (EvGateOrphan _) = True"
| "idle_event (EvGateReleaseOrphan _ _) = True"
| "idle_event _ = False"

lemma scan_complete: "\<forall>l \<in> set ls. l_CleanupComplete l \<Longrightarrow> scan_ledgers orphan m None ls \<noteq> Inr (m', Some l)"
  by (induction ls arbitrary: m) auto

lemma reconcileStartup_idle:
  assumes "all_complete (st_disk s)"
  shows "wp (reconcileStartup cfg d ctx) (\<lambda>_ t. observes idle_event s t) s"
  unfolding reconcileStartup_def wp_bind
proof (rule wp_List, goal_cases)
  case (1 r t)
  have t: "observes idle_event s t" by (rule observes_mono [OF 1(1)]) simp
  show ?case
  proof (cases r)
    case (Inr ls)
    have c: "\<forall>l \<in> set ls. l_CleanupComplete l" using 1(2) [OF Inr] assms by (auto simp: all_complete_def)
    show ?thesis
      unfolding Inr sum.case wp_bind
    proof (rule wp_call_observes, goal_cases)
      case (1 o' u)
      have u: "observes idle_event s u" by (rule observes_trans [OF t observes_mono [OF 1(1)]]) simp
      have "wp (releaseOrphan cfg d ctx m) (\<lambda>_ v. observes idle_event s v) u" for m
        unfolding releaseOrphan_def
        by (auto intro!: wp_call_observes observes_trans [OF u] intro: observes_mono)
      then show ?case
        using u scan_complete [OF c] by (auto split: sum.split option.split)
    qed
  qed (use t in simp)
qed

lemma Dispatch_idle:
  assumes all: "all_complete (st_disk s)" and L: "map_of (st_disk s) (RequestID (dp_sha256hex d) request) = Some L"
  shows "wp (Dispatch cfg d ctx request) (\<lambda>_ t. observes idle_event s t) s"
proof -
  let ?rid = "RequestID (dp_sha256hex d) request"
  have quiet: "observes idle_event s u" if "observes idle_event s t" "observes (\<lambda>_. False) t u" for t u
    by (rule observes_trans [OF that(1) observes_mono [OF that(2)]]) simp
  have look: "wp (quiet f) R t" if "observes idle_event s t" "\<And>a u. observes idle_event s u \<Longrightarrow> R a u" for f :: "('a, 'b) op" and R t
    by (rule wp_quiet_observes) (rule that(2), rule quiet [OF that(1)])
  have pre: "wp (Preflight (dp_Runner d) cfg) R s" if "\<And>a u. observes idle_event s u \<Longrightarrow> R a u" for R
    by (rule wp_keeps_observes [OF keeps_Preflight]) (rule that)
  have locked: "wp (dispatchLocked cfg d ctx request policy) (\<lambda>r. wp (quiet (dp_CloseQueue d)) (\<lambda>_. observes idle_event s)) t"
    if t: "observes idle_event s t" for t policy
    unfolding dispatchLocked_def wp_bind
  proof (rule wp_mono [OF reconcileStartup_idle], goal_cases)
    case 1
    then show ?case using all t by (simp add: observes_def)
  next
    case (2 e u)
    have u: "observes idle_event s u" by (rule observes_trans [OF t 2])
    have "wp (replay d ?rid request) (\<lambda>x. wp (case x of (replayed, found, e) \<Rightarrow>
        if found \<or> e \<noteq> None then ret (replayed, e) else dispatchNew cfg d ctx request policy ?rid)
      (\<lambda>r. wp (quiet (dp_CloseQueue d)) (\<lambda>_. observes idle_event s))) u"
      by (rule wp_replay) (use u L in \<open>auto intro!: look intro: quiet simp: observes_def\<close>)
    then show ?case using u by (auto split: option.split intro!: look simp: Let_def)
  qed
  show ?thesis
    unfolding Dispatch_def
    by (auto split: option.split intro!: pre look locked)
qed



end
