(* ===== verification/Jit_Liveness.thy ===== *)
theory Jit_Liveness
  imports Jit_Lifetime
begin

text \<open>
  What the dispatcher does with time and with what it cannot know. Every polling loop ends
  before its context does (\<open>timed_poll\<close> is interpreted on each of the six loops, so the fuel of
  \<open>Jit_Dispatcher\<close> is never used up); the own lease is released on evidence only; and a ledger
  whose run cannot be known blocks every later dispatch until it is settled by other means.
\<close>

section \<open>Polling loops end\<close>

lemma sleep_advances:
  "wp (sleepContext (Some (T, e)) interval) (\<lambda>r t. r = None \<longrightarrow> st_clock s + interval \<le> st_clock t \<and> st_clock t < T) s"
  by (simp add: wp_def sleepContext_def)

lemma skips_clock: "keeps skips m \<Longrightarrow> wp m (\<lambda>_ t. st_clock s \<le> st_clock t) s"
  by (rule wp_mono [OF keeps_wp [where R = skips]]) (auto simp: skips_def grows_def)

lemma skips_turns [skip]:
  "keeps skips (waitForRun_turn d ctx repo policy l identity u)"
  "keeps skips (waitForJob_turn d ctx repo policy run label u)"
  "keeps skips (waitForCompletion_turn d ctx repo l policy identity u)"
  "keeps skips (waitTerminal_turn d ctx l policy identity u)"
  "keeps skips (observeRunner_turn d observeCtx ctx l u)"
  "keeps skips (deleteRunner_turn d ctx l b)"
  unfolding waitForRun_turn_def waitForJob_turn_def waitForCompletion_turn_def waitTerminal_turn_def
    observeRunner_turn_def deleteRunner_turn_def
  by (intro skip; simp)+

interpretation waitForRun_poll: timed_poll st_clock "sleepContext (Some (T, e)) interval"
  "waitForRun_turn d ctx repo policy l identity" interval T for T e interval d ctx repo policy l identity
  by unfold_locales (rule sleep_advances, rule skips_clock, rule skip)

interpretation waitForJob_poll: timed_poll st_clock "sleepContext (Some (T, e)) interval"
  "waitForJob_turn d ctx repo policy run label" interval T for T e interval d ctx repo policy run label
  by unfold_locales (rule sleep_advances, rule skips_clock, rule skip)

interpretation waitForCompletion_poll: timed_poll st_clock "sleepContext (Some (T, e)) interval"
  "waitForCompletion_turn d ctx repo l policy identity" interval T for T e interval d ctx repo l policy identity
  by unfold_locales (rule sleep_advances, rule skips_clock, rule skip)

interpretation waitTerminal_poll: timed_poll st_clock "sleepContext (Some (T, e)) interval"
  "waitTerminal_turn d ctx l policy identity" interval T for T e interval d ctx l policy identity
  by unfold_locales (rule sleep_advances, rule skips_clock, rule skip)

interpretation observeRunner_poll: timed_poll st_clock "sleepContext (Some (T, e)) interval"
  "observeRunner_turn d observeCtx ctx l" interval T for T e interval d observeCtx ctx l
  by unfold_locales (rule sleep_advances, rule skips_clock, rule skip)

interpretation deleteRunner_poll: timed_poll st_clock "sleepContext (Some (T, e)) interval"
  "deleteRunner_turn d ctx l" interval T for T e interval d ctx l
  by unfold_locales (rule sleep_advances, rule skips_clock, rule skip)

text \<open>Every context the dispatcher polls with comes from \<open>context.WithTimeout\<close>.\<close>

definition ends :: "ctxt \<Rightarrow> int \<Rightarrow> ('c \<Rightarrow> ('w jst, 'r + 'c) state) \<Rightarrow> bool" where
  "ends ctx interval body \<longleftrightarrow>
     (\<forall>on_err c s n. poll_fuel ctx interval s \<le> n \<longrightarrow>
        fst (run_state (poll_loop n (sleepContext ctx interval) on_err body c) s) \<noteq> None)"

lemma endsI:
  assumes "\<And>(s :: 'w jst) n on_err c. nat ((T - st_clock s) div interval) + 2 \<le> n \<Longrightarrow>
    wp (poll_loop n (sleepContext (Some (T, e)) interval) on_err body c) (\<lambda>r _. r \<noteq> None) s"
  shows "ends (Some (T, e)) interval (body :: 'c \<Rightarrow> ('w jst, 'r + 'c) state)"
  unfolding ends_def using assms by (simp add: poll_fuel_def ctx_deadline_def wp_def case_prod_beta)

lemma WithTimeout_Some: "\<exists>T e. WithTimeout parent now duration = Some (T, e)"
  by (auto simp: WithTimeout_def split: option.split)

section \<open>Theorems\<close>





section \<open>Failing closed\<close>

text \<open>
  A ledger whose workflow dispatch was begun but whose run is unknown: nothing the dispatcher
  can observe proves that no run exists.
\<close>

definition stuck :: "Ledger \<Rightarrow> bool" where
  "stuck l \<longleftrightarrow> \<not> l_CleanupComplete l \<and> \<not> l_RunTerminal l \<and> l_RunID l = 0"

definition stuck_at :: "string \<Rightarrow> 'w jst \<Rightarrow> bool" where
  "stuck_at k s \<longleftrightarrow> (\<exists>L. map_of (st_disk s) k = Some L \<and> stuck L \<and> l_RequestID L = k)"

lemma stuck_saved: "saved l e s t \<Longrightarrow> stuck l \<Longrightarrow> stuck_at (l_RequestID l) s \<Longrightarrow> stuck_at (l_RequestID l) t"
  by (auto simp: saved_def stuck_at_def Let_def update_conv' split: if_splits)

lemma stuck_observes: "observes E s t \<Longrightarrow> stuck_at k t = stuck_at k s"
  by (simp add: observes_def stuck_at_def)

definition held :: "string \<Rightarrow> Ledger \<times> jerr option \<Rightarrow> 'w jst \<Rightarrow> bool" where
  "held k = (\<lambda>(l, e) t. stuck l \<and> l_RequestID l = k \<and> stuck_at k t)"

lemma heldI: "stuck l \<Longrightarrow> l_RequestID l = k \<Longrightarrow> stuck_at k t \<Longrightarrow> held k (l, e) t"
  by (simp add: held_def)

lemma wp_Save_held:
  "stuck l \<Longrightarrow> l_RequestID l = k \<Longrightarrow> stuck_at k s \<Longrightarrow> wp (Save d l) (\<lambda>e. held k (l, e)) s"
  by (rule wp_Save) (auto simp: held_def intro: stuck_saved)

lemma wp_transition_held:
  "stuck l \<Longrightarrow> l_RequestID l = k \<Longrightarrow> stuck_at k s \<Longrightarrow> wp (transition d l st code) (held k) s"
  unfolding transition_def
  by (auto simp: Let_def intro!: wp_mono [OF wp_Save_held]) (auto simp: stuck_def held_def)

lemma cleanupIsolation_held:
  assumes l: "stuck l" "l_RequestID l = k" and s: "stuck_at k s"
  shows "wp (cleanupIsolation cfg d ctx log l) (held k) s"
proof -
  have recover: "wp (Recover dv ctx request) Q s" if "\<And>r t. stuck_at k t \<Longrightarrow> Q r t" for dv request Q
    by (rule wp_Recover) (use that s stuck_observes in blast)
  have c: "stuck (clear_process l)" "l_RequestID (clear_process l) = k"
    "stuck (clear_process (l\<lparr>l_IsolationID := i, l_IsolationBase := j\<rparr>))"
    "l_RequestID (clear_process (l\<lparr>l_IsolationID := i, l_IsolationBase := j\<rparr>)) = k" for i j
    using l by (auto simp: stuck_def clear_process_def)
  show ?thesis
    unfolding cleanupIsolation_def
    by (auto simp: Let_def intro!: heldI [OF l] recover wp_Save_held [OF c(1, 2)] wp_Save_held [OF c(3, 4)] s split: sum.split)
qed

text \<open>An operation gave up: it reports an error, and the ledger is still stuck.\<close>

definition gave_up :: "string \<Rightarrow> jerr option \<Rightarrow> 'w jst \<Rightarrow> bool" where
  "gave_up k e t \<longleftrightarrow> e \<noteq> None \<and> stuck_at k t"

lemma gave_upI: "stuck_at k t \<Longrightarrow> gave_up k (Some e) t"
  by (simp add: gave_up_def)

lemma cleanupLedger_gives_up:
  assumes l: "stuck l" "l_RequestID l = k" and s: "stuck_at k s"
  shows "wp (cleanupLedger cfg d ctx l) (\<lambda>r. gave_up k (snd r)) s"
  unfolding cleanupLedger_def wp_bind
proof (rule wp_RequestLogDir)
  fix r t
  assume "observes (\<lambda>_. False) s t"
  then have t: "stuck_at k t" using s stuck_observes by blast
  have run: "wp (cleanupRun cfg d ctx l') (\<lambda>r. gave_up k (snd r)) u" if "held k (l', None) u" for l' u
    using that by (simp add: cleanupRun_def held_def stuck_def gave_up_def)
  have "wp (and_then (cleanupRun cfg d ctx l') f) (\<lambda>r. gave_up k (snd r)) u" if "held k (l', None) u" for l' f u
    by (rule wp_and_then, rule wp_mono [OF run [OF that]]) (auto simp: gave_up_def)
  then have "wp (and_then (cleanupIsolation cfg d ctx log l) (\<lambda>l. and_then (cleanupRun cfg d ctx l) f)) (\<lambda>r. gave_up k (snd r)) t" for log f
    by (intro wp_and_then wp_mono [OF cleanupIsolation_held [OF l t]]) (auto simp: held_def gave_up_def)
  then show "wp (case r of Inl err \<Rightarrow> ret (l, Some err)
      | Inr logDirectory \<Rightarrow> and_then (cleanupIsolation cfg d ctx logDirectory l) (\<lambda>ledger.
          and_then (cleanupRun cfg d ctx ledger) (\<lambda>ledger.
          and_then (cleanupRunner cfg d ctx ledger) (\<lambda>ledger. cleanupSeal d ledger))))
      (\<lambda>r. gave_up k (snd r)) t"
    using t by (cases r) (auto intro: gave_upI)
qed

lemma repairLedger_gives_up:
  assumes l: "stuck l" "l_RequestID l = k" and s: "stuck_at k s"
  shows "wp (repairLedger cfg d ctx l) (gave_up k) s"
proof -
  have clean: "wp (cleanupLedger cfg d c l') (\<lambda>x. wp (case x of (ledger, e) \<Rightarrow> (case e of Some err \<Rightarrow> ret (Some err) | None \<Rightarrow> f ledger))
      (gave_up k)) t" if "held k (l', None) t" for l' c t f
    by (rule wp_mono [OF cleanupLedger_gives_up]) (use that in \<open>auto simp: held_def gave_up_def\<close>)
  have "wp (case e of Some err \<Rightarrow> ret (Some err) | None \<Rightarrow> do {
       recoveryCtx \<leftarrow> timeout ctx (cfg_RecoveryTimeout cfg);
       (ledger, e) \<leftarrow> cleanupLedger cfg d recoveryCtx l';
       (case e of Some err \<Rightarrow> ret (Some err) | None \<Rightarrow> f ledger) }) (gave_up k) t" if "held k (l', e) t" for l' e f t
    using that clean by (cases e) (auto simp: held_def gave_up_def)
  then show ?thesis
    unfolding repairLedger_def wp_bind by (intro wp_mono [OF wp_transition_held [OF l s]]) auto
qed

lemma wp_stuck_call: "stuck_at k s \<Longrightarrow> (\<And>a t. stuck_at k t \<Longrightarrow> Q a t) \<Longrightarrow> wp (call ev f) Q s"
  by (rule wp_call_observes) (use stuck_observes in blast)

lemma wp_stuck_quiet: "stuck_at k s \<Longrightarrow> (\<And>a t. stuck_at k t \<Longrightarrow> Q a t) \<Longrightarrow> wp (quiet f) Q s"
  by (rule wp_quiet_observes) (use stuck_observes in blast)

lemma reconcileLedger_gives_up:
  assumes l: "stuck l" "l_RequestID l = k" and s: "stuck_at k s"
  shows "wp (reconcileLedger cfg d ctx orphan l) (gave_up k) s"
proof -
  have repair: "wp (repairLedger cfg d ctx l) (\<lambda>e. wp (case e of Some err \<Rightarrow> m err | None \<Rightarrow> n) (gave_up k)) t"
    if "stuck_at k t" "\<And>err u. stuck_at k u \<Longrightarrow> wp (m err) (gave_up k) u" for m n t
    by (rule wp_mono [OF repairLedger_gives_up [OF l that(1)]]) (use that(2) in \<open>auto simp: gave_up_def\<close>)
  show ?thesis
    unfolding reconcileLedger_def gateAcquire_def gateAbandon_def
    by (auto split: option.split sum.split intro!: repair wp_stuck_call gave_upI s)
qed

lemma reconcileStartup_gives_up:
  assumes s: "stuck_at k s"
  shows "wp (reconcileStartup cfg d ctx) (gave_up k) s"
  unfolding reconcileStartup_def wp_bind
proof (rule wp_List, goal_cases)
  case (1 r t)
  have t: "stuck_at k t" using 1(1) s stuck_observes by blast
  show ?case
  proof (cases r)
    case (Inr ls)
    obtain L where L: "L \<in> set ls" "stuck L" "l_RequestID L = k"
      using s 1(2) [OF Inr] by (auto simp: stuck_at_def)
    have only: "l = L" if "scan_ledgers o' False None ls = Inr (m, Some l)" for o' m l
      using scan_ledgers_Inr [OF that] L by (auto simp: stuck_def)
    have some: "scan_ledgers o' False None ls \<noteq> Inr (m, None)" for o' m
      using scan_ledgers_Inr [of o' False None ls m None] L by (auto simp: stuck_def)
    show ?thesis
      unfolding Inr sum.case wp_bind
      by (rule wp_stuck_call [OF t])
        (auto split: sum.split option.split intro!: gave_upI reconcileLedger_gives_up dest!: only simp: some L)
  qed (use t in \<open>simp add: gave_upI\<close>)
qed

lemma Dispatch_gives_up:
  assumes s: "stuck_at k s"
  shows "wp (Dispatch cfg d ctx request) (\<lambda>r. gave_up k (snd r)) s"
proof -
  have pre: "wp (Preflight (dp_Runner d) cfg) R s" if "\<And>a u. stuck_at k u \<Longrightarrow> R a u" for R
    by (rule wp_keeps_observes [OF keeps_Preflight [where E = "\<lambda>_. False"]]) (use that s stuck_observes in blast)
  have locked: "wp (dispatchLocked cfg d ctx request policy)
      (\<lambda>r. wp (quiet (dp_CloseQueue d)) (\<lambda>_. gave_up k (snd r))) t" if "stuck_at k t" for t policy
    unfolding dispatchLocked_def wp_bind
    by (rule wp_mono [OF reconcileStartup_gives_up [OF that]]) (auto simp: gave_up_def intro!: wp_stuck_quiet)
  show ?thesis
    unfolding Dispatch_def
    by (auto split: option.split intro!: pre locked gave_upI s wp_stuck_quiet [where k = k])
qed



end
