(* ===== verification/Go_Lib.thy ===== *)
theory Go_Lib
  imports Civm_Prelude "HOL-Library.List_Lexorder" "HOL-Library.Char_ord"
begin

text \<open>
  More of the Go library, for the host-side components: searching and splitting strings,
  \<open>strconv\<close>, sorting, instants and durations of package \<open>time\<close>, RFC 3339 timestamps, and the
  text of wrapped errors. A \<open>map[K]V\<close> is an association list without repeated keys; Go leaves
  the order of iteration open, and the list fixes one.
\<close>

section \<open>Strings\<close>

text \<open>The bytes of the dash that some messages contain.\<close>

definition em_dash :: string where
  "em_dash = [CHR 0xE2, CHR 0x80, CHR 0x94]"

abbreviation nl :: char where
  "nl \<equiv> CHR 0x0A"

text \<open>\<open>strings.Index\<close>: the least position at which the pattern occurs.\<close>

fun str_index :: "string \<Rightarrow> string \<Rightarrow> nat option" where
  "str_index [] p = (if p = [] then Some 0 else None)"
| "str_index (c # s) p = (if has_prefix (c # s) p then Some 0 else map_option Suc (str_index s p))"

text \<open>\<open>strings.LastIndex\<close> of a one-byte pattern.\<close>

fun last_index :: "string \<Rightarrow> char \<Rightarrow> nat option" where
  "last_index [] p = None"
| "last_index (c # s) p =
     (case last_index s p of Some i \<Rightarrow> Some (Suc i) | None \<Rightarrow> if c = p then Some 0 else None)"

text \<open>\<open>strings.Fields\<close>: the maximal runs of non-space bytes.\<close>

fun fields_from :: "string \<Rightarrow> string \<Rightarrow> string list" where
  "fields_from acc [] = (if acc = [] then [] else [rev acc])"
| "fields_from acc (c # s) =
     (if is_space c then (if acc = [] then fields_from [] s else rev acc # fields_from [] s)
      else fields_from (c # acc) s)"

definition str_fields :: "string \<Rightarrow> string list" where
  "str_fields s = fields_from [] s"

text \<open>\<open>strings.Trim(s, string(c))\<close> for a one-byte cutset.\<close>

definition trim_char :: "char \<Rightarrow> string \<Rightarrow> string" where
  "trim_char c s = rev (dropWhile (\<lambda>x. x = c) (rev (dropWhile (\<lambda>x. x = c) s)))"

definition equal_fold :: "string \<Rightarrow> string \<Rightarrow> bool" where
  "equal_fold a b \<longleftrightarrow> to_lower a = to_lower b"

text \<open>\<open>%q\<close> for ASCII text; other bytes are printed as \<open>\\x\<close> escapes.\<close>

definition hex_digit :: "nat \<Rightarrow> char" where
  "hex_digit n = (if n < 10 then char_of (48 + n) else char_of (87 + n))"

definition quote_char :: "char \<Rightarrow> string" where
  "quote_char c =
     (let n = of_char c :: nat in
      if n = 34 then [CHR 0x5C, CHR 0x22]
      else if n = 92 then [CHR 0x5C, CHR 0x5C]
      else if n = 10 then [CHR 0x5C, CHR ''n'']
      else if n = 13 then [CHR 0x5C, CHR ''r'']
      else if n = 9 then [CHR 0x5C, CHR ''t'']
      else if 32 \<le> n \<and> n < 127 then [c]
      else [CHR 0x5C, CHR ''x'', hex_digit (n div 16), hex_digit (n mod 16)])"

definition go_quote :: "string \<Rightarrow> string" where
  "go_quote s = [CHR 0x22] @ concat (map quote_char s) @ [CHR 0x22]"

text \<open>Decimal digits, and \<open>strconv.ParseInt(s, 10, 64)\<close>.\<close>

definition digit_val :: "char \<Rightarrow> nat" where
  "digit_val c = of_char c - 48"

fun digits_val :: "nat \<Rightarrow> string \<Rightarrow> nat" where
  "digits_val acc [] = acc"
| "digits_val acc (c # s) = digits_val (10 * acc + digit_val c) s"

definition all_digits :: "string \<Rightarrow> bool" where
  "all_digits s \<longleftrightarrow> s \<noteq> [] \<and> list_all is_digit s"

definition in_int64 :: "int \<Rightarrow> bool" where
  "in_int64 i \<longleftrightarrow> - (2 ^ 63) \<le> i \<and> i < 2 ^ 63"

definition parse_uint :: "string \<Rightarrow> nat option" where
  "parse_uint s = (if all_digits s \<and> digits_val 0 s < 2 ^ 64 then Some (digits_val 0 s) else None)"

definition parse_int :: "string \<Rightarrow> int option" where
  "parse_int s =
     (let neg = has_prefix s ''-'';
          body = (if has_prefix s ''-'' \<or> has_prefix s ''+'' then drop 1 s else s);
          i = (if neg then - int (digits_val 0 body) else int (digits_val 0 body))
      in if all_digits body \<and> in_int64 i then Some i else None)"

text \<open>\<open>int64\<close> arithmetic: results wrap around, division truncates towards zero.\<close>

definition wrap64 :: "int \<Rightarrow> int" where
  "wrap64 i = (i + 2 ^ 63) mod 2 ^ 64 - 2 ^ 63"

definition go_div :: "int \<Rightarrow> int \<Rightarrow> int" where
  "go_div a b = sgn a * sgn b * (\<bar>a\<bar> div \<bar>b\<bar>)"

lemma wrap64_id: "in_int64 i \<Longrightarrow> wrap64 i = i"
  by (simp add: wrap64_def in_int64_def)

lemma go_div_nonneg: "0 \<le> a \<Longrightarrow> 0 < b \<Longrightarrow> go_div a b = a div b"
  by (cases "a = 0") (auto simp: go_div_def sgn_if)

text \<open>\<open>strings.Cut(s, string(c))\<close> for a one-byte separator.\<close>

definition str_cut :: "char \<Rightarrow> string \<Rightarrow> (string \<times> string) option" where
  "str_cut c s = (if c \<in> set s then Some (takeWhile (\<lambda>x. x \<noteq> c) s, drop 1 (dropWhile (\<lambda>x. x \<noteq> c) s)) else None)"

lemmas [go_string] =
  str_fields_def trim_char_def equal_fold_def hex_digit_def quote_char_def go_quote_def
  digit_val_def all_digits_def in_int64_def parse_int_def

lemma str_index_None_iff: "str_index s p = None \<longleftrightarrow> \<not> contains s p"
  by (induction s) (auto simp: has_prefix_def)

lemma str_index_SomeD: "str_index s p = Some i \<Longrightarrow> has_prefix (drop i s) p \<and> i \<le> length s"
  by (induction s arbitrary: i) (auto simp: has_prefix_def split: if_splits)

lemma str_index_least: "str_index s p = Some i \<Longrightarrow> j < i \<Longrightarrow> \<not> has_prefix (drop j s) p"
proof (induction s arbitrary: i j)
  case (Cons c s)
  then show ?case by (cases j) (auto split: if_splits)
qed (auto split: if_splits)

lemma last_index_SomeD: "last_index s p = Some i \<Longrightarrow> i < length s \<and> s ! i = p"
  by (induction s arbitrary: i) (auto split: option.splits if_splits)

lemma last_index_append_sep: "p \<notin> set t \<Longrightarrow> last_index (s @ p # t) p = Some (length s)"
proof -
  assume "p \<notin> set t"
  then have "last_index t p = None" by (induction t) auto
  then show ?thesis by (induction s) auto
qed

lemma fields_from_nonspace:
  "list_all (\<lambda>c. \<not> is_space c) acc \<Longrightarrow>
   list_all (\<lambda>f. f \<noteq> [] \<and> list_all (\<lambda>c. \<not> is_space c) f) (fields_from acc s)"
  by (induction s arbitrary: acc) (simp_all add: list_all_rev)

lemma str_fields_nonspace: "f \<in> set (str_fields s) \<Longrightarrow> f \<noteq> [] \<and> list_all (\<lambda>c. \<not> is_space c) f"
  using fields_from_nonspace [of "[]" s] by (simp add: str_fields_def list_all_iff)

section \<open>Association lists as maps\<close>

definition map_put :: "'k \<Rightarrow> 'v \<Rightarrow> ('k \<times> 'v) list \<Rightarrow> ('k \<times> 'v) list" where
  "map_put k v m = AList.update k v m"

definition map_del :: "'k \<Rightarrow> ('k \<times> 'v) list \<Rightarrow> ('k \<times> 'v) list" where
  "map_del k m = AList.delete k m"

lemma map_of_put [simp]: "map_of (map_put k v m) = (map_of m)(k \<mapsto> v)"
  by (simp add: map_put_def update_conv')

lemma map_of_del [simp]: "map_of (map_del k m) = (map_of m)(k := None)"
  by (simp add: map_del_def delete_conv')

lemma distinct_put: "distinct (map fst m) \<Longrightarrow> distinct (map fst (map_put k v m))"
  by (simp add: map_put_def distinct_update)

lemma distinct_del: "distinct (map fst m) \<Longrightarrow> distinct (map fst (map_del k m))"
  by (simp add: map_del_def distinct_delete)

lemma set_map_del: "set (map_del k m) \<subseteq> set m"
  by (auto simp: map_del_def AList.delete_eq)

text \<open>Keeping the first occurrence of each value, as a loop with a \<open>seen\<close> set does.\<close>

fun dedup :: "'a list \<Rightarrow> 'a list \<Rightarrow> 'a list" where
  "dedup seen [] = []"
| "dedup seen (x # xs) = (if x \<in> set seen then dedup seen xs else x # dedup (x # seen) xs)"

lemma set_dedup: "set (dedup seen xs) = set xs - set seen"
  by (induction seen xs rule: dedup.induct) auto

lemma distinct_dedup: "distinct (dedup seen xs)"
  by (induction seen xs rule: dedup.induct) (auto simp: set_dedup)

section \<open>Instants and durations\<close>

text \<open>
  An instant is its number of nanoseconds after January 1, year 1, 00:00 UTC, the zero
  \<open>time.Time\<close>; a duration is an \<open>int64\<close> number of nanoseconds. \<open>Sub\<close> saturates.
\<close>

type_synonym time = int

definition second :: int where "second = 1000000000"
definition minute :: int where "minute = 60 * second"
definition hour :: int where "hour = 60 * minute"

definition time_Sub :: "time \<Rightarrow> time \<Rightarrow> int" where
  "time_Sub t u = max (- (2 ^ 63)) (min (2 ^ 63 - 1) (t - u))"

definition seconds_of :: "int \<Rightarrow> int" where
  "seconds_of d = (if d < 0 then - ((- d) div second) else d div second)"

lemma time_Sub_le_iff: "- (2 ^ 63) < d \<Longrightarrow> d \<le> 2 ^ 63 - 1 \<Longrightarrow> d \<le> time_Sub t u \<longleftrightarrow> u + d \<le> t"
  by (auto simp: time_Sub_def)

lemma time_Sub_less_iff: "- (2 ^ 63) < d \<Longrightarrow> d \<le> 2 ^ 63 - 1 \<Longrightarrow> time_Sub t u < d \<longleftrightarrow> t < u + d"
  by (auto simp: time_Sub_def)

text \<open>\<open>Duration.String\<close>.\<close>

definition pad_digits :: "nat \<Rightarrow> nat \<Rightarrow> string" where
  "pad_digits n v = replicate (n - length (show_nat v)) (CHR ''0'') @ show_nat v"

definition duration_frac :: "nat \<Rightarrow> nat \<Rightarrow> string" where
  "duration_frac v prec =
     (let ds = rev (dropWhile (\<lambda>c. c = CHR ''0'') (rev (pad_digits prec (v mod 10 ^ prec))))
      in if ds = [] then [] else ''.'' @ ds)"

definition duration_body :: "nat \<Rightarrow> string" where
  "duration_body u =
     (if u < 1000 then show_nat u @ ''ns''
      else if u < 1000000 then show_nat (u div 1000) @ duration_frac u 3 @ [CHR 0xC2, CHR 0xB5] @ ''s''
      else if u < 1000000000 then show_nat (u div 1000000) @ duration_frac u 6 @ ''ms''
      else (let sec = u div 1000000000; s = show_nat (sec mod 60) @ duration_frac u 9 @ ''s'' in
            if sec < 60 then s
            else if sec < 3600 then show_nat (sec div 60) @ ''m'' @ s
            else show_nat (sec div 3600) @ ''h'' @ show_nat (sec div 60 mod 60) @ ''m'' @ s))"

definition duration_string :: "int \<Rightarrow> string" where
  "duration_string d =
     (if d = 0 then ''0s'' else (if d < 0 then ''-'' else []) @ duration_body (nat (abs d)))"

text \<open>Days from January 1, year 1, of the first day of a year, and of a date of it.\<close>

definition leap_year :: "int \<Rightarrow> bool" where
  "leap_year y \<longleftrightarrow> y mod 4 = 0 \<and> (y mod 100 \<noteq> 0 \<or> y mod 400 = 0)"

definition year_start :: "int \<Rightarrow> int" where
  "year_start y = 365 * (y - 1) + (y - 1) div 4 - (y - 1) div 100 + (y - 1) div 400"

definition month_lengths :: "int \<Rightarrow> int list" where
  "month_lengths y = [31, if leap_year y then 29 else 28, 31, 30, 31, 30, 31, 31, 30, 31, 30, 31]"

definition date_ok :: "int \<Rightarrow> int \<Rightarrow> int \<Rightarrow> bool" where
  "date_ok y m d \<longleftrightarrow> 1 \<le> m \<and> m \<le> 12 \<and> 1 \<le> d \<and> d \<le> month_lengths y ! nat (m - 1)"

definition date_days :: "int \<Rightarrow> int \<Rightarrow> int \<Rightarrow> int" where
  "date_days y m d = year_start y + sum_list (take (nat (m - 1)) (month_lengths y)) + (d - 1)"

text \<open>A decimal number of exactly \<open>n\<close> digits, followed by the rest of the text.\<close>

definition take_num :: "nat \<Rightarrow> string \<Rightarrow> (int \<times> string) option" where
  "take_num n s =
     (if n \<le> length s \<and> list_all is_digit (take n s) then Some (int (digits_val 0 (take n s)), drop n s) else None)"

definition take_char :: "char \<Rightarrow> string \<Rightarrow> string option" where
  "take_char c s = (case s of [] \<Rightarrow> None | x # r \<Rightarrow> if x = c then Some r else None)"

text \<open>The fraction of a second in nanoseconds; digits after the ninth are dropped.\<close>

definition take_fraction :: "string \<Rightarrow> (int \<times> string) option" where
  "take_fraction s =
     (if has_prefix s ''.'' then
        (let ds = takeWhile is_digit (drop 1 s) in
         if ds = [] then None
         else Some (int (digits_val 0 (take 9 (ds @ replicate 9 (CHR ''0'')))), drop (Suc (length ds)) s))
      else Some (0, s))"

definition take_zone :: "string \<Rightarrow> int option" where
  "take_zone s =
     (if s = ''Z'' then Some 0
      else if has_prefix s ''+'' \<or> has_prefix s ''-'' then do {
        (h, s1) \<leftarrow> take_num 2 (drop 1 s);
        s2 \<leftarrow> take_char (CHR '':'') s1;
        (m, s3) \<leftarrow> take_num 2 s2;
        if s3 = [] \<and> h < 24 \<and> m < 60
        then Some ((if has_prefix s ''-'' then - 1 else 1) * (h * hour + m * minute)) else None
      } else None)"

definition parse_rfc3339 :: "string \<Rightarrow> time option" where
  "parse_rfc3339 s = do {
     (y, s1) \<leftarrow> take_num 4 s;
     s2 \<leftarrow> take_char (CHR ''-'') s1;
     (mo, s3) \<leftarrow> take_num 2 s2;
     s4 \<leftarrow> take_char (CHR ''-'') s3;
     (d, s5) \<leftarrow> take_num 2 s4;
     s6 \<leftarrow> take_char (CHR ''T'') s5;
     (h, s7) \<leftarrow> take_num 2 s6;
     s8 \<leftarrow> take_char (CHR '':'') s7;
     (mi, s9) \<leftarrow> take_num 2 s8;
     s10 \<leftarrow> take_char (CHR '':'') s9;
     (sec, s11) \<leftarrow> take_num 2 s10;
     (ns, s12) \<leftarrow> take_fraction s11;
     off \<leftarrow> take_zone s12;
     if date_ok y mo d \<and> h < 24 \<and> mi < 60 \<and> sec < 60
     then Some (date_days y mo d * (24 * hour) + h * hour + mi * minute + sec * second + ns - off)
     else None
   }"

section \<open>Errors with their text\<close>

text \<open>
  The host-side components put \<open>err.Error()\<close> into their reports. \<open>Wrap\<close> carries the formatted
  text before the wrapped errors; an empty text is \<open>errors.Join\<close>, which separates by newlines.
\<close>

fun err_text :: "('e \<Rightarrow> string) \<Rightarrow> 'e gerr \<Rightarrow> string" where
  "err_text f (Leaf e) = f e"
| "err_text f (Wrap m es) =
     (if m = [] then join_on [nl] (map (err_text f) es) else m @ concat (map (err_text f) es))"

end
