(* ===== verification/Civm_Names.thy ===== *)
theory Civm_Names
  imports Go_Lib "HOL-Library.Word"
begin

text \<open>
  Shared validation (\<open>internal/civm/civm.go\<close>, \<open>reclaim.go\<close>): the anchored regular expressions
  as executable predicates, the validators with their errors, checksum and fingerprint checks,
  and the admission gate of the emergency reclaim on 64-bit integers.
\<close>

section \<open>Errors of the host-side components\<close>

text \<open>
  Leaves: an error that is only a text, the errors of file operations and locks the sources test
  for, and the sentinel values the host-side packages compare with. A sentinel that is wrapped as
  \<open>%w: text\<close> carries the text after it.
\<close>

datatype host_leaf =
    Msg string
  | NotExist string
  | PermissionDenied string
  | WouldBlock
  | CtxErr ctx_error
  | RunnerBecameBusy
  | RunAlreadyCompleted string
  | WaitBudgetExceeded
  | LockBudgetExceeded
  | SlotBusy
  | UnsafePath string
  | PortWindowExhausted

type_synonym herr = "host_leaf gerr"

definition leaf_text :: "host_leaf \<Rightarrow> string" where
  "leaf_text l =
     (case l of
        Msg m \<Rightarrow> m
      | NotExist m \<Rightarrow> m
      | PermissionDenied m \<Rightarrow> m
      | WouldBlock \<Rightarrow> ''resource temporarily unavailable''
      | CtxErr e \<Rightarrow> (case e of Canceled \<Rightarrow> ''context canceled'' | DeadlineExceeded \<Rightarrow> ''context deadline exceeded'')
      | RunnerBecameBusy \<Rightarrow> ''runner became busy while restart was fenced''
      | RunAlreadyCompleted m \<Rightarrow> ''run already completed per github (list api desync)'' @ m
      | WaitBudgetExceeded \<Rightarrow> ''admit: heavy slot wait budget exceeded''
      | LockBudgetExceeded \<Rightarrow> ''docker-heavy lock wait budget exceeded''
      | SlotBusy \<Rightarrow> ''admit: slot busy''
      | UnsafePath m \<Rightarrow> ''safedelete: unsafe path'' @ m
      | PortWindowExhausted \<Rightarrow> ''civm port window exhausted'')"

definition err_Error :: "herr \<Rightarrow> string" where
  "err_Error e = err_text leaf_text e"

definition is_NotExist :: "herr \<Rightarrow> bool" where
  "is_NotExist e \<longleftrightarrow> (\<exists>l \<in> set (leaves e). case l of NotExist _ \<Rightarrow> True | _ \<Rightarrow> False)"

definition is_PermissionDenied :: "herr \<Rightarrow> bool" where
  "is_PermissionDenied e \<longleftrightarrow> (\<exists>l \<in> set (leaves e). case l of PermissionDenied _ \<Rightarrow> True | _ \<Rightarrow> False)"

definition is_RunAlreadyCompleted :: "herr \<Rightarrow> bool" where
  "is_RunAlreadyCompleted e \<longleftrightarrow> (\<exists>l \<in> set (leaves e). case l of RunAlreadyCompleted _ \<Rightarrow> True | _ \<Rightarrow> False)"

definition is_UnsafePath :: "herr \<Rightarrow> bool" where
  "is_UnsafePath e \<longleftrightarrow> (\<exists>l \<in> set (leaves e). case l of UnsafePath _ \<Rightarrow> True | _ \<Rightarrow> False)"

definition msg :: "string \<Rightarrow> herr" where
  "msg m = Leaf (Msg m)"

section \<open>Regular expressions\<close>

definition one_of :: "string \<Rightarrow> char \<Rightarrow> bool" where
  "one_of cs c \<longleftrightarrow> c \<in> set cs"

definition repoRe :: "string \<Rightarrow> bool" where
  "repoRe s \<longleftrightarrow>
     (case split_on (CHR ''/'') s of
        [owner, name] \<Rightarrow>
          owner \<noteq> [] \<and> length owner \<le> 39 \<and> is_alnum (hd owner) \<and> list_all (\<lambda>c. is_alnum c \<or> one_of ''-'' c) owner \<and>
          name \<noteq> [] \<and> length name \<le> 100 \<and> list_all (\<lambda>c. is_alnum c \<or> one_of ''._-'' c) name
      | _ \<Rightarrow> False)"

definition shortRe :: "string \<Rightarrow> bool" where
  "shortRe s \<longleftrightarrow> s \<noteq> [] \<and> length s \<le> 64 \<and> is_alnum (hd s) \<and> list_all (\<lambda>c. is_alnum c \<or> one_of ''_-'' c) s"

definition semverRe :: "string \<Rightarrow> bool" where
  "semverRe s \<longleftrightarrow> length (split_on (CHR ''.'') s) = 3 \<and> list_all all_digits (split_on (CHR ''.'') s)"

definition unitRe :: "string \<Rightarrow> bool" where
  "unitRe s \<longleftrightarrow> has_suffix s ''.service'' \<and> 8 < length s \<and> list_all (\<lambda>c. is_alnum c \<or> one_of ''_.@-'' c) s"

definition userRe :: "string \<Rightarrow> bool" where
  "userRe s \<longleftrightarrow> s \<noteq> [] \<and> length s \<le> 64 \<and> (is_lower (hd s) \<or> is_upper (hd s) \<or> hd s = CHR ''_'') \<and>
     list_all (\<lambda>c. is_alnum c \<or> one_of ''_-'' c) s"

definition workflowRe :: "string \<Rightarrow> bool" where
  "workflowRe s \<longleftrightarrow>
     (let stem = (if has_suffix s ''.yml'' then Some (take (length s - 4) s)
                  else if has_suffix s ''.yaml'' then Some (take (length s - 5) s) else None)
      in case stem of
           None \<Rightarrow> False
         | Some t \<Rightarrow> t \<noteq> [] \<and> length t \<le> 128 \<and> (is_alnum (hd t) \<or> hd t = CHR ''.'') \<and>
                      list_all (\<lambda>c. is_alnum c \<or> one_of ''._/-'' c) t)"

section \<open>Validators\<close>

definition ValidateRepo :: "string \<Rightarrow> herr option" where
  "ValidateRepo repo =
     (if \<not> repoRe repo then Some (msg (''repo deve ter formato owner/repo seguro, got '' @ go_quote repo)) else None)"

definition ValidateShort :: "string \<Rightarrow> herr option" where
  "ValidateShort short =
     (if \<not> shortRe short then Some (msg (''short deve conter apenas letras, numeros, _ ou -, got '' @ go_quote short)) else None)"

fun validate_label_list :: "string list \<Rightarrow> herr option" where
  "validate_label_list [] = None"
| "validate_label_list (l # ls) =
     (if \<not> shortRe (trim_space l) then Some (msg (''label invalido '' @ go_quote (trim_space l))) else validate_label_list ls)"

definition ValidateLabels :: "string \<Rightarrow> herr option" where
  "ValidateLabels labels =
     (if labels = [] then Some (msg ''label obrigatorio'') else validate_label_list (split_on (CHR '','') labels))"

definition ValidateSemver :: "string \<Rightarrow> string \<Rightarrow> herr option" where
  "ValidateSemver v field =
     (if \<not> semverRe v then Some (msg (field @ '' deve usar semver x.y.z, got '' @ go_quote v)) else None)"

definition ValidateServiceUnit :: "string \<Rightarrow> herr option" where
  "ValidateServiceUnit unit =
     (if \<not> unitRe unit \<or> contains unit ''..'' then Some (msg (''unit invalida: '' @ go_quote unit)) else None)"

definition ValidateUserName :: "string \<Rightarrow> herr option" where
  "ValidateUserName name =
     (if \<not> userRe name then Some (msg (''run-as invalido: '' @ go_quote name)) else None)"

definition ValidateWorkflowFile :: "string \<Rightarrow> herr option" where
  "ValidateWorkflowFile workflow =
     (if \<not> workflowRe workflow \<or> has_prefix workflow ''/'' \<or> contains workflow ''..''
      then Some (msg (''workflow deve ser arquivo .yml/.yaml seguro, got '' @ go_quote workflow)) else None)"

text \<open>\<open>ResolveRunnerUser\<close>, with the environment and \<open>user.Current()\<close> as arguments.\<close>

definition after_backslash :: "string \<Rightarrow> string" where
  "after_backslash name = (case last_index name (CHR 0x5C) of Some i \<Rightarrow> drop (Suc i) name | None \<Rightarrow> name)"

definition ResolveRunnerUser :: "string \<Rightarrow> string option \<Rightarrow> string \<Rightarrow> string \<Rightarrow> string" where
  "ResolveRunnerUser sudo_user current user_env fallback =
     (let usable = (\<lambda>u. u \<noteq> [] \<and> ValidateUserName u = None);
          sudo = trim_space sudo_user; env = trim_space user_env
      in if usable sudo then sudo
         else (case current of
                 Some u \<Rightarrow>
                   (let name = after_backslash (trim_space u)
                    in if usable name then name else if usable env then env else fallback)
               | None \<Rightarrow> if usable env then env else fallback))"

definition CleanDir :: "string \<Rightarrow> string \<Rightarrow> herr + string" where
  "CleanDir path field =
     (if trim_space path = [] then Inl (msg (field @ '' obrigatorio''))
      else if CHR 0x00 \<in> set path then Inl (msg (field @ '' contem byte NUL''))
      else if path_Clean path = ''.'' then Inl (msg (field @ '' nao pode ser diretorio atual''))
      else Inr (path_Clean path))"

section \<open>Checksums and fingerprints\<close>

definition VerifySHA256 :: "string \<Rightarrow> string \<Rightarrow> string \<Rightarrow> herr option" where
  "VerifySHA256 actual expected label =
     (let a = to_lower (trim_space actual); e = to_lower (trim_space expected)
      in if e = [] then Some (msg (''sha256 esperado ausente para '' @ label))
         else if a \<noteq> e then Some (msg (''sha256 mismatch for '' @ label @ '': got '' @ a @ '' want '' @ e))
         else None)"

definition char_upper :: "char \<Rightarrow> char" where
  "char_upper c = (if is_lower c then char_of (of_char c - 32 :: nat) else c)"

definition normalizeFingerprint :: "string \<Rightarrow> string" where
  "normalizeFingerprint v = filter (\<lambda>c. is_upper c \<or> is_digit c) (map char_upper v)"

definition VerifyGPGFingerprint :: "string \<Rightarrow> string \<Rightarrow> string \<Rightarrow> herr option" where
  "VerifyGPGFingerprint out expected label =
     (let a = normalizeFingerprint out; e = normalizeFingerprint expected
      in if e = [] then Some (msg (''fingerprint esperado ausente para '' @ label))
         else if \<not> contains a e then Some (msg (''fingerprint mismatch for '' @ label @ '': got output without '' @ e))
         else None)"

section \<open>The emergency reclaim gate\<close>

definition EmergencyAdmits :: "64 word \<Rightarrow> 64 word \<Rightarrow> 64 word \<Rightarrow> bool" where
  "EmergencyAdmits liveFreeGB hardFloorGB scratchBudgetGB =
     (if scratchBudgetGB \<le>s 0 then False else scratchBudgetGB \<le>s liveFreeGB - hardFloorGB)"

lemmas [go_string] =
  one_of_def repoRe_def shortRe_def semverRe_def unitRe_def userRe_def workflowRe_def
  ValidateRepo_def ValidateShort_def ValidateLabels_def ValidateSemver_def ValidateServiceUnit_def
  ValidateUserName_def ValidateWorkflowFile_def after_backslash_def ResolveRunnerUser_def CleanDir_def
  VerifySHA256_def char_upper_def normalizeFingerprint_def VerifyGPGFingerprint_def

section \<open>Facts\<close>

lemma is_NotExist_Leaf [simp]: "is_NotExist (Leaf (NotExist m))" "\<not> is_NotExist (msg m)"
  by (simp_all add: is_NotExist_def msg_def)

text \<open>A valid repository has exactly one slash, with a part on either side.\<close>

lemma ValidateRepo_ok:
  "ValidateRepo r = None \<longleftrightarrow> (\<exists>owner name. r = owner @ ''/'' @ name \<and> repoRe r \<and> owner \<noteq> [] \<and> name \<noteq> [] \<and>
     CHR ''/'' \<notin> set owner \<and> CHR ''/'' \<notin> set name)"
proof
  assume "ValidateRepo r = None"
  then have re: "repoRe r" by (simp add: ValidateRepo_def split: if_splits)
  then obtain owner name where sp: "split_on (CHR ''/'') r = [owner, name]" and ne: "owner \<noteq> []" "name \<noteq> []"
    unfolding repoRe_def by (auto split: list.splits)
  have "r = owner @ ''/'' @ name" using join_split_on [of "CHR ''/''" r] by (simp add: sp)
  moreover have "CHR ''/'' \<notin> set owner" "CHR ''/'' \<notin> set name"
    using split_on_no_sep [of _ "CHR ''/''" r] by (auto simp: sp)
  ultimately show "\<exists>owner name. r = owner @ ''/'' @ name \<and> repoRe r \<and> owner \<noteq> [] \<and> name \<noteq> [] \<and>
     CHR ''/'' \<notin> set owner \<and> CHR ''/'' \<notin> set name" using re ne by blast
qed (auto simp: ValidateRepo_def)

text \<open>A valid unit name cannot be read as an option or as a path.\<close>

lemma ValidateServiceUnit_chars:
  "ValidateServiceUnit u = None \<Longrightarrow> list_all (\<lambda>c. is_alnum c \<or> one_of ''_.@-'' c) u \<and> has_suffix u ''.service'' \<and> \<not> contains u ''..''"
  by (simp add: ValidateServiceUnit_def unitRe_def split: if_splits)

lemma ValidateServiceUnit_no_slash: "ValidateServiceUnit u = None \<Longrightarrow> CHR ''/'' \<notin> set u \<and> CHR '' '' \<notin> set u"
  by (auto dest!: ValidateServiceUnit_chars simp: list_all_iff one_of_def is_alnum_def is_lower_def is_upper_def
      is_digit_def char_between_def dest!: bspec)

end
