(* ===== verification/Host.thy ===== *)
theory Host
  imports Civm_Names
begin

text \<open>
  The effects of the host-side components. Their \<open>Options\<close> structs carry the functions they
  call (\<open>RunFn\<close>, \<open>ActivityFn\<close>, \<open>NowFn\<close>, ...); here these are operations on an arbitrary world
  \<open>'w\<close>. The state adds the durable file a component owns, the report it builds and the trace of
  the recorded calls, each with the file as it was when the call was made: a crash between two
  calls leaves exactly such a file.

  \<open>traced P\<close> is the relation between two states when all that happened in between satisfies
  \<open>P\<close>; it is reflexive and transitive, so a whole component keeps it when each of its calls does.
\<close>

record ('w, 'f, 'r, 'e) hst =
  hs_ext :: 'w
  hs_file :: 'f
  hs_report :: 'r
  hs_trace :: "('e \<times> 'f) list"

type_synonym ('w, 'a) hop = "'w \<Rightarrow> 'a \<times> 'w"

section \<open>Effects\<close>

text \<open>A recorded call, an unrecorded one, a change of the file and a change of the report.\<close>

definition act :: "('a \<Rightarrow> 'e) \<Rightarrow> ('w, 'a) hop \<Rightarrow> (('w, 'f, 'r, 'e) hst, 'a) state" where
  "act ev f = State (\<lambda>s. case f (hs_ext s) of (a, w) \<Rightarrow>
     (a, s\<lparr>hs_ext := w, hs_trace := hs_trace s @ [(ev a, hs_file s)]\<rparr>))"

definition look :: "('w, 'a) hop \<Rightarrow> (('w, 'f, 'r, 'e) hst, 'a) state" where
  "look f = State (\<lambda>s. case f (hs_ext s) of (a, w) \<Rightarrow> (a, s\<lparr>hs_ext := w\<rparr>))"

definition put_file :: "'f \<Rightarrow> (('w, 'f, 'r, 'e) hst, unit) state" where
  "put_file f = modify (\<lambda>s. s\<lparr>hs_file := f\<rparr>)"

definition report :: "('r \<Rightarrow> 'r) \<Rightarrow> (('w, 'f, 'r, 'e) hst, unit) state" where
  "report f = modify (\<lambda>s. s\<lparr>hs_report := f (hs_report s)\<rparr>)"

text \<open>A loop \<open>for _, x := range xs\<close> whose body may \<open>return\<close> early.\<close>

fun for_each :: "('x \<Rightarrow> ('s, 'a option) state) \<Rightarrow> 'x list \<Rightarrow> ('s, 'a option) state" where
  "for_each body [] = ret None"
| "for_each body (x # xs) = do {
     r \<leftarrow> body x;
     (case r of Some a \<Rightarrow> ret (Some a) | None \<Rightarrow> for_each body xs)
   }"

text \<open>A loop that never returns early.\<close>

fun for_all :: "('x \<Rightarrow> ('s, unit) state) \<Rightarrow> 'x list \<Rightarrow> ('s, unit) state" where
  "for_all body [] = ret ()"
| "for_all body (x # xs) = do { body x; for_all body xs }"

text \<open>A loop with local variables.\<close>

fun for_with :: "('x \<Rightarrow> 'c \<Rightarrow> ('s, 'c) state) \<Rightarrow> 'x list \<Rightarrow> 'c \<Rightarrow> ('s, 'c) state" where
  "for_with body [] c = ret c"
| "for_with body (x # xs) c = do { c' \<leftarrow> body x c; for_with body xs c' }"

section \<open>Rules\<close>

lemma wp_act [simp]:
  "wp (act ev f) Q s = (case f (hs_ext s) of (a, w) \<Rightarrow>
     Q a (s\<lparr>hs_ext := w, hs_trace := hs_trace s @ [(ev a, hs_file s)]\<rparr>))"
  by (simp add: wp_def act_def split: prod.split)

lemma wp_look [simp]: "wp (look f) Q s = (case f (hs_ext s) of (a, w) \<Rightarrow> Q a (s\<lparr>hs_ext := w\<rparr>))"
  by (simp add: wp_def look_def split: prod.split)

lemma wp_put_file [simp]: "wp (put_file f) Q s = Q () (s\<lparr>hs_file := f\<rparr>)"
  by (simp add: put_file_def)

lemma wp_report [simp]: "wp (report f) Q s = Q () (s\<lparr>hs_report := f (hs_report s)\<rparr>)"
  by (simp add: report_def)

lemma wp_for_each:
  assumes "I s" "\<And>x s. x \<in> set xs \<Longrightarrow> I s \<Longrightarrow> wp (body x) (\<lambda>r t. case r of Some a \<Rightarrow> Q (Some a) t | None \<Rightarrow> I t) s"
    "\<And>s. I s \<Longrightarrow> Q None s"
  shows "wp (for_each body xs) Q s"
  using assms(1,2)
proof (induction xs arbitrary: s)
  case (Cons x xs)
  show ?case
    unfolding for_each.simps wp_bind
    by (rule wp_mono [OF Cons.prems(2)]) (use Cons in \<open>auto split: option.splits\<close>)
qed (simp add: assms(3))

lemma wp_for_all:
  assumes "I s" "\<And>x s. x \<in> set xs \<Longrightarrow> I s \<Longrightarrow> wp (body x) (\<lambda>_. I) s" "\<And>s. I s \<Longrightarrow> Q () s"
  shows "wp (for_all body xs) Q s"
  using assms(1,2)
proof (induction xs arbitrary: s)
  case (Cons x xs)
  show ?case
    unfolding for_all.simps wp_bind by (rule wp_mono [OF Cons.prems(2)]) (use Cons in auto)
qed (simp add: assms(3))

lemma wp_for_with:
  assumes "I c s" "\<And>x c s. x \<in> set xs \<Longrightarrow> I c s \<Longrightarrow> wp (body x c) I s" "\<And>c s. I c s \<Longrightarrow> Q c s"
  shows "wp (for_with body xs c) Q s"
  using assms(1,2)
proof (induction xs arbitrary: c s)
  case (Cons x xs)
  show ?case
    unfolding for_with.simps wp_bind by (rule wp_mono [OF Cons.prems(2)]) (use Cons in auto)
qed (simp add: assms(3))

text \<open>Rules that open the branches of a function, for use with \<open>wp\<close>.\<close>

lemma wp_ifI: "(b \<Longrightarrow> wp m Q s) \<Longrightarrow> (\<not> b \<Longrightarrow> wp n Q s) \<Longrightarrow> wp (if b then m else n) Q s"
  by simp

lemma wp_optionI: "(x = None \<Longrightarrow> wp m Q s) \<Longrightarrow> (\<And>a. x = Some a \<Longrightarrow> wp (f a) Q s) \<Longrightarrow> wp (case x of None \<Rightarrow> m | Some a \<Rightarrow> f a) Q s"
  by (cases x) auto

lemma wp_sumI:
  "(\<And>a. x = Inl a \<Longrightarrow> wp (f a) Q s) \<Longrightarrow> (\<And>b. x = Inr b \<Longrightarrow> wp (g b) Q s) \<Longrightarrow> wp (case x of Inl a \<Rightarrow> f a | Inr b \<Rightarrow> g b) Q s"
  by (cases x) auto

lemma wp_prodI: "(\<And>a b. x = (a, b) \<Longrightarrow> wp (f a b) Q s) \<Longrightarrow> wp (case x of (a, b) \<Rightarrow> f a b) Q s"
  by (cases x) auto

lemma wp_letI: "wp (f x) Q s \<Longrightarrow> wp (Let x f) Q s"
  by simp

lemma wp_boolI: "(b \<Longrightarrow> wp m Q s) \<Longrightarrow> (\<not> b \<Longrightarrow> wp n Q s) \<Longrightarrow> wp (case b of True \<Rightarrow> m | False \<Rightarrow> n) Q s"
  by (cases b) auto

lemmas wp_branches = wp_boolI wp_ifI wp_optionI wp_sumI wp_prodI wp_letI

section \<open>What happened between two states\<close>

definition traced :: "('e \<times> 'f \<Rightarrow> bool) \<Rightarrow> ('w, 'f, 'r, 'e) hst \<Rightarrow> ('w, 'f, 'r, 'e) hst \<Rightarrow> bool" where
  "traced P s t \<longleftrightarrow> (\<exists>new. hs_trace t = hs_trace s @ new \<and> list_all P new)"

definition htrace :: "('w, 'f, 'r, 'e) hst \<Rightarrow> ('w, 'f, 'r, 'e) hst \<Rightarrow> ('e \<times> 'f) list" where
  "htrace s t = drop (length (hs_trace s)) (hs_trace t)"

lemma reflp_traced [simp]: "reflp (traced P)"
  by (simp add: reflp_def traced_def)

lemma transp_traced [simp]: "transp (traced P)"
  by (fastforce intro!: transpI simp: traced_def)

lemma traced_refl [simp]: "traced P s s"
  by (simp add: traced_def)

lemma traced_trans: "traced P s t \<Longrightarrow> traced P t u \<Longrightarrow> traced P s u"
  using transp_traced by (rule transpD)

lemma traced_iff: "traced P s t \<longleftrightarrow> hs_trace t = hs_trace s @ htrace s t \<and> list_all P (htrace s t)"
  by (auto simp: traced_def htrace_def)

lemma keeps_traced_mono: "keeps (traced P) m \<Longrightarrow> (\<And>x. P x \<Longrightarrow> Q x) \<Longrightarrow> keeps (traced Q) m"
  by (rule keepsI_wp, rule wp_mono [OF keeps_wp [where R = "traced P"]]) (auto simp: traced_def elim!: list.pred_mono_strong)

lemma keeps_act: "(\<And>a f. P (ev a, f)) \<Longrightarrow> keeps (traced P) (act ev g)"
  by (rule keepsI_wp) (simp add: traced_def split: prod.split)

lemma keeps_look [simp]: "keeps (traced P) (look g)"
  by (rule keepsI_wp) (simp add: traced_def split: prod.split)

lemma keeps_put_file [simp]: "keeps (traced P) (put_file f)"
  by (rule keepsI_wp) (simp add: traced_def)

lemma keeps_report [simp]: "keeps (traced P) (report f)"
  by (rule keepsI_wp) (simp add: traced_def)

lemma keeps_for_each: "reflp R \<Longrightarrow> transp R \<Longrightarrow> (\<And>x. x \<in> set xs \<Longrightarrow> keeps R (body x)) \<Longrightarrow> keeps R (for_each body xs)"
  by (induction xs) (auto intro!: keeps_bind)

lemma keeps_for_all: "reflp R \<Longrightarrow> transp R \<Longrightarrow> (\<And>x. x \<in> set xs \<Longrightarrow> keeps R (body x)) \<Longrightarrow> keeps R (for_all body xs)"
  by (induction xs) (auto intro!: keeps_bind)

lemma keeps_for_with:
  "reflp R \<Longrightarrow> transp R \<Longrightarrow> (\<And>x c. x \<in> set xs \<Longrightarrow> keeps R (body x c)) \<Longrightarrow> keeps R (for_with body xs c)"
  by (induction xs arbitrary: c) (auto intro!: keeps_bind)

text \<open>A component that never writes its file.\<close>

definition same_file :: "('w, 'f, 'r, 'e) hst \<Rightarrow> ('w, 'f, 'r, 'e) hst \<Rightarrow> bool" where
  "same_file s t \<longleftrightarrow> hs_file t = hs_file s"

lemma reflp_same_file [simp]: "reflp same_file"
  by (simp add: reflp_def same_file_def)

lemma transp_same_file [simp]: "transp same_file"
  by (simp add: transp_def same_file_def)

lemma keeps_same_file [simp]:
  "keeps same_file (act ev g)" "keeps same_file (look g)" "keeps same_file (report f)"
  by (auto intro!: keepsI_wp simp: same_file_def split: prod.split)

section \<open>Running commands\<close>

text \<open>\<open>RunFn\<close>: the combined output of a command and its error.\<close>

type_synonym 'w runner_fn = "string \<Rightarrow> string list \<Rightarrow> ('w, string \<times> herr option) hop"

text \<open>A failed decoding; the texts of \<open>encoding/json\<close> itself are not modelled.\<close>

definition json_error :: herr where
  "json_error = msg ''json: cannot decode''"

end
