(* ===== verification/Idle.thy ===== *)
theory Idle
  imports Host
begin

text \<open>
  \<open>internal/idle/idle.go\<close>: the read-only check that no CI job or build is active. \<open>Check\<close> probes
  the process table, and once more after \<open>ProbeDelay\<close> so that a job that just started is seen.
  The wait of the \<open>select\<close> is an operation that answers with the context's error when the
  context ends first.
\<close>

datatype Status = StatusIdle | StatusBusy | StatusUnknown

definition ExitCode :: "Status \<Rightarrow> int" where
  "ExitCode s = (case s of StatusIdle \<Rightarrow> 0 | StatusBusy \<Rightarrow> 1 | StatusUnknown \<Rightarrow> 2)"

record Activity =
  ac_PID :: int
  ac_Command :: string

record idle_Result =
  ir_Status :: Status
  ir_ExitCode :: int
  ir_Activities :: "Activity list"
  ir_Error :: string

record 'w idle_Options =
  io_ProbeDelay :: int
  io_ActivityFn :: "('w, herr + Activity list) hop"
  io_wait :: "int \<Rightarrow> ('w, herr option) hop"

definition idleResult :: idle_Result where
  "idleResult = \<lparr>ir_Status = StatusIdle, ir_ExitCode = ExitCode StatusIdle, ir_Activities = [], ir_Error = []\<rparr>"

definition busyResult :: "Activity list \<Rightarrow> idle_Result" where
  "busyResult activities =
     \<lparr>ir_Status = StatusBusy, ir_ExitCode = ExitCode StatusBusy, ir_Activities = activities, ir_Error = []\<rparr>"

definition unknownResult :: "herr \<Rightarrow> idle_Result" where
  "unknownResult err =
     \<lparr>ir_Status = StatusUnknown, ir_ExitCode = ExitCode StatusUnknown, ir_Activities = [], ir_Error = err_Error err\<rparr>"

section \<open>The check\<close>

definition Check :: "'w idle_Options \<Rightarrow> ('w, idle_Result) hop" where
  "Check opts w0 =
     (case io_ActivityFn opts w0 of
        (Inl err, w1) \<Rightarrow> (unknownResult err, w1)
      | (Inr first, w1) \<Rightarrow>
          if 0 < length first then (busyResult first, w1)
          else if io_ProbeDelay opts \<le> 0 then (idleResult, w1)
          else (case io_wait opts (io_ProbeDelay opts) w1 of
                  (Some err, w2) \<Rightarrow> (unknownResult err, w2)
                | (None, w2) \<Rightarrow>
                    (case io_ActivityFn opts w2 of
                       (Inl err, w3) \<Rightarrow> (unknownResult err, w3)
                     | (Inr second_probe, w3) \<Rightarrow>
                         if 0 < length second_probe then (busyResult second_probe, w3) else (idleResult, w3))))"

text \<open>\<open>FormatActivities\<close>: at most three commands, each cut to 90 bytes.\<close>

definition format_activity :: "Activity \<Rightarrow> string" where
  "format_activity a =
     ''pid='' @ show_int (ac_PID a) @ '' '' @
     (if 90 < length (ac_Command a) then take 89 (ac_Command a) @ ''...'' else ac_Command a)"

definition FormatActivities :: "Activity list \<Rightarrow> string" where
  "FormatActivities as =
     join_on ''; ''
       (map format_activity (take 3 as) @
        (if 3 < length as then [''+'' @ show_nat (length as - 3) @ '' outro(s)''] else []))"

definition Ensure :: "'w idle_Options \<Rightarrow> string \<Rightarrow> ('w, herr option) hop" where
  "Ensure opts action w =
     (let action = (if trim_space action = [] then ''operacao'' else action) in
      case Check opts w of
        (result, w') \<Rightarrow>
          ((case ir_Status result of
              StatusIdle \<Rightarrow> None
            | StatusBusy \<Rightarrow>
                Some (msg (action @ '' abortado: host nao esta ocioso ('' @ FormatActivities (ir_Activities result) @ '')''))
            | StatusUnknown \<Rightarrow>
                Some (msg (action @ '' abortado: nao foi possivel provar host ocioso: '' @ ir_Error result))), w'))"

section \<open>The process table\<close>

definition IsActiveBuildProcess :: "string \<Rightarrow> string \<Rightarrow> bool" where
  "IsActiveBuildProcess comm args =
     (if contains args ''civmctl cleanup'' \<or> contains args ''civmctl disk-watchdog'' \<or> contains args ''civmctl idle-check''
      then False
      else contains comm ''Runner.Worker'' \<or> contains args ''Runner.Worker'' \<or> contains args ''Runner.PluginHost'' \<or>
           contains args ''/_work/'' \<or> contains args ''docker build'' \<or> contains args ''docker compose'' \<or>
           contains args ''docker-compose'' \<or> contains args ''buildx build'' \<or> contains args ''buildctl '')"

definition parse_process :: "int \<Rightarrow> string \<Rightarrow> Activity option" where
  "parse_process currentPID line =
     (let fields = str_fields line in
      if length fields < 4 then None
      else (case parse_int (fields ! 0) of
              None \<Rightarrow> None
            | Some pid \<Rightarrow>
                if pid = currentPID then None
                else (let comm = fields ! 2; args = join_on '' '' (drop 3 fields)
                      in if IsActiveBuildProcess comm args
                         then Some \<lparr>ac_PID = pid, ac_Command = args\<rparr> else None)))"

definition ParseActiveProcesses :: "string \<Rightarrow> int \<Rightarrow> Activity list" where
  "ParseActiveProcesses psOutput currentPID = List.map_filter (parse_process currentPID) (split_on nl psOutput)"

definition DefaultActivities :: "'w runner_fn \<Rightarrow> int \<Rightarrow> ('w, herr + Activity list) hop" where
  "DefaultActivities run pid w =
     (case run ''ps'' [''-eo'', ''pid=,ppid=,comm=,args=''] w of
        ((out, Some err), w') \<Rightarrow> (Inl err, w')
      | ((out, None), w') \<Rightarrow> (Inr (ParseActiveProcesses out pid), w'))"

section \<open>Facts\<close>

lemma result_status [simp]:
  "ir_Status idleResult = StatusIdle" "ir_Status (busyResult as) = StatusBusy" "ir_Status (unknownResult e) = StatusUnknown"
  by (simp_all add: idleResult_def busyResult_def unknownResult_def)

text \<open>
  An idle answer is evidence: the last thing \<open>Check\<close> did was a probe that succeeded and found
  nothing, and with a positive delay an earlier probe found nothing either.
\<close>

lemma Check_idle:
  assumes "Check opts w = (r, w')" "ir_Status r = StatusIdle"
  shows "\<exists>v. io_ActivityFn opts v = (Inr [], w') \<and>
    (io_ProbeDelay opts \<le> 0 \<longrightarrow> v = w) \<and>
    (0 < io_ProbeDelay opts \<longrightarrow> (\<exists>w1. io_ActivityFn opts w = (Inr [], w1) \<and> io_wait opts (io_ProbeDelay opts) w1 = (None, v)))"
  using assms unfolding Check_def by (auto split: prod.splits sum.splits if_splits option.splits)

lemma Ensure_ok: "Ensure opts action w = (None, w') \<Longrightarrow> \<exists>r. Check opts w = (r, w') \<and> ir_Status r = StatusIdle"
  by (auto simp: Ensure_def Let_def split: prod.splits Status.splits)

end
