(* ===== verification/Runner_Units.thy ===== *)
theory Runner_Units
  imports Idle
begin

text \<open>
  Runner services on the box: \<open>internal/runner/list.go\<close> (the systemd units and the repository
  and runner name in a unit's name), \<open>serialize.go\<close> (which per-repository runners collide with
  a runner of the whole organisation) and \<open>restart.go\<close> (restarting one of them).
\<close>

section \<open>Listing\<close>

record unit_Status =
  us_UnitName :: string
  us_Repo :: string
  us_Org :: string
  us_Name :: string
  us_LoadState :: string
  us_ActiveState :: string
  us_SubState :: string
  us_Description :: string
  us_WorkingDirectory :: string

definition parseRunnerUnit :: "string \<Rightarrow> string \<times> string" where
  "parseRunnerUnit unit =
     (if \<not> has_prefix unit ''actions.runner.'' then ([], [])
      else (let rest = trim_suffix (trim_prefix unit ''actions.runner.'') ''.service'' in
            case last_index rest (CHR ''.'') of
              None \<Rightarrow> (rest, [])
            | Some idx \<Rightarrow>
                (let repoSegment = take idx rest; name = drop (Suc idx) rest in
                 case str_index repoSegment ''-'' of
                   None \<Rightarrow> (repoSegment, name)
                 | Some d \<Rightarrow> (take d repoSegment @ ''/'' @ drop (Suc d) repoSegment, name))))"

text \<open>
  \<open>strings.TrimLeft(line, "\<bullet>\<circ> ")\<close> removes leading spaces and the two UTF-8 encoded bullets
  systemctl prints before failed and inactive units.
\<close>

fun trim_bullets :: "string \<Rightarrow> string" where
  "trim_bullets [] = []"
| "trim_bullets (c # s) =
     (if c = CHR '' '' then trim_bullets s
      else if has_prefix (c # s) [CHR 0xE2, CHR 0x97, CHR 0x8F] \<or> has_prefix (c # s) [CHR 0xE2, CHR 0x97, CHR 0x8B]
      then trim_bullets (drop 2 s)
      else c # s)"

definition parse_unit_line :: "string \<Rightarrow> unit_Status option" where
  "parse_unit_line line =
     (let line = trim_bullets (trim_space line); fields = str_fields line in
      if line = [] \<or> length fields < 4 then None
      else Some \<lparr>us_UnitName = fields ! 0, us_Repo = fst (parseRunnerUnit (fields ! 0)), us_Org = [],
                 us_Name = snd (parseRunnerUnit (fields ! 0)), us_LoadState = fields ! 1,
                 us_ActiveState = fields ! 2, us_SubState = fields ! 3,
                 us_Description = (if 5 \<le> length fields then join_on '' '' (drop 4 fields) else []),
                 us_WorkingDirectory = []\<rparr>)"

definition parseSystemctlList :: "string \<Rightarrow> unit_Status list" where
  "parseSystemctlList out = List.map_filter parse_unit_line (split_on nl out)"

text \<open>\<open>List\<close> never reports an error: an unavailable systemctl is an empty list.\<close>

definition List_units :: "'w runner_fn \<Rightarrow> ('w, unit_Status list) hop" where
  "List_units run w =
     (case run ''systemctl'' [''list-units'', ''--type=service'', ''--no-pager'', ''--no-legend'', ''--all'', ''actions.runner.*''] w of
        ((out, Some err), w') \<Rightarrow> ([], w')
      | ((out, None), w') \<Rightarrow> (parseSystemctlList out, w'))"

section \<open>Collisions\<close>

record Collision =
  co_RepoUnit :: string
  co_RepoName :: string
  co_Repo :: string
  co_Owner :: string
  co_OrgUnit :: string
  co_OrgName :: string
  co_RepoActive :: bool

definition isOrgRunner :: "unit_Status \<Rightarrow> bool" where
  "isOrgRunner s \<longleftrightarrow> has_suffix (us_Name s) ''-org'' \<and> us_Repo s \<noteq> [] \<and> \<not> contains (us_Repo s) ''/''"

definition isGateRunner :: "unit_Status \<Rightarrow> bool" where
  "isGateRunner s \<longleftrightarrow> has_suffix (us_Name s) ''-gate''"

definition orgOwner :: "unit_Status \<Rightarrow> string" where
  "orgOwner s = us_Repo s"

definition repoOwner :: "unit_Status \<Rightarrow> string" where
  "repoOwner s =
     (case str_index (us_Repo s) ''/'' of
        None \<Rightarrow> []
      | Some idx \<Rightarrow> if idx = 0 then [] else take idx (us_Repo s))"

definition unit_running :: "unit_Status \<Rightarrow> bool" where
  "unit_running s \<longleftrightarrow> us_ActiveState s = ''active'' \<and> us_SubState s = ''running''"

text \<open>The index of organisation runners: the first runner of each organisation.\<close>

fun org_index :: "(string \<times> unit_Status) list \<Rightarrow> unit_Status list \<Rightarrow> (string \<times> unit_Status) list" where
  "org_index m [] = m"
| "org_index m (u # us) =
     (if isGateRunner u \<or> \<not> isOrgRunner u \<or> orgOwner u = [] then org_index m us
      else if map_of m (orgOwner u) = None then org_index (m @ [(orgOwner u, u)]) us
      else org_index m us)"

definition collision_of :: "(string \<times> unit_Status) list \<Rightarrow> unit_Status \<Rightarrow> Collision option" where
  "collision_of orgByOwner u =
     (if isGateRunner u \<or> isOrgRunner u \<or> repoOwner u = [] then None
      else (case map_of orgByOwner (repoOwner u) of
              None \<Rightarrow> None
            | Some org \<Rightarrow> Some \<lparr>co_RepoUnit = us_UnitName u, co_RepoName = us_Name u, co_Repo = us_Repo u,
                               co_Owner = repoOwner u, co_OrgUnit = us_UnitName org, co_OrgName = us_Name org,
                               co_RepoActive = unit_running u\<rparr>))"

definition DetectCollisions :: "unit_Status list \<Rightarrow> Collision list" where
  "DetectCollisions units =
     (let orgByOwner = org_index [] units in
      if orgByOwner = [] then []
      else sort_key co_RepoUnit (List.map_filter (collision_of orgByOwner) units))"

text \<open>
  The serialisation invariant of the box, stated without the index: no per-repository runner of
  an organisation that has a runner of its own.
\<close>

definition serves_org :: "unit_Status list \<Rightarrow> string \<Rightarrow> bool" where
  "serves_org units owner \<longleftrightarrow> (\<exists>org \<in> set units. isOrgRunner org \<and> \<not> isGateRunner org \<and> us_Repo org = owner)"

definition redundant :: "unit_Status list \<Rightarrow> unit_Status \<Rightarrow> bool" where
  "redundant units u \<longleftrightarrow> u \<in> set units \<and> \<not> isGateRunner u \<and> \<not> isOrgRunner u \<and> repoOwner u \<noteq> [] \<and> serves_org units (repoOwner u)"

lemma isOrgRunner_repo: "isOrgRunner u \<Longrightarrow> us_Repo u \<noteq> []"
  by (simp add: isOrgRunner_def)

lemma org_index_dom:
  "map_of (org_index m us) owner \<noteq> None \<longleftrightarrow> map_of m owner \<noteq> None \<or> serves_org us owner"
proof (induction m us rule: org_index.induct)
  case (2 m u us)
  then show ?case
    by (auto simp: serves_org_def orgOwner_def map_add_def split: option.splits dest: isOrgRunner_repo)
qed (simp add: serves_org_def)

lemma org_index_range:
  "map_of (org_index m us) owner = Some org \<Longrightarrow> map_of m owner = Some org \<or>
   (org \<in> set us \<and> isOrgRunner org \<and> \<not> isGateRunner org \<and> us_Repo org = owner)"
  by (induction m us rule: org_index.induct)
     (auto simp: orgOwner_def map_add_def split: if_splits option.splits)

lemma set_map_filter: "set (List.map_filter f xs) = {y. \<exists>x \<in> set xs. f x = Some y}"
  by (induction xs) (auto simp: List.map_filter_def)

lemma collision_of_SomeD:
  "collision_of ix u = Some c \<Longrightarrow> \<exists>org. map_of ix (repoOwner u) = Some org \<and> co_RepoUnit c = us_UnitName u \<and>
     co_Owner c = repoOwner u \<and> co_OrgUnit c = us_UnitName org"
  by (auto simp: collision_of_def split: if_splits option.splits)

text \<open>\<open>DetectCollisions\<close> finds exactly the redundant runners.\<close>

lemma DetectCollisions_set:
  "co_RepoUnit ` set (DetectCollisions units) = us_UnitName ` {u. redundant units u}"
proof -
  let ?ix = "org_index [] units"
  have dom: "map_of ?ix w \<noteq> None \<longleftrightarrow> serves_org units w" for w
    using org_index_dom [of "[]" units w] by simp
  have mem: "collision_of ?ix u \<noteq> None \<longleftrightarrow> redundant units u" if "u \<in> set units" for u
    using that dom [of "repoOwner u"] by (auto simp: collision_of_def redundant_def split: option.split)
  have unit: "co_RepoUnit c = us_UnitName u" if "collision_of ?ix u = Some c" for u c
    using collision_of_SomeD [OF that] by blast
  have none: "\<not> redundant units u" if "?ix = []" for u
    using dom [of "repoOwner u"] that by (auto simp: redundant_def)
  show ?thesis
  proof (cases "?ix = []")
    case True
    then show ?thesis using none by (simp add: DetectCollisions_def)
  next
    case False
    have "set (DetectCollisions units) = {c. \<exists>u \<in> set units. collision_of ?ix u = Some c}"
      using False by (simp add: DetectCollisions_def Let_def set_map_filter)
    also have "co_RepoUnit ` \<dots> = us_UnitName ` {u \<in> set units. collision_of ?ix u \<noteq> None}"
      using unit by (auto simp: image_iff) metis+
    also have "{u \<in> set units. collision_of ?ix u \<noteq> None} = {u. redundant units u}"
      using mem by (auto simp: redundant_def)
    finally show ?thesis by simp
  qed
qed

lemma DetectCollisions_sorted: "sorted (map co_RepoUnit (DetectCollisions units))"
  by (simp add: DetectCollisions_def Let_def)

lemma DetectCollisions_org:
  assumes "c \<in> set (DetectCollisions units)"
  shows "\<exists>org \<in> set units. isOrgRunner org \<and> co_OrgUnit c = us_UnitName org \<and> us_Repo org = co_Owner c"
proof -
  obtain u where "collision_of (org_index [] units) u = Some c"
    using assms by (auto simp: DetectCollisions_def Let_def set_map_filter split: if_splits)
  then obtain org where "map_of (org_index [] units) (repoOwner u) = Some org" "co_Owner c = repoOwner u" "co_OrgUnit c = us_UnitName org"
    using collision_of_SomeD by blast
  then show ?thesis using org_index_range by fastforce
qed

section \<open>Restarting one runner\<close>

datatype restart_event =
    RestartRan string "string list" "herr option"
  | RestartIdle "herr option"

type_synonym 'w restart_state = "('w, unit, unit, restart_event) hst"

record 'w RestartOptions =
  ro_Short :: string
  ro_Unit :: string
  ro_VerifyDelay :: int
  ro_IdleProbeDelay :: int
  ro_Execute :: bool
  ro_RunFn :: "'w runner_fn"
  ro_ActivityFn :: "('w, herr + Activity list) hop"
  ro_wait :: "int \<Rightarrow> ('w, herr option) hop"
  ro_SleepFn :: "int \<Rightarrow> ('w, unit) hop"

record RestartResult =
  rr_UnitResolved :: string
  rr_RestartedOK :: bool
  rr_ActiveAfter :: bool
  rr_WouldDo :: string
  rr_Err :: "herr option"

definition validateRestartOptions :: "'w RestartOptions \<Rightarrow> herr option" where
  "validateRestartOptions opts =
     (if ro_Short opts = [] \<and> ro_Unit opts = [] then Some (msg ''--short ou --unit obrigatorio'')
      else if ro_Short opts \<noteq> [] \<and> ValidateShort (ro_Short opts) \<noteq> None then ValidateShort (ro_Short opts)
      else if ro_Unit opts \<noteq> [] then ValidateServiceUnit (ro_Unit opts) else None)"

definition short_matches :: "string \<Rightarrow> unit_Status \<Rightarrow> bool" where
  "short_matches short s \<longleftrightarrow> us_Name s = short \<or> contains (us_UnitName s) (''.'' @ short @ ''.'')"

definition resolveUnitByShort :: "'w RestartOptions \<Rightarrow> ('w, herr + string) hop" where
  "resolveUnitByShort opts w =
     (case List_units (ro_RunFn opts) w of
        (items, w') \<Rightarrow>
          ((case map us_UnitName (filter (short_matches (ro_Short opts)) items) of
              [] \<Rightarrow> Inl (msg (''nenhum runner com short='' @ go_quote (ro_Short opts) @ '' (rodar civmctl runner list pra ver disponiveis)''))
            | [unit] \<Rightarrow> Inr unit
            | units \<Rightarrow> Inl (msg (''short='' @ go_quote (ro_Short opts) @ '' ambiguo, '' @ show_nat (length units) @ '' matches: '' @
                                   join_on '', '' units @ '' (use --unit pra especificar)''))), w'))"

text \<open>\<open>ensureMutationIdle\<close> of \<open>internal/runner/idle.go\<close>.\<close>

definition ensureMutationIdle ::
  "('w, herr + Activity list) hop \<Rightarrow> (int \<Rightarrow> ('w, herr option) hop) \<Rightarrow> int \<Rightarrow> ('w, herr option) hop" where
  "ensureMutationIdle activityFn wait probeDelay =
     Ensure \<lparr>io_ProbeDelay = probeDelay, io_ActivityFn = activityFn, io_wait = wait\<rparr> ''runner mutation''"

definition verify_delay :: "'w RestartOptions \<Rightarrow> int" where
  "verify_delay opts = (if ro_VerifyDelay opts = 0 then 3 * second else ro_VerifyDelay opts)"

text \<open>From the resolved unit on: the idle check, the restart and the verification.\<close>

definition restart_resolved :: "'w RestartOptions \<Rightarrow> string \<Rightarrow> RestartResult \<Rightarrow> ('w restart_state, RestartResult) state" where
  "restart_resolved opts unit r = do {
     e \<leftarrow> act RestartIdle (ensureMutationIdle (ro_ActivityFn opts) (ro_wait opts) (ro_IdleProbeDelay opts));
     (case e of
        Some err \<Rightarrow> ret (r\<lparr>rr_Err := Some err\<rparr>)
      | None \<Rightarrow> do {
          (_, e) \<leftarrow> act (\<lambda>a. RestartRan ''sudo'' [''systemctl'', ''restart'', unit] (snd a))
                      (ro_RunFn opts ''sudo'' [''systemctl'', ''restart'', unit]);
          (case e of
             Some err \<Rightarrow> ret (r\<lparr>rr_Err := Some (Wrap ''systemctl restart: '' [err])\<rparr>)
           | None \<Rightarrow> do {
               look (ro_SleepFn opts (verify_delay opts));
               (out, _) \<leftarrow> act (\<lambda>a. RestartRan ''systemctl'' [''is-active'', unit] (snd a))
                             (ro_RunFn opts ''systemctl'' [''is-active'', unit]);
               let active = (trim_space out = ''active'');
               ret (r\<lparr>rr_RestartedOK := True, rr_ActiveAfter := active,
                      rr_Err := (if active then None
                                 else Some (msg (''runner nao voltou active apos '' @ duration_string (verify_delay opts) @
                                                 '' (got '' @ go_quote (trim_space out) @ '')'')))\<rparr>)
             })
        })
   }"

definition Restart :: "'w RestartOptions \<Rightarrow> ('w restart_state, RestartResult \<times> herr option) state" where
  "Restart opts =
     (let zero = \<lparr>rr_UnitResolved = [], rr_RestartedOK = False, rr_ActiveAfter = False, rr_WouldDo = [], rr_Err = None\<rparr> in
      case validateRestartOptions opts of
        Some err \<Rightarrow> ret (zero, Some err)
      | None \<Rightarrow> do {
          u \<leftarrow> (if ro_Unit opts \<noteq> [] then ret (Inr (ro_Unit opts)) else look (resolveUnitByShort opts));
          (case u of
             Inl err \<Rightarrow> ret (zero\<lparr>rr_Err := Some err\<rparr>, None)
           | Inr unit \<Rightarrow>
               (let r = zero\<lparr>rr_UnitResolved := unit,
                             rr_WouldDo := ''sudo systemctl restart '' @ unit @ '' && sleep '' @ duration_string (verify_delay opts) @
                                           '' && systemctl is-active '' @ unit\<rparr>
                in if \<not> ro_Execute opts then ret (r, None)
                   else do { r' \<leftarrow> restart_resolved opts unit r; ret (r', None) }))
        })"

text \<open>
  The runner that \<open>Add\<close> registers for a short name is called \<open>civm-\<close> and the short name, so its
  unit ends in \<open>.civm-<short>.service\<close>.
\<close>

definition added_unit :: "string \<Rightarrow> string \<Rightarrow> string" where
  "added_unit repoSegment short = ''actions.runner.'' @ repoSegment @ ''.civm-'' @ short @ ''.service''"

end
