(* ===== verification/Go_Json.thy ===== *)
theory Go_Json
  imports Go_Lib
begin

text \<open>
  The part of \<open>encoding/json\<close> the sources rely on: the text of a JSON document, its value, and
  the decoding of a value into the fields of a struct. Keys match the field names without
  regard to case, \<open>null\<close> leaves a field as it is, unknown keys are ignored, a value of another
  type is an error, and the last of several equal keys wins. Bytes above 127 in string literals
  are kept as they are. The parser is a recursive descent with the length of the text as fuel,
  which is proved to be enough (\<open>json_next_fuel\<close>).

  The duplicate-key check of \<open>jitdispatcher/config.go\<close> is modelled here too, because it is a
  walk over the same tokens.
\<close>

section \<open>Values\<close>

datatype json =
    JNull
  | JBool bool
  | JNum string
  | JStr string
  | JArr "json list"
  | JObj "(string \<times> json) list"

section \<open>Text\<close>

definition is_ws :: "char \<Rightarrow> bool" where
  "is_ws c \<longleftrightarrow> of_char c \<in> {9, 10, 13, 32 :: nat}"

definition skip_ws :: "string \<Rightarrow> string" where
  "skip_ws s = dropWhile is_ws s"

text \<open>UTF-8 of a code point, for \<open>\\u\<close> escapes.\<close>

definition utf8 :: "nat \<Rightarrow> string" where
  "utf8 n =
     (if n < 128 then [char_of n]
      else if n < 2048 then [char_of (192 + n div 64), char_of (128 + n mod 64)]
      else if n < 65536 then [char_of (224 + n div 4096), char_of (128 + n div 64 mod 64), char_of (128 + n mod 64)]
      else [char_of (240 + n div 262144), char_of (128 + n div 4096 mod 64),
            char_of (128 + n div 64 mod 64), char_of (128 + n mod 64)])"

definition hex_val :: "char \<Rightarrow> nat option" where
  "hex_val c =
     (if is_digit c then Some (of_char c - 48)
      else if char_between (CHR ''a'') (CHR ''f'') c then Some (of_char c - 87)
      else if char_between (CHR ''A'') (CHR ''F'') c then Some (of_char c - 55)
      else None)"

fun hex4 :: "string \<Rightarrow> (nat \<times> string) option" where
  "hex4 (a # b # c # d # r) =
     (case (hex_val a, hex_val b, hex_val c, hex_val d) of
        (Some w, Some x, Some y, Some z) \<Rightarrow> Some (((w * 16 + x) * 16 + y) * 16 + z, r)
      | _ \<Rightarrow> None)"
| "hex4 _ = None"

text \<open>
  The code point of a \<open>\\u\<close> escape whose first unit is \<open>n\<close>: a high surrogate joins the low one
  that follows, and a lone surrogate is the replacement character.
\<close>

definition join_surrogate :: "nat \<Rightarrow> string \<Rightarrow> nat \<times> string" where
  "join_surrogate n s =
     (if n < 55296 \<or> 57344 \<le> n then (n, s)
      else (case (if has_prefix s [CHR 0x5C, CHR ''u''] then hex4 (drop 2 s) else None) of
              Some (m, r) \<Rightarrow>
                if n < 56320 \<and> 56320 \<le> m \<and> m < 57344
                then (65536 + (n - 55296) * 1024 + (m - 56320), r) else (65533, s)
            | None \<Rightarrow> (65533, s)))"

definition escape_char :: "char \<Rightarrow> char option" where
  "escape_char e =
     map_of [(CHR 0x22, CHR 0x22), (CHR 0x5C, CHR 0x5C), (CHR ''/'', CHR ''/''), (CHR ''b'', CHR 0x08),
             (CHR ''f'', CHR 0x0C), (CHR ''n'', CHR 0x0A), (CHR ''r'', CHR 0x0D), (CHR ''t'', CHR 0x09)] e"

text \<open>The rest of a string literal after its opening quote.\<close>

function jstring :: "string \<Rightarrow> string \<Rightarrow> (string \<times> string) option" where
  "jstring acc s =
     (case s of
        [] \<Rightarrow> None
      | c # r \<Rightarrow>
          if c = CHR 0x22 then Some (rev acc, r)
          else if (of_char c :: nat) < 32 then None
          else if c \<noteq> CHR 0x5C then jstring (c # acc) r
          else (case r of
                  [] \<Rightarrow> None
                | e # r1 \<Rightarrow>
                    (case escape_char e of
                       Some x \<Rightarrow> jstring (x # acc) r1
                     | None \<Rightarrow>
                         if e = CHR ''u'' then
                           (case hex4 r1 of
                              None \<Rightarrow> None
                            | Some (n, r2) \<Rightarrow> jstring (rev (utf8 (fst (join_surrogate n r2))) @ acc) (snd (join_surrogate n r2)))
                         else None)))"
  by pat_completeness auto

lemma hex4_length: "hex4 s = Some (n, r) \<Longrightarrow> length s = length r + 4"
  by (induction s rule: hex4.induct) (auto split: option.splits)

lemma join_surrogate_length: "length (snd (join_surrogate n s)) \<le> length s"
proof -
  have "length r \<le> length s" if "hex4 (drop 2 s) = Some (m, r)" for m r
    using hex4_length [OF that] by simp
  then show ?thesis by (auto simp: join_surrogate_def split: option.split)
qed

termination jstring
proof (relation "measure (\<lambda>(acc, s). length s)")
  fix acc s c r e r1 p n r2
  assume "s = c # r" "r = e # r1" "hex4 r1 = Some p" "(n, r2) = p"
  then have "length r1 = length r2 + 4" using hex4_length by metis
  then have "length (snd (join_surrogate n r2)) < length s"
    using join_surrogate_length [of n r2] \<open>s = c # r\<close> \<open>r = e # r1\<close> by simp
  then show "((rev (utf8 (fst (join_surrogate n r2))) @ acc, snd (join_surrogate n r2)), acc, s)
      \<in> measure (\<lambda>(acc, s). length s)" by simp
qed auto

declare jstring.simps [simp del]

text \<open>A number literal: sign, integer part without leading zero, fraction, exponent.\<close>

definition jdigits :: "string \<Rightarrow> (string \<times> string) option" where
  "jdigits s =
     (let ds = takeWhile is_digit s in if ds = [] then None else Some (ds, drop (length ds) s))"

definition jint_part :: "string \<Rightarrow> (string \<times> string) option" where
  "jint_part s =
     (if has_prefix s ''0'' then Some (''0'', drop 1 s) else jdigits s)"

definition jfrac :: "string \<Rightarrow> (string \<times> string) option" where
  "jfrac s =
     (if has_prefix s ''.'' then map_option (\<lambda>(ds, r). (''.'' @ ds, r)) (jdigits (drop 1 s)) else Some ([], s))"

definition jexp :: "string \<Rightarrow> (string \<times> string) option" where
  "jexp s =
     (if has_prefix s ''e'' \<or> has_prefix s ''E'' then
        (let r = drop 1 s; sign = (if has_prefix r ''+'' \<or> has_prefix r ''-'' then take 1 r else []) in
         map_option (\<lambda>(ds, r'). (take 1 s @ sign @ ds, r')) (jdigits (drop (length sign) r)))
      else Some ([], s))"

definition jnumber :: "string \<Rightarrow> (string \<times> string) option" where
  "jnumber s =
     (let sign = (if has_prefix s ''-'' then ''-'' else []) in do {
        (i, s1) \<leftarrow> jint_part (drop (length sign) s);
        (f, s2) \<leftarrow> jfrac s1;
        (e, s3) \<leftarrow> jexp s2;
        Some (sign @ i @ f @ e, s3)
      })"

fun jvalue :: "nat \<Rightarrow> string \<Rightarrow> (json \<times> string) option"
  and jelems :: "nat \<Rightarrow> json list \<Rightarrow> string \<Rightarrow> (json \<times> string) option"
  and jmembers :: "nat \<Rightarrow> (string \<times> json) list \<Rightarrow> string \<Rightarrow> (json \<times> string) option" where
  "jvalue 0 s = None"
| "jvalue (Suc n) s =
     (case skip_ws s of
        [] \<Rightarrow> None
      | c # r \<Rightarrow>
          if c = CHR ''{'' then
            (if has_prefix (skip_ws r) ''}'' then Some (JObj [], drop 1 (skip_ws r)) else jmembers n [] r)
          else if c = CHR ''['' then
            (if has_prefix (skip_ws r) '']'' then Some (JArr [], drop 1 (skip_ws r)) else jelems n [] r)
          else if c = CHR 0x22 then map_option (\<lambda>(t, r'). (JStr t, r')) (jstring [] r)
          else if has_prefix (c # r) ''true'' then Some (JBool True, drop 4 (c # r))
          else if has_prefix (c # r) ''false'' then Some (JBool False, drop 5 (c # r))
          else if has_prefix (c # r) ''null'' then Some (JNull, drop 4 (c # r))
          else map_option (\<lambda>(t, r'). (JNum t, r')) (jnumber (c # r)))"
| "jelems 0 acc s = None"
| "jelems (Suc n) acc s =
     (case jvalue n s of
        None \<Rightarrow> None
      | Some (v, r) \<Rightarrow>
          (case skip_ws r of
             [] \<Rightarrow> None
           | c # r' \<Rightarrow>
               if c = CHR '','' then jelems n (v # acc) r'
               else if c = CHR '']'' then Some (JArr (rev (v # acc)), r')
               else None))"
| "jmembers 0 acc s = None"
| "jmembers (Suc n) acc s =
     (case skip_ws s of
        [] \<Rightarrow> None
      | q # r \<Rightarrow>
          if q \<noteq> CHR 0x22 then None
          else (case jstring [] r of
                  None \<Rightarrow> None
                | Some (k, r1) \<Rightarrow>
                    (case skip_ws r1 of
                       [] \<Rightarrow> None
                     | d # r2 \<Rightarrow>
                         if d \<noteq> CHR '':'' then None
                         else (case jvalue n r2 of
                                 None \<Rightarrow> None
                               | Some (v, r3) \<Rightarrow>
                                   (case skip_ws r3 of
                                      [] \<Rightarrow> None
                                    | c # r' \<Rightarrow>
                                        if c = CHR '','' then jmembers n ((k, v) # acc) r'
                                        else if c = CHR ''}'' then Some (JObj (rev ((k, v) # acc)), r')
                                        else None)))))"

text \<open>\<open>json.Unmarshal\<close>: exactly one value. A \<open>Decoder\<close> reads a sequence of them.\<close>

definition json_fuel :: "string \<Rightarrow> nat" where
  "json_fuel s = 2 * length s + 2"

definition json_next :: "string \<Rightarrow> (json \<times> string) option" where
  "json_next s = jvalue (json_fuel s) s"

definition json_parse :: "string \<Rightarrow> json option" where
  "json_parse s =
     (case json_next s of Some (v, r) \<Rightarrow> if skip_ws r = [] then Some v else None | None \<Rightarrow> None)"

section \<open>Decoding into Go values\<close>

text \<open>
  \<open>'a dec\<close> decodes a value over an old one: \<open>null\<close> keeps it, \<open>None\<close> is a type error.
\<close>

type_synonym 'a dec = "'a \<Rightarrow> json \<Rightarrow> 'a option"

definition dec_string :: "string dec" where
  "dec_string old v = (case v of JStr s \<Rightarrow> Some s | JNull \<Rightarrow> Some old | _ \<Rightarrow> None)"

definition dec_bool :: "bool dec" where
  "dec_bool old v = (case v of JBool b \<Rightarrow> Some b | JNull \<Rightarrow> Some old | _ \<Rightarrow> None)"

definition dec_int64 :: "int dec" where
  "dec_int64 old v = (case v of JNum t \<Rightarrow> parse_int t | JNull \<Rightarrow> Some old | _ \<Rightarrow> None)"

definition dec_uint64 :: "nat dec" where
  "dec_uint64 old v = (case v of JNum t \<Rightarrow> parse_uint t | JNull \<Rightarrow> Some old | _ \<Rightarrow> None)"

definition dec_time :: "time dec" where
  "dec_time old v = (case v of JStr s \<Rightarrow> parse_rfc3339 s | JNull \<Rightarrow> Some old | _ \<Rightarrow> None)"

fun dec_all :: "'a \<Rightarrow> 'a dec \<Rightarrow> json list \<Rightarrow> 'a list option" where
  "dec_all zero d [] = Some []"
| "dec_all zero d (v # vs) = do { x \<leftarrow> d zero v; xs \<leftarrow> dec_all zero d vs; Some (x # xs) }"

definition dec_list :: "'a \<Rightarrow> 'a dec \<Rightarrow> 'a list dec" where
  "dec_list zero d old v = (case v of JArr vs \<Rightarrow> dec_all zero d vs | JNull \<Rightarrow> Some [] | _ \<Rightarrow> None)"

text \<open>
  A struct: each member of the object in turn is given to the field it names. \<open>fs\<close> lists the
  field names with their setters.
\<close>

fun dec_members :: "(string \<times> 'r dec) list \<Rightarrow> 'r \<Rightarrow> (string \<times> json) list \<Rightarrow> 'r option" where
  "dec_members fs r [] = Some r"
| "dec_members fs r ((k, v) # ms) =
     (case find (\<lambda>f. equal_fold (fst f) k) fs of
        None \<Rightarrow> dec_members fs r ms
      | Some (_, d) \<Rightarrow> (case d r v of None \<Rightarrow> None | Some r' \<Rightarrow> dec_members fs r' ms))"

definition dec_struct :: "(string \<times> 'r dec) list \<Rightarrow> 'r dec" where
  "dec_struct fs old v = (case v of JObj ms \<Rightarrow> dec_members fs old ms | JNull \<Rightarrow> Some old | _ \<Rightarrow> None)"

text \<open>A field decoder from a getter, a setter and a decoder of the field's type.\<close>

definition fld :: "('r \<Rightarrow> 'a) \<Rightarrow> ('a \<Rightarrow> 'r \<Rightarrow> 'r) \<Rightarrow> 'a dec \<Rightarrow> 'r dec" where
  "fld get put d r v = map_option (\<lambda>a. put a r) (d (get r) v)"

definition json_unmarshal :: "'a \<Rightarrow> 'a dec \<Rightarrow> string \<Rightarrow> 'a option" where
  "json_unmarshal zero d s = (case json_parse s of None \<Rightarrow> None | Some v \<Rightarrow> d zero v)"

section \<open>Duplicate keys (\<open>jitdispatcher/config.go\<close>)\<close>

text \<open>
  \<open>walkJSON\<close> refuses an object in which a key repeats, at every depth; \<open>decodeUniqueJSON\<close>
  checks it, then decodes one value and nothing after it. \<open>decodeStrictJSON\<close> also refuses
  keys that no field has.
\<close>

fun walkJSON :: "json \<Rightarrow> bool" where
  "walkJSON (JArr vs) \<longleftrightarrow> (\<forall>v \<in> set vs. walkJSON v)"
| "walkJSON (JObj ms) \<longleftrightarrow> distinct (map fst ms) \<and> (\<forall>m \<in> set ms. walkJSON (snd m))"
| "walkJSON _ \<longleftrightarrow> True"

definition decodeUniqueJSON :: "'a \<Rightarrow> 'a dec \<Rightarrow> string \<Rightarrow> 'a option" where
  "decodeUniqueJSON zero d s =
     (case json_parse s of None \<Rightarrow> None | Some v \<Rightarrow> if walkJSON v then d zero v else None)"

definition known_keys :: "(string \<times> 'r dec) list \<Rightarrow> json \<Rightarrow> bool" where
  "known_keys fs v =
     (case v of JObj ms \<Rightarrow> list_all (\<lambda>m. list_ex (\<lambda>f. equal_fold (fst f) (fst m)) fs) ms | _ \<Rightarrow> True)"

definition decodeStrictJSON :: "'r \<Rightarrow> (string \<times> 'r dec) list \<Rightarrow> string \<Rightarrow> 'r option" where
  "decodeStrictJSON zero fs s =
     (case json_parse s of
        None \<Rightarrow> None
      | Some v \<Rightarrow> if walkJSON v \<and> known_keys fs v then dec_struct fs zero v else None)"

section \<open>The fuel is enough\<close>

lemma skip_ws_length: "length (skip_ws s) \<le> length s"
  by (simp add: skip_ws_def length_dropWhile_le)

lemma skip_ws_Cons_length: "skip_ws s = c # r \<Longrightarrow> length r < length s"
  using skip_ws_length [of s] by simp

lemma jstring_Nil [simp]: "jstring acc [] = None"
  by (subst jstring.simps) simp

lemma jstring_Cons:
  "jstring acc (c # u) =
     (if c = CHR 0x22 then Some (rev acc, u)
      else if (of_char c :: nat) < 32 then None
      else if c \<noteq> CHR 0x5C then jstring (c # acc) u
      else (case u of
              [] \<Rightarrow> None
            | e # r1 \<Rightarrow>
                (case escape_char e of
                   Some x \<Rightarrow> jstring (x # acc) r1
                 | None \<Rightarrow>
                     if e = CHR ''u'' then
                       (case hex4 r1 of
                          None \<Rightarrow> None
                        | Some (n, r2) \<Rightarrow> jstring (rev (utf8 (fst (join_surrogate n r2))) @ acc) (snd (join_surrogate n r2)))
                     else None)))"
  by (subst jstring.simps) simp

lemma jstring_length: "jstring acc s = Some (t, r) \<Longrightarrow> length r < length s"
proof (induction "length s" arbitrary: acc s rule: less_induct)
  case less
  show ?case
  proof (cases s)
    case (Cons c u)
    have sub: "length r < length s" if "jstring acc' s' = Some (t, r)" "length s' < length s" for acc' s'
      using less.hyps [OF that(2,1)] that(2) by simp
    have "length (snd (join_surrogate n r2)) < length s" if "u = e # r1" "hex4 r1 = Some (n, r2)" for e r1 n r2
      using join_surrogate_length [of n r2] hex4_length [OF that(2)] that Cons by simp
    then show ?thesis
      using less.prems Cons sub
      by (simp add: jstring_Cons split: if_splits list.splits option.splits prod.splits)
  qed (use less in simp)
qed

lemma jdigits_length: "jdigits s = Some (t, r) \<Longrightarrow> length r < length s"
  by (auto simp: jdigits_def Let_def split: if_splits) (cases s; auto)

lemma jint_part_length: "jint_part s = Some (t, r) \<Longrightarrow> length r < length s"
  by (auto simp: jint_part_def has_prefix_def jdigits_length split: if_splits) (cases s; simp)

lemma jfrac_length: "jfrac s = Some (t, r) \<Longrightarrow> length r \<le> length s"
  using jdigits_length [of "drop 1 s"] by (fastforce simp: jfrac_def split: if_splits)

lemma jexp_length: "jexp s = Some (t, r) \<Longrightarrow> length r \<le> length s"
  using jdigits_length by (fastforce simp: jexp_def Let_def split: if_splits)

lemma jnumber_length: "jnumber s = Some (t, r) \<Longrightarrow> length r < length s"
  unfolding jnumber_def Let_def
  by (auto simp: bind_eq_Some_conv split: prod.splits if_splits
      dest!: jint_part_length jfrac_length jexp_length)


lemma jparse_length:
  "jvalue n s = Some (v, r) \<Longrightarrow> length r < length s"
  "jelems n acc s = Some (v, r) \<Longrightarrow> length r < length s"
  "jmembers n acc' s = Some (v, r) \<Longrightarrow> length r < length s"
proof (induction n s and n acc s and n acc' s arbitrary: v r and v r and v r rule: jvalue_jelems_jmembers.induct)
  case (2 n s)
  show ?case
  proof (cases "skip_ws s")
    case (Cons c u)
    have u: "length u < length s" using skip_ws_Cons_length [OF Cons] .
    have w: "length (skip_ws u) \<le> length u" by (rule skip_ws_length)
    show ?thesis
      using "2.prems" "2.IH"(1,2) [OF Cons] Cons u w jstring_length jnumber_length
      by (fastforce split: if_splits)
  qed (use "2.prems" in simp)
next
  case (4 n acc s)
  then show ?case
    by (fastforce split: option.splits list.splits if_splits dest: skip_ws_Cons_length)
next
  case (6 n acc' s)
  then show ?case
    by (fastforce split: option.splits list.splits if_splits dest: skip_ws_Cons_length jstring_length)
qed simp_all

lemma jparse_fuel:
  "(\<forall>s m. 2 * length s + 2 \<le> n \<longrightarrow> n \<le> m \<longrightarrow> jvalue m s = jvalue n s) \<and>
   (\<forall>acc s m. 2 * length s + 3 \<le> n \<longrightarrow> n \<le> m \<longrightarrow> jelems m acc s = jelems n acc s) \<and>
   (\<forall>acc s m. 2 * length s + 3 \<le> n \<longrightarrow> n \<le> m \<longrightarrow> jmembers m acc s = jmembers n acc s)"
proof (induction n)
  case (Suc n)
  have V: "jvalue m s = jvalue n s" if "2 * length s + 2 \<le> n" "n \<le> m" for s m
    using Suc.IH that by blast
  have E: "jelems m acc s = jelems n acc s" if "2 * length s + 3 \<le> n" "n \<le> m" for acc s m
    using Suc.IH that by blast
  have M: "jmembers m acc s = jmembers n acc s" if "2 * length s + 3 \<le> n" "n \<le> m" for acc s m
    using Suc.IH that by blast
  have val: "jvalue (Suc m) s = jvalue (Suc n) s" if "2 * length s + 2 \<le> Suc n" "n \<le> m" for s m
  proof (cases "skip_ws s")
    case (Cons c u)
    then have "length u < length s" by (rule skip_ws_Cons_length)
    then have "jelems m [] u = jelems n [] u" "jmembers m [] u = jmembers n [] u"
      using that by (auto intro!: E M)
    then show ?thesis using Cons by simp
  qed simp
  have elems: "jelems (Suc m) acc s = jelems (Suc n) acc s" if "2 * length s + 3 \<le> Suc n" "n \<le> m" for acc s m
  proof -
    have v: "jvalue m s = jvalue n s" using that by (auto intro!: V)
    have "jelems m acc' r' = jelems n acc' r'"
      if "jvalue n s = Some (v, r)" "skip_ws r = c # r'" for v r c r' acc'
    proof (rule E)
      have "length r' < length s" using jparse_length(1) [OF that(1)] skip_ws_Cons_length [OF that(2)] by simp
      then show "2 * length r' + 3 \<le> n" using \<open>2 * length s + 3 \<le> Suc n\<close> by simp
    qed fact
    then show ?thesis by (simp add: v split: option.split list.split)
  qed
  have members: "jmembers (Suc m) acc s = jmembers (Suc n) acc s" if "2 * length s + 3 \<le> Suc n" "n \<le> m" for acc s m
  proof -
    have r2: "length r2 < length s"
      if "skip_ws s = q # r" "jstring [] r = Some (k, r1)" "skip_ws r1 = d # r2" for q r k r1 d r2
      using skip_ws_Cons_length [OF that(1)] jstring_length [OF that(2)] skip_ws_Cons_length [OF that(3)] by simp
    have r': "length r' < length r2" if "jvalue n r2 = Some (v, r3)" "skip_ws r3 = c # r'" for r2 v r3 c r'
      using jparse_length(1) [OF that(1)] skip_ws_Cons_length [OF that(2)] by simp
    have v: "jvalue m r2 = jvalue n r2" if "length r2 < length s" for r2
      by (rule V) (use that \<open>2 * length s + 3 \<le> Suc n\<close> \<open>n \<le> m\<close> in simp_all)
    have w: "jmembers m acc' r' = jmembers n acc' r'" if "length r' < length r2" "length r2 < length s" for acc' r' r2
      by (rule M) (use that \<open>2 * length s + 3 \<le> Suc n\<close> \<open>n \<le> m\<close> in simp_all)
    have body: "(case jvalue m r2 of None \<Rightarrow> None | Some (v, r3) \<Rightarrow> F m v (skip_ws r3)) =
        (case jvalue n r2 of None \<Rightarrow> None | Some (v, r3) \<Rightarrow> F n v (skip_ws r3))"
      if "length r2 < length s" "\<And>v r3 c r'. jvalue n r2 = Some (v, r3) \<Longrightarrow> skip_ws r3 = c # r' \<Longrightarrow> F m v (c # r') = F n v (c # r')"
        "\<And>v. F m v [] = F n v []" for r2 and F :: "nat \<Rightarrow> json \<Rightarrow> string \<Rightarrow> (json \<times> string) option"
    proof (cases "jvalue n r2")
      case (Some p)
      then show ?thesis using that by (cases p; cases "skip_ws (snd p)") (auto simp: v)
    qed (simp add: v that)
    show ?thesis
    proof (cases "skip_ws s")
      case (Cons q r)
      show ?thesis
      proof (cases "jstring [] r")
        case (Some p)
        then obtain k r1 where p: "jstring [] r = Some (k, r1)" by (cases p) auto
        show ?thesis
        proof (cases "skip_ws r1")
          case Cons': (Cons d r2)
          note l = r2 [OF Cons p Cons']
          show ?thesis
            using Cons p Cons' l
            by (simp) (intro impI body; auto dest: r' intro!: w)
        qed (simp add: Cons p)
      qed (simp add: Cons)
    qed simp
  qed
  show ?case
  proof (intro conjI allI impI)
    fix m assume "Suc n \<le> m"
    then obtain k where k: "m = Suc k" "n \<le> k" by (cases m) auto
    show "jvalue m s = jvalue (Suc n) s" if "2 * length s + 2 \<le> Suc n" for s
      unfolding k(1) by (rule val [OF that k(2)])
    show "jelems m acc s = jelems (Suc n) acc s" if "2 * length s + 3 \<le> Suc n" for acc s
      unfolding k(1) by (rule elems [OF that k(2)])
    show "jmembers m acc s = jmembers (Suc n) acc s" if "2 * length s + 3 \<le> Suc n" for acc s
      unfolding k(1) by (rule members [OF that k(2)])
  qed
qed simp

text \<open>More fuel than \<open>json_next\<close> uses never changes what is read.\<close>

lemma json_next_fuel: "json_fuel s \<le> n \<Longrightarrow> jvalue n s = json_next s"
  using jparse_fuel [of "json_fuel s"] by (simp add: json_next_def json_fuel_def)

section \<open>A stream of values\<close>

text \<open>What a \<open>json.Decoder\<close> yields until the end of its input; \<open>None\<close> when a value is malformed.\<close>

function json_stream :: "string \<Rightarrow> json list option" where
  "json_stream s =
     (if skip_ws s = [] then Some []
      else (case json_next s of None \<Rightarrow> None | Some (v, r) \<Rightarrow> map_option (Cons v) (json_stream r)))"
  by auto

termination
  by (relation "measure length") (auto simp: json_next_def dest: jparse_length(1))

declare json_stream.simps [simp del]

end
