(* ===== verification/Watchdog_Types.thy ===== *)
theory Watchdog_Types
  imports Runner_Units Go_Json
begin

text \<open>
  Data and pure functions of the runner watchdog (\<open>internal/runner/watchdog.go\<close>): its report,
  the durable marker with its JSON form, what it reads from \<open>gh\<close>, and the decisions that need
  no effect: classification of failure logs, mapping of broken-runner sentinels to units,
  restart candidates, the evidence of a stalled queue.
\<close>

section \<open>Report\<close>

record WatchdogMetrics =
  wm_RunsConsidered :: int
  wm_RerunsTriggered :: int
  wm_RerunsSkipped :: int
  wm_QueueStalls :: int
  wm_RunnerRestarts :: int
  wm_StallsUnresolved :: int

record WatchdogEvent =
  we_Event :: string
  we_Severity :: string
  we_Repo :: string
  we_Unit :: string
  we_Runner :: string
  we_RunID :: int
  we_HeadSHA :: string
  we_Reason :: string
  we_Detail :: string
  we_Executed :: bool
  we_Online :: bool
  we_QueuedJobs :: int
  we_AgeSeconds :: int

record WatchdogReport =
  wr_Executed :: bool
  wr_Repos :: "string list"
  wr_RunnerOnline :: bool
  wr_Metrics :: WatchdogMetrics
  wr_Events :: "WatchdogEvent list"
  wr_Exit :: int

definition event :: "string \<Rightarrow> string \<Rightarrow> WatchdogEvent" where
  "event name severity =
     \<lparr>we_Event = name, we_Severity = severity, we_Repo = [], we_Unit = [], we_Runner = [], we_RunID = 0, we_HeadSHA = [],
      we_Reason = [], we_Detail = [], we_Executed = False, we_Online = False, we_QueuedJobs = 0, we_AgeSeconds = 0\<rparr>"

definition newReport :: "bool \<Rightarrow> WatchdogReport" where
  "newReport execute =
     \<lparr>wr_Executed = execute, wr_Repos = [], wr_RunnerOnline = False,
      wr_Metrics = \<lparr>wm_RunsConsidered = 0, wm_RerunsTriggered = 0, wm_RerunsSkipped = 0, wm_QueueStalls = 0,
                    wm_RunnerRestarts = 0, wm_StallsUnresolved = 0\<rparr>,
      wr_Events = [], wr_Exit = 0\<rparr>"

definition add_event :: "WatchdogEvent \<Rightarrow> WatchdogReport \<Rightarrow> WatchdogReport" where
  "add_event ev r =
     (let ev = (if we_Severity ev = [] then ev\<lparr>we_Severity := ''info''\<rparr> else ev);
          m = wr_Metrics r;
          m' = (if we_Event ev = ''rerun-skipped'' then m\<lparr>wm_RerunsSkipped := wm_RerunsSkipped m + 1\<rparr>
                else if we_Event ev = ''rerun-triggered'' then m\<lparr>wm_RerunsTriggered := wm_RerunsTriggered m + 1\<rparr>
                else m)
      in r\<lparr>wr_Metrics := m', wr_Events := wr_Events r @ [ev]\<rparr>)"

definition maxExit :: "int \<Rightarrow> int \<Rightarrow> int" where
  "maxExit current candidate = (if current < candidate then candidate else current)"

definition watchdogReportHasEvent :: "WatchdogReport \<Rightarrow> string \<Rightarrow> bool" where
  "watchdogReportHasEvent r name \<longleftrightarrow> list_ex (\<lambda>ev. we_Event ev = name) (wr_Events r)"

section \<open>The marker\<close>

record RerunMarker =
  rm_Repo :: string
  rm_RunID :: int
  rm_HeadSHA :: string
  rm_RerunAt :: time

record autoRestartWindow =
  aw_Count :: int
  aw_WindowStart :: time
  aw_LastActed :: time

record queueStallIncident =
  qi_Signature :: string
  qi_FirstSeen :: time
  qi_RestartedAt :: time

record rerunState =
  rs_Reruns :: "(string \<times> RerunMarker) list"
  rs_AutoRestarts :: "(string \<times> autoRestartWindow) list"
  rs_QueueStalls :: "(string \<times> queueStallIncident) list"

definition emptyState :: rerunState where
  "emptyState = \<lparr>rs_Reruns = [], rs_AutoRestarts = [], rs_QueueStalls = []\<rparr>"

definition zeroMarker :: RerunMarker where
  "zeroMarker = \<lparr>rm_Repo = [], rm_RunID = 0, rm_HeadSHA = [], rm_RerunAt = 0\<rparr>"

definition zeroWindow :: autoRestartWindow where
  "zeroWindow = \<lparr>aw_Count = 0, aw_WindowStart = 0, aw_LastActed = 0\<rparr>"

definition zeroIncident :: queueStallIncident where
  "zeroIncident = \<lparr>qi_Signature = [], qi_FirstSeen = 0, qi_RestartedAt = 0\<rparr>"

text \<open>Reading an absent key of a Go map gives the zero value.\<close>

definition lookup_or :: "'v \<Rightarrow> ('k \<times> 'v) list \<Rightarrow> 'k \<Rightarrow> 'v" where
  "lookup_or z m k = (case map_of m k of Some v \<Rightarrow> v | None \<Rightarrow> z)"

definition rerunMarkerKey :: "int \<Rightarrow> string \<Rightarrow> string" where
  "rerunMarkerKey runID headSHA = show_int runID @ ''/'' @ headSHA"

text \<open>
  The marker file: absent, holding a text of another origin, or holding what
  \<open>json.MarshalIndent\<close> printed for a state, which \<open>json.Unmarshal\<close> reads back as that state.
\<close>

datatype marker_file = MarkerAbsent | MarkerText string | MarkerState rerunState

definition dec_map :: "'v \<Rightarrow> 'v dec \<Rightarrow> (string \<times> 'v) list dec" where
  "dec_map zero d old v =
     (case v of
        JObj ms \<Rightarrow> fold (\<lambda>(k, x) acc. do { m \<leftarrow> acc; y \<leftarrow> d zero x; Some (map_put k y m) }) ms (Some old)
      | JNull \<Rightarrow> Some []
      | _ \<Rightarrow> None)"

definition dec_RerunMarker :: "RerunMarker dec" where
  "dec_RerunMarker = dec_struct
     [(''repo'', fld rm_Repo (\<lambda>a r. r\<lparr>rm_Repo := a\<rparr>) dec_string),
      (''run_id'', fld rm_RunID (\<lambda>a r. r\<lparr>rm_RunID := a\<rparr>) dec_int64),
      (''head_sha'', fld rm_HeadSHA (\<lambda>a r. r\<lparr>rm_HeadSHA := a\<rparr>) dec_string),
      (''rerun_at'', fld rm_RerunAt (\<lambda>a r. r\<lparr>rm_RerunAt := a\<rparr>) dec_time)]"

definition dec_autoRestartWindow :: "autoRestartWindow dec" where
  "dec_autoRestartWindow = dec_struct
     [(''count'', fld aw_Count (\<lambda>a r. r\<lparr>aw_Count := a\<rparr>) dec_int64),
      (''window_start'', fld aw_WindowStart (\<lambda>a r. r\<lparr>aw_WindowStart := a\<rparr>) dec_time),
      (''last_acted'', fld aw_LastActed (\<lambda>a r. r\<lparr>aw_LastActed := a\<rparr>) dec_time)]"

definition dec_queueStallIncident :: "queueStallIncident dec" where
  "dec_queueStallIncident = dec_struct
     [(''signature'', fld qi_Signature (\<lambda>a r. r\<lparr>qi_Signature := a\<rparr>) dec_string),
      (''first_seen'', fld qi_FirstSeen (\<lambda>a r. r\<lparr>qi_FirstSeen := a\<rparr>) dec_time),
      (''restarted_at'', fld qi_RestartedAt (\<lambda>a r. r\<lparr>qi_RestartedAt := a\<rparr>) dec_time)]"

definition dec_rerunState :: "rerunState dec" where
  "dec_rerunState = dec_struct
     [(''reruns'', fld rs_Reruns (\<lambda>a r. r\<lparr>rs_Reruns := a\<rparr>) (dec_map zeroMarker dec_RerunMarker)),
      (''auto_restarts'', fld rs_AutoRestarts (\<lambda>a r. r\<lparr>rs_AutoRestarts := a\<rparr>) (dec_map zeroWindow dec_autoRestartWindow)),
      (''queue_stalls'', fld rs_QueueStalls (\<lambda>a r. r\<lparr>rs_QueueStalls := a\<rparr>) (dec_map zeroIncident dec_queueStallIncident))]"

text \<open>\<open>loadRerunState\<close> on what \<open>ReadFile\<close> returned.\<close>

definition decodeRerunState :: "marker_file \<Rightarrow> herr + rerunState" where
  "decodeRerunState f =
     (case f of
        MarkerAbsent \<Rightarrow> Inr emptyState
      | MarkerState st \<Rightarrow> Inr st
      | MarkerText t \<Rightarrow>
          if trim_space t = [] then Inr emptyState
          else (case json_unmarshal emptyState dec_rerunState t of
                  Some st \<Rightarrow> Inr st
                | None \<Rightarrow> Inl (msg ''json: cannot unmarshal marker'')))"

text \<open>\<open>json.Marshal\<close> of a \<open>time.Time\<close> fails outside the years 0 to 9999.\<close>

definition time_marshals :: "time \<Rightarrow> bool" where
  "time_marshals t \<longleftrightarrow> - (366 * 24 * hour) \<le> t \<and> t < 3652059 * (24 * hour)"

definition state_marshals :: "rerunState \<Rightarrow> bool" where
  "state_marshals st \<longleftrightarrow>
     list_all (\<lambda>m. time_marshals (rm_RerunAt (snd m))) (rs_Reruns st) \<and>
     list_all (\<lambda>w. time_marshals (aw_WindowStart (snd w)) \<and> time_marshals (aw_LastActed (snd w))) (rs_AutoRestarts st) \<and>
     list_all (\<lambda>q. time_marshals (qi_FirstSeen (snd q)) \<and> time_marshals (qi_RestartedAt (snd q))) (rs_QueueStalls st)"

section \<open>What GitHub tells\<close>

record WatchdogGitHubRunner =
  wg_ID :: int
  wg_Repo :: string
  wg_Name :: string
  wg_Status :: string
  wg_Busy :: bool
  wg_Labels :: "string list"

record WatchdogRun =
  wn_ID :: int
  wn_HeadSHA :: string
  wn_Status :: string
  wn_Conclusion :: string
  wn_CreatedAt :: time
  wn_URL :: string
  wn_PullRequests :: "int list"

record WatchdogPullRequest =
  wp_Number :: int
  wp_State :: string
  wp_MergeableState :: string

record WatchdogQueueEvidence =
  wq_EligibleJobs :: int
  wq_Signature :: string

definition hasWatchdogLabel :: "string list \<Rightarrow> string \<Rightarrow> bool" where
  "hasWatchdogLabel labels want \<longleftrightarrow> list_ex (\<lambda>l. l = want) labels"

definition zeroRunner :: WatchdogGitHubRunner where
  "zeroRunner = \<lparr>wg_ID = 0, wg_Repo = [], wg_Name = [], wg_Status = [], wg_Busy = False, wg_Labels = []\<rparr>"

text \<open>A label object is decoded to its name.\<close>

definition dec_label :: "string dec" where
  "dec_label = dec_struct [(''name'', dec_string)]"

definition dec_runner :: "WatchdogGitHubRunner dec" where
  "dec_runner = dec_struct
     [(''id'', fld wg_ID (\<lambda>a r. r\<lparr>wg_ID := a\<rparr>) dec_int64),
      (''name'', fld wg_Name (\<lambda>a r. r\<lparr>wg_Name := a\<rparr>) dec_string),
      (''status'', fld wg_Status (\<lambda>a r. r\<lparr>wg_Status := a\<rparr>) dec_string),
      (''busy'', fld wg_Busy (\<lambda>a r. r\<lparr>wg_Busy := a\<rparr>) dec_bool),
      (''labels'', fld wg_Labels (\<lambda>a r. r\<lparr>wg_Labels := a\<rparr>) (dec_list [] dec_label))]"

definition parseWatchdogGitHubRunners :: "string \<Rightarrow> string \<Rightarrow> herr + WatchdogGitHubRunner list" where
  "parseWatchdogGitHubRunners scope data =
     (case json_unmarshal [] (dec_struct [(''runners'', dec_list zeroRunner dec_runner)]) data of
        None \<Rightarrow> Inl (msg ''parse gh runners'')
      | Some rs \<Rightarrow> Inr (map (\<lambda>r. r\<lparr>wg_Repo := scope\<rparr>) rs))"

definition zeroRun :: WatchdogRun where
  "zeroRun = \<lparr>wn_ID = 0, wn_HeadSHA = [], wn_Status = [], wn_Conclusion = [], wn_CreatedAt = 0, wn_URL = [], wn_PullRequests = []\<rparr>"

definition dec_run :: "WatchdogRun dec" where
  "dec_run = dec_struct
     [(''id'', fld wn_ID (\<lambda>a r. r\<lparr>wn_ID := a\<rparr>) dec_int64),
      (''head_sha'', fld wn_HeadSHA (\<lambda>a r. r\<lparr>wn_HeadSHA := a\<rparr>) dec_string),
      (''status'', fld wn_Status (\<lambda>a r. r\<lparr>wn_Status := a\<rparr>) dec_string),
      (''conclusion'', fld wn_Conclusion (\<lambda>a r. r\<lparr>wn_Conclusion := a\<rparr>) dec_string),
      (''created_at'', fld wn_CreatedAt (\<lambda>a r. r\<lparr>wn_CreatedAt := a\<rparr>) dec_time),
      (''html_url'', fld wn_URL (\<lambda>a r. r\<lparr>wn_URL := a\<rparr>) dec_string),
      (''pull_requests'', fld wn_PullRequests (\<lambda>a r. r\<lparr>wn_PullRequests := a\<rparr>) (dec_list 0 (dec_struct [(''number'', dec_int64)])))]"

definition listWatchdogRuns :: "'w runner_fn \<Rightarrow> string \<Rightarrow> int \<Rightarrow> ('w, herr + WatchdogRun list) hop" where
  "listWatchdogRuns run repo limit w =
     (case run ''gh'' [''api'', ''/repos/'' @ repo @ ''/actions/runs?per_page='' @ show_int limit @ ''&status=completed''] w of
        ((out, Some err), w') \<Rightarrow> (Inl (Wrap ''gh api actions/runs: '' [err]), w')
      | ((out, None), w') \<Rightarrow>
          ((case json_unmarshal [] (dec_struct [(''workflow_runs'', dec_list zeroRun dec_run)]) out of
              None \<Rightarrow> Inl (msg ''parse gh runs'')
            | Some rs \<Rightarrow> Inr rs), w'))"

definition getWatchdogPullRequest :: "'w runner_fn \<Rightarrow> string \<Rightarrow> int \<Rightarrow> ('w, herr + WatchdogPullRequest) hop" where
  "getWatchdogPullRequest run repo number w =
     (case run ''gh'' [''api'', ''/repos/'' @ repo @ ''/pulls/'' @ show_int number] w of
        ((out, Some err), w') \<Rightarrow> (Inl (Wrap (''gh api pulls/'' @ show_int number @ '': '') [err]), w')
      | ((out, None), w') \<Rightarrow>
          ((case json_unmarshal \<lparr>wp_Number = 0, wp_State = [], wp_MergeableState = []\<rparr>
                   (dec_struct [(''number'', fld wp_Number (\<lambda>a r. r\<lparr>wp_Number := a\<rparr>) dec_int64),
                                (''state'', fld wp_State (\<lambda>a r. r\<lparr>wp_State := a\<rparr>) dec_string),
                                (''mergeable_state'', fld wp_MergeableState (\<lambda>a r. r\<lparr>wp_MergeableState := a\<rparr>) dec_string)]) out of
              None \<Rightarrow> Inl (msg ''parse gh pull'')
            | Some pr \<Rightarrow> Inr pr), w'))"

definition getWatchdogRunLog :: "'w runner_fn \<Rightarrow> string \<Rightarrow> int \<Rightarrow> ('w, herr + string) hop" where
  "getWatchdogRunLog run repo runID w =
     (case run ''gh'' [''run'', ''view'', show_int runID, ''--repo'', repo, ''--log-failed''] w of
        ((out, Some err), w') \<Rightarrow> (Inl (Wrap ''gh run view --log-failed: '' [err]), w')
      | ((out, None), w') \<Rightarrow> (Inr out, w'))"

definition listWatchdogGitHubRunners :: "'w runner_fn \<Rightarrow> string \<Rightarrow> ('w, herr + WatchdogGitHubRunner list) hop" where
  "listWatchdogGitHubRunners run repo w =
     (case run ''gh'' [''api'', ''/repos/'' @ repo @ ''/actions/runners''] w of
        ((out, Some err), w') \<Rightarrow> (Inl (Wrap ''gh api actions/runners: '' [err]), w')
      | ((out, None), w') \<Rightarrow> (parseWatchdogGitHubRunners repo out, w'))"

definition listWatchdogGitHubOrgRunners :: "'w runner_fn \<Rightarrow> string \<Rightarrow> ('w, herr + WatchdogGitHubRunner list) hop" where
  "listWatchdogGitHubOrgRunners run org w =
     (case run ''gh'' [''api'', ''/orgs/'' @ org @ ''/actions/runners''] w of
        ((out, Some err), w') \<Rightarrow> (Inl (Wrap ''gh api org actions/runners: '' [err]), w')
      | ((out, None), w') \<Rightarrow> (parseWatchdogGitHubRunners org out, w'))"

end
