(* ===== verification/Watchdog_Rules.thy ===== *)
theory Watchdog_Rules
  imports Watchdog_Types "HOL-Library.Product_Lexorder"
begin

text \<open>
  The decisions of the runner watchdog that need no effect of their own, in the order of
  \<open>internal/runner/watchdog.go\<close>, with the facts the safety proofs use.
\<close>

section \<open>Repositories\<close>

definition hasWatchdogOrgRunner :: "unit_Status list \<Rightarrow> bool" where
  "hasWatchdogOrgRunner systemd \<longleftrightarrow> list_ex (\<lambda>s. us_Org s \<noteq> []) systemd"

text \<open>The shared loop of \<open>normalizeWatchdogRepos\<close> and \<open>defaultWatchdogQueueRepos\<close>.\<close>

fun collect_repos :: "string \<Rightarrow> string list \<Rightarrow> string list \<Rightarrow> herr + string list" where
  "collect_repos ctx acc [] = Inr (rev acc)"
| "collect_repos ctx acc (raw # rs) =
     (let repo = trim_space raw in
      if repo = [] then collect_repos ctx acc rs
      else case ValidateRepo repo of
             Some err \<Rightarrow> Inl (Wrap ctx [err])
           | None \<Rightarrow> if repo \<in> set acc then collect_repos ctx acc rs else collect_repos ctx (repo # acc) rs)"

definition normalizeWatchdogRepos :: "string list \<Rightarrow> herr + string list" where
  "normalizeWatchdogRepos repos =
     (case collect_repos ''fleet do watchdog: '' [] repos of Inl e \<Rightarrow> Inl e | Inr rs \<Rightarrow> Inr (sort rs))"

definition defaultWatchdogQueueRepos :: "string \<Rightarrow> herr + string list" where
  "defaultWatchdogQueueRepos env =
     (let raw = trim_space env in
      if raw = [] then Inr []
      else case collect_repos ''CIVM_REAPER_REPOS: '' [] (split_on (CHR '','') raw) of Inl e \<Rightarrow> Inl e | Inr rs \<Rightarrow> Inr (sort rs))"

definition inferWatchdogRepos :: "unit_Status list \<Rightarrow> string list" where
  "inferWatchdogRepos systemd =
     sort (dedup [] (filter (\<lambda>r. r \<noteq> [] \<and> ValidateRepo r = None) (map us_Repo systemd)))"

definition anyLocalRunnerOnline :: "unit_Status list \<Rightarrow> bool" where
  "anyLocalRunnerOnline systemd \<longleftrightarrow> list_ex unit_running systemd"

section \<open>The runner's own configuration\<close>

text \<open>
  \<open>url.Parse\<close> as far as the callers look: the decoded path of a URL with scheme \<open>https\<close> and
  host \<open>github.com\<close>. A control byte, a malformed escape or a byte that user information cannot
  have is an error.
\<close>

fun pct_decode :: "string \<Rightarrow> string option" where
  "pct_decode [] = Some []"
| "pct_decode (c # s) =
     (if c = CHR ''%'' then
        (case s of
           a # b # r \<Rightarrow>
             (case (hex_val a, hex_val b) of
                (Some x, Some y) \<Rightarrow> map_option (\<lambda>t. char_of (x * 16 + y) # t) (pct_decode r)
              | _ \<Rightarrow> None)
         | _ \<Rightarrow> None)
      else map_option (\<lambda>t. c # t) (pct_decode s))"

definition before_char :: "char \<Rightarrow> string \<Rightarrow> string" where
  "before_char c s = takeWhile (\<lambda>x. x \<noteq> c) s"

definition after_char :: "char \<Rightarrow> string \<Rightarrow> string" where
  "after_char c s = drop 1 (dropWhile (\<lambda>x. x \<noteq> c) s)"

definition userinfo_ok :: "string \<Rightarrow> bool" where
  "userinfo_ok s \<longleftrightarrow> list_all (\<lambda>c. is_alnum c \<or> one_of [CHR 0x27] c \<or> one_of ''-._:~!$&()*+,;=%@'' c) s \<and> pct_decode s \<noteq> None"

definition split_userinfo :: "string \<Rightarrow> string \<times> string" where
  "split_userinfo a = (case last_index a (CHR ''@'') of Some i \<Rightarrow> (take i a, drop (Suc i) a) | None \<Rightarrow> ([], a))"

definition github_path :: "string \<Rightarrow> string option" where
  "github_path raw =
     (let u = before_char (CHR ''#'') raw; rest = before_char (CHR ''?'') (drop 6 u);
          authority = before_char (CHR ''/'') (drop 2 rest); path = drop (length authority) (drop 2 rest)
      in if list_ex (\<lambda>c. (of_char c :: nat) < 32 \<or> (of_char c :: nat) = 127) raw then None
         else if pct_decode (after_char (CHR ''#'') raw) = None then None
         else if to_lower (take 6 u) \<noteq> ''https:'' \<or> \<not> has_prefix rest ''//'' then None
         else if \<not> userinfo_ok (fst (split_userinfo authority)) then None
         else if \<not> equal_fold (snd (split_userinfo authority)) ''github.com'' then None
         else pct_decode path)"

definition repoFromGitHubURL :: "string \<Rightarrow> string option" where
  "repoFromGitHubURL raw =
     (case github_path (trim_space raw) of
        None \<Rightarrow> None
      | Some path \<Rightarrow>
          (case split_on (CHR ''/'') (trim_char (CHR ''/'') path) of
             owner # name # _ \<Rightarrow>
               (let repo = owner @ ''/'' @ trim_suffix name ''.git''
                in if ValidateRepo repo \<noteq> None then None else Some repo)
           | _ \<Rightarrow> None))"

definition orgFromGitHubURL :: "string \<Rightarrow> string option" where
  "orgFromGitHubURL raw =
     (case github_path (trim_space raw) of
        None \<Rightarrow> None
      | Some path \<Rightarrow>
          (case split_on (CHR ''/'') (trim_char (CHR ''/'') path) of
             [org] \<Rightarrow> if org = [] \<or> contains org ''.git'' then None else Some org
           | _ \<Rightarrow> None))"

definition trimJSONBOM :: "string \<Rightarrow> string" where
  "trimJSONBOM data = trim_prefix data [CHR 0xEF, CHR 0xBB, CHR 0xBF]"

text \<open>\<open>map[string]json.RawMessage\<close>: exact keys, the last of several wins.\<close>

definition raw_field :: "json \<Rightarrow> string \<Rightarrow> json option" where
  "raw_field v k = (case v of JObj ms \<Rightarrow> map_of (rev ms) k | _ \<Rightarrow> None)"

definition json_is_object :: "json \<Rightarrow> bool" where
  "json_is_object v \<longleftrightarrow> (case v of JObj _ \<Rightarrow> True | JNull \<Rightarrow> True | _ \<Rightarrow> False)"

definition url_field :: "(string \<Rightarrow> string option) \<Rightarrow> json \<Rightarrow> string \<Rightarrow> string option" where
  "url_field f v k =
     (case raw_field v k of
        None \<Rightarrow> None
      | Some x \<Rightarrow> (case dec_string [] x of None \<Rightarrow> None | Some s \<Rightarrow> f s))"

definition from_config :: "(string \<Rightarrow> string option) \<Rightarrow> string \<Rightarrow> string option" where
  "from_config f data =
     (case json_parse (trimJSONBOM data) of
        None \<Rightarrow> None
      | Some v \<Rightarrow>
          if \<not> json_is_object v then None
          else (case url_field f v ''gitHubUrl'' of Some r \<Rightarrow> Some r | None \<Rightarrow> url_field f v ''serverUrl''))"

definition repoFromRunnerConfig :: "string \<Rightarrow> string option" where
  "repoFromRunnerConfig data = from_config repoFromGitHubURL data"

definition orgFromRunnerConfig :: "string \<Rightarrow> string option" where
  "orgFromRunnerConfig data = from_config orgFromGitHubURL data"

section \<open>Failure logs\<close>

datatype FailureKind = FailureUnknown | FailureNetworkCheckout | FailureCode | FailureSecret

definition kind_text :: "FailureKind \<Rightarrow> string" where
  "kind_text k =
     (case k of FailureUnknown \<Rightarrow> ''unknown'' | FailureNetworkCheckout \<Rightarrow> ''network_checkout''
      | FailureCode \<Rightarrow> ''code'' | FailureSecret \<Rightarrow> ''secret'')"

record FailureClassification =
  fc_Kind :: FailureKind
  fc_Signature :: string
  fc_Detail :: string

definition actionDownloadTransientSignatures :: "string list" where
  "actionDownloadTransientSignatures =
     [''failed to resolve action download info. error: internal server error'',
      ''failed to resolve action download info. error: service unavailable'']"

definition networkCheckoutSignatures :: "string list" where
  "networkCheckoutSignatures =
     [''rpc failed'', ''early eof'', ''invalid index-pack'', ''curl 56'', ''curl 92'', ''gnutls recv error'',
      ''connection timed out'', ''http/2 cancel'', ''http/2 stream'', ''the remote end hung up unexpectedly'']"

definition codeFailureSignatures :: "string list" where
  "codeFailureSignatures =
     [''run go test'', ''run npm test'', ''run pnpm test'', ''run yarn test'', ''run make test'', ''run go build'',
      ''run npm run build'', ''run pnpm build'', ''run yarn build'', ''run golangci-lint'', ''run eslint'',
      ''run npm run lint'', ''run pnpm lint'', ''run yarn lint'', ''run tsc'', ''fail'' @ [CHR 0x09], ''npm err!'', ''eslint'',
      ''test failed'', ''tests failed'', ''build failed'', ''lint failed'']"

definition secretSignatures :: "string list" where
  "secretSignatures =
     [''bad credentials'', ''authentication failed'', ''could not read username'', ''resource not accessible by integration'',
      ''permission denied (publickey)'', ''a secret with the name'', ''secret not found'', ''secrets are not passed'']"

fun firstSignature_from :: "(string \<times> nat) option \<Rightarrow> string \<Rightarrow> string list \<Rightarrow> (string \<times> nat) option" where
  "firstSignature_from best haystack [] = best"
| "firstSignature_from best haystack (sig # sigs) =
     (case str_index haystack sig of
        None \<Rightarrow> firstSignature_from best haystack sigs
      | Some idx \<Rightarrow>
          firstSignature_from
            (case best of None \<Rightarrow> Some (sig, idx) | Some (_, b) \<Rightarrow> if idx < b then Some (sig, idx) else best)
            haystack sigs)"

definition firstSignature :: "string \<Rightarrow> string list \<Rightarrow> (string \<times> nat) option" where
  "firstSignature haystack signatures = firstSignature_from None haystack signatures"

definition ClassifyFailureLog :: "string \<Rightarrow> FailureClassification" where
  "ClassifyFailureLog log =
     (let lower = to_lower log in
      case firstSignature lower secretSignatures of
        Some (sig, _) \<Rightarrow> \<lparr>fc_Kind = FailureSecret, fc_Signature = sig, fc_Detail = ''secret/auth signature present''\<rparr>
      | None \<Rightarrow>
          (let network = firstSignature lower networkCheckoutSignatures;
               network = (case firstSignature lower actionDownloadTransientSignatures of
                            None \<Rightarrow> network
                          | Some (s, i) \<Rightarrow> (case network of None \<Rightarrow> Some (s, i)
                                            | Some (_, n) \<Rightarrow> if i < n then Some (s, i) else network))
           in case network of
                None \<Rightarrow>
                  (case firstSignature lower codeFailureSignatures of
                     Some (sig, _) \<Rightarrow> \<lparr>fc_Kind = FailureCode, fc_Signature = sig, fc_Detail = ''code/test/lint/build signature present''\<rparr>
                   | None \<Rightarrow> \<lparr>fc_Kind = FailureUnknown, fc_Signature = [], fc_Detail = ''no network checkout signature''\<rparr>)
              | Some (sig, networkIdx) \<Rightarrow>
                  (case firstSignature lower codeFailureSignatures of
                     Some (codeSig, codeIdx) \<Rightarrow>
                       if codeIdx < networkIdx
                       then \<lparr>fc_Kind = FailureCode, fc_Signature = codeSig,
                             fc_Detail = ''code/test/lint/build step started before network failure''\<rparr>
                       else \<lparr>fc_Kind = FailureNetworkCheckout, fc_Signature = sig, fc_Detail = ''transient checkout/network signature''\<rparr>
                   | None \<Rightarrow> \<lparr>fc_Kind = FailureNetworkCheckout, fc_Signature = sig, fc_Detail = ''transient checkout/network signature''\<rparr>)))"

definition rerunnableConclusion :: "string \<Rightarrow> bool" where
  "rerunnableConclusion c \<longleftrightarrow> c \<in> set [''failure'', ''cancelled'', ''timed_out'']"

section \<open>Broken-runner sentinels\<close>

record hookLogRecord =
  hl_Time :: time
  hl_Decision :: string
  hl_WorkRoot :: string
  hl_Actions :: "(string \<times> string) list"

definition dec_hookLogRecord :: "hookLogRecord dec" where
  "dec_hookLogRecord = dec_struct
     [(''time'', fld hl_Time (\<lambda>a r. r\<lparr>hl_Time := a\<rparr>) dec_time),
      (''decision'', fld hl_Decision (\<lambda>a r. r\<lparr>hl_Decision := a\<rparr>) dec_string),
      (''work_root'', fld hl_WorkRoot (\<lambda>a r. r\<lparr>hl_WorkRoot := a\<rparr>) dec_string),
      (''actions'', fld hl_Actions (\<lambda>a r. r\<lparr>hl_Actions := a\<rparr>)
         (dec_list ([], []) (dec_struct [(''name'', fld fst (\<lambda>a r. (a, snd r)) dec_string),
                                         (''error'', fld snd (\<lambda>a r. (fst r, a)) dec_string)])))]"

definition zeroHookRecord :: hookLogRecord where
  "zeroHookRecord = \<lparr>hl_Time = 0, hl_Decision = [], hl_WorkRoot = [], hl_Actions = []\<rparr>"

definition hookRecordIsBrokenSentinel :: "hookLogRecord \<Rightarrow> bool" where
  "hookRecordIsBrokenSentinel rec \<longleftrightarrow> list_ex (\<lambda>(name, err). name = ''work_root'' \<and> trim_space err \<noteq> []) (hl_Actions rec)"

fun unitForWorkRoot_from :: "string \<times> int \<Rightarrow> string \<Rightarrow> unit_Status list \<Rightarrow> string" where
  "unitForWorkRoot_from best clean [] = fst best"
| "unitForWorkRoot_from best clean (s # systemd) =
     (let wd = path_Clean (us_WorkingDirectory s) in
      if us_UnitName s = [] \<or> us_WorkingDirectory s = [] then unitForWorkRoot_from best clean systemd
      else if (clean = wd \<or> has_prefix clean (wd @ ''/'')) \<and> snd best < int (length wd)
      then unitForWorkRoot_from (us_UnitName s, int (length wd)) clean systemd
      else unitForWorkRoot_from best clean systemd)"

definition unitForWorkRoot :: "string \<Rightarrow> unit_Status list \<Rightarrow> string" where
  "unitForWorkRoot workRoot systemd = unitForWorkRoot_from ([], -1) (path_Clean workRoot) systemd"

fun scan_sentinels :: "time \<Rightarrow> (string \<times> time) list \<Rightarrow> string list \<Rightarrow> (string \<times> time) list" where
  "scan_sentinels now acc [] = acc"
| "scan_sentinels now acc (raw # lines) =
     (let line = trim_space raw in
      if line = [] then scan_sentinels now acc lines
      else case json_unmarshal zeroHookRecord dec_hookLogRecord line of
             None \<Rightarrow> scan_sentinels now acc lines
           | Some rec \<Rightarrow>
               if hl_WorkRoot rec = [] \<or> \<not> hookRecordIsBrokenSentinel rec then scan_sentinels now acc lines
               else (let ts = (if hl_Time rec = 0 then now else hl_Time rec) in
                     if ts < now - hour then scan_sentinels now acc lines
                     else if lookup_or 0 acc (hl_WorkRoot rec) < ts
                     then scan_sentinels now (map_put (hl_WorkRoot rec) ts acc) lines
                     else scan_sentinels now acc lines))"

definition last_lines :: "nat \<Rightarrow> string list \<Rightarrow> string list" where
  "last_lines n ls = (if n < length ls then drop (length ls - n) ls else ls)"

definition parseBrokenSentinels :: "herr + string \<Rightarrow> time \<Rightarrow> (string \<times> time) list" where
  "parseBrokenSentinels contents now =
     (case contents of
        Inl _ \<Rightarrow> []
      | Inr data \<Rightarrow> if trim_space data = [] then [] else scan_sentinels now [] (last_lines 500 (split_on nl data)))"

fun mapSentinelsToUnits_from ::
  "unit_Status list \<Rightarrow> (string \<times> time) list \<Rightarrow> (string \<times> time) list \<Rightarrow> (string \<times> time) list \<times> WatchdogEvent list" where
  "mapSentinelsToUnits_from systemd acc [] = (acc, [])"
| "mapSentinelsToUnits_from systemd acc ((workRoot, ts) # rest) =
     (let unit = unitForWorkRoot workRoot systemd in
      if unit = [] then
        (case mapSentinelsToUnits_from systemd acc rest of
           (m, evs) \<Rightarrow> (m, (event ''runner-auto-restart-skipped'' ''warning'')
                              \<lparr>we_Reason := ''no-unit-for-work-root'', we_Detail := workRoot\<rparr> # evs))
      else if lookup_or 0 acc unit < ts then mapSentinelsToUnits_from systemd (map_put unit ts acc) rest
      else mapSentinelsToUnits_from systemd acc rest)"

definition mapSentinelsToUnits :: "(string \<times> time) list \<Rightarrow> unit_Status list \<Rightarrow> (string \<times> time) list \<times> WatchdogEvent list" where
  "mapSentinelsToUnits sentinelAt systemd = mapSentinelsToUnits_from systemd [] sentinelAt"

text \<open>The counting window of a unit at this instant, keeping the deduplication cursor.\<close>

definition current_window :: "time \<Rightarrow> autoRestartWindow \<Rightarrow> autoRestartWindow" where
  "current_window now w =
     (if aw_WindowStart w = 0 \<or> hour \<le> time_Sub now (aw_WindowStart w)
      then \<lparr>aw_Count = 0, aw_WindowStart = now, aw_LastActed = aw_LastActed w\<rparr> else w)"

fun select_from ::
  "bool \<Rightarrow> int \<Rightarrow> time \<Rightarrow> (string \<times> time) list \<Rightarrow> rerunState \<Rightarrow> string list
     \<Rightarrow> string list \<times> rerunState \<times> WatchdogEvent list" where
  "select_from execute cap now unitSentinel state [] = ([], state, [])"
| "select_from execute cap now unitSentinel state (unit # units) =
     (let ts = lookup_or 0 unitSentinel unit;
          w = current_window now (lookup_or zeroWindow (rs_AutoRestarts state) unit)
      in if ts \<le> aw_LastActed w then select_from execute cap now unitSentinel state units
         else if cap \<le> aw_Count w then
           (case select_from execute cap now unitSentinel state units of
              (us, st, evs) \<Rightarrow>
                (us, st, (event ''runner-auto-restart-skipped'' ''warning'')
                           \<lparr>we_Unit := unit, we_Reason := ''rate-cap-reached'',
                            we_Detail := show_int (aw_Count w) @ ''/'' @ show_int cap @ '' this hour''\<rparr> # evs))
         else if \<not> execute then
           (case select_from execute cap now unitSentinel state units of
              (us, st, evs) \<Rightarrow>
                (us, st, (event ''runner-auto-restarted'' ''warning'')
                           \<lparr>we_Unit := unit, we_Reason := ''broken-runner-sentinel''\<rparr> # evs))
         else
           (case select_from execute cap now unitSentinel
                   (state\<lparr>rs_AutoRestarts := map_put unit (w\<lparr>aw_Count := aw_Count w + 1, aw_LastActed := ts\<rparr>) (rs_AutoRestarts state)\<rparr>)
                   units of
              (us, st, evs) \<Rightarrow> (unit # us, st, evs)))"

definition selectUnitsToRestart ::
  "bool \<Rightarrow> int \<Rightarrow> time \<Rightarrow> (string \<times> time) list \<Rightarrow> rerunState \<Rightarrow> string list \<times> rerunState \<times> WatchdogEvent list" where
  "selectUnitsToRestart execute cap now unitSentinel state =
     select_from execute cap now unitSentinel state (sort (map fst unitSentinel))"

section \<open>Restart candidates\<close>

definition restart_reason :: "unit_Status \<Rightarrow> string" where
  "restart_reason s = ''systemd-'' @ trim_char (CHR ''-'') (us_ActiveState s @ ''-'' @ us_SubState s)"

fun local_candidates ::
  "(string \<times> unit_Status) list \<Rightarrow> (string \<times> string) list \<Rightarrow> unit_Status list
     \<Rightarrow> (string \<times> unit_Status) list \<times> (string \<times> string) list" where
  "local_candidates names out [] = (names, out)"
| "local_candidates names out (s # ss) =
     local_candidates (map_put (us_Repo s @ ''/'' @ us_Name s) s names)
       (if us_UnitName s \<noteq> [] \<and> \<not> unit_running s then map_put (us_UnitName s) (restart_reason s) out else out) ss"

definition offline_candidates ::
  "(string \<times> unit_Status) list \<Rightarrow> string \<Rightarrow> WatchdogGitHubRunner \<Rightarrow> (string \<times> string) list \<Rightarrow> (string \<times> string) list" where
  "offline_candidates names repo r out =
     (if wg_Status r \<noteq> ''offline'' then out
      else case map_of names (repo @ ''/'' @ wg_Name r) of
             None \<Rightarrow> out
           | Some local \<Rightarrow> if us_UnitName local \<noteq> [] then map_put (us_UnitName local) ''github-offline'' out else out)"

definition restartCandidates ::
  "unit_Status list \<Rightarrow> (string \<times> WatchdogGitHubRunner list) list \<Rightarrow> (string \<times> string) list" where
  "restartCandidates systemd ghByRepo =
     (case local_candidates [] [] systemd of
        (names, out) \<Rightarrow> fold (\<lambda>(repo, runners). fold (offline_candidates names repo) runners) ghByRepo out)"

definition sortedMapKeys :: "(string \<times> string) list \<Rightarrow> string list" where
  "sortedMapKeys m = sort (map fst m)"

section \<open>The stalled queue\<close>

record watchdogQueuedRun =
  wqr_ID :: int
  wqr_CreatedAt :: time

record queued_run_row =
  qr_ID :: int
  qr_Status :: string
  qr_CreatedAt :: time

record queued_job_row =
  qj_ID :: int
  qj_Status :: string
  qj_Labels :: "string list"

definition dec_queued_run :: "queued_run_row dec" where
  "dec_queued_run = dec_struct
     [(''id'', fld qr_ID (\<lambda>a r. r\<lparr>qr_ID := a\<rparr>) dec_int64),
      (''status'', fld qr_Status (\<lambda>a r. r\<lparr>qr_Status := a\<rparr>) dec_string),
      (''created_at'', fld qr_CreatedAt (\<lambda>a r. r\<lparr>qr_CreatedAt := a\<rparr>) dec_time)]"

definition dec_queued_job :: "queued_job_row dec" where
  "dec_queued_job = dec_struct
     [(''id'', fld qj_ID (\<lambda>a r. r\<lparr>qj_ID := a\<rparr>) dec_int64),
      (''status'', fld qj_Status (\<lambda>a r. r\<lparr>qj_Status := a\<rparr>) dec_string),
      (''labels'', fld qj_Labels (\<lambda>a r. r\<lparr>qj_Labels := a\<rparr>) (dec_list [] dec_string))]"

definition fresh_run :: "time \<Rightarrow> int \<Rightarrow> queued_run_row \<Rightarrow> bool" where
  "fresh_run now maxAge r \<longleftrightarrow>
     qr_Status r = ''queued'' \<and> 0 < qr_ID r \<and> qr_CreatedAt r \<noteq> 0 \<and>
     0 \<le> time_Sub now (qr_CreatedAt r) \<and> time_Sub now (qr_CreatedAt r) \<le> maxAge"

text \<open>The first row of each ID.\<close>

fun dedup_by :: "('a \<Rightarrow> 'k) \<Rightarrow> 'k list \<Rightarrow> 'a list \<Rightarrow> 'a list" where
  "dedup_by key seen [] = []"
| "dedup_by key seen (x # xs) =
     (if key x \<in> set seen then dedup_by key seen xs else x # dedup_by key (key x # seen) xs)"

definition listFreshQueuedRuns :: "'w runner_fn \<Rightarrow> string \<Rightarrow> time \<Rightarrow> int \<Rightarrow> ('w, herr + watchdogQueuedRun list) hop" where
  "listFreshQueuedRuns run repo now maxAge w =
     (case run ''gh'' [''api'', ''--paginate'', ''--slurp'', ''/repos/'' @ repo @ ''/actions/runs?per_page=100&status=queued''] w of
        ((out, Some err), w') \<Rightarrow> (Inl (Wrap (''list queued runs for '' @ repo @ '': '') [err]), w')
      | ((out, None), w') \<Rightarrow>
          ((case json_unmarshal [] (dec_list [] (dec_struct [(''workflow_runs'',
                     dec_list \<lparr>qr_ID = 0, qr_Status = [], qr_CreatedAt = 0\<rparr> dec_queued_run)])) out of
              None \<Rightarrow> Inl (msg (''parse queued runs for '' @ repo))
            | Some pages \<Rightarrow>
                Inr (map (\<lambda>r. \<lparr>wqr_ID = qr_ID r, wqr_CreatedAt = qr_CreatedAt r\<rparr>)
                       (sort_key (\<lambda>r. (qr_CreatedAt r, qr_ID r))
                          (dedup_by qr_ID [] (filter (fresh_run now maxAge) (concat pages)))))), w'))"

definition eligible_job :: "queued_job_row \<Rightarrow> bool" where
  "eligible_job j \<longleftrightarrow>
     qj_Status j = ''queued'' \<and> 0 < qj_ID j \<and> hasWatchdogLabel (qj_Labels j) ''self-hosted'' \<and> hasWatchdogLabel (qj_Labels j) ''civm''"

definition listEligibleCivmJobIDs :: "'w runner_fn \<Rightarrow> string \<Rightarrow> int \<Rightarrow> ('w, herr + int list) hop" where
  "listEligibleCivmJobIDs run repo runID w =
     (case run ''gh'' [''api'', ''--paginate'', ''--slurp'',
                        ''/repos/'' @ repo @ ''/actions/runs/'' @ show_int runID @ ''/jobs?filter=latest&per_page=100''] w of
        ((out, Some err), w') \<Rightarrow> (Inl (Wrap (''list queued jobs for '' @ repo @ '': '') [err]), w')
      | ((out, None), w') \<Rightarrow>
          ((case json_unmarshal [] (dec_list [] (dec_struct [(''jobs'',
                     dec_list \<lparr>qj_ID = 0, qj_Status = [], qj_Labels = []\<rparr> dec_queued_job)])) out of
              None \<Rightarrow> Inl (msg (''parse queued jobs for '' @ repo))
            | Some pages \<Rightarrow> Inr (sort (dedup [] (map qj_ID (filter eligible_job (concat pages)))))), w'))"

text \<open>\<open>%s/%020d/%020d\<close>\<close>

definition job_identity :: "string \<Rightarrow> int \<Rightarrow> int \<Rightarrow> string" where
  "job_identity repo runID jobID = repo @ ''/'' @ pad_digits 20 (nat runID) @ ''/'' @ pad_digits 20 (nat jobID)"

text \<open>The oldest fresh run of a repository that has an eligible job, with these jobs.\<close>

fun first_eligible_run ::
  "'w runner_fn \<Rightarrow> string \<Rightarrow> watchdogQueuedRun list \<Rightarrow> ('w, herr + (time \<times> string) list) hop" where
  "first_eligible_run run repo [] w = (Inr [], w)"
| "first_eligible_run run repo (r # rs) w =
     (case listEligibleCivmJobIDs run repo (wqr_ID r) w of
        (Inl err, w') \<Rightarrow> (Inl err, w')
      | (Inr [], w') \<Rightarrow> first_eligible_run run repo rs w'
      | (Inr ids, w') \<Rightarrow> (Inr (map (\<lambda>j. (wqr_CreatedAt r, job_identity repo (wqr_ID r) j)) ids), w'))"

fun queued_candidates ::
  "'w runner_fn \<Rightarrow> time \<Rightarrow> int \<Rightarrow> (time \<times> string) list \<Rightarrow> string list \<Rightarrow> ('w, herr + (time \<times> string) list) hop" where
  "queued_candidates run now maxAge acc [] w = (Inr acc, w)"
| "queued_candidates run now maxAge acc (repo # repos) w =
     (case ValidateRepo repo of
        Some err \<Rightarrow> (Inl err, w)
      | None \<Rightarrow>
          (case listFreshQueuedRuns run repo now maxAge w of
             (Inl err, w1) \<Rightarrow> (Inl err, w1)
           | (Inr runs, w1) \<Rightarrow>
               (case first_eligible_run run repo runs w1 of
                  (Inl err, w2) \<Rightarrow> (Inl err, w2)
                | (Inr cs, w2) \<Rightarrow>
                    queued_candidates run now maxAge (acc @ dedup_by snd (map snd acc) cs) repos w2)))"

definition listQueuedCivmJobs ::
  "(string \<Rightarrow> string) \<Rightarrow> 'w runner_fn \<Rightarrow> string list \<Rightarrow> time \<Rightarrow> int \<Rightarrow> ('w, herr + WatchdogQueueEvidence) hop" where
  "listQueuedCivmJobs sha256hex run repos now maxAge w =
     (case queued_candidates run now maxAge [] repos w of
        (Inl err, w') \<Rightarrow> (Inl err, w')
      | (Inr [], w') \<Rightarrow> (Inr \<lparr>wq_EligibleJobs = 0, wq_Signature = []\<rparr>, w')
      | (Inr candidates, w') \<Rightarrow>
          (Inr \<lparr>wq_EligibleJobs = int (length candidates), wq_Signature = sha256hex (snd (hd (sort candidates)))\<rparr>, w'))"

end
