(* ===== verification/Watchdog_Model.thy ===== *)
theory Watchdog_Model
  imports Watchdog_Rules
begin

text \<open>
  The runner watchdog itself: \<open>Watchdog\<close> and the functions it calls, in the order of
  \<open>internal/runner/watchdog.go\<close>. The state is the marker file, the report, and the trace of the
  calls that matter, each with the marker as it was on disk. A function field of
  \<open>WatchdogOptions\<close> is an operation on the world; \<open>productionOptions\<close> fills in the ones that
  \<open>applyWatchdogCommandFnDefaults\<close> builds from \<open>RunFn\<close>.
\<close>

section \<open>Options and calls\<close>

text \<open>The fields of \<open>hook.InstallOptions\<close> that the watchdog sets.\<close>

record hook_request =
  hi_Execute :: bool
  hi_RestartRunners :: bool
  hi_SkipScopedSudoers :: bool
  hi_HooksDir :: string
  hi_RunnerGlob :: string
  hi_CivmctlPath :: string

record 'w WatchdogOptions =
  wo_Execute :: bool
  wo_Repos :: "string list"
  wo_InferRepos :: bool
  wo_RerunNetworkFailures :: bool
  wo_NetworkTimeout :: int
  wo_RestartDelay :: int
  wo_IdleProbeDelay :: int
  wo_MaxRunAge :: int
  wo_RunLimit :: int
  wo_MarkerPath :: string
  wo_MaintenanceStatePath :: string
  wo_HooksDir :: string
  wo_RunnerGlob :: string
  wo_CivmctlPath :: string
  wo_HooksLogPath :: string
  wo_AutoRestartPerHour :: int
  wo_QueueStallDwell :: int
  wo_RunFn :: "'w runner_fn"
  wo_NetworkFn :: "int \<Rightarrow> ('w, herr option) hop"
  wo_ActivityFn :: "('w, herr + Activity list) hop"
  wo_wait :: "int \<Rightarrow> ('w, herr option) hop"
  wo_SystemRunnersFn :: "('w, unit_Status list \<times> herr option) hop"
  wo_GitHubRunnersFn :: "string \<Rightarrow> ('w, herr + WatchdogGitHubRunner list) hop"
  wo_HookInstallFn :: "hook_request \<Rightarrow> ('w, nat \<times> string) hop"
  wo_ListRunsFn :: "string \<Rightarrow> int \<Rightarrow> ('w, herr + WatchdogRun list) hop"
  wo_PullRequestFn :: "string \<Rightarrow> int \<Rightarrow> ('w, herr + WatchdogPullRequest) hop"
  wo_RunLogFn :: "string \<Rightarrow> int \<Rightarrow> ('w, herr + string) hop"
  wo_RerunFn :: "string \<Rightarrow> int \<Rightarrow> ('w, herr option) hop"
  wo_QueueReposFn :: "('w, herr + string list) hop"
  wo_QueuedCivmJobsFn :: "string list \<Rightarrow> time \<Rightarrow> int \<Rightarrow> ('w, herr + WatchdogQueueEvidence) hop"
  wo_ReadFileFn :: "string \<Rightarrow> ('w, herr + string) hop"
  wo_ReadMarker :: "('w, herr option) hop"
  wo_MkdirAllFn :: "string \<Rightarrow> ('w, herr option) hop"
  wo_WriteFileFn :: "string \<Rightarrow> ('w, herr option) hop"
  wo_RenameFn :: "string \<Rightarrow> string \<Rightarrow> ('w, herr option) hop"
  wo_RemoveFn :: "string \<Rightarrow> ('w, herr option) hop"
  wo_MaintenanceActiveFn :: "string \<Rightarrow> ('w, herr + bool) hop"
  wo_NowFn :: "('w, time) hop"
  wo_SleepFn :: "int \<Rightarrow> ('w, unit) hop"
  wo_RestartFn :: "string \<Rightarrow> ('w, herr option) hop"

text \<open>Why a unit is restarted.\<close>

datatype restart_cause = CauseSentinel | CauseOrgBusy | CauseQueueStall | CauseCandidate

datatype wd_call =
    CallRestart restart_cause string "herr option"
  | CallRerun string int "herr option"
  | CallRename rerunState "herr option"
  | CallHooks hook_request string
  | CallActivities "herr + Activity list"
  | CallIdle idle_Result
  | CallOrgRunners string "herr + WatchdogGitHubRunner list"
  | CallQueue "herr + WatchdogQueueEvidence"
  | CallNow time

type_synonym 'w wst = "('w, marker_file, WatchdogReport, wd_call) hst"

definition add :: "WatchdogEvent \<Rightarrow> ('w wst, unit) state" where
  "add ev = report (add_event ev)"

definition raise_exit :: "int \<Rightarrow> ('w wst, unit) state" where
  "raise_exit n = report (\<lambda>r. r\<lparr>wr_Exit := maxExit (wr_Exit r) n\<rparr>)"

definition set_exit :: "int \<Rightarrow> ('w wst, unit) state" where
  "set_exit n = report (\<lambda>r. r\<lparr>wr_Exit := n\<rparr>)"

definition now_of :: "'w WatchdogOptions \<Rightarrow> ('w wst, time) state" where
  "now_of opts = act CallNow (wo_NowFn opts)"

definition restart_call :: "'w WatchdogOptions \<Rightarrow> restart_cause \<Rightarrow> string \<Rightarrow> ('w wst, herr option) state" where
  "restart_call opts cause unit = act (CallRestart cause unit) (wo_RestartFn opts unit)"

definition is_became_busy :: "herr \<Rightarrow> bool" where
  "is_became_busy err \<longleftrightarrow> errors_Is err RunnerBecameBusy"

section \<open>The marker\<close>

text \<open>
  \<open>wo_ReadMarker\<close> answers \<open>None\<close> when the marker could be looked up, absent or not, and an error
  other than absence otherwise; what the file holds is the state's.
\<close>

definition loadRerunState :: "'w WatchdogOptions \<Rightarrow> ('w wst, herr + rerunState) state" where
  "loadRerunState opts = do {
     e \<leftarrow> look (wo_ReadMarker opts);
     f \<leftarrow> gets hs_file;
     ret (case e of
            Some err \<Rightarrow> Inl err
          | None \<Rightarrow> decodeRerunState f)
   }"

definition rename_marker :: "'w WatchdogOptions \<Rightarrow> rerunState \<Rightarrow> ('w wst, herr option) state" where
  "rename_marker opts st = do {
     e \<leftarrow> act (CallRename st) (wo_RenameFn opts (wo_MarkerPath opts @ ''.tmp'') (wo_MarkerPath opts));
     (case e of
        None \<Rightarrow> do { put_file (MarkerState st); ret None }
      | Some err \<Rightarrow> do { look (wo_RemoveFn opts (wo_MarkerPath opts @ ''.tmp'')); ret (Some err) })
   }"

definition writeRerunState :: "'w WatchdogOptions \<Rightarrow> rerunState \<Rightarrow> ('w wst, herr option) state" where
  "writeRerunState opts st = do {
     e \<leftarrow> look (wo_MkdirAllFn opts (path_Dir (wo_MarkerPath opts)));
     (case e of
        Some err \<Rightarrow> ret (Some err)
      | None \<Rightarrow>
          if \<not> state_marshals st then ret (Some (msg ''json: error calling MarshalJSON for type time.Time''))
          else do {
            e \<leftarrow> look (wo_WriteFileFn opts (wo_MarkerPath opts @ ''.tmp''));
            (case e of Some err \<Rightarrow> ret (Some err) | None \<Rightarrow> rename_marker opts st)
          })
   }"

section \<open>Workers, organisation runners\<close>

definition sees_worker :: "herr + Activity list \<Rightarrow> bool" where
  "sees_worker r =
     (case r of
        Inl _ \<Rightarrow> True
      | Inr activities \<Rightarrow> list_ex (\<lambda>a. contains (ac_Command a) ''Runner.Worker'') activities)"

definition hasLocalRunnerWorker :: "'w WatchdogOptions \<Rightarrow> ('w wst, bool) state" where
  "hasLocalRunnerWorker opts = do { r \<leftarrow> act CallActivities (wo_ActivityFn opts); ret (sees_worker r) }"

definition orgRunners :: "'w WatchdogOptions \<Rightarrow> string \<Rightarrow> ('w wst, herr + WatchdogGitHubRunner list) state" where
  "orgRunners opts org = act (CallOrgRunners org) (listWatchdogGitHubOrgRunners (wo_RunFn opts) org)"

definition is_civm_runner :: "unit_Status \<Rightarrow> WatchdogGitHubRunner \<Rightarrow> bool" where
  "is_civm_runner local gh \<longleftrightarrow>
     wg_Name gh = us_Name local \<and> hasWatchdogLabel (wg_Labels gh) ''self-hosted'' \<and> hasWatchdogLabel (wg_Labels gh) ''civm''"

definition watchdogOrgRunner :: "'w WatchdogOptions \<Rightarrow> unit_Status \<Rightarrow> ('w wst, herr + WatchdogGitHubRunner option) state" where
  "watchdogOrgRunner opts local = do {
     r \<leftarrow> orgRunners opts (us_Org local);
     ret (case r of Inl err \<Rightarrow> Inl err | Inr runners \<Rightarrow> Inr (find (is_civm_runner local) runners))
   }"

definition watchdogOnlineIdleOrgRunner :: "'w WatchdogOptions \<Rightarrow> unit_Status \<Rightarrow> ('w wst, herr + bool) state" where
  "watchdogOnlineIdleOrgRunner opts local = do {
     r \<leftarrow> watchdogOrgRunner opts local;
     ret (case r of
            Inl err \<Rightarrow> Inl err
          | Inr None \<Rightarrow> Inr False
          | Inr (Some gh) \<Rightarrow> Inr (wg_Status gh = ''online'' \<and> \<not> wg_Busy gh))
   }"

definition idle_check :: "'w WatchdogOptions \<Rightarrow> ('w wst, idle_Result) state" where
  "idle_check opts =
     act CallIdle (Check \<lparr>io_ProbeDelay = wo_IdleProbeDelay opts, io_ActivityFn = wo_ActivityFn opts, io_wait = wo_wait opts\<rparr>)"

definition idle_reason :: "idle_Result \<Rightarrow> string" where
  "idle_reason r = (if ir_Status r = StatusUnknown then ''host-idle-unknown'' else ''host-busy'')"

definition idle_detail :: "idle_Result \<Rightarrow> string" where
  "idle_detail r = (if ir_Status r = StatusUnknown then ir_Error r else FormatActivities (ir_Activities r))"

section \<open>Enriching the units\<close>

text \<open>The runner directory of a unit and its \<open>.runner\<close> file.\<close>

definition runner_directory :: "'w WatchdogOptions \<Rightarrow> unit_Status \<Rightarrow> ('w wst, string option) state" where
  "runner_directory opts status =
     (if us_UnitName status = [] \<or> ValidateServiceUnit (us_UnitName status) \<noteq> None then ret None
      else do {
        (out, e) \<leftarrow> look (wo_RunFn opts ''systemctl'' [''show'', us_UnitName status, ''--property=WorkingDirectory'', ''--value'']);
        ret (if e \<noteq> None then None
             else (let dir = trim_space out in if dir = [] \<or> dir = ''-'' then None else Some dir))
      })"

definition resolveWatchdogRunnerRepo :: "'w WatchdogOptions \<Rightarrow> unit_Status \<Rightarrow> ('w wst, string \<times> string option) state" where
  "resolveWatchdogRunnerRepo opts status = do {
     d \<leftarrow> runner_directory opts status;
     (case d of
        None \<Rightarrow> ret ([], None)
      | Some dir \<Rightarrow> do {
          r \<leftarrow> look (wo_ReadFileFn opts (path_Join dir ''.runner''));
          ret (dir, case r of Inl _ \<Rightarrow> None | Inr data \<Rightarrow> repoFromRunnerConfig data)
        })
   }"

definition resolveWatchdogRunnerOrg :: "'w WatchdogOptions \<Rightarrow> unit_Status \<Rightarrow> ('w wst, string option) state" where
  "resolveWatchdogRunnerOrg opts status = do {
     d \<leftarrow> runner_directory opts status;
     (case d of
        None \<Rightarrow> ret None
      | Some dir \<Rightarrow> do {
          r \<leftarrow> look (wo_ReadFileFn opts (path_Join dir ''.runner''));
          ret (case r of Inl _ \<Rightarrow> None | Inr data \<Rightarrow> orgFromRunnerConfig data)
        })
   }"

definition enrich_unit :: "'w WatchdogOptions \<Rightarrow> unit_Status \<Rightarrow> ('w wst, unit_Status) state" where
  "enrich_unit opts s = do {
     (dir, repo) \<leftarrow> resolveWatchdogRunnerRepo opts s;
     let s = (if dir \<noteq> [] then s\<lparr>us_WorkingDirectory := dir\<rparr> else s);
     let s = (case repo of Some r \<Rightarrow> s\<lparr>us_Repo := r\<rparr> | None \<Rightarrow> s);
     org \<leftarrow> resolveWatchdogRunnerOrg opts s;
     ret (case org of Some o' \<Rightarrow> s\<lparr>us_Org := o'\<rparr> | None \<Rightarrow> s)
   }"

definition enrichWatchdogSystemdRepos :: "'w WatchdogOptions \<Rightarrow> unit_Status list \<Rightarrow> ('w wst, unit_Status list) state" where
  "enrichWatchdogSystemdRepos opts systemd =
     for_with (\<lambda>s acc. do { s' \<leftarrow> enrich_unit opts s; ret (acc @ [s']) }) systemd []"

section \<open>GitHub's view of the runners\<close>

definition note_online :: "string \<Rightarrow> WatchdogGitHubRunner \<Rightarrow> bool \<Rightarrow> ('w wst, bool) state" where
  "note_online repo r online =
     (if wg_Status r = ''online'' \<and> hasWatchdogLabel (wg_Labels r) ''civm'' then do {
        add ((event ''runner-online'' ''info'')\<lparr>we_Repo := repo, we_Runner := wg_Name r, we_Online := True\<rparr>);
        ret True
      } else ret online)"

text \<open>The runners of each repository that could be listed, and whether a civm one is online.\<close>

definition collectWatchdogGitHubRunners ::
  "'w WatchdogOptions \<Rightarrow> string list \<Rightarrow> ('w wst, (string \<times> WatchdogGitHubRunner list) list \<times> (string \<times> bool) list) state" where
  "collectWatchdogGitHubRunners opts repos =
     for_with (\<lambda>repo (byRepo, online). do {
         r \<leftarrow> look (wo_GitHubRunnersFn opts repo);
         (case r of
            Inl err \<Rightarrow> do {
              add ((event ''runner-online-unknown'' ''warning'')
                     \<lparr>we_Repo := repo, we_Reason := ''github-runners-failed'', we_Detail := err_Error err\<rparr>);
              raise_exit 1;
              ret (byRepo, online)
            }
          | Inr runners \<Rightarrow> do {
              on \<leftarrow> for_with (note_online repo) runners (lookup_or False online repo);
              ret (map_put repo runners byRepo, if on then map_put repo True online else online)
            })
       }) repos ([], [])"

definition anyRepoOnline :: "(string \<times> bool) list \<Rightarrow> bool" where
  "anyRepoOnline online \<longleftrightarrow> list_ex snd online"

section \<open>Broken runners\<close>

definition executeRestarts :: "'w WatchdogOptions \<Rightarrow> string list \<Rightarrow> ('w wst, unit) state" where
  "executeRestarts opts toRestart =
     for_all (\<lambda>unit. do {
         let ev = (event ''runner-auto-restarted'' ''warning'')
                    \<lparr>we_Unit := unit, we_Reason := ''broken-runner-sentinel'', we_Executed := True\<rparr>;
         e \<leftarrow> restart_call opts CauseSentinel unit;
         (case e of
            None \<Rightarrow> add ev
          | Some err \<Rightarrow>
              if is_became_busy err
              then add ((event ''runner-auto-restart-skipped'' ''warning'')
                          \<lparr>we_Unit := unit, we_Reason := ''host-busy-after-freeze'', we_Detail := err_Error err\<rparr>)
              else do { raise_exit 2; add (ev\<lparr>we_Severity := ''critical'', we_Detail := err_Error err\<rparr>) })
       }) toRestart"

definition detectBrokenRunner :: "'w WatchdogOptions \<Rightarrow> unit_Status list \<Rightarrow> ('w wst, unit) state" where
  "detectBrokenRunner opts systemd = do {
     now \<leftarrow> now_of opts;
     log \<leftarrow> look (wo_ReadFileFn opts (wo_HooksLogPath opts));
     let sentinelAt = parseBrokenSentinels log now;
     (if sentinelAt = [] then ret ()
      else do {
        let (unitSentinel, evs) = mapSentinelsToUnits sentinelAt systemd;
        for_all add evs;
        (if unitSentinel = [] then ret ()
         else do {
           st \<leftarrow> loadRerunState opts;
           (case st of
              Inl err \<Rightarrow> add ((event ''runner-auto-restart-skipped'' ''warning'')
                                \<lparr>we_Reason := ''marker-read-failed'', we_Detail := err_Error err\<rparr>)
            | Inr state \<Rightarrow> do {
                let (toRestart, state, evs) = selectUnitsToRestart (wo_Execute opts) (wo_AutoRestartPerHour opts) now unitSentinel state;
                for_all add evs;
                (if toRestart = [] then ret ()
                 else do {
                   e \<leftarrow> writeRerunState opts state;
                   (case e of
                      Some err \<Rightarrow> do {
                        add ((event ''runner-auto-restart-skipped'' ''critical'')
                               \<lparr>we_Reason := ''marker-write-failed'', we_Detail := err_Error err\<rparr>);
                        raise_exit 2
                      }
                    | None \<Rightarrow> executeRestarts opts toRestart)
                 })
              })
         })
      })
   }"

section \<open>Hooks\<close>

definition or_default :: "string \<Rightarrow> string \<Rightarrow> string" where
  "or_default v d = (if v \<noteq> [] then v else d)"

definition hookRequest :: "'w WatchdogOptions \<Rightarrow> hook_request" where
  "hookRequest opts =
     \<lparr>hi_Execute = wo_Execute opts, hi_RestartRunners = False, hi_SkipScopedSudoers = True,
      hi_HooksDir = or_default (wo_HooksDir opts) ''/opt/civm/hooks'',
      hi_RunnerGlob = or_default (wo_RunnerGlob opts) ''/home/*/actions-runner*'',
      hi_CivmctlPath = or_default (wo_CivmctlPath opts) ''/usr/local/bin/civmctl''\<rparr>"

definition repairWatchdogHooks :: "'w WatchdogOptions \<Rightarrow> ('w wst, bool) state" where
  "repairWatchdogHooks opts = do {
     (files, err) \<leftarrow> act (\<lambda>a. CallHooks (hookRequest opts) (snd a)) (wo_HookInstallFn opts (hookRequest opts));
     let ev = (event ''hooks-repaired'' ''info'')
                \<lparr>we_Executed := wo_Execute opts, we_Detail := show_nat files @ '' runner env file(s)''\<rparr>;
     (if err \<noteq> [] then do {
        add (ev\<lparr>we_Severity := ''critical'', we_Reason := ''hook-install-failed'', we_Detail := err\<rparr>);
        ret False
      } else do { add ev; ret True })
   }"

section \<open>Restarting units that are down\<close>

text \<open>Units that collide with an organisation runner are taken off the candidates.\<close>

definition drop_collision :: "Collision \<Rightarrow> (string \<times> string) list \<Rightarrow> ('w wst, (string \<times> string) list) state" where
  "drop_collision c candidates =
     (if map_of candidates (co_RepoUnit c) \<noteq> None then do {
        add ((event ''runner-restart-skipped'' ''warning'')
               \<lparr>we_Unit := co_RepoUnit c, we_Reason := ''redundant-repo-runner'',
                we_Detail := ''colide com '' @ co_OrgName c @ '' para '' @ co_Repo c @ ''; remover em vez de restartar''\<rparr>);
        ret (map_del (co_RepoUnit c) candidates)
      } else ret candidates)"

definition restart_candidate ::
  "'w WatchdogOptions \<Rightarrow> (string \<times> string) list \<Rightarrow> string \<Rightarrow> ('w wst, herr option) state" where
  "restart_candidate opts candidates unit = do {
     let ev = (event ''runner-restarted'' ''info'')
                \<lparr>we_Unit := unit, we_Reason := lookup_or [] candidates unit, we_Executed := wo_Execute opts\<rparr>;
     (if \<not> wo_Execute opts then do { add ev; ret None }
      else do {
        busy \<leftarrow> hasLocalRunnerWorker opts;
        (if busy then do {
           add ((event ''runner-restart-skipped'' ''warning'')
                  \<lparr>we_Unit := unit, we_Reason := ''host-busy'', we_Detail := ''Runner.Worker appeared before restart''\<rparr>);
           ret None
         } else do {
           e \<leftarrow> restart_call opts CauseCandidate unit;
           (case e of
              None \<Rightarrow> do { add ev; ret None }
            | Some err \<Rightarrow>
                if is_became_busy err then do {
                  add ((event ''runner-restart-skipped'' ''warning'')
                         \<lparr>we_Unit := unit, we_Reason := ''host-busy-after-freeze'', we_Detail := err_Error err\<rparr>);
                  ret None
                } else do {
                  add (ev\<lparr>we_Severity := ''critical'', we_Detail := err_Error err\<rparr>);
                  ret (Some err)
                })
         })
      })
   }"

definition restartWatchdogRunners ::
  "'w WatchdogOptions \<Rightarrow> unit_Status list \<Rightarrow> (string \<times> WatchdogGitHubRunner list) list \<Rightarrow> ('w wst, herr option) state" where
  "restartWatchdogRunners opts systemd ghByRepo = do {
     candidates \<leftarrow> for_with drop_collision (DetectCollisions systemd) (restartCandidates systemd ghByRepo);
     for_each (restart_candidate opts candidates) (sortedMapKeys candidates)
   }"

section \<open>A busy organisation runner without a worker\<close>

definition busy_key :: "string \<Rightarrow> string" where
  "busy_key unit = ''org-busy:'' @ unit"

definition clear_windows :: "unit_Status list \<Rightarrow> rerunState \<Rightarrow> rerunState" where
  "clear_windows systemd st =
     fold (\<lambda>local st.
         if us_UnitName local = [] \<or> us_Org local = [] then st
         else case map_of (rs_AutoRestarts st) (busy_key (us_UnitName local)) of
                Some w \<Rightarrow> if aw_Count w = 0
                          then st\<lparr>rs_AutoRestarts := map_del (busy_key (us_UnitName local)) (rs_AutoRestarts st)\<rparr> else st
              | None \<Rightarrow> st) systemd st"

definition clearPendingWatchdogOrgBusyDwell :: "'w WatchdogOptions \<Rightarrow> unit_Status list \<Rightarrow> ('w wst, unit) state" where
  "clearPendingWatchdogOrgBusyDwell opts systemd =
     (if \<not> wo_Execute opts then ret ()
      else do {
        r \<leftarrow> loadRerunState opts;
        (case r of
           Inl err \<Rightarrow> do {
             add ((event ''runner-restart-skipped'' ''critical'')\<lparr>we_Reason := ''marker-read-failed'', we_Detail := err_Error err\<rparr>);
             raise_exit 2
           }
         | Inr st \<Rightarrow>
             if clear_windows systemd st = st then ret ()
             else do {
               e \<leftarrow> writeRerunState opts (clear_windows systemd st);
               (case e of
                  None \<Rightarrow> ret ()
                | Some err \<Rightarrow> do {
                    add ((event ''runner-restart-skipped'' ''critical'')\<lparr>we_Reason := ''marker-write-failed'', we_Detail := err_Error err\<rparr>);
                    raise_exit 2
                  })
             })
      })"

text \<open>A critical skip of a unit, with exit 2.\<close>

definition marker_failed :: "string \<Rightarrow> string \<Rightarrow> string \<Rightarrow> herr \<Rightarrow> ('w wst, unit) state" where
  "marker_failed unit runner reason err = do {
     add ((event ''runner-restart-skipped'' ''critical'')
            \<lparr>we_Unit := unit, we_Runner := runner, we_Reason := reason, we_Detail := err_Error err\<rparr>);
     raise_exit 2
   }"

definition restart_skipped :: "string \<Rightarrow> string \<Rightarrow> string \<Rightarrow> string \<Rightarrow> ('w wst, unit) state" where
  "restart_skipped unit runner reason detail =
     add ((event ''runner-restart-skipped'' ''warning'')
            \<lparr>we_Unit := unit, we_Runner := runner, we_Reason := reason, we_Detail := detail\<rparr>)"

text \<open>The window of the busy runner at this instant: a new one, or a new one once the hour of a restart is over.\<close>

definition busy_window :: "time \<Rightarrow> autoRestartWindow \<Rightarrow> autoRestartWindow" where
  "busy_window now w =
     (if aw_WindowStart w = 0 \<or> (1 \<le> aw_Count w \<and> hour \<le> time_Sub now (aw_WindowStart w))
      then \<lparr>aw_Count = 0, aw_WindowStart = now, aw_LastActed = 0\<rparr> else w)"

text \<open>The last steps: no worker, persist the restart, restart.\<close>

definition restart_busy ::
  "'w WatchdogOptions \<Rightarrow> string \<Rightarrow> string \<Rightarrow> time \<Rightarrow> rerunState \<Rightarrow> autoRestartWindow \<Rightarrow> ('w wst, unit) state" where
  "restart_busy opts unit runner now st window = do {
     let ev = (event ''runner-restarted'' ''info'')
                \<lparr>we_Unit := unit, we_Runner := runner, we_Reason := ''github-busy-without-local-worker'', we_Executed := wo_Execute opts\<rparr>;
     (if \<not> wo_Execute opts then add ev
      else do {
        busy \<leftarrow> hasLocalRunnerWorker opts;
        (if busy then restart_skipped unit runner ''host-busy'' ''Runner.Worker appeared before restart''
         else do {
           e \<leftarrow> writeRerunState opts
                  (st\<lparr>rs_AutoRestarts := map_put (busy_key unit) (window\<lparr>aw_Count := aw_Count window + 1, aw_LastActed := now\<rparr>) (rs_AutoRestarts st)\<rparr>);
           (case e of
              Some err \<Rightarrow> marker_failed unit runner ''marker-write-failed'' err
            | None \<Rightarrow> do {
                e \<leftarrow> restart_call opts CauseOrgBusy unit;
                (case e of
                   None \<Rightarrow> add ev
                 | Some err \<Rightarrow>
                     if is_became_busy err then restart_skipped unit runner ''host-busy-after-freeze'' (err_Error err)
                     else do {
                       add (ev\<lparr>we_Severity := ''critical'', we_Detail := err_Error err\<rparr>);
                       raise_exit 2
                     })
              })
         })
      })
   }"

text \<open>One busy runner: its dwell, its cooldown, then the restart.\<close>

definition recover_busy :: "'w WatchdogOptions \<Rightarrow> string \<Rightarrow> string \<Rightarrow> ('w wst, unit) state" where
  "recover_busy opts unit runner = do {
     r \<leftarrow> loadRerunState opts;
     (case r of
        Inl err \<Rightarrow> marker_failed unit runner ''marker-read-failed'' err
      | Inr st \<Rightarrow> do {
          now \<leftarrow> now_of opts;
          let window = busy_window now (lookup_or zeroWindow (rs_AutoRestarts st) (busy_key unit));
          (if aw_Count window = 0 \<and> 0 < wo_QueueStallDwell opts then do {
             let age = time_Sub now (aw_WindowStart window);
             let window = (if age < 0 then window\<lparr>aw_WindowStart := now\<rparr> else window);
             let age = max 0 age;
             let st = st\<lparr>rs_AutoRestarts := map_put (busy_key unit) window (rs_AutoRestarts st)\<rparr>;
             e \<leftarrow> (if wo_Execute opts then writeRerunState opts st else ret None);
             (case e of
                Some err \<Rightarrow> marker_failed unit runner ''marker-write-failed'' err
              | None \<Rightarrow>
                  if age < wo_QueueStallDwell opts then
                    add ((event ''runner-restart-skipped'' ''warning'')
                           \<lparr>we_Unit := unit, we_Runner := runner, we_Reason := ''org-busy-dwell'', we_Executed := wo_Execute opts,
                            we_AgeSeconds := seconds_of age\<rparr>)
                  else restart_busy opts unit runner now st window)
           }
           else if 1 \<le> aw_Count window then
             restart_skipped unit runner ''org-busy-cooldown'' ''already restarted once in the rolling hour''
           else restart_busy opts unit runner now st window)
        })
   }"

definition busy_runner :: "unit_Status \<Rightarrow> WatchdogGitHubRunner \<Rightarrow> bool" where
  "busy_runner local gh \<longleftrightarrow> wg_Name gh = us_Name local \<and> wg_Status gh = ''online'' \<and> wg_Busy gh"

text \<open>One unit of the loop; \<open>Some ()\<close> ends the whole recovery.\<close>

definition recover_busy_unit :: "'w WatchdogOptions \<Rightarrow> unit_Status \<Rightarrow> ('w wst, unit option) state" where
  "recover_busy_unit opts local =
     (if us_UnitName local = [] \<or> us_Org local = [] \<or> \<not> unit_running local then ret None
      else do {
        r \<leftarrow> orgRunners opts (us_Org local);
        (case r of
           Inl err \<Rightarrow> do {
             add ((event ''runner-online-unknown'' ''warning'')
                    \<lparr>we_Unit := us_UnitName local, we_Reason := ''github-org-runners-failed'', we_Detail := err_Error err\<rparr>);
             ret None
           }
         | Inr runners \<Rightarrow>
             (case find (busy_runner local) runners of
                Some gh \<Rightarrow> do { recover_busy opts (us_UnitName local) (wg_Name gh); ret (Some ()) }
              | None \<Rightarrow> do { clearPendingWatchdogOrgBusyDwell opts [local]; ret None }))
      })"

definition recoverWatchdogOrgBusyWithoutWorker :: "'w WatchdogOptions \<Rightarrow> unit_Status list \<Rightarrow> ('w wst, unit) state" where
  "recoverWatchdogOrgBusyWithoutWorker opts systemd = do {
     busy \<leftarrow> hasLocalRunnerWorker opts;
     (if busy then clearPendingWatchdogOrgBusyDwell opts systemd
      else do {
        look (wo_SleepFn opts (wo_IdleProbeDelay opts));
        busy \<leftarrow> hasLocalRunnerWorker opts;
        (if busy then clearPendingWatchdogOrgBusyDwell opts systemd
         else do { for_each (recover_busy_unit opts) systemd; ret () })
      })
   }"

section \<open>An idle organisation runner while jobs wait\<close>

definition clearQueueStallIncident ::
  "'w WatchdogOptions \<Rightarrow> rerunState \<Rightarrow> string \<Rightarrow> string \<Rightarrow> bool \<Rightarrow> string \<Rightarrow> ('w wst, unit) state" where
  "clearQueueStallIncident opts st unit runner exists reason =
     (if \<not> exists then ret ()
      else do {
        let ev = (event ''queue-stall-recovered'' ''info'')
                   \<lparr>we_Unit := unit, we_Runner := runner, we_Reason := reason, we_Executed := wo_Execute opts\<rparr>;
        (if \<not> wo_Execute opts then add ev
         else do {
           e \<leftarrow> writeRerunState opts (st\<lparr>rs_QueueStalls := map_del unit (rs_QueueStalls st)\<rparr>);
           (case e of
              Some err \<Rightarrow> marker_failed unit runner ''marker-write-failed'' err
            | None \<Rightarrow> add ev)
         })
      })"

text \<open>The only active organisation runner; more than one is ambiguous.\<close>

fun only_org_runner :: "unit_Status option \<Rightarrow> unit_Status list \<Rightarrow> unit_Status option option" where
  "only_org_runner found [] = Some found"
| "only_org_runner found (s # ss) =
     (if us_UnitName s = [] \<or> us_Org s = [] \<or> \<not> unit_running s then only_org_runner found ss
      else case found of Some _ \<Rightarrow> None | None \<Rightarrow> only_org_runner (Some s) ss)"

definition stall_event :: "string \<Rightarrow> string \<Rightarrow> string \<Rightarrow> string \<Rightarrow> string \<Rightarrow> int \<Rightarrow> int \<Rightarrow> WatchdogEvent" where
  "stall_event name severity unit runner reason jobs age =
     (event name severity)\<lparr>we_Unit := unit, we_Runner := runner, we_Reason := reason, we_QueuedJobs := jobs, we_AgeSeconds := age\<rparr>"

text \<open>The incident is recorded as restarted, then the unit is restarted.\<close>

definition restart_stalled ::
  "'w WatchdogOptions \<Rightarrow> string \<Rightarrow> string \<Rightarrow> time \<Rightarrow> int \<Rightarrow> int \<Rightarrow> rerunState \<Rightarrow> queueStallIncident \<Rightarrow> ('w wst, unit) state" where
  "restart_stalled opts unit runner now jobs age st incident = do {
     let st = st\<lparr>rs_QueueStalls := map_put unit (incident\<lparr>qi_RestartedAt := now\<rparr>) (rs_QueueStalls st)\<rparr>;
     e \<leftarrow> writeRerunState opts st;
     (case e of
        Some err \<Rightarrow> marker_failed unit runner ''marker-write-failed'' err
      | None \<Rightarrow> do {
          let ev = (stall_event ''runner-restarted'' ''info'' unit runner ''github-online-idle-with-civm-queue'' jobs (seconds_of age))
                     \<lparr>we_Executed := True\<rparr>;
          let restarted = (\<lambda>ev. do {
              report (\<lambda>r. r\<lparr>wr_Metrics := (wr_Metrics r)\<lparr>wm_RunnerRestarts := wm_RunnerRestarts (wr_Metrics r) + 1\<rparr>\<rparr>);
              add ev
            });
          e \<leftarrow> restart_call opts CauseQueueStall unit;
          (case e of
             None \<Rightarrow> restarted ev
           | Some err \<Rightarrow>
               if is_became_busy err then do {
                 e \<leftarrow> writeRerunState opts
                        (st\<lparr>rs_QueueStalls := map_put unit (incident\<lparr>qi_RestartedAt := 0\<rparr>) (rs_QueueStalls st)\<rparr>);
                 (case e of
                    Some werr \<Rightarrow> marker_failed unit runner ''marker-write-failed'' werr
                  | None \<Rightarrow> add ((stall_event ''runner-restart-skipped'' ''warning'' unit runner ''host-busy-after-freeze'' jobs 0)
                                   \<lparr>we_Detail := err_Error err\<rparr>))
               } else do {
                 raise_exit 2;
                 restarted (ev\<lparr>we_Severity := ''critical'', we_Detail := err_Error err\<rparr>)
               })
        })
   }"

text \<open>The three signals once more, immediately before the restart.\<close>

definition revalidate_stalled ::
  "'w WatchdogOptions \<Rightarrow> unit_Status \<Rightarrow> string list \<Rightarrow> string \<Rightarrow> time \<Rightarrow> WatchdogQueueEvidence \<Rightarrow> int \<Rightarrow> rerunState
     \<Rightarrow> queueStallIncident \<Rightarrow> ('w wst, unit) state" where
  "revalidate_stalled opts local repos runner now evidence age st incident = do {
     let unit = us_UnitName local;
     ready \<leftarrow> watchdogOnlineIdleOrgRunner opts local;
     (if ready \<noteq> Inr True then
        restart_skipped unit runner ''runner-state-changed'' (case ready of Inl err \<Rightarrow> err_Error err | Inr _ \<Rightarrow> [])
      else do {
        again \<leftarrow> act CallQueue (wo_QueuedCivmJobsFn opts repos now (wo_MaxRunAge opts));
        (if (case again of Inl _ \<Rightarrow> True
             | Inr ev \<Rightarrow> wq_EligibleJobs ev = 0 \<or> wq_Signature ev \<noteq> wq_Signature evidence) then
           restart_skipped unit runner ''queue-state-changed'' (case again of Inl err \<Rightarrow> err_Error err | Inr _ \<Rightarrow> [])
         else do {
           idleResult \<leftarrow> idle_check opts;
           (if ir_Status idleResult \<noteq> StatusIdle then restart_skipped unit runner (idle_reason idleResult) []
            else restart_stalled opts unit runner now (wq_EligibleJobs evidence) age st incident)
         })
      })
   }"

text \<open>An incident that was seen before: unresolved, too young, or due.\<close>

definition advance_stall ::
  "'w WatchdogOptions \<Rightarrow> unit_Status \<Rightarrow> string list \<Rightarrow> string \<Rightarrow> time \<Rightarrow> WatchdogQueueEvidence \<Rightarrow> rerunState
     \<Rightarrow> queueStallIncident \<Rightarrow> ('w wst, unit) state" where
  "advance_stall opts local repos runner now evidence st incident = do {
     let unit = us_UnitName local;
     let age = time_Sub now (qi_FirstSeen incident);
     let jobs = wq_EligibleJobs evidence;
     (if qi_RestartedAt incident \<noteq> 0 then do {
        report (\<lambda>r. r\<lparr>wr_Metrics := (wr_Metrics r)\<lparr>wm_StallsUnresolved := wm_StallsUnresolved (wr_Metrics r) + 1\<rparr>\<rparr>);
        add (stall_event ''queue-stall-unresolved'' ''critical'' unit runner ''restart-did-not-advance-queue'' jobs (seconds_of age));
        raise_exit 2
      }
      else if age < wo_QueueStallDwell opts then
        add (stall_event ''queue-stall-observed'' ''warning'' unit runner ''dwell-not-reached'' jobs (seconds_of age))
      else if \<not> wo_Execute opts then
        add (stall_event ''runner-restarted'' ''info'' unit runner ''github-online-idle-with-civm-queue'' jobs (seconds_of age))
      else revalidate_stalled opts local repos runner now evidence age st incident)
   }"

text \<open>A new incident is recorded and armed.\<close>

definition arm_stall ::
  "'w WatchdogOptions \<Rightarrow> string \<Rightarrow> string \<Rightarrow> time \<Rightarrow> WatchdogQueueEvidence \<Rightarrow> rerunState \<Rightarrow> ('w wst, unit) state" where
  "arm_stall opts unit runner now evidence st = do {
     let incident = \<lparr>qi_Signature = wq_Signature evidence, qi_FirstSeen = now, qi_RestartedAt = 0\<rparr>;
     e \<leftarrow> (if wo_Execute opts
           then writeRerunState opts (st\<lparr>rs_QueueStalls := map_put unit incident (rs_QueueStalls st)\<rparr>) else ret None);
     (case e of
        Some err \<Rightarrow> marker_failed unit runner ''marker-write-failed'' err
      | None \<Rightarrow> add ((stall_event ''queue-stall-armed'' ''warning'' unit runner ''github-online-idle-with-civm-queue''
                        (wq_EligibleJobs evidence) 0)\<lparr>we_Executed := wo_Execute opts\<rparr>))
   }"

text \<open>The runner is online and idle: look at the queue, then at the host.\<close>

definition check_stall ::
  "'w WatchdogOptions \<Rightarrow> unit_Status \<Rightarrow> string list \<Rightarrow> string \<Rightarrow> rerunState \<Rightarrow> ('w wst, unit) state" where
  "check_stall opts local repos runner st = do {
     let unit = us_UnitName local;
     let found = map_of (rs_QueueStalls st) unit;
     now \<leftarrow> now_of opts;
     q \<leftarrow> act CallQueue (wo_QueuedCivmJobsFn opts repos now (wo_MaxRunAge opts));
     (case q of
        Inl err \<Rightarrow> do { restart_skipped unit runner ''queued-jobs-unknown'' (err_Error err); raise_exit 1 }
      | Inr evidence \<Rightarrow>
          if wq_EligibleJobs evidence = 0 then
            clearQueueStallIncident opts st unit runner (found \<noteq> None) ''eligible-queue-empty''
          else do {
            idleResult \<leftarrow> idle_check opts;
            (if ir_Status idleResult \<noteq> StatusIdle then
               add ((stall_event ''runner-restart-skipped'' ''warning'' unit runner (idle_reason idleResult) (wq_EligibleJobs evidence) 0)
                      \<lparr>we_Detail := idle_detail idleResult\<rparr>)
             else do {
               report (\<lambda>r. r\<lparr>wr_Metrics := (wr_Metrics r)\<lparr>wm_QueueStalls := wm_QueueStalls (wr_Metrics r) + 1\<rparr>\<rparr>);
               (case found of
                  Some incident \<Rightarrow>
                    if qi_Signature incident \<noteq> wq_Signature evidence then arm_stall opts unit runner now evidence st
                    else advance_stall opts local repos runner now evidence st incident
                | None \<Rightarrow> arm_stall opts unit runner now evidence st)
             })
          })
   }"

definition recoverWatchdogOrgIdleWithQueue ::
  "'w WatchdogOptions \<Rightarrow> unit_Status list \<Rightarrow> string list \<Rightarrow> ('w wst, unit) state" where
  "recoverWatchdogOrgIdleWithQueue opts systemd repos =
     (case only_org_runner None systemd of
        None \<Rightarrow> add ((event ''runner-restart-skipped'' ''warning'')
                       \<lparr>we_Reason := ''ambiguous-org-runner'', we_Detail := ''mais de 1 runner org ativo; nenhuma unit escolhida''\<rparr>)
      | Some None \<Rightarrow> ret ()
      | Some (Some local) \<Rightarrow>
          if repos = [] then ret ()
          else do {
            r \<leftarrow> watchdogOrgRunner opts local;
            (case r of
               Inl err \<Rightarrow> do {
                 add ((event ''runner-restart-skipped'' ''warning'')
                        \<lparr>we_Unit := us_UnitName local, we_Reason := ''github-org-runners-failed'', we_Detail := err_Error err\<rparr>);
                 raise_exit 1
               }
             | Inr None \<Rightarrow> ret ()
             | Inr (Some gh) \<Rightarrow> do {
                 l \<leftarrow> loadRerunState opts;
                 (case l of
                    Inl err \<Rightarrow> marker_failed (us_UnitName local) (wg_Name gh) ''marker-read-failed'' err
                  | Inr st \<Rightarrow>
                      if wg_Status gh = ''online'' \<and> wg_Busy gh then
                        clearQueueStallIncident opts st (us_UnitName local) (wg_Name gh)
                          (map_of (rs_QueueStalls st) (us_UnitName local) \<noteq> None) ''runner-consuming-job''
                      else if wg_Status gh \<noteq> ''online'' \<or> wg_Busy gh then ret ()
                      else check_stall opts local repos (wg_Name gh) st)
               })
          })"

section \<open>Rerunning network failures\<close>

definition skipRunBeforeLog :: "'w WatchdogOptions \<Rightarrow> time \<Rightarrow> string \<Rightarrow> WatchdogRun \<Rightarrow> rerunState \<Rightarrow> string" where
  "skipRunBeforeLog opts now repo run st =
     (if ValidateRepo repo \<noteq> None then ''repo-invalid''
      else if \<not> rerunnableConclusion (wn_Conclusion run) then ''conclusion-not-rerunnable''
      else if wn_CreatedAt run = 0 then ''run-created-at-missing''
      else if wo_MaxRunAge opts < time_Sub now (wn_CreatedAt run) then ''run-too-old''
      else if wn_PullRequests run = [] then ''no-open-pr-association''
      else if rm_RunID (lookup_or zeroMarker (rs_Reruns st) (rerunMarkerKey (wn_ID run) (wn_HeadSHA run))) \<noteq> 0 then ''already-rerun''
      else [])"

text \<open>
  \<open>NowFn\<close> is only called when the run has a creation time; \<open>skip_reason\<close> asks the clock where
  \<open>skipRunBeforeLog\<close> does.
\<close>

definition skip_reason :: "'w WatchdogOptions \<Rightarrow> string \<Rightarrow> WatchdogRun \<Rightarrow> rerunState \<Rightarrow> ('w wst, string) state" where
  "skip_reason opts repo run st =
     (if ValidateRepo repo \<noteq> None \<or> \<not> rerunnableConclusion (wn_Conclusion run) \<or> wn_CreatedAt run = 0
      then ret (skipRunBeforeLog opts 0 repo run st)
      else do { now \<leftarrow> now_of opts; ret (skipRunBeforeLog opts now repo run st) })"

text \<open>The open pull request of a run, or the reason there is none to act for.\<close>

fun openPullRequest_from ::
  "'w WatchdogOptions \<Rightarrow> string \<Rightarrow> string \<Rightarrow> int list \<Rightarrow> ('w wst, herr + WatchdogPullRequest \<times> string) state" where
  "openPullRequest_from opts repo lastReason [] = ret (Inr (\<lparr>wp_Number = 0, wp_State = [], wp_MergeableState = []\<rparr>, lastReason))"
| "openPullRequest_from opts repo lastReason (number # refs) =
     (if number \<le> 0 then openPullRequest_from opts repo lastReason refs
      else do {
        r \<leftarrow> look (wo_PullRequestFn opts repo number);
        (case r of
           Inl err \<Rightarrow> ret (Inl err)
         | Inr pr \<Rightarrow>
             if wp_State pr \<noteq> ''open'' then openPullRequest_from opts repo ''pr-not-open'' refs
             else (let mergeable = to_lower (trim_space (wp_MergeableState pr)) in
                   if mergeable = ''dirty'' \<or> mergeable = ''conflicting'' then ret (Inr (pr, ''pr-conflicting''))
                   else ret (Inr (pr, []))))
      })"

definition openPullRequestForRun ::
  "'w WatchdogOptions \<Rightarrow> string \<Rightarrow> WatchdogRun \<Rightarrow> ('w wst, herr + WatchdogPullRequest \<times> string) state" where
  "openPullRequestForRun opts repo run = openPullRequest_from opts repo ''no-open-pr-association'' (wn_PullRequests run)"

definition run_event :: "string \<Rightarrow> string \<Rightarrow> string \<Rightarrow> WatchdogRun \<Rightarrow> string \<Rightarrow> string \<Rightarrow> WatchdogEvent" where
  "run_event name severity repo run reason detail =
     (event name severity)\<lparr>we_Repo := repo, we_RunID := wn_ID run, we_HeadSHA := wn_HeadSHA run, we_Reason := reason, we_Detail := detail\<rparr>"

text \<open>The rerun itself, and the marker of it in memory. \<open>Inl\<close> aborts the whole pass.\<close>

definition trigger_rerun ::
  "'w WatchdogOptions \<Rightarrow> string \<Rightarrow> WatchdogRun \<Rightarrow> WatchdogPullRequest \<Rightarrow> string \<Rightarrow> rerunState \<times> bool
     \<Rightarrow> ('w wst, herr + rerunState \<times> bool) state" where
  "trigger_rerun opts repo run pr sig c = do {
     let ev = (run_event ''rerun-triggered'' ''info'' repo run ''network-checkout'' (''pr='' @ show_int (wp_Number pr) @ '' signature='' @ sig))
                \<lparr>we_Executed := wo_Execute opts\<rparr>;
     (if \<not> wo_Execute opts then do { add ev; ret (Inr c) }
      else do {
        e \<leftarrow> act (CallRerun repo (wn_ID run)) (wo_RerunFn opts repo (wn_ID run));
        (case e of
           Some err \<Rightarrow> do {
             add (ev\<lparr>we_Severity := ''critical'', we_Detail := ''gh run rerun: '' @ err_Error err\<rparr>);
             ret (Inl err)
           }
         | None \<Rightarrow> do {
             now \<leftarrow> now_of opts;
             let st = (fst c)\<lparr>rs_Reruns := map_put (rerunMarkerKey (wn_ID run) (wn_HeadSHA run))
                        \<lparr>rm_Repo = repo, rm_RunID = wn_ID run, rm_HeadSHA = wn_HeadSHA run, rm_RerunAt = now\<rparr> (rs_Reruns (fst c))\<rparr>;
             add ev;
             ret (Inr (st, True))
           })
      })
   }"

definition evaluateNetworkRerun ::
  "'w WatchdogOptions \<Rightarrow> string \<Rightarrow> WatchdogRun \<Rightarrow> rerunState \<times> bool \<Rightarrow> ('w wst, herr + rerunState \<times> bool) state" where
  "evaluateNetworkRerun opts repo run c = do {
     reason \<leftarrow> skip_reason opts repo run (fst c);
     (if reason \<noteq> [] then do { add (run_event ''rerun-skipped'' ''info'' repo run reason []); ret (Inr c) }
      else do {
        r \<leftarrow> openPullRequestForRun opts repo run;
        (case r of
           Inl err \<Rightarrow> do {
             add (run_event ''rerun-skipped'' ''warning'' repo run ''pr-check-failed'' (err_Error err));
             raise_exit 1;
             ret (Inr c)
           }
         | Inr (pr, reason) \<Rightarrow>
             if reason \<noteq> [] then do { add (run_event ''rerun-skipped'' ''info'' repo run reason []); ret (Inr c) }
             else do {
               l \<leftarrow> look (wo_RunLogFn opts repo (wn_ID run));
               (case l of
                  Inl err \<Rightarrow> do {
                    add (run_event ''rerun-skipped'' ''warning'' repo run ''log-fetch-failed'' (err_Error err));
                    raise_exit 1;
                    ret (Inr c)
                  }
                | Inr log \<Rightarrow>
                    (let cl = ClassifyFailureLog log in
                     if fc_Kind cl \<noteq> FailureNetworkCheckout then do {
                       add (run_event ''rerun-skipped'' ''info'' repo run (kind_text (fc_Kind cl)) (fc_Detail cl));
                       ret (Inr c)
                     }
                     else trigger_rerun opts repo run pr (fc_Signature cl) c))
             })
      })
   }"

fun evaluate_runs ::
  "'w WatchdogOptions \<Rightarrow> string \<Rightarrow> WatchdogRun list \<Rightarrow> rerunState \<times> bool \<Rightarrow> ('w wst, herr + rerunState \<times> bool) state" where
  "evaluate_runs opts repo [] c = ret (Inr c)"
| "evaluate_runs opts repo (run # runs) c = do {
     report (\<lambda>r. r\<lparr>wr_Metrics := (wr_Metrics r)\<lparr>wm_RunsConsidered := wm_RunsConsidered (wr_Metrics r) + 1\<rparr>\<rparr>);
     x \<leftarrow> evaluateNetworkRerun opts repo run c;
     (case x of Inl err \<Rightarrow> ret (Inl err) | Inr c' \<Rightarrow> evaluate_runs opts repo runs c')
   }"

fun rerun_repos ::
  "'w WatchdogOptions \<Rightarrow> (string \<times> bool) list \<Rightarrow> string list \<Rightarrow> rerunState \<times> bool \<Rightarrow> ('w wst, herr + rerunState \<times> bool) state" where
  "rerun_repos opts online [] c = ret (Inr c)"
| "rerun_repos opts online (repo # repos) c =
     (if \<not> lookup_or False online repo then do {
        add ((event ''rerun-skipped'' ''warning'')\<lparr>we_Repo := repo, we_Reason := ''runner-not-online''\<rparr>);
        rerun_repos opts online repos c
      } else do {
        r \<leftarrow> look (wo_ListRunsFn opts repo (wo_RunLimit opts));
        (case r of
           Inl err \<Rightarrow> do {
             add ((event ''rerun-skipped'' ''warning'')\<lparr>we_Repo := repo, we_Reason := ''run-list-failed'', we_Detail := err_Error err\<rparr>);
             raise_exit 1;
             rerun_repos opts online repos c
           }
         | Inr runs \<Rightarrow> do {
             x \<leftarrow> evaluate_runs opts repo runs c;
             (case x of Inl err \<Rightarrow> ret (Inl err) | Inr c' \<Rightarrow> rerun_repos opts online repos c')
           })
      })"

definition rerunWatchdogNetworkFailures ::
  "'w WatchdogOptions \<Rightarrow> string list \<Rightarrow> (string \<times> bool) list \<Rightarrow> ('w wst, herr option) state" where
  "rerunWatchdogNetworkFailures opts repos online = do {
     l \<leftarrow> loadRerunState opts;
     (case l of
        Inl err \<Rightarrow> do {
          add ((event ''rerun-skipped'' ''critical'')\<lparr>we_Reason := ''marker-read-failed'', we_Detail := err_Error err\<rparr>);
          ret (Some err)
        }
      | Inr st \<Rightarrow> do {
          x \<leftarrow> rerun_repos opts online repos (st, False);
          (case x of
             Inl err \<Rightarrow> ret (Some err)
           | Inr (st, mutated) \<Rightarrow>
               if \<not> mutated then ret None
               else do {
                 e \<leftarrow> writeRerunState opts st;
                 (case e of
                    None \<Rightarrow> ret None
                  | Some err \<Rightarrow> do {
                      add ((event ''rerun-skipped'' ''critical'')\<lparr>we_Reason := ''marker-write-failed'', we_Detail := err_Error err\<rparr>);
                      ret (Some err)
                    })
               })
        })
   }"

section \<open>The watchdog\<close>

definition validateWatchdogOptions :: "'w WatchdogOptions \<Rightarrow> herr option" where
  "validateWatchdogOptions opts =
     (case List.map_filter ValidateRepo (wo_Repos opts) of
        err # _ \<Rightarrow> Some err
      | [] \<Rightarrow>
          if wo_NetworkTimeout opts \<le> 0 then Some (msg ''--network-timeout deve ser >0'')
          else if wo_RestartDelay opts < 0 then Some (msg ''--restart-delay deve ser >=0'')
          else if wo_MaxRunAge opts \<le> 0 then Some (msg ''--max-run-age deve ser >0'')
          else if wo_RunLimit opts < 1 \<or> 100 < wo_RunLimit opts then Some (msg ''run limit deve ficar entre 1 e 100'')
          else if wo_QueueStallDwell opts \<le> 0 then Some (msg ''queue stall dwell deve ser >0'')
          else if CHR 0x00 \<in> set (wo_MarkerPath opts) \<or> \<not> path_IsAbs (path_Clean (wo_MarkerPath opts))
          then Some (msg ''marker path deve ser absoluto e seguro'') else None)"

definition applyWatchdogScalarDefaults :: "'w WatchdogOptions \<Rightarrow> 'w WatchdogOptions" where
  "applyWatchdogScalarDefaults opts =
     opts\<lparr>wo_NetworkTimeout := (if wo_NetworkTimeout opts = 0 then 10 * second else wo_NetworkTimeout opts),
          wo_RestartDelay := (if wo_RestartDelay opts = 0 then 10 * second else wo_RestartDelay opts),
          wo_MaxRunAge := (if wo_MaxRunAge opts = 0 then 6 * hour else wo_MaxRunAge opts),
          wo_RunLimit := (if wo_RunLimit opts = 0 then 20 else wo_RunLimit opts),
          wo_MarkerPath := or_default (wo_MarkerPath opts) ''/var/lib/civm/runner-watchdog-reruns.json'',
          wo_MaintenanceStatePath := or_default (wo_MaintenanceStatePath opts) ''/var/lib/civm/maintenance.json'',
          wo_HooksLogPath := or_default (wo_HooksLogPath opts) ''/var/log/civm/hooks.jsonl'',
          wo_AutoRestartPerHour := (if wo_AutoRestartPerHour opts = 0 then 3 else wo_AutoRestartPerHour opts),
          wo_QueueStallDwell := (if wo_QueueStallDwell opts = 0 then 5 * minute else wo_QueueStallDwell opts)\<rparr>"

definition finish_with :: "WatchdogEvent \<Rightarrow> int \<Rightarrow> ('w wst, unit) state" where
  "finish_with ev n = do { add ev; set_exit n }"

text \<open>The fleet of an organisation runner, or no repository at all.\<close>

definition watchdog_org :: "'w WatchdogOptions \<Rightarrow> unit_Status list \<Rightarrow> string list \<Rightarrow> ('w wst, unit) state" where
  "watchdog_org opts systemd repos = do {
     let localOnlineBeforeRepair = anyLocalRunnerOnline systemd;
     recoverWatchdogOrgBusyWithoutWorker opts systemd;
     recoverWatchdogOrgIdleWithQueue opts systemd repos;
     e \<leftarrow> restartWatchdogRunners opts systemd [];
     (if e \<noteq> None then set_exit 2
      else do {
        report (\<lambda>r. r\<lparr>wr_RunnerOnline := localOnlineBeforeRepair \<or> watchdogReportHasEvent r ''runner-restarted''\<rparr>);
        (if repos = [] then add ((event ''rerun-skipped'' ''warning'')\<lparr>we_Reason := ''no-repos''\<rparr>) else ret ());
        (if systemd = [] then raise_exit 1 else ret ())
      })
   }"

definition note_offline :: "(string \<times> bool) list \<Rightarrow> string \<Rightarrow> ('w wst, unit) state" where
  "note_offline online repo =
     (if \<not> lookup_or False online repo then do {
        add ((event ''runner-offline'' ''warning'')\<lparr>we_Repo := repo, we_Reason := ''github-not-online''\<rparr>);
        raise_exit 1
      } else ret ())"

text \<open>After the host was found idle: hooks, restarts, then the reruns.\<close>

definition watchdog_repair ::
  "'w WatchdogOptions \<Rightarrow> unit_Status list \<Rightarrow> string list \<Rightarrow> (string \<times> WatchdogGitHubRunner list) list \<Rightarrow> ('w wst, unit) state" where
  "watchdog_repair opts systemd repos ghBefore = do {
     ok \<leftarrow> repairWatchdogHooks opts;
     (if \<not> ok then set_exit 2
      else do {
        e \<leftarrow> restartWatchdogRunners opts systemd ghBefore;
        (if e \<noteq> None then set_exit 2
         else do {
           (_, online) \<leftarrow> collectWatchdogGitHubRunners opts repos;
           report (\<lambda>r. r\<lparr>wr_RunnerOnline := anyRepoOnline online\<rparr>);
           for_all (note_offline online) repos;
           (if \<not> wo_RerunNetworkFailures opts then add ((event ''rerun-skipped'' ''info'')\<lparr>we_Reason := ''disabled''\<rparr>)
            else do {
              e \<leftarrow> rerunWatchdogNetworkFailures opts repos online;
              (if e \<noteq> None then set_exit 2 else ret ())
            })
         })
      })
   }"

text \<open>The repositories of per-repository runners.\<close>

definition watchdog_repos :: "'w WatchdogOptions \<Rightarrow> unit_Status list \<Rightarrow> string list \<Rightarrow> ('w wst, unit) state" where
  "watchdog_repos opts systemd repos = do {
     (ghBefore, online) \<leftarrow> collectWatchdogGitHubRunners opts repos;
     report (\<lambda>r. r\<lparr>wr_RunnerOnline := anyRepoOnline online\<rparr>);
     detectBrokenRunner opts systemd;
     idleResult \<leftarrow> (if wo_Execute opts then idle_check opts else ret idleResult);
     (if ir_Status idleResult \<noteq> StatusIdle then do {
        add ((event ''runner-restart-skipped'' ''warning'')
               \<lparr>we_Reason := idle_reason idleResult, we_Detail := idle_detail idleResult\<rparr>);
        (if wo_RerunNetworkFailures opts
         then add ((event ''rerun-skipped'' ''warning'')
                     \<lparr>we_Reason := idle_reason idleResult, we_Detail := idle_detail idleResult\<rparr>) else ret ())
      }
      else watchdog_repair opts systemd repos ghBefore)
   }"

text \<open>Which repositories to look after; \<open>Inl\<close> is a refused configuration.\<close>

definition watchdog_targets ::
  "'w WatchdogOptions \<Rightarrow> unit_Status list \<Rightarrow> ('w wst, herr + string list \<times> bool) state" where
  "watchdog_targets opts systemd =
     (let repos = (if wo_InferRepos opts \<and> wo_Repos opts = [] then inferWatchdogRepos systemd else wo_Repos opts) in
      if wo_InferRepos opts \<and> repos = [] \<and> hasWatchdogOrgRunner systemd then do {
        r \<leftarrow> look (wo_QueueReposFn opts);
        ret (case r of
               Inl err \<Rightarrow> Inl err
             | Inr configured \<Rightarrow>
                 (case normalizeWatchdogRepos configured of Inl err \<Rightarrow> Inl err | Inr rs \<Rightarrow> Inr (rs, rs \<noteq> [])))
      } else ret (Inr (repos, False)))"

definition watchdog_tick :: "'w WatchdogOptions \<Rightarrow> ('w wst, unit) state" where
  "watchdog_tick opts = do {
     (units, e) \<leftarrow> look (wo_SystemRunnersFn opts);
     (case e of
        Some err \<Rightarrow> do {
          add ((event ''runner-status-unknown'' ''warning'')\<lparr>we_Reason := ''systemd-list-failed'', we_Detail := err_Error err\<rparr>);
          raise_exit 1
        }
      | None \<Rightarrow> ret ());
     systemd \<leftarrow> enrichWatchdogSystemdRepos opts units;
     t \<leftarrow> watchdog_targets opts systemd;
     (case t of
        Inl err \<Rightarrow> finish_with ((event ''runner-restart-skipped'' ''critical'')
                                  \<lparr>we_Reason := ''queue-repos-failed'', we_Detail := err_Error err\<rparr>) 2
      | Inr (repos, usedOrgFleetFallback) \<Rightarrow> do {
          report (\<lambda>r. r\<lparr>wr_Repos := repos\<rparr>);
          (if repos = [] \<or> usedOrgFleetFallback then watchdog_org opts systemd repos
           else watchdog_repos opts systemd repos)
        })
   }"

definition Watchdog :: "'w WatchdogOptions \<Rightarrow> ('w wst, unit) state" where
  "Watchdog opts0 =
     (let opts = applyWatchdogScalarDefaults opts0 in do {
        report (\<lambda>_. newReport (wo_Execute opts));
        (case validateWatchdogOptions opts of
           Some err \<Rightarrow> finish_with ((event ''watchdog-invalid'' ''critical'')
                                     \<lparr>we_Reason := ''invalid-options'', we_Detail := err_Error err\<rparr>) 2
         | None \<Rightarrow> do {
             m \<leftarrow> look (wo_MaintenanceActiveFn opts (wo_MaintenanceStatePath opts));
             (case m of
                Inl err \<Rightarrow> finish_with ((event ''runner-restart-skipped'' ''critical'')
                                          \<lparr>we_Reason := ''maintenance-state-unknown'', we_Detail := err_Error err\<rparr>) 1
              | Inr True \<Rightarrow> add ((event ''runner-restart-skipped'' ''info'')\<lparr>we_Reason := ''maintenance-active''\<rparr>)
              | Inr False \<Rightarrow> do {
                  n \<leftarrow> look (wo_NetworkFn opts (wo_NetworkTimeout opts));
                  (case n of
                     Some err \<Rightarrow> finish_with ((event ''network-down'' ''warning'')
                                               \<lparr>we_Reason := ''github-unreachable'', we_Detail := err_Error err\<rparr>) 1
                   | None \<Rightarrow> watchdog_tick opts)
                })
           })
      })"

end
