(* ===== verification/Watchdog_Calls.thy ===== *)
theory Watchdog_Calls
  imports Watchdog_Model
begin

text \<open>
  The calculus for the calls of the runner watchdog: the functions that only look, and rules
  that every call obeys together with the marker on disk when it is made. A rule is an
  interface (\<open>call_rule\<close>) between the property and the functions; the composition lemmas are
  proved once in it.
\<close>

section \<open>Calls that only look\<close>

definition looks_only :: "wd_call \<Rightarrow> bool" where
  "looks_only c = (case c of CallRestart _ _ _ \<Rightarrow> False | CallRerun _ _ _ \<Rightarrow> False | CallRename _ _ \<Rightarrow> False | CallHooks _ _ \<Rightarrow> False | _ \<Rightarrow> True)"

definition watches :: "'w wst \<Rightarrow> 'w wst \<Rightarrow> bool" where
  "watches s t \<longleftrightarrow> hs_file t = hs_file s \<and>
     (\<exists>new. hs_trace t = hs_trace s @ new \<and> list_all (\<lambda>(c, f). looks_only c \<and> f = hs_file s) new)"

lemma reflp_watches [simp]: "reflp watches"
  by (simp add: reflp_def watches_def)

lemma transp_watches [simp]: "transp watches"
  by (fastforce intro!: transpI simp: watches_def)

lemma watches_refl [simp]: "watches s s"
  by (simp add: watches_def)

lemma watches_trans: "watches s t \<Longrightarrow> watches t u \<Longrightarrow> watches s u"
  using transp_watches by (rule transpD)

named_theorems watching \<open>functions of the watchdog that only look\<close>

lemma watches_act [watching]: "(\<And>a. looks_only (ev a)) \<Longrightarrow> keeps watches (act ev g)"
  by (rule keepsI_wp) (simp add: watches_def split: prod.split)

lemma watches_look [watching, simp]: "keeps watches (look g)"
  by (rule keepsI_wp) (simp add: watches_def split: prod.split)

lemma watches_report [watching, simp]: "keeps watches (report f)"
  by (rule keepsI_wp) (simp add: watches_def)

lemma looks_only_simps [simp]:
  "looks_only (CallActivities r)" "looks_only (CallIdle i)" "looks_only (CallOrgRunners g q)" "looks_only (CallQueue e)"
  "looks_only (CallNow t)" "\<not> looks_only (CallRestart c u x)" "\<not> looks_only (CallRerun p n x)" "\<not> looks_only (CallRename st x)"
  "\<not> looks_only (CallHooks h m)"
  by (simp_all add: looks_only_def)

lemmas watching_intros = keeps_bind keeps_for_each keeps_for_all keeps_for_with keeps_cases

lemma watches_add [watching, simp]: "keeps watches (add ev)"
  by (simp add: add_def)

lemma watches_exit [watching, simp]: "keeps watches (raise_exit n)" "keeps watches (set_exit n)"
  by (simp_all add: raise_exit_def set_exit_def)

lemma watches_finish [watching, simp]: "keeps watches (finish_with ev n)"
  by (auto simp: finish_with_def intro!: keeps_bind)

lemma watches_now [watching, simp]: "keeps watches (now_of opts)"
  by (simp add: now_of_def watches_act)

lemma watches_load [watching, simp]: "keeps watches (loadRerunState opts)"
  by (auto simp: loadRerunState_def intro!: keeps_bind)

lemma watches_worker [watching, simp]: "keeps watches (hasLocalRunnerWorker opts)"
  by (auto simp: hasLocalRunnerWorker_def intro!: keeps_bind watches_act)

lemma watches_orgRunner [watching, simp]:
  "keeps watches (orgRunners opts g)" "keeps watches (watchdogOrgRunner opts l)" "keeps watches (watchdogOnlineIdleOrgRunner opts l)"
  by (auto simp: orgRunners_def watchdogOrgRunner_def watchdogOnlineIdleOrgRunner_def intro!: keeps_bind watches_act)

lemma watches_idle [watching, simp]: "keeps watches (idle_check opts)"
  by (simp add: idle_check_def watches_act)

lemma watches_queue [watching, simp]: "keeps watches (act CallQueue f)"
  by (simp add: watches_act)

lemma watches_enrich [watching, simp]: "keeps watches (enrichWatchdogSystemdRepos opts units)"
proof -
  have d: "keeps watches (runner_directory opts s)" for s
    by (auto simp: runner_directory_def intro!: watching_intros)
  show ?thesis
    by (auto simp: enrichWatchdogSystemdRepos_def enrich_unit_def resolveWatchdogRunnerRepo_def resolveWatchdogRunnerOrg_def Let_def
        intro!: watching_intros d)
qed

lemma watches_collect [watching, simp]: "keeps watches (collectWatchdogGitHubRunners opts repos)"
  by (auto simp: collectWatchdogGitHubRunners_def note_online_def intro!: watching_intros)

lemma watches_marker_failed [watching, simp]: "keeps watches (marker_failed u r x e)"
  by (auto simp: marker_failed_def intro!: keeps_bind)

lemma watches_skipped [watching, simp]: "keeps watches (restart_skipped u r x e)"
  by (simp add: restart_skipped_def)

lemma watches_offline [watching, simp]: "keeps watches (for_all (note_offline online) repos)"
  by (auto simp: note_offline_def intro!: watching_intros)

lemma watches_drop [watching, simp]: "keeps watches (drop_collision c candidates)"
  by (auto simp: drop_collision_def intro!: watching_intros)

lemma watches_skip_reason [watching, simp]: "keeps watches (skip_reason opts repo run st)"
  by (auto simp: skip_reason_def intro!: watching_intros)

lemma watches_pull_request [watching, simp]: "keeps watches (openPullRequestForRun opts repo run)"
proof -
  have "keeps watches (openPullRequest_from opts repo last refs)" for last refs
    by (induction refs arbitrary: last) (auto intro!: watching_intros simp: Let_def)
  then show ?thesis by (simp add: openPullRequestForRun_def)
qed

lemma watches_targets [watching, simp]: "keeps watches (watchdog_targets opts systemd)"
  by (auto simp: watchdog_targets_def Let_def intro!: watching_intros)

section \<open>A rule for every call\<close>

text \<open>
  The marker after a call: a successful rename installs the new state. \<open>wd_seq P f cs g\<close> says
  that the calls \<open>cs\<close>, starting with marker \<open>f\<close>, were each made with the marker the earlier ones
  left, obeyed \<open>P\<close>, and ended with marker \<open>g\<close>.
\<close>

definition marker_after :: "wd_call \<Rightarrow> marker_file \<Rightarrow> marker_file" where
  "marker_after c f = (case c of CallRename st None \<Rightarrow> MarkerState st | _ \<Rightarrow> f)"

fun wd_seq :: "(wd_call \<Rightarrow> marker_file \<Rightarrow> bool) \<Rightarrow> marker_file \<Rightarrow> (wd_call \<times> marker_file) list \<Rightarrow> marker_file \<Rightarrow> bool" where
  "wd_seq P f [] g \<longleftrightarrow> g = f"
| "wd_seq P f ((c, h) # cs) g \<longleftrightarrow> h = f \<and> P c f \<and> wd_seq P (marker_after c f) cs g"

lemma wd_seq_append: "wd_seq P f (a @ b) g \<longleftrightarrow> (\<exists>h. wd_seq P f a h \<and> wd_seq P h b g)"
  by (induction P f a g rule: wd_seq.induct) auto

lemma marker_after_looks [simp]: "looks_only c \<Longrightarrow> marker_after c f = f"
  by (auto simp: marker_after_def looks_only_def split: wd_call.split)

lemma marker_after_simps [simp]:
  "marker_after (CallRestart c u x) f = f" "marker_after (CallRerun p n x) f = f" "marker_after (CallHooks h m) f = f"
  "marker_after (CallRename st None) f = MarkerState st" "marker_after (CallRename st (Some e)) f = f"
  by (simp_all add: marker_after_def)

definition obeys :: "(wd_call \<Rightarrow> marker_file \<Rightarrow> bool) \<Rightarrow> 'w wst \<Rightarrow> 'w wst \<Rightarrow> bool" where
  "obeys P s t \<longleftrightarrow> (\<exists>new. hs_trace t = hs_trace s @ new \<and> wd_seq P (hs_file s) new (hs_file t))"

lemma obeys_refl [simp]: "obeys P s s"
  by (simp add: obeys_def)

lemma obeys_trans: "obeys P s t \<Longrightarrow> obeys P t u \<Longrightarrow> obeys P s u"
  unfolding obeys_def by (metis append_assoc wd_seq_append)

section \<open>Composing over the state monad\<close>

text \<open>
  A relation between the states before and after a piece of the watchdog that composes and that
  a piece which only looks stays in. The lemmas of the locale carry it through the functions.
\<close>

locale wd_relation =
  fixes R :: "'w wst \<Rightarrow> 'w wst \<Rightarrow> bool"
  assumes watched: "watches s t \<Longrightarrow> R s t"
    and composed: "R s t \<Longrightarrow> R t u \<Longrightarrow> R s u"
begin

lemma wp_watching: "keeps watches m \<Longrightarrow> wp m (\<lambda>a t. R s t \<and> hs_file t = hs_file s) s"
  by (rule wp_mono [OF keeps_wp [where R = watches and s = s]]) (auto simp: watched watches_def)

lemma wp_watching_only: "keeps watches m \<Longrightarrow> wp m (\<lambda>a t. R s t) s"
  by (rule wp_mono [OF wp_watching]) auto

lemma wp_chain:
  assumes "wp m (\<lambda>a t. R s t \<and> Q a t) s" "\<And>a t. Q a t \<Longrightarrow> wp (f a) (\<lambda>b u. R t u) t"
  shows "wp (State_Monad.bind m f) (\<lambda>b u. R s u) s"
  unfolding wp_bind
  by (rule wp_mono [OF assms(1)]) (auto intro: wp_mono [OF assms(2)] composed)

lemma wp_watch_then:
  assumes "keeps watches m" "\<And>a t. hs_file t = hs_file s \<Longrightarrow> wp (f a) (\<lambda>b u. R t u) t"
  shows "wp (State_Monad.bind m f) (\<lambda>b u. R s u) s"
  by (rule wp_chain [OF wp_watching [OF assms(1)] assms(2)])

lemma wp_obey_then:
  assumes "wp m (\<lambda>a t. R s t) s" "\<And>a t. wp (f a) (\<lambda>b u. R t u) t"
  shows "wp (State_Monad.bind m f) (\<lambda>b u. R s u) s"
  by (rule wp_chain [where Q = "\<lambda>_ _. True"]) (use assms in auto)

lemma wp_load_then:
  assumes "\<And>e t. hs_file t = hs_file s \<Longrightarrow> wp (f (Inl e)) (\<lambda>b u. R t u) t"
    "\<And>st t. decodeRerunState (hs_file s) = Inr st \<Longrightarrow> hs_file t = hs_file s \<Longrightarrow> wp (f (Inr st)) (\<lambda>b u. R t u) t"
  shows "wp (State_Monad.bind (loadRerunState opts) f) (\<lambda>b u. R s u) s"
proof (rule wp_chain)
  show "wp (loadRerunState opts) (\<lambda>a t. R s t \<and> hs_file t = hs_file s \<and> (\<forall>st. a = Inr st \<longrightarrow> decodeRerunState (hs_file s) = Inr st)) s"
    by (auto simp: loadRerunState_def split: prod.splits option.splits intro!: watched) (auto simp: watches_def)
  show "wp (f a) (\<lambda>b u. R t u) t"
    if "hs_file t = hs_file s \<and> (\<forall>st. a = Inr st \<longrightarrow> decodeRerunState (hs_file s) = Inr st)" for a t
    using assms that by (cases a) auto
qed

lemma wp_for_each_obeys:
  assumes "\<And>x s. x \<in> set xs \<Longrightarrow> wp (body x) (\<lambda>_ t. R s t) s"
  shows "wp (for_each body xs) (\<lambda>_ t. R s t) s"
  by (rule wp_for_each [where I = "R s"])
     (auto intro!: wp_mono [OF assms] watched [OF watches_refl] split: option.split intro: composed)

lemma wp_for_all_obeys:
  assumes "I s" "\<And>x s. x \<in> set xs \<Longrightarrow> I s \<Longrightarrow> wp (body x) (\<lambda>_ t. R s t \<and> I t) s"
  shows "wp (for_all body xs) (\<lambda>_ t. R s t) s"
  by (rule wp_for_all [where I = "\<lambda>t. R s t \<and> I t"])
     (auto intro!: wp_mono [OF assms(2)] assms(1) watched [OF watches_refl] intro: composed)

end

text \<open>
  What the functions of the watchdog need of a rule for calls: calls that only look may always
  be made.
\<close>

locale call_rule =
  fixes P :: "wd_call \<Rightarrow> marker_file \<Rightarrow> bool"
  assumes looking: "looks_only c \<Longrightarrow> P c f"
begin

lemma watches_obeys: "watches s t \<Longrightarrow> obeys P s t"
proof -
  have "wd_seq P f new f" if "list_all (\<lambda>(c, h). looks_only c \<and> h = f) new" for f new
    using that by (induction new) (auto simp: looking)
  then show "watches s t \<Longrightarrow> ?thesis" by (auto simp: watches_def obeys_def)
qed

end

sublocale call_rule \<subseteq> wd_relation "obeys P"
  by unfold_locales (auto intro: watches_obeys obeys_trans)

context call_rule begin

lemma wp_write_then:
  assumes "\<And>x. P (CallRename st x) (hs_file s)"
    "\<And>e t. hs_file t = hs_file s \<Longrightarrow> wp (f (Some e)) (\<lambda>b u. obeys P t u) t"
    "\<And>t. hs_file t = MarkerState st \<Longrightarrow> wp (f None) (\<lambda>b u. obeys P t u) t"
  shows "wp (State_Monad.bind (writeRerunState opts st) f) (\<lambda>b u. obeys P s u) s"
proof (rule wp_chain)
  show "wp (writeRerunState opts st) (\<lambda>a t. obeys P s t \<and> hs_file t = (if a = None then MarkerState st else hs_file s)) s"
    using assms(1) by (auto simp: writeRerunState_def rename_marker_def obeys_def split: prod.splits option.splits)
  show "wp (f a) (\<lambda>b u. obeys P t u) t" if "hs_file t = (if a = None then MarkerState st else hs_file s)" for a t
    using assms(2,3) that by (cases a) auto
qed

lemma wp_restart_then:
  assumes "\<And>x. P (CallRestart cause unit x) (hs_file s)"
    "\<And>a t. hs_file t = hs_file s \<Longrightarrow> wp (f a) (\<lambda>b u. obeys P t u) t"
  shows "wp (State_Monad.bind (restart_call opts cause unit) f) (\<lambda>b u. obeys P s u) s"
proof (rule wp_chain)
  show "wp (restart_call opts cause unit) (\<lambda>a t. obeys P s t \<and> hs_file t = hs_file s) s"
    using assms(1) by (auto simp: restart_call_def obeys_def split: prod.splits)
qed (use assms in auto)

end

end
