(* ===== verification/Watchdog_Safety.thy ===== *)
theory Watchdog_Safety
  imports Watchdog_Calls
begin

text \<open>
  What every call of the runner watchdog obeys. \<open>wd_rule\<close> is the rule: nothing is touched in a
  dry run, a restart was recorded in the marker on disk before it is made, and a new marker never
  takes back the time up to which sentinels were handled. The interpretation of \<open>call_rule\<close> on it
  carries it through every function of \<open>Watchdog\<close>; the interpretation of \<open>wd_relation\<close> on
  \<open>climbing\<close> shows that a unit is restarted at most once for each sentinel.
\<close>

section \<open>The rule of the watchdog\<close>

text \<open>
  The time of the newest sentinel a unit was restarted for, as the marker tells.
\<close>

definition cursor :: "rerunState \<Rightarrow> string \<Rightarrow> time" where
  "cursor st unit = aw_LastActed (lookup_or zeroWindow (rs_AutoRestarts st) unit)"

definition acted :: "marker_file \<Rightarrow> string \<Rightarrow> time" where
  "acted f unit = (case decodeRerunState f of Inr st \<Rightarrow> cursor st unit | Inl _ \<Rightarrow> 0)"

definition plain_unit :: "string \<Rightarrow> bool" where
  "plain_unit u \<longleftrightarrow> \<not> has_prefix u ''org-busy:''"

definition keeps_cursors :: "marker_file \<Rightarrow> rerunState \<Rightarrow> bool" where
  "keeps_cursors f st \<longleftrightarrow> (\<forall>u. plain_unit u \<longrightarrow> acted f u \<le> cursor st u)"

text \<open>What must be on disk before a unit is restarted for a cause.\<close>

definition reserved :: "'w WatchdogOptions \<Rightarrow> restart_cause \<Rightarrow> string \<Rightarrow> marker_file \<Rightarrow> bool" where
  "reserved opts cause unit f =
     (case cause of
        CauseCandidate \<Rightarrow> True
      | CauseSentinel \<Rightarrow>
          \<exists>st w. f = MarkerState st \<and> map_of (rs_AutoRestarts st) unit = Some w \<and> aw_Count w \<le> wo_AutoRestartPerHour opts
      | CauseOrgBusy \<Rightarrow>
          \<exists>st w. f = MarkerState st \<and> map_of (rs_AutoRestarts st) (busy_key unit) = Some w \<and> aw_Count w \<le> 1 \<and>
            (aw_Count w = 1 \<longrightarrow> aw_WindowStart w + wo_QueueStallDwell opts \<le> aw_LastActed w)
      | CauseQueueStall \<Rightarrow>
          \<exists>st q. f = MarkerState st \<and> map_of (rs_QueueStalls st) unit = Some q \<and>
            qi_FirstSeen q + wo_QueueStallDwell opts \<le> qi_RestartedAt q)"

definition wd_rule :: "'w WatchdogOptions \<Rightarrow> wd_call \<Rightarrow> marker_file \<Rightarrow> bool" where
  "wd_rule opts c f =
     (case c of
        CallRestart cause unit _ \<Rightarrow> wo_Execute opts \<and> reserved opts cause unit f
      | CallRerun _ _ _ \<Rightarrow> wo_Execute opts
      | CallRename st _ \<Rightarrow> wo_Execute opts \<and> keeps_cursors f st
      | CallHooks h _ \<Rightarrow> hi_Execute h = wo_Execute opts \<and> \<not> hi_RestartRunners h \<and> hi_SkipScopedSudoers h
      | _ \<Rightarrow> True)"

lemma wd_rule_simps [simp]:
  "wd_rule opts (CallRestart cause unit x) f \<longleftrightarrow> wo_Execute opts \<and> reserved opts cause unit f"
  "wd_rule opts (CallRerun p n x) f \<longleftrightarrow> wo_Execute opts"
  "wd_rule opts (CallRename st x) f \<longleftrightarrow> wo_Execute opts \<and> keeps_cursors f st"
  by (simp_all add: wd_rule_def)

interpretation wd: call_rule "wd_rule opts" for opts
  by unfold_locales (auto simp: wd_rule_def looks_only_def split: wd_call.splits)

lemma busy_key_plain: "plain_unit u \<Longrightarrow> u \<noteq> busy_key v"
  by (auto simp: plain_unit_def busy_key_def has_prefix_def)

lemma lookup_or_put [simp]: "lookup_or z (map_put k v m) k' = (if k' = k then v else lookup_or z m k')"
  by (simp add: lookup_or_def)

lemma lookup_or_del [simp]: "lookup_or z (map_del k m) k' = (if k' = k then z else lookup_or z m k')"
  by (simp add: lookup_or_def)

lemma acted_loaded: "decodeRerunState f = Inr st \<Longrightarrow> acted f u = cursor st u"
  by (simp add: acted_def)

lemma keeps_cursorsI:
  "decodeRerunState f = Inr st0 \<Longrightarrow> (\<And>u. plain_unit u \<Longrightarrow> cursor st0 u \<le> cursor st u) \<Longrightarrow> keeps_cursors f st"
  by (simp add: keeps_cursors_def acted_loaded)

lemma cursor_queue [simp]: "cursor (st\<lparr>rs_QueueStalls := q\<rparr>) u = cursor st u" "cursor (st\<lparr>rs_Reruns := r\<rparr>) u = cursor st u"
  by (simp_all add: cursor_def)

lemma cursor_busy: "plain_unit u \<Longrightarrow> cursor (st\<lparr>rs_AutoRestarts := map_put (busy_key v) w (rs_AutoRestarts st)\<rparr>) u = cursor st u"
  by (simp add: cursor_def busy_key_plain)

lemma cursor_clear_windows: "plain_unit u \<Longrightarrow> cursor (clear_windows systemd st) u = cursor st u"
proof (induction systemd arbitrary: st)
  case (Cons l ls)
  have "cursor (st\<lparr>rs_AutoRestarts := map_del (busy_key v) (rs_AutoRestarts st)\<rparr>) u = cursor st u" for v
    using Cons.prems by (simp add: cursor_def busy_key_plain)
  then show ?case
    using Cons.IH [OF Cons.prems] by (simp add: clear_windows_def split: option.split)
qed (simp add: clear_windows_def)

subsection \<open>Broken runners\<close>

lemma current_window_cursor [simp]: "aw_LastActed (current_window now w) = aw_LastActed w"
  by (simp add: current_window_def)

text \<open>What \<open>selectUnitsToRestart\<close> reserves for the units it selects, and leaves for the others.\<close>

definition selects :: "bool \<Rightarrow> int \<Rightarrow> (string \<times> time) list \<Rightarrow> rerunState \<Rightarrow> string list \<Rightarrow> string list \<Rightarrow> rerunState \<Rightarrow> bool" where
  "selects execute cap us st units sel st' \<longleftrightarrow>
     set sel \<subseteq> set units \<and> distinct sel \<and> (\<not> execute \<longrightarrow> sel = []) \<and> (sel = [] \<longrightarrow> st' = st) \<and>
     (\<forall>u. u \<notin> set sel \<longrightarrow> map_of (rs_AutoRestarts st') u = map_of (rs_AutoRestarts st) u) \<and>
     (\<forall>u \<in> set sel. cursor st u < cursor st' u \<and> cursor st' u = lookup_or 0 us u \<and>
        (\<exists>w. map_of (rs_AutoRestarts st') u = Some w \<and> aw_Count w \<le> cap))"

lemma selects_skip: "selects execute cap us st units sel st' \<Longrightarrow> selects execute cap us st (unit # units) sel st'"
  by (auto simp: selects_def)

lemma selects_reserve:
  assumes "selects execute cap us (st\<lparr>rs_AutoRestarts := map_put unit w (rs_AutoRestarts st)\<rparr>) units sel st'" "unit \<notin> set units"
    and "cursor st unit < aw_LastActed w" "aw_LastActed w = lookup_or 0 us unit" "aw_Count w \<le> cap" execute
  shows "selects execute cap us st (unit # units) (unit # sel) st'"
proof -
  let ?st = "st\<lparr>rs_AutoRestarts := map_put unit w (rs_AutoRestarts st)\<rparr>"
  have rest: "cursor ?st u = cursor st u" "map_of (rs_AutoRestarts ?st) u = map_of (rs_AutoRestarts st) u" if "u \<noteq> unit" for u
    using that by (simp_all add: cursor_def)
  have "unit \<notin> set sel" using assms(1,2) by (auto simp: selects_def)
  then have "map_of (rs_AutoRestarts st') unit = Some w"
    using assms(1) by (simp add: selects_def)
  then have "cursor st' unit = aw_LastActed w" by (simp add: cursor_def lookup_or_def)
  then show ?thesis
    using assms(1,3-6) \<open>unit \<notin> set sel\<close> \<open>map_of (rs_AutoRestarts st') unit = Some w\<close> rest
    by (simp add: selects_def) (metis subset_insertI2)
qed

lemma select_from_spec:
  "select_from execute cap now us st units = (sel, st', evs) \<Longrightarrow> distinct units \<Longrightarrow> selects execute cap us st units sel st'"
proof (induction units arbitrary: st sel st' evs)
  case Nil
  then show ?case by (simp add: selects_def)
next
  case (Cons unit units)
  let ?w = "current_window now (lookup_or zeroWindow (rs_AutoRestarts st) unit)"
  let ?ts = "lookup_or 0 us unit"
  show ?case
  proof (cases "?ts \<le> aw_LastActed ?w \<or> cap \<le> aw_Count ?w \<or> \<not> execute")
    case True
    then obtain evs' where "select_from execute cap now us st units = (sel, st', evs')"
      using Cons.prems(1) by (auto simp: Let_def split: if_splits prod.splits)
    then show ?thesis using Cons.IH Cons.prems(2) by (auto intro: selects_skip)
  next
    case False
    then obtain sel' where s: "sel = unit # sel'" "select_from execute cap now us
        (st\<lparr>rs_AutoRestarts := map_put unit (?w\<lparr>aw_Count := aw_Count ?w + 1, aw_LastActed := ?ts\<rparr>) (rs_AutoRestarts st)\<rparr>)
        units = (sel', st', evs)"
      using Cons.prems(1) by (auto simp: Let_def split: prod.splits)
    show ?thesis
      unfolding s(1)
      by (rule selects_reserve [OF Cons.IH [OF s(2)]]) (use Cons.prems(2) False in \<open>auto simp: cursor_def\<close>)
  qed
qed

lemma distinct_mapSentinels: "distinct (map fst acc) \<Longrightarrow> distinct (map fst (fst (mapSentinelsToUnits_from systemd acc m)))"
  by (induction systemd acc m rule: mapSentinelsToUnits_from.induct) (auto simp: Let_def distinct_put split: prod.splits)

lemma selectUnitsToRestart_spec:
  assumes "mapSentinelsToUnits sentinelAt systemd = (us, evs0)" "selectUnitsToRestart execute cap now us st = (sel, st', evs)"
  shows "selects execute cap us st (sort (map fst us)) sel st'"
proof -
  have "distinct (map fst us)"
    using distinct_mapSentinels [of "[]" systemd sentinelAt] assms(1) by (simp add: mapSentinelsToUnits_def)
  then show ?thesis
    using assms(2) by (auto simp: selectUnitsToRestart_def intro!: select_from_spec)
qed

lemma selects_keeps_cursors:
  assumes "selects execute cap us st units sel st'" "decodeRerunState f = Inr st"
  shows "keeps_cursors f st'"
proof (rule keeps_cursorsI [OF assms(2)])
  fix u
  show "cursor st u \<le> cursor st' u"
  proof (cases "u \<in> set sel")
    case False
    then have "map_of (rs_AutoRestarts st') u = map_of (rs_AutoRestarts st) u" using assms(1) by (auto simp: selects_def)
    then show ?thesis by (simp add: cursor_def lookup_or_def)
  qed (use assms(1) in \<open>auto simp: selects_def less_imp_le\<close>)
qed

lemma watches_events [watching, simp]: "keeps watches (for_all add evs)"
  by (auto intro!: keeps_for_all)

lemma executeRestarts_obeys:
  assumes "\<And>u. u \<in> set sel \<Longrightarrow> wo_Execute opts \<and> reserved opts CauseSentinel u (hs_file s)"
  shows "wp (executeRestarts opts sel) (\<lambda>_ t. obeys (wd_rule opts) s t) s"
  unfolding executeRestarts_def
proof (rule wd.wp_for_all_obeys [where I = "\<lambda>t. hs_file t = hs_file s"])
  fix u and t :: "'a wst"
  assume "u \<in> set sel" and t: "hs_file t = hs_file s"
  then have "wo_Execute opts \<and> reserved opts CauseSentinel u (hs_file t)" using assms by simp
  then show "wp (do {
         let ev = (event ''runner-auto-restarted'' ''warning'')
                    \<lparr>we_Unit := u, we_Reason := ''broken-runner-sentinel'', we_Executed := True\<rparr>;
         e \<leftarrow> restart_call opts CauseSentinel u;
         (case e of
            None \<Rightarrow> add ev
          | Some err \<Rightarrow>
              if is_became_busy err
              then add ((event ''runner-auto-restart-skipped'' ''warning'')
                          \<lparr>we_Unit := u, we_Reason := ''host-busy-after-freeze'', we_Detail := err_Error err\<rparr>)
              else do { raise_exit 2; add (ev\<lparr>we_Severity := ''critical'', we_Detail := err_Error err\<rparr>) })
       }) (\<lambda>_ v. obeys (wd_rule opts) t v \<and> hs_file v = hs_file s) t"
    using t by (auto simp: restart_call_def add_def raise_exit_def obeys_def wp_cases split: prod.splits option.splits)
qed simp

lemma detectBrokenRunner_restarts:
  assumes sel: "selects (wo_Execute opts) (wo_AutoRestartPerHour opts) us st units sel st'" "sel \<noteq> []"
    and st: "decodeRerunState (hs_file s) = Inr st"
  shows "wp (do {
        e \<leftarrow> writeRerunState opts st';
        (case e of
           Some err \<Rightarrow> do {
             add ((event ''runner-auto-restart-skipped'' ''critical'')
                    \<lparr>we_Reason := ''marker-write-failed'', we_Detail := err_Error err\<rparr>);
             raise_exit 2
           }
         | None \<Rightarrow> executeRestarts opts sel)
      }) (\<lambda>_ t. obeys (wd_rule opts) s t) s"
proof (rule wd.wp_write_then)
  have x: "wo_Execute opts" using sel by (auto simp: selects_def)
  then show "wd_rule opts (CallRename st' r) (hs_file s)" for r
    using selects_keeps_cursors [OF sel(1) st] by simp
  show "wp (case None of Some err \<Rightarrow> do {
           add ((event ''runner-auto-restart-skipped'' ''critical'')
                  \<lparr>we_Reason := ''marker-write-failed'', we_Detail := err_Error err\<rparr>);
           raise_exit 2
         } | None \<Rightarrow> executeRestarts opts sel) (\<lambda>_ u. obeys (wd_rule opts) t u) t" if t: "hs_file t = MarkerState st'" for t
  proof -
    have "reserved opts CauseSentinel u (hs_file t)" if "u \<in> set sel" for u
      using sel(1) that t by (auto simp: selects_def reserved_def)
    then show ?thesis using x by (auto intro!: executeRestarts_obeys)
  qed
qed (simp only: option.case, rule wd.wp_watching_only, auto intro!: watching_intros)

lemma detectBrokenRunner_obeys: "wp (detectBrokenRunner opts systemd) (\<lambda>_ t. obeys (wd_rule opts) s t) s"
  unfolding detectBrokenRunner_def
  by ((rule wp_branches wd.wp_load_then) | (rule wd.wp_watch_then, (simp; fail)) | (rule wd.wp_watching_only, (simp; fail)) |
      (rule detectBrokenRunner_restarts, rule selectUnitsToRestart_spec))+ auto

text \<open>The states the other functions write keep the cursors.\<close>

lemma decode_written [simp]: "decodeRerunState (MarkerState st) = Inr st"
  by (simp add: decodeRerunState_def)

lemma keeps_cursors_clear: "decodeRerunState f = Inr st \<Longrightarrow> keeps_cursors f (clear_windows systemd st)"
  by (erule keeps_cursorsI) (simp add: cursor_clear_windows)

lemma keeps_cursors_busy:
  "decodeRerunState f = Inr st \<Longrightarrow> keeps_cursors f (st\<lparr>rs_AutoRestarts := map_put (busy_key v) w (rs_AutoRestarts st)\<rparr>)"
  by (erule keeps_cursorsI) (simp add: cursor_busy)

lemma keeps_cursors_stalls: "decodeRerunState f = Inr st \<Longrightarrow> keeps_cursors f (st\<lparr>rs_QueueStalls := q\<rparr>)"
  by (erule keeps_cursorsI) simp

lemma keeps_cursors_written: "keeps_cursors (MarkerState st) st' \<longleftrightarrow> (\<forall>u. plain_unit u \<longrightarrow> cursor st u \<le> cursor st' u)"
  by (simp add: keeps_cursors_def acted_loaded)

lemmas keeps_cursors_writes = keeps_cursors_written keeps_cursors_clear keeps_cursors_busy keeps_cursors_stalls

lemmas wd_steps = wp_branches wd.wp_load_then wd.wp_write_then wd.wp_restart_then

lemma clearPending_obeys: "wp (clearPendingWatchdogOrgBusyDwell opts systemd) (\<lambda>_ t. obeys (wd_rule opts) s t) s"
  unfolding clearPendingWatchdogOrgBusyDwell_def
  by (simp only: sum.case option.case | rule wd_steps | (rule wd.wp_watch_then, (simp; fail)) | (rule wd.wp_watching_only, (simp; fail)) |
      (simp add: keeps_cursors_writes; fail))+

lemma wp_maybe_write_then:
  assumes "wo_Execute opts \<Longrightarrow> keeps_cursors (hs_file s) st"
    "\<And>e t. hs_file t = hs_file s \<Longrightarrow> wp (f (Some e)) (\<lambda>b u. obeys (wd_rule opts) t u) t"
    "\<And>t. (wo_Execute opts \<Longrightarrow> hs_file t = MarkerState st) \<Longrightarrow> wp (f None) (\<lambda>b u. obeys (wd_rule opts) t u) t"
  shows "wp (State_Monad.bind (if wo_Execute opts then writeRerunState opts st else ret None) f) (\<lambda>b u. obeys (wd_rule opts) s u) s"
proof (cases "wo_Execute opts")
  case True
  then show ?thesis by (simp only: if_True) (rule wd.wp_write_then; simp add: assms)
qed (use assms(3) [of s] in simp)

lemma restart_busy_obeys:
  assumes "wo_Execute opts \<Longrightarrow> decodeRerunState (hs_file s) = Inr st" "aw_Count w \<le> 0"
    "aw_Count w = 0 \<Longrightarrow> aw_WindowStart w + wo_QueueStallDwell opts \<le> now"
  shows "wp (restart_busy opts unit runner now st w) (\<lambda>_ t. obeys (wd_rule opts) s t) s"
  unfolding restart_busy_def
  by (simp only: sum.case option.case | rule wd_steps | (rule wd.wp_watch_then, (simp; fail)) | (rule wd.wp_watching_only, (simp; fail)) |
      (use assms in \<open>simp add: keeps_cursors_writes reserved_def\<close>; fail))+

lemma dwelt: "wo_QueueStallDwell opts \<le> time_Sub now start \<Longrightarrow> 0 < wo_QueueStallDwell opts \<Longrightarrow> start + wo_QueueStallDwell opts \<le> now"
  by (auto simp: time_Sub_def)

lemma recover_busy_obeys:
  assumes "0 < wo_QueueStallDwell opts"
  shows "wp (recover_busy opts unit runner) (\<lambda>_ t. obeys (wd_rule opts) s t) s"
  unfolding recover_busy_def
  by (simp only: sum.case option.case | rule wp_maybe_write_then | rule wd_steps restart_busy_obeys | (rule wd.wp_watch_then, (simp; fail)) |
      (rule wd.wp_watching_only, (simp; fail)) |
      (use assms in \<open>simp add: keeps_cursors_writes not_less le_max_iff_disj dwelt\<close>; fail))+

lemma recoverBusy_obeys:
  assumes "0 < wo_QueueStallDwell opts"
  shows "wp (recoverWatchdogOrgBusyWithoutWorker opts systemd) (\<lambda>_ t. obeys (wd_rule opts) s t) s"
proof -
  have "wp (recover_busy_unit opts l) (\<lambda>_ t. obeys (wd_rule opts) s t) s" for l s
    unfolding recover_busy_unit_def
    by (simp only: sum.case option.case | rule wp_branches | (rule wd.wp_watch_then, (simp; fail)) |
        (rule wd.wp_obey_then, rule recover_busy_obeys [OF assms] clearPending_obeys) | (rule wd.wp_watching_only, (simp; fail)))+
  then show ?thesis
    unfolding recoverWatchdogOrgBusyWithoutWorker_def
    by - (simp only: sum.case option.case | rule wp_branches clearPending_obeys | (rule wd.wp_watch_then, (simp; fail)) |
        (rule wd.wp_obey_then, rule wd.wp_for_each_obeys, assumption) | (rule wd.wp_watching_only, (simp; fail)))+
qed

lemma clearStall_obeys:
  assumes "decodeRerunState (hs_file s) = Inr st"
  shows "wp (clearQueueStallIncident opts st unit runner exists reason) (\<lambda>_ t. obeys (wd_rule opts) s t) s"
  unfolding clearQueueStallIncident_def
  by (simp only: sum.case option.case | rule wd_steps | (rule wd.wp_watch_then, (simp; fail)) | (rule wd.wp_watching_only, (simp; fail)) |
      (use assms in \<open>simp add: keeps_cursors_writes\<close>; fail))+

lemma restart_stalled_obeys:
  assumes "wo_Execute opts" "decodeRerunState (hs_file s) = Inr st" "qi_FirstSeen incident + wo_QueueStallDwell opts \<le> now"
  shows "wp (restart_stalled opts unit runner now jobs age st incident) (\<lambda>_ t. obeys (wd_rule opts) s t) s"
  unfolding restart_stalled_def
  by (simp only: sum.case option.case | rule wd_steps | (rule wd.wp_watch_then, (simp; fail)) | (rule wd.wp_watching_only, (simp; fail)) |
      (use assms in \<open>simp add: keeps_cursors_writes reserved_def\<close>; fail))+

lemma recoverIdle_obeys:
  assumes "0 < wo_QueueStallDwell opts"
  shows "wp (recoverWatchdogOrgIdleWithQueue opts systemd repos) (\<lambda>_ t. obeys (wd_rule opts) s t) s"
proof -
  have revalidate: "wp (revalidate_stalled opts l repos runner now evidence age st incident) (\<lambda>_ t. obeys (wd_rule opts) s t) s"
    if "wo_Execute opts" "decodeRerunState (hs_file s) = Inr st" "qi_FirstSeen incident + wo_QueueStallDwell opts \<le> now"
    for l runner now evidence age st incident s
    unfolding revalidate_stalled_def
    by (simp only: sum.case option.case | rule wp_branches restart_stalled_obeys | (rule wd.wp_watch_then, (simp; fail)) |
        (rule wd.wp_watching_only, (simp; fail)) | (use that in simp; fail))+
  have arm: "wp (arm_stall opts u runner now evidence st) (\<lambda>_ t. obeys (wd_rule opts) s t) s"
    if "decodeRerunState (hs_file s) = Inr st" for u runner now evidence st s
    unfolding arm_stall_def
    by (simp only: sum.case option.case | rule wp_maybe_write_then wp_branches | (rule wd.wp_watching_only, (simp; fail)) |
        (use that in \<open>simp add: keeps_cursors_writes\<close>; fail))+
  have advance: "wp (advance_stall opts l repos runner now evidence st incident) (\<lambda>_ t. obeys (wd_rule opts) s t) s"
    if "decodeRerunState (hs_file s) = Inr st" for l runner now evidence st incident s
    unfolding advance_stall_def
    by (simp only: sum.case option.case | rule wp_branches revalidate | (rule wd.wp_watch_then, (simp; fail)) |
        (rule wd.wp_watching_only, (simp; fail)) | (use that assms in \<open>simp add: dwelt\<close>; fail))+
  have check: "wp (check_stall opts l repos runner st) (\<lambda>_ t. obeys (wd_rule opts) s t) s"
    if "decodeRerunState (hs_file s) = Inr st" for l runner st s
    unfolding check_stall_def
    by (simp only: sum.case option.case | rule wp_branches arm advance clearStall_obeys | (rule wd.wp_watch_then, (simp; fail)) |
        (rule wd.wp_watching_only, (simp; fail)) | (use that in simp; fail))+
  show ?thesis
    unfolding recoverWatchdogOrgIdleWithQueue_def
    by (simp only: sum.case option.case | rule wp_branches wd.wp_load_then check clearStall_obeys | (rule wd.wp_watch_then, (simp; fail)) |
        (rule wd.wp_watching_only, (simp; fail)) | (simp; fail))+
qed

subsection \<open>Hooks, candidates, reruns\<close>

lemma hooks_obeys: "wp (repairWatchdogHooks opts) (\<lambda>_ t. obeys (wd_rule opts) s t) s"
  by (auto simp: repairWatchdogHooks_def hookRequest_def add_def obeys_def wd_rule_def wp_cases split: prod.splits)

lemma restartCandidates_obeys: "wp (restartWatchdogRunners opts systemd ghByRepo) (\<lambda>_ t. obeys (wd_rule opts) s t) s"
proof -
  have "wp (restart_candidate opts candidates u) (\<lambda>_ t. obeys (wd_rule opts) s t) s" for candidates u s
    unfolding restart_candidate_def
    by (simp only: sum.case option.case | rule wp_branches wd.wp_restart_then | (rule wd.wp_watch_then, (simp; fail)) |
        (rule wd.wp_watching_only, (simp; fail)) | (simp add: reserved_def; fail))+
  then show ?thesis
    unfolding restartWatchdogRunners_def
    by - (rule wd.wp_watch_then, auto intro!: keeps_for_with wd.wp_for_each_obeys)
qed

text \<open>The reruns only touch the markers of reruns.\<close>

definition rerun_ok :: "'w WatchdogOptions \<Rightarrow> 'w wst \<Rightarrow> rerunState \<times> bool \<Rightarrow> herr + rerunState \<times> bool \<Rightarrow> 'w wst \<Rightarrow> bool" where
  "rerun_ok opts s c r t \<longleftrightarrow> obeys (wd_rule opts) s t \<and> hs_file t = hs_file s \<and>
     (case r of Inl _ \<Rightarrow> True | Inr (st, m) \<Rightarrow> rs_AutoRestarts st = rs_AutoRestarts (fst c) \<and> (m \<longrightarrow> snd c \<or> wo_Execute opts))"

lemma rerun_ok_start: "rerun_ok opts s c (Inr c) s"
  by (simp add: rerun_ok_def split: prod.split)

lemma rerun_ok_trans: "rerun_ok opts s c (Inr c') t \<Longrightarrow> rerun_ok opts t c' r u \<Longrightarrow> rerun_ok opts s c r u"
  by (auto simp: rerun_ok_def intro: obeys_trans split: sum.splits prod.splits)

lemma wp_watch_rerun:
  assumes "keeps watches m" "\<And>a t. wp (f a) (rerun_ok opts t c) t"
  shows "wp (State_Monad.bind m f) (rerun_ok opts s c) s"
  unfolding wp_bind
  by (rule wp_mono [OF wd.wp_watching [OF assms(1)]], rule wp_mono [OF assms(2)])
     (auto simp: rerun_ok_def intro: obeys_trans)

lemma trigger_rerun_ok: "wp (trigger_rerun opts repo run pr sig c) (rerun_ok opts s c) s"
  by (auto simp: trigger_rerun_def add_def now_of_def rerun_ok_def obeys_def wd_rule_def wp_cases split: prod.splits option.splits)

lemma evaluateNetworkRerun_ok: "wp (evaluateNetworkRerun opts repo run c) (rerun_ok opts s c) s"
  unfolding evaluateNetworkRerun_def
  by (rule wp_branches trigger_rerun_ok | (rule wp_watch_rerun, (simp; fail)) | (simp add: rerun_ok_start; fail))+

lemma evaluate_runs_ok: "wp (evaluate_runs opts repo runs c) (rerun_ok opts s c) s"
proof (induction runs arbitrary: c s)
  case (Cons run runs)
  show ?case
    unfolding evaluate_runs.simps
  proof (rule wp_watch_rerun)
    show "wp (do { x \<leftarrow> evaluateNetworkRerun opts repo run c;
                   (case x of Inl err \<Rightarrow> ret (Inl err) | Inr c' \<Rightarrow> evaluate_runs opts repo runs c') }) (rerun_ok opts t c) t" for t
      unfolding wp_bind
      by (rule wp_mono [OF evaluateNetworkRerun_ok])
         (auto split: sum.split simp del: split_paired_All simp: rerun_ok_def [of _ _ _ "Inl _"] intro: wp_mono [OF Cons.IH] rerun_ok_trans)
  qed simp
qed (simp add: rerun_ok_start)

lemma rerun_repos_ok: "wp (rerun_repos opts online repos c) (rerun_ok opts s c) s"
proof (induction repos arbitrary: c s)
  case (Cons repo repos)
  have "wp (do { x \<leftarrow> evaluate_runs opts repo runs c;
                 (case x of Inl err \<Rightarrow> ret (Inl err) | Inr c' \<Rightarrow> rerun_repos opts online repos c') }) (rerun_ok opts t c) t" for runs t
    unfolding wp_bind
    by (rule wp_mono [OF evaluate_runs_ok])
       (auto split: sum.split simp del: split_paired_All simp: rerun_ok_def [of _ _ _ "Inl _"] intro: wp_mono [OF Cons.IH] rerun_ok_trans)
  then show ?case
    unfolding rerun_repos.simps
    by - (rule wp_branches Cons.IH | (rule wp_watch_rerun, (simp; fail)) | assumption)+
qed (simp add: rerun_ok_start)

lemma reruns_obeys: "wp (rerunWatchdogNetworkFailures opts repos online) (\<lambda>_ t. obeys (wd_rule opts) s t) s"
  unfolding rerunWatchdogNetworkFailures_def
proof (rule wd.wp_load_then)
  fix st and t :: "'a wst"
  assume st: "decodeRerunState (hs_file s) = Inr st" and t: "hs_file t = hs_file s"
  have cursors: "keeps_cursors (hs_file s) st'" if "rs_AutoRestarts st' = rs_AutoRestarts st" for st'
    by (rule keeps_cursorsI [OF st]) (simp add: cursor_def that)
  show "wp (case Inr st of
             Inl err \<Rightarrow> do { add ((event ''rerun-skipped'' ''critical'')\<lparr>we_Reason := ''marker-read-failed'', we_Detail := err_Error err\<rparr>);
                             ret (Some err) }
           | Inr st \<Rightarrow> do {
               x \<leftarrow> rerun_repos opts online repos (st, False);
               (case x of
                  Inl err \<Rightarrow> ret (Some err)
                | Inr (st, mutated) \<Rightarrow>
                    if \<not> mutated then ret None
                    else do {
                      e \<leftarrow> writeRerunState opts st;
                      (case e of
                         None \<Rightarrow> ret None
                       | Some err \<Rightarrow> do {
                           add ((event ''rerun-skipped'' ''critical'')\<lparr>we_Reason := ''marker-write-failed'', we_Detail := err_Error err\<rparr>);
                           ret (Some err)
                         })
                    })
             }) (\<lambda>_ u. obeys (wd_rule opts) t u) t"
    unfolding sum.case
  proof (rule wd.wp_chain)
    show "wp (rerun_repos opts online repos (st, False))
            (\<lambda>x v. obeys (wd_rule opts) t v \<and> rerun_ok opts t (st, False) x v) t"
      by (rule wp_mono [OF rerun_repos_ok]) (simp add: rerun_ok_def)
  qed (simp only: sum.case option.case | rule wp_branches wd.wp_write_then | (rule wd.wp_watch_then, (simp; fail)) | (rule wd.wp_watching_only, (simp; fail)) |
       (use cursors in \<open>simp add: rerun_ok_def t\<close>; fail))+
qed (simp only: sum.case, rule wd.wp_watching_only, auto intro!: watching_intros)

subsection \<open>The whole tick\<close>

lemma watchdog_org_obeys:
  assumes "0 < wo_QueueStallDwell opts"
  shows "wp (watchdog_org opts systemd repos) (\<lambda>_ t. obeys (wd_rule opts) s t) s"
  unfolding watchdog_org_def
  by (rule wp_branches | (rule wd.wp_obey_then, rule recoverBusy_obeys recoverIdle_obeys restartCandidates_obeys) |
      (rule wd.wp_watch_then, (simp add: keeps_cases; fail)) | (rule wd.wp_watching_only, (simp; fail)) | rule assms)+

lemma watchdog_repos_obeys: "wp (watchdog_repos opts systemd repos) (\<lambda>_ t. obeys (wd_rule opts) s t) s"
proof -
  have "wp (watchdog_repair opts systemd repos gh) (\<lambda>_ t. obeys (wd_rule opts) s t) s" for gh s
    unfolding watchdog_repair_def
    by (rule wp_branches | (rule wd.wp_obey_then, rule hooks_obeys restartCandidates_obeys reruns_obeys) |
        (rule wd.wp_watch_then, (simp; fail)) | (rule wd.wp_watching_only, (simp; fail)))+
  then show ?thesis
    unfolding watchdog_repos_def
    by - (rule wp_branches | (rule wd.wp_obey_then, rule detectBrokenRunner_obeys) |
        (rule wd.wp_watch_then, (simp add: keeps_cases; fail)) | (rule wd.wp_watching_only, (simp; fail)) | assumption)+
qed

lemma validated_dwell: "validateWatchdogOptions opts = None \<Longrightarrow> 0 < wo_QueueStallDwell opts"
  by (auto simp: validateWatchdogOptions_def split: list.splits if_splits)

lemma watchdog_tick_obeys:
  assumes "0 < wo_QueueStallDwell opts"
  shows "wp (watchdog_tick opts) (\<lambda>_ t. obeys (wd_rule opts) s t) s"
  unfolding watchdog_tick_def
  by (rule wp_branches watchdog_org_obeys watchdog_repos_obeys assms | (rule wd.wp_watch_then, (auto intro!: watching_intros; fail)) |
      (rule wd.wp_watching_only, (simp; fail)))+

lemma Watchdog_obeys: "wp (Watchdog opts) (\<lambda>_ t. obeys (wd_rule (applyWatchdogScalarDefaults opts)) s t) s"
  unfolding Watchdog_def
  by (rule wp_branches watchdog_tick_obeys | (rule wd.wp_watch_then, (simp; fail)) | (rule wd.wp_watching_only, (simp split: bool.split; fail)) |
      erule validated_dwell)+

section \<open>One restart for each sentinel\<close>

text \<open>
  The times of the sentinels a unit was restarted for, as the marker on disk has them: from \<open>lo\<close>
  on they strictly increase and end at or below \<open>hi\<close>.
\<close>

definition sentinel_restart :: "string \<Rightarrow> wd_call \<Rightarrow> bool" where
  "sentinel_restart u c = (case c of CallRestart CauseSentinel v _ \<Rightarrow> v = u | _ \<Rightarrow> False)"

fun climbs :: "string \<Rightarrow> time \<Rightarrow> (wd_call \<times> marker_file) list \<Rightarrow> time \<Rightarrow> bool" where
  "climbs u lo [] hi \<longleftrightarrow> lo \<le> hi"
| "climbs u lo ((c, f) # cs) hi \<longleftrightarrow>
     (if sentinel_restart u c then lo < acted f u \<and> climbs u (acted f u) cs hi else climbs u lo cs hi)"

lemma climbs_antimono: "climbs u lo cs hi \<Longrightarrow> lo' \<le> lo \<Longrightarrow> climbs u lo' cs hi"
  by (induction u lo cs hi rule: climbs.induct) (auto split: if_splits)

lemma climbs_append: "climbs u lo a m \<Longrightarrow> climbs u m b hi \<Longrightarrow> climbs u lo (a @ b) hi"
  by (induction u lo a m rule: climbs.induct) (auto split: if_splits intro: climbs_antimono)

lemma climbs_none: "list_all (\<lambda>(c, f). \<not> sentinel_restart u c) cs \<Longrightarrow> climbs u lo cs hi \<longleftrightarrow> lo \<le> hi"
  by (induction cs) auto

definition climbing :: "string \<Rightarrow> 'w wst \<Rightarrow> 'w wst \<Rightarrow> bool" where
  "climbing u s t \<longleftrightarrow> (\<exists>new. hs_trace t = hs_trace s @ new \<and> climbs u (acted (hs_file s) u) new (acted (hs_file t) u))"

lemma climbing_trans: "climbing u s t \<Longrightarrow> climbing u t v \<Longrightarrow> climbing u s v"
  unfolding climbing_def by (metis append_assoc climbs_append)

lemma reflp_climbing [simp]: "reflp (climbing u)"
  by (simp add: reflp_def climbing_def)

lemma transp_climbing [simp]: "transp (climbing u)"
  by (rule transpI) (rule climbing_trans)

text \<open>A marker the watchdog writes never takes a cursor back.\<close>

lemma obeys_acted_mono:
  assumes "wd_seq (wd_rule opts) f cs g" "plain_unit u"
  shows "acted f u \<le> acted g u"
  using assms(1)
proof (induction "wd_rule opts" f cs g rule: wd_seq.induct)
  case (2 f c h cs g)
  have "acted f u \<le> acted (marker_after c f) u"
  proof (cases "\<exists>st. c = CallRename st None")
    case True
    then show ?thesis using 2(2) assms(2) by (auto simp: keeps_cursors_def acted_loaded)
  next
    case False
    then have "marker_after c f = f" by (auto simp: marker_after_def split: wd_call.splits option.splits)
    then show ?thesis by simp
  qed
  then show ?case using 2 by simp
qed simp

lemma obeys_climbing:
  assumes "wp m (\<lambda>_ t. obeys (wd_rule opts) s t) s" "keeps (traced (\<lambda>(c, f). \<not> sentinel_restart u c)) m" "plain_unit u"
  shows "wp m (\<lambda>_ t. climbing u s t) s"
  using wp_conj [OF assms(1) keeps_wp [OF assms(2), of s]]
proof (rule wp_mono)
  fix a t
  assume "obeys (wd_rule opts) s t \<and> traced (\<lambda>(c, f). \<not> sentinel_restart u c) s t"
  then obtain new where "hs_trace t = hs_trace s @ new" "wd_seq (wd_rule opts) (hs_file s) new (hs_file t)"
    "list_all (\<lambda>(c, f). \<not> sentinel_restart u c) new"
    by (auto simp: obeys_def traced_def)
  then show "climbing u s t"
    using obeys_acted_mono [OF _ assms(3)] by (auto simp: climbing_def climbs_none)
qed

subsection \<open>Functions that never restart a unit\<close>

definition is_restart :: "wd_call \<Rightarrow> bool" where
  "is_restart c = (case c of CallRestart _ _ _ \<Rightarrow> True | _ \<Rightarrow> False)"

lemma is_restart_simps [simp]:
  "is_restart (CallRestart cause u r)" "\<not> is_restart (CallRerun p n x)" "\<not> is_restart (CallRename st x)" "\<not> is_restart (CallHooks h m)"
  by (simp_all add: is_restart_def)

lemma looks_not_restart [simp]: "looks_only c \<Longrightarrow> \<not> is_restart c"
  by (auto simp: is_restart_def split: wd_call.splits)

abbreviation unrestarting :: "'w wst \<Rightarrow> 'w wst \<Rightarrow> bool" where
  "unrestarting \<equiv> traced (\<lambda>(c, f). \<not> is_restart c)"

lemma watches_unrestarting: "watches s t \<Longrightarrow> unrestarting s t"
  by (auto simp: watches_def traced_def elim!: list.pred_mono_strong)

lemma unrestarting_watches: "keeps watches m \<Longrightarrow> keeps unrestarting m"
proof (rule keepsI_wp)
  fix s assume "keeps watches m"
  then show "wp m (\<lambda>_ t. unrestarting s t) s"
    by (rule wp_mono [OF keeps_wp [where R = watches and s = s]]) (rule watches_unrestarting)
qed

lemma unrestarting_act: "(\<And>a. \<not> is_restart (ev a)) \<Longrightarrow> keeps unrestarting (act ev g)"
  by (rule keeps_act) simp

lemma unrestarting_write: "keeps unrestarting (writeRerunState opts st)"
  by (auto simp: writeRerunState_def rename_marker_def intro!: watching_intros unrestarting_act)

lemmas unrestarting_intros = watching_intros unrestarting_write unrestarting_act

lemma unrestarting_clearPending: "keeps unrestarting (clearPendingWatchdogOrgBusyDwell opts systemd)"
  unfolding clearPendingWatchdogOrgBusyDwell_def
  by (auto intro!: unrestarting_intros intro: unrestarting_watches)

lemma unrestarting_hooks: "keeps unrestarting (repairWatchdogHooks opts)"
  unfolding repairWatchdogHooks_def Let_def by (auto intro!: unrestarting_intros intro: unrestarting_watches)

lemma unrestarting_reruns: "keeps unrestarting (rerunWatchdogNetworkFailures opts repos online)"
proof -
  have "keeps unrestarting (evaluateNetworkRerun opts repo run c)" for repo run c
    unfolding evaluateNetworkRerun_def trigger_rerun_def Let_def by (auto intro!: unrestarting_intros intro: unrestarting_watches)
  then have runs: "keeps unrestarting (evaluate_runs opts repo runs c)" for repo runs c
    by (induction runs arbitrary: c) (auto intro!: unrestarting_intros intro: unrestarting_watches)
  have "keeps unrestarting (rerun_repos opts online repos c)" for c
    by (induction repos arbitrary: c) (auto intro!: unrestarting_intros runs intro: unrestarting_watches)
  then show ?thesis
    unfolding rerunWatchdogNetworkFailures_def by (auto intro!: unrestarting_intros intro: unrestarting_watches)
qed

subsection \<open>Restarts for a sentinel\<close>

text \<open>Only \<open>detectBrokenRunner\<close> restarts a unit for a sentinel.\<close>

abbreviation quiet :: "string \<Rightarrow> 'w wst \<Rightarrow> 'w wst \<Rightarrow> bool" where
  "quiet u \<equiv> traced (\<lambda>(c, f). \<not> sentinel_restart u c)"

lemma looks_not_sentinel [simp]: "looks_only c \<Longrightarrow> \<not> sentinel_restart u c"
  by (auto simp: sentinel_restart_def split: wd_call.splits restart_cause.splits)

lemma quiet_watches: "keeps watches m \<Longrightarrow> keeps (quiet u) m"
proof (rule keepsI_wp)
  fix s assume "keeps watches m"
  then show "wp m (\<lambda>_ t. quiet u s t) s"
    by (rule wp_mono [OF keeps_wp [where R = watches and s = s]])
       (auto simp: watches_def traced_def elim!: list.pred_mono_strong)
qed

lemma quiet_act: "(\<And>a. \<not> sentinel_restart u (ev a)) \<Longrightarrow> keeps (quiet u) (act ev g)"
  by (rule keeps_act) simp

lemma quiet_simps [simp]:
  "\<not> sentinel_restart u (CallRestart CauseOrgBusy v x)" "\<not> sentinel_restart u (CallRestart CauseQueueStall v x)"
  "\<not> sentinel_restart u (CallRestart CauseCandidate v x)" "\<not> sentinel_restart u (CallRerun p n x)" "\<not> sentinel_restart u (CallRename st x)"
  "\<not> sentinel_restart u (CallHooks h m)" "sentinel_restart u (CallRestart CauseSentinel v x) \<longleftrightarrow> v = u"
  by (auto simp: sentinel_restart_def)

lemma quiet_unrestarting: "keeps unrestarting m \<Longrightarrow> keeps (quiet u) m"
  by (erule keeps_traced_mono) (auto simp: is_restart_def sentinel_restart_def split: wd_call.splits)

lemmas quiet_intros = watching_intros quiet_unrestarting [OF unrestarting_write] quiet_act quiet_unrestarting [OF unrestarting_clearPending]

lemma quiet_recoverBusy: "keeps (quiet u) (recoverWatchdogOrgBusyWithoutWorker opts systemd)"
  unfolding recoverWatchdogOrgBusyWithoutWorker_def recover_busy_unit_def recover_busy_def restart_busy_def restart_call_def Let_def
  by (auto intro!: quiet_intros intro: quiet_watches)

lemma quiet_recoverIdle: "keeps (quiet u) (recoverWatchdogOrgIdleWithQueue opts systemd repos)"
  unfolding recoverWatchdogOrgIdleWithQueue_def check_stall_def arm_stall_def advance_stall_def revalidate_stalled_def restart_stalled_def
    clearQueueStallIncident_def restart_call_def Let_def
  by (auto intro!: quiet_intros intro: quiet_watches)

lemma quiet_restartRunners: "keeps (quiet u) (restartWatchdogRunners opts systemd gh)"
  unfolding restartWatchdogRunners_def restart_candidate_def restart_call_def Let_def
  by (auto intro!: quiet_intros intro: quiet_watches)

text \<open>\<open>executeRestarts\<close> restarts each selected unit once.\<close>

lemma executeRestarts_trace:
  "wp (executeRestarts opts sel) (\<lambda>_ t. hs_file t = hs_file s \<and>
     (\<exists>new. hs_trace t = hs_trace s @ new \<and> list_all2 (\<lambda>v (c, f). \<exists>r. c = CallRestart CauseSentinel v r \<and> f = hs_file s) sel new)) s"
proof (induction sel arbitrary: s)
  case (Cons v sel)
  have "wp (executeRestarts opts sel) (\<lambda>_ t. hs_file t = hs_file s \<and>
     (\<exists>new. hs_trace t = hs_trace s @ new \<and>
        list_all2 (\<lambda>v (c, f). \<exists>r. c = CallRestart CauseSentinel v r \<and> f = hs_file s) (v # sel) new)) u"
    if "hs_trace u = hs_trace s @ [(CallRestart CauseSentinel v r, hs_file s)]" "hs_file u = hs_file s" for u r
    by (rule wp_mono [OF Cons.IH]) (use that in \<open>auto\<close>)
  then show ?case
    by (simp add: executeRestarts_def restart_call_def add_def raise_exit_def wp_cases split: prod.split option.split)
qed (simp add: executeRestarts_def)

lemma climbs_restarts:
  assumes "list_all2 (\<lambda>v (c, f). \<exists>r. c = CallRestart CauseSentinel v r \<and> f = g) sel new" "distinct sel"
    "lo \<le> acted g u" "u \<in> set sel \<Longrightarrow> lo < acted g u"
  shows "climbs u lo new (acted g u)"
  using assms
proof (induction sel new arbitrary: lo rule: list_all2_induct)
  case (Cons v sel x new)
  have "climbs u (acted g u) new (acted g u)" if "v = u"
    using Cons.IH [of "acted g u"] Cons.prems(1) that by auto
  then show ?case using Cons by (auto split: prod.splits)
qed simp

lemma watches_climbing:
  assumes "watches s t"
  shows "climbing u s t"
proof -
  obtain new where "hs_trace t = hs_trace s @ new" "hs_file t = hs_file s" "list_all (\<lambda>(c, f). looks_only c \<and> f = hs_file s) new"
    using assms by (auto simp: watches_def)
  moreover from this(3) have "list_all (\<lambda>(c, f). \<not> sentinel_restart u c) new"
    by (auto elim!: list.pred_mono_strong)
  ultimately show ?thesis by (auto simp: climbing_def climbs_none)
qed

interpretation climb: wd_relation "climbing u" for u
  by unfold_locales (auto intro: watches_climbing climbing_trans)

lemma write_climbing:
  "wp (writeRerunState opts st') (\<lambda>e t. hs_file t = (if e = None then MarkerState st' else hs_file s) \<and>
     (\<exists>new. hs_trace t = hs_trace s @ new \<and> list_all (\<lambda>(c, f). \<not> sentinel_restart u c) new)) s"
  by (auto simp: writeRerunState_def rename_marker_def split: prod.splits option.splits)

lemma restarts_climbing:
  assumes sel: "selects (wo_Execute opts) (wo_AutoRestartPerHour opts) us st units sel st'"
    and st: "decodeRerunState (hs_file s) = Inr st"
  shows "wp (do {
        e \<leftarrow> writeRerunState opts st';
        (case e of
           Some err \<Rightarrow> do {
             add ((event ''runner-auto-restart-skipped'' ''critical'')
                    \<lparr>we_Reason := ''marker-write-failed'', we_Detail := err_Error err\<rparr>);
             raise_exit 2
           }
         | None \<Rightarrow> executeRestarts opts sel)
      }) (\<lambda>_ t. climbing u s t) s"
  unfolding wp_bind
proof (rule wp_mono [OF write_climbing [of _ _ _ u]], elim conjE exE)
  fix e :: "herr option" and t :: "'a wst" and new
  assume t: "hs_file t = (if e = None then MarkerState st' else hs_file s)" "hs_trace t = hs_trace s @ new"
    "list_all (\<lambda>(c, f). \<not> sentinel_restart u c) new"
  have old: "acted (hs_file s) u = cursor st u" using st by (simp add: acted_def)
  have up: "cursor st u \<le> cursor st' u"
  proof (cases "u \<in> set sel")
    case False
    then have "map_of (rs_AutoRestarts st') u = map_of (rs_AutoRestarts st) u" using sel by (auto simp: selects_def)
    then show ?thesis by (simp add: cursor_def lookup_or_def)
  qed (use sel in \<open>auto simp: selects_def less_imp_le\<close>)
  show "wp (case e of Some err \<Rightarrow> do {
             add ((event ''runner-auto-restart-skipped'' ''critical'')
                    \<lparr>we_Reason := ''marker-write-failed'', we_Detail := err_Error err\<rparr>);
             raise_exit 2
           } | None \<Rightarrow> executeRestarts opts sel) (\<lambda>_ v. climbing u s v) t"
  proof (cases e)
    case None
    have "climbs u (cursor st u) new' (cursor st' u)"
      if "list_all2 (\<lambda>v (c, f). \<exists>r. c = CallRestart CauseSentinel v r \<and> f = MarkerState st') sel new'" for new'
    proof -
      have "distinct sel" "u \<in> set sel \<Longrightarrow> cursor st u < cursor st' u" using sel by (auto simp: selects_def)
      then show ?thesis using climbs_restarts [OF that, of "cursor st u" u] up by (simp add: acted_loaded)
    qed
    then have "climbs u (cursor st u) (new @ new') (cursor st' u)"
      if "list_all2 (\<lambda>v (c, f). \<exists>r. c = CallRestart CauseSentinel v r \<and> f = MarkerState st') sel new'" for new'
      using that t(3) by (auto intro: climbs_append [of _ _ _ "cursor st u"] simp: climbs_none)
    then show ?thesis
      using None t old
      by (auto intro!: wp_mono [OF executeRestarts_trace] simp: climbing_def acted_loaded)
  next
    case (Some err)
    have "climbing u s t" using t Some by (auto simp: climbing_def climbs_none)
    then show ?thesis
      using Some by (auto intro!: wp_mono [OF climb.wp_watching_only] watching_intros intro: climbing_trans simp del: wp_bind)
  qed
qed

lemma detectBrokenRunner_climbing: "wp (detectBrokenRunner opts systemd) (\<lambda>_ t. climbing u s t) s"
  unfolding detectBrokenRunner_def
  by ((rule wp_branches climb.wp_load_then) | (rule climb.wp_watch_then, (simp; fail)) | (rule climb.wp_watching_only, (simp; fail)) |
      (rule restarts_climbing, rule selectUnitsToRestart_spec))+ auto

lemma Watchdog_climbing:
  assumes u: "plain_unit u"
  shows "wp (Watchdog opts) (\<lambda>_ t. climbing u s t) s"
proof -
  have org: "wp (watchdog_org opts systemd repos) (\<lambda>_ t. climbing u s t) s"
    if "0 < wo_QueueStallDwell opts" for opts systemd repos and s :: "'a wst"
    unfolding watchdog_org_def
    by (rule wp_branches | (rule climb.wp_obey_then, rule obeys_climbing [OF recoverBusy_obeys quiet_recoverBusy u]
          obeys_climbing [OF recoverIdle_obeys quiet_recoverIdle u] obeys_climbing [OF restartCandidates_obeys quiet_restartRunners u]) |
        (rule climb.wp_watch_then, (simp add: keeps_cases; fail)) | (rule climb.wp_watching_only, (simp; fail)) | rule that)+
  have repair: "wp (watchdog_repair opts systemd repos gh) (\<lambda>_ t. climbing u s t) s" for opts systemd repos gh and s :: "'a wst"
    unfolding watchdog_repair_def
    by (rule wp_branches | (rule climb.wp_obey_then, rule obeys_climbing [OF hooks_obeys quiet_unrestarting [OF unrestarting_hooks] u]
          obeys_climbing [OF restartCandidates_obeys quiet_restartRunners u] obeys_climbing [OF reruns_obeys quiet_unrestarting [OF unrestarting_reruns] u]) |
        (rule climb.wp_watch_then, (simp; fail)) | (rule climb.wp_watching_only, (simp; fail)))+
  have repos: "wp (watchdog_repos opts systemd repos) (\<lambda>_ t. climbing u s t) s" for opts systemd repos and s :: "'a wst"
    unfolding watchdog_repos_def
    by (rule wp_branches repair | (rule climb.wp_obey_then, rule detectBrokenRunner_climbing) |
        (rule climb.wp_watch_then, (simp add: keeps_cases; fail)) | (rule climb.wp_watching_only, (simp; fail)))+
  have tick: "wp (watchdog_tick opts) (\<lambda>_ t. climbing u s t) s" if "0 < wo_QueueStallDwell opts" for opts and s :: "'a wst"
    unfolding watchdog_tick_def
    by (rule wp_branches org repos that | (rule climb.wp_watch_then, (auto intro!: watching_intros; fail)) |
        (rule climb.wp_watching_only, (simp; fail)))+
  show ?thesis
    unfolding Watchdog_def
    by (rule wp_branches tick | (rule climb.wp_watch_then, (simp; fail)) | (rule climb.wp_watching_only, (simp; fail)) | erule validated_dwell)+
qed

end
