(* ===== verification/Watchdog_Evidence.thy ===== *)
theory Watchdog_Evidence
  imports Watchdog_Safety
begin

text \<open>
  The evidence the watchdog has just seen when it restarts a unit: \<open>wd_relation\<close> interpreted on
  \<open>evidenced\<close>.
\<close>

section \<open>Evidence before a restart\<close>

text \<open>
  What the calls just before a restart must have shown. A unit that is down or whose runner is
  busy on GitHub only: the process list without a worker. A stalled queue: an organisation runner
  online and idle, jobs still waiting, with the head of the queue the incident was recorded for,
  and the host idle.
\<close>

definition idle_runner_seen :: "herr + WatchdogGitHubRunner list \<Rightarrow> bool" where
  "idle_runner_seen r =
     (case r of
        Inl _ \<Rightarrow> False
      | Inr runners \<Rightarrow> list_ex (\<lambda>gh. hasWatchdogLabel (wg_Labels gh) ''civm'' \<and> wg_Status gh = ''online'' \<and> \<not> wg_Busy gh) runners)"

definition shown :: "restart_cause \<Rightarrow> string \<Rightarrow> (wd_call \<times> marker_file) list \<Rightarrow> bool" where
  "shown cause u before =
     (case cause of
        CauseSentinel \<Rightarrow> True
      | CauseCandidate \<Rightarrow> (\<exists>pre r f. before = pre @ [(CallActivities r, f)] \<and> \<not> sees_worker r)
      | CauseOrgBusy \<Rightarrow>
          (\<exists>pre r f st. before = pre @ [(CallActivities r, f), (CallRename st None, f)] \<and> \<not> sees_worker r)
      | CauseQueueStall \<Rightarrow>
          (\<exists>pre org r ev i f st inc.
             before = pre @ [(CallOrgRunners org r, f), (CallQueue (Inr ev), f), (CallIdle i, f), (CallRename st None, f)] \<and>
             idle_runner_seen r \<and> wq_EligibleJobs ev \<noteq> 0 \<and> ir_Status i = StatusIdle \<and>
             map_of (rs_QueueStalls st) u = Some inc \<and> qi_Signature inc = wq_Signature ev))"

definition evidenced :: "'w wst \<Rightarrow> 'w wst \<Rightarrow> bool" where
  "evidenced s t \<longleftrightarrow> (\<exists>new. hs_trace t = hs_trace s @ new \<and>
     (\<forall>a cause u r f b. new = a @ (CallRestart cause u r, f) # b \<longrightarrow> shown cause u a))"

lemma shown_more: "shown cause u a \<Longrightarrow> shown cause u (x @ a)"
  unfolding shown_def by (cases cause) (simp_all, (metis append_assoc)+)

lemma evidenced_trans:
  assumes "evidenced s t" "evidenced t u"
  shows "evidenced s u"
proof -
  obtain new1 new2 where n: "hs_trace t = hs_trace s @ new1" "hs_trace u = hs_trace t @ new2"
    "\<And>a cause v r f b. new1 = a @ (CallRestart cause v r, f) # b \<Longrightarrow> shown cause v a"
    "\<And>a cause v r f b. new2 = a @ (CallRestart cause v r, f) # b \<Longrightarrow> shown cause v a"
    using assms unfolding evidenced_def by blast
  have "shown cause v a" if "new1 @ new2 = a @ (CallRestart cause v r, f) # b" for a cause v r f b
  proof -
    from that consider us where "new1 = a @ us" "us @ new2 = (CallRestart cause v r, f) # b"
      | us where "a = new1 @ us" "new2 = us @ (CallRestart cause v r, f) # b"
      by (auto simp: append_eq_append_conv2)
    then show ?thesis
    proof cases
      case 1
      then show ?thesis
        using n(3) [of a] shown_more [OF n(4) [of "[]"], where x = a] by (cases us) auto
    qed (use n(4) shown_more in blast)
  qed
  then show ?thesis unfolding evidenced_def using n(1,2) by (intro exI [of _ "new1 @ new2"]) auto
qed

text \<open>A sentinel is evidence enough; the other causes are looked at where they restart.\<close>

definition other_restart :: "wd_call \<Rightarrow> bool" where
  "other_restart c = (case c of CallRestart cause _ _ \<Rightarrow> cause \<noteq> CauseSentinel | _ \<Rightarrow> False)"

abbreviation sentinels_only :: "'w wst \<Rightarrow> 'w wst \<Rightarrow> bool" where
  "sentinels_only \<equiv> traced (\<lambda>(c, f). \<not> other_restart c)"

lemma sentinels_only_evidenced: "sentinels_only s t \<Longrightarrow> evidenced s t"
  by (force simp: evidenced_def traced_def shown_def other_restart_def split: restart_cause.splits)

lemma unrestarting_sentinels: "keeps unrestarting m \<Longrightarrow> keeps sentinels_only m"
  by (erule keeps_traced_mono) (auto simp: is_restart_def other_restart_def split: wd_call.splits)

lemma other_restart_simps [simp]:
  "other_restart (CallRestart cause u r) \<longleftrightarrow> cause \<noteq> CauseSentinel" "\<not> other_restart (CallRename st x)"
  by (simp_all add: other_restart_def)

lemma looks_not_other [simp]: "looks_only c \<Longrightarrow> \<not> other_restart c"
  by (auto simp: other_restart_def split: wd_call.splits)

lemma watches_sentinels: "watches s t \<Longrightarrow> sentinels_only s t"
  by (auto simp: watches_def traced_def other_restart_def split: wd_call.splits elim!: list.pred_mono_strong)

interpretation evid: wd_relation evidenced
  by unfold_locales (blast intro: sentinels_only_evidenced watches_sentinels evidenced_trans)+

lemma wp_sentinels_only: "keeps sentinels_only m \<Longrightarrow> wp m (\<lambda>_ t. evidenced s t) s"
  by (rule wp_mono [OF keeps_wp [where R = sentinels_only and s = s]]) (auto intro: sentinels_only_evidenced)

lemma sentinels_only_act: "(\<And>a. \<not> other_restart (ev a)) \<Longrightarrow> keeps sentinels_only (act ev g)"
  by (rule keeps_act) simp

lemma sentinels_only_detect: "keeps sentinels_only (detectBrokenRunner opts systemd)"
  unfolding detectBrokenRunner_def executeRestarts_def restart_call_def Let_def
  by (auto intro!: watching_intros unrestarting_sentinels [OF unrestarting_write] sentinels_only_act
      intro: unrestarting_sentinels [OF unrestarting_watches])

text \<open>The places that restart a unit for another cause.\<close>

lemma evidencedI:
  assumes "hs_trace t = hs_trace s @ a @ (CallRestart cause u r, f) # b" "list_all (\<lambda>(c, f). \<not> other_restart c) (a @ b)" "shown cause u a"
  shows "evidenced s t"
  unfolding evidenced_def
proof (intro exI conjI allI impI)
  show "hs_trace t = hs_trace s @ (a @ (CallRestart cause u r, f) # b)" using assms(1) by simp
  fix a' cause' v r' f' b'
  assume eq: "a @ (CallRestart cause u r, f) # b = a' @ (CallRestart cause' v r', f') # b'"
  have quiet: "cause' = CauseSentinel" if "(CallRestart cause' v r', f') \<in> set (a @ b)"
    using bspec [OF assms(2) [unfolded list_all_iff] that] by simp
  from eq consider "a' = a" "cause' = cause" "v = u" | "(CallRestart cause' v r', f') \<in> set (a @ b)"
    by (auto simp: append_eq_append_conv2 append_eq_Cons_conv Cons_eq_append_conv)
  then show "shown cause' v a'"
    by cases (use assms(3) quiet in \<open>auto simp: shown_def\<close>)
qed

text \<open>\<open>seen s0 a s\<close>: since \<open>s0\<close> the calls \<open>a\<close> were made, no restart for another cause among them.\<close>

definition seen :: "'w wst \<Rightarrow> (wd_call \<times> marker_file) list \<Rightarrow> 'w wst \<Rightarrow> bool" where
  "seen s0 a s \<longleftrightarrow> hs_trace s = hs_trace s0 @ a \<and> list_all (\<lambda>(c, f). \<not> other_restart c) a"

lemma seen_start: "seen s [] s"
  by (simp add: seen_def)

lemma wp_seen_end:
  assumes "seen s0 a s" "keeps sentinels_only m"
  shows "wp m (\<lambda>_ t. evidenced s0 t) s"
  by (rule wp_mono [OF keeps_wp [OF assms(2), of s]], rule sentinels_only_evidenced)
     (use assms(1) in \<open>auto simp: seen_def traced_def\<close>)

lemma wp_seen_act:
  assumes "seen s0 a s" "\<And>x. \<not> other_restart (ev x)"
    "\<And>x t. seen s0 (a @ [(ev x, hs_file s)]) t \<Longrightarrow> hs_file t = hs_file s \<Longrightarrow> wp (f x) Q t"
  shows "wp (State_Monad.bind (act ev g) f) Q s"
  using assms by (simp add: seen_def split: prod.split)

lemma wp_seen_write:
  assumes "seen s0 a s" "\<And>e b t. seen s0 b t \<Longrightarrow> wp (f (Some e)) Q t"
    "\<And>t. seen s0 (a @ [(CallRename st None, hs_file s)]) t \<Longrightarrow> wp (f None) Q t"
  shows "wp (State_Monad.bind (writeRerunState opts st) f) Q s"
proof -
  have "wp (writeRerunState opts st) (\<lambda>e t. if e = None then seen s0 (a @ [(CallRename st None, hs_file s)]) t else \<exists>b. seen s0 b t) s"
    using assms(1) by (auto simp: writeRerunState_def rename_marker_def seen_def split: prod.splits option.splits)
  then show ?thesis
    unfolding wp_bind by (rule wp_mono) (use assms(2,3) in \<open>auto split: if_splits\<close>)
qed

lemma wp_seen_restart:
  assumes "seen s0 a s" "shown cause u a" "\<And>e. keeps sentinels_only (f e)"
  shows "wp (State_Monad.bind (restart_call opts cause u) f) (\<lambda>_ t. evidenced s0 t) s"
proof -
  have "wp (f e) (\<lambda>_ t. evidenced s0 t) t" if t: "hs_trace t = hs_trace s @ [(CallRestart cause u e, hs_file s)]" for e t
  proof (rule wp_mono [OF keeps_wp [OF assms(3), where s = t]])
    fix v assume "sentinels_only t v"
    then obtain b where b: "hs_trace v = hs_trace t @ b" "list_all (\<lambda>(c, f). \<not> other_restart c) b" by (auto simp: traced_def)
    show "evidenced s0 v"
      by (rule evidencedI [where a = a and b = b]) (use b t assms(1,2) in \<open>auto simp: seen_def\<close>)
  qed
  then show ?thesis by (simp add: restart_call_def split: prod.split)
qed

lemmas sentinels_only_intros = watching_intros unrestarting_sentinels [OF unrestarting_write] sentinels_only_act

lemma sentinels_only_watches: "keeps watches m \<Longrightarrow> keeps sentinels_only m"
  by (rule unrestarting_sentinels [OF unrestarting_watches])

lemma restart_candidate_evidenced: "wp (restart_candidate opts candidates u) (\<lambda>_ t. evidenced s t) s"
  unfolding restart_candidate_def hasLocalRunnerWorker_def bind_assoc bind_left_identity
  by (rule wp_branches wp_seen_act [OF seen_start] | (rule wp_seen_restart, assumption) | (rule wp_seen_end, (assumption | rule seen_start)) |
      (auto simp: shown_def intro!: sentinels_only_intros intro: sentinels_only_watches; fail))+

lemma restart_busy_evidenced: "wp (restart_busy opts u runner now st w) (\<lambda>_ t. evidenced s t) s"
  unfolding restart_busy_def hasLocalRunnerWorker_def bind_assoc bind_left_identity
  by (rule wp_branches wp_seen_act [OF seen_start] | (rule wp_seen_write wp_seen_restart, assumption) |
      (simp only: option.case, rule wp_seen_restart, assumption) | (simp only: option.case) |
      (rule wp_seen_end, (assumption | rule seen_start)) |
      (auto simp: shown_def intro!: sentinels_only_intros intro: sentinels_only_watches; fail))+

lemma restart_stalled_evidenced:
  assumes "seen s0 (pre @ [(CallOrgRunners org r, hs_file s), (CallQueue (Inr ev), hs_file s), (CallIdle i, hs_file s)]) s"
    and shown: "idle_runner_seen r" "wq_EligibleJobs ev \<noteq> 0" "ir_Status i = StatusIdle" "qi_Signature incident = wq_Signature ev"
  shows "wp (restart_stalled opts u runner now jobs age st incident) (\<lambda>_ t. evidenced s0 t) s"
  unfolding restart_stalled_def Let_def
  by (rule wp_seen_write [OF assms(1)] | (simp only: option.case) | (rule wp_seen_restart, assumption) | (rule wp_seen_end, assumption) |
      (use shown in \<open>auto simp: shown_def intro!: sentinels_only_intros intro: sentinels_only_watches\<close>; fail))+

lemma revalidate_stalled_evidenced:
  assumes "qi_Signature incident = wq_Signature evidence"
  shows "wp (revalidate_stalled opts l repos runner now evidence age st incident) (\<lambda>_ t. evidenced s t) s"
proof -
  have ready: "idle_runner_seen x"
    if "(case (case x of Inl err \<Rightarrow> Inl err | Inr runners \<Rightarrow> Inr (find (is_civm_runner l) runners)) of
           Inl err \<Rightarrow> Inl err | Inr None \<Rightarrow> Inr False | Inr (Some gh) \<Rightarrow> Inr (wg_Status gh = ''online'' \<and> \<not> wg_Busy gh)) = Inr True" for x
    using that by (auto simp: idle_runner_seen_def list_ex_iff is_civm_runner_def find_Some_iff split: sum.splits option.splits intro!: bexI nth_mem)
  show ?thesis
    unfolding revalidate_stalled_def Let_def watchdogOnlineIdleOrgRunner_def watchdogOrgRunner_def orgRunners_def idle_check_def
      bind_assoc bind_left_identity
    apply (rule wp_seen_act [OF seen_start], simp)
    apply (rule wp_ifI, (rule wp_seen_end, assumption, rule sentinels_only_watches, simp))
    apply (rule wp_seen_act, assumption, simp)
    apply (rule wp_ifI, (rule wp_seen_end, assumption, rule sentinels_only_watches, simp))
    apply (rule wp_seen_act, assumption, simp)
    apply (rule wp_ifI, (rule wp_seen_end, assumption, rule sentinels_only_watches, simp))
    subgoal for r t q t' i t''
      using assms ready [of r]
      by (cases q; auto intro!: restart_stalled_evidenced [where pre = "[]"])
    done
qed

lemma recoverIdle_evidenced: "wp (recoverWatchdogOrgIdleWithQueue opts systemd repos) (\<lambda>_ t. evidenced s t) s"
proof -
  have clear: "wp (clearQueueStallIncident opts st u runner ex reason) (\<lambda>_ t. evidenced s t) s" for st u runner ex reason s
    unfolding clearQueueStallIncident_def Let_def
    by (rule wp_sentinels_only) (auto intro!: sentinels_only_intros intro: sentinels_only_watches)
  have arm: "wp (arm_stall opts u runner now evidence st) (\<lambda>_ t. evidenced s t) s" for u runner now evidence st s
    unfolding arm_stall_def Let_def
    by (rule wp_sentinels_only) (auto intro!: sentinels_only_intros intro: sentinels_only_watches)
  have advance: "wp (advance_stall opts l repos runner now evidence st incident) (\<lambda>_ t. evidenced s t) s"
    if "\<not> qi_Signature incident \<noteq> wq_Signature evidence" for l runner now evidence st incident s
    unfolding advance_stall_def
    by (rule wp_branches revalidate_stalled_evidenced | (rule evid.wp_watch_then, (simp; fail)) |
        (rule evid.wp_watching_only, (simp; fail)) | (use that in simp; fail))+
  have check: "wp (check_stall opts l repos runner st) (\<lambda>_ t. evidenced s t) s" for l runner st s
    unfolding check_stall_def
    by (rule wp_branches arm clear | (rule advance, assumption) | (rule evid.wp_watch_then, (simp; fail)) | (rule evid.wp_watching_only, (simp; fail)))+
  show ?thesis
    unfolding recoverWatchdogOrgIdleWithQueue_def
    by (rule wp_branches check clear | (rule evid.wp_watch_then, (simp; fail)) | (rule evid.wp_watching_only, (simp; fail)))+
qed

lemma recoverBusy_evidenced: "wp (recoverWatchdogOrgBusyWithoutWorker opts systemd) (\<lambda>_ t. evidenced s t) s"
proof -
  have clear: "wp (clearPendingWatchdogOrgBusyDwell opts units) (\<lambda>_ t. evidenced s t) s" for units s
    by (intro wp_sentinels_only unrestarting_sentinels unrestarting_clearPending)
  have written: "wp (if wo_Execute opts then writeRerunState opts st else ret None) (\<lambda>_ t. evidenced s t) s" for st s
    by (rule wp_sentinels_only) (auto intro!: sentinels_only_intros)
  have busy: "wp (recover_busy opts u runner) (\<lambda>_ t. evidenced s t) s" for u runner s
    unfolding recover_busy_def
    by (rule wp_branches restart_busy_evidenced | (rule evid.wp_obey_then, rule written) | (rule evid.wp_watch_then, (simp; fail)) |
        (rule evid.wp_watching_only, (simp; fail)))+
  have "wp (recover_busy_unit opts l) (\<lambda>_ t. evidenced s t) s" for l s
    unfolding recover_busy_unit_def
    by (rule wp_branches | (rule evid.wp_watch_then, (simp; fail)) | (rule evid.wp_obey_then, rule busy clear) |
        (rule evid.wp_watching_only, (simp; fail)))+
  then show ?thesis
    unfolding recoverWatchdogOrgBusyWithoutWorker_def
    by - (rule wp_branches clear | (rule evid.wp_watch_then, (simp; fail)) |
        (rule evid.wp_obey_then, rule evid.wp_for_each_obeys, assumption) | (rule evid.wp_watching_only, (simp; fail)))+
qed

lemma restartRunners_evidenced: "wp (restartWatchdogRunners opts systemd gh) (\<lambda>_ t. evidenced s t) s"
  unfolding restartWatchdogRunners_def
  by (rule evid.wp_watch_then, auto intro!: keeps_for_with evid.wp_for_each_obeys restart_candidate_evidenced)

lemma Watchdog_evidenced: "wp (Watchdog opts) (\<lambda>_ t. evidenced s t) s"
proof -
  note quietly = wp_sentinels_only [OF unrestarting_sentinels]
  have org: "wp (watchdog_org opts systemd repos) (\<lambda>_ t. evidenced s t) s" for opts systemd repos and s :: "'a wst"
    unfolding watchdog_org_def
    by (rule wp_branches | (rule evid.wp_obey_then, rule recoverBusy_evidenced recoverIdle_evidenced restartRunners_evidenced) |
        (rule evid.wp_watch_then, (simp add: keeps_cases; fail)) | (rule evid.wp_watching_only, (simp; fail)))+
  have repair: "wp (watchdog_repair opts systemd repos gh) (\<lambda>_ t. evidenced s t) s" for opts systemd repos gh and s :: "'a wst"
    unfolding watchdog_repair_def
    by (rule wp_branches | (rule evid.wp_obey_then, rule quietly [OF unrestarting_hooks] restartRunners_evidenced quietly [OF unrestarting_reruns]) |
        (rule evid.wp_watch_then, (simp; fail)) | (rule evid.wp_watching_only, (simp; fail)))+
  have repos: "wp (watchdog_repos opts systemd repos) (\<lambda>_ t. evidenced s t) s" for opts systemd repos and s :: "'a wst"
    unfolding watchdog_repos_def
    by (rule wp_branches repair | (rule evid.wp_obey_then, rule wp_sentinels_only [OF sentinels_only_detect]) |
        (rule evid.wp_watch_then, (simp add: keeps_cases; fail)) | (rule evid.wp_watching_only, (simp; fail)))+
  have tick: "wp (watchdog_tick opts) (\<lambda>_ t. evidenced s t) s" for opts and s :: "'a wst"
    unfolding watchdog_tick_def
    by (rule wp_branches org repos | (rule evid.wp_watch_then, (auto intro!: watching_intros; fail)) |
        (rule evid.wp_watching_only, (simp; fail)))+
  show ?thesis
    unfolding Watchdog_def
    by (rule wp_branches tick | (rule evid.wp_watch_then, (simp; fail)) | (rule evid.wp_watching_only, (simp; fail)))+
qed

end
