(* ===== verification/Watchdog_Contract.thy ===== *)
theory Watchdog_Contract
  imports Watchdog_Evidence
begin

text \<open>
  What \<open>Watchdog\<close> promises: its lives over many ticks, with a crash at any call, a concrete
  host to run it on, and the properties.
\<close>

section \<open>The life of a host\<close>

text \<open>
  One tick after the other, each with its own options and a world that changed in between, and
  each possibly killed before one of its calls: what remains is the calls so far and the marker
  that was then on disk.
\<close>

definition cut_short :: "'w wst \<Rightarrow> 'w wst \<Rightarrow> 'w wst \<Rightarrow> bool" where
  "cut_short s t v \<longleftrightarrow> (\<exists>k. hs_trace v = hs_trace s @ take k (htrace s t) \<and>
     hs_file v = (if k < length (htrace s t) then snd (htrace s t ! k) else hs_file t))"

inductive watchdog_life :: "'w wst \<Rightarrow> 'w wst \<Rightarrow> bool" where
  life_start: "watchdog_life s s"
| life_tick: "watchdog_life s t \<Longrightarrow> hs_file t' = hs_file t \<Longrightarrow> hs_trace t' = hs_trace t \<Longrightarrow>
     run_state (Watchdog opts) t' = ((), u) \<Longrightarrow> cut_short t' u v \<Longrightarrow> watchdog_life s v"

text \<open>The times, on disk, of the sentinels a unit was restarted for.\<close>

definition sentinel_times :: "string \<Rightarrow> (wd_call \<times> marker_file) list \<Rightarrow> time list" where
  "sentinel_times u cs = map (\<lambda>(c, f). acted f u) (filter (\<lambda>(c, f). sentinel_restart u c) cs)"

lemma climbs_times: "climbs u lo cs hi \<Longrightarrow> sorted_wrt (<) (lo # sentinel_times u cs)"
proof (induction u lo cs hi rule: climbs.induct)
  case (2 u lo c f cs hi)
  have skip: "sentinel_times u ((c, f) # cs) = (if sentinel_restart u c then [acted f u] else []) @ sentinel_times u cs"
    by (simp add: sentinel_times_def)
  show ?case using 2 unfolding skip by (cases "sentinel_restart u c") (auto intro: less_trans)
qed (simp add: sentinel_times_def)

lemma climbs_prefix:
  assumes "wd_seq (wd_rule opts) f (a @ (c, h) # b) g" "climbs u lo (a @ (c, h) # b) hi" "lo \<le> acted f u" "plain_unit u"
  shows "climbs u lo a (acted h u)"
  using assms(1-3)
proof (induction a arbitrary: f lo)
  case (Cons x a)
  obtain c0 f0 where x: "x = (c0, f0)" by (cases x)
  have step: "f0 = f" "wd_rule opts c0 f" "wd_seq (wd_rule opts) (marker_after c0 f) (a @ (c, h) # b) g"
    using Cons.prems(1) x by auto
  have mono: "acted f u \<le> acted (marker_after c0 f) u"
    using obeys_acted_mono [of opts f "[(c0, f)]" "marker_after c0 f" u] step(2) assms(4) by simp
  show ?case
  proof (cases "sentinel_restart u c0")
    case True
    then show ?thesis using Cons.IH [OF step(3) _ mono] Cons.prems(2) x step(1) by simp
  next
    case False
    then show ?thesis using Cons.IH [OF step(3), of lo] Cons.prems(2,3) x mono by simp
  qed
qed auto

lemma cut_climbing:
  assumes "obeys (wd_rule opts) s t" "climbing u s t" "cut_short s t v" "plain_unit u"
  shows "climbing u s v"
proof -
  obtain new where new: "hs_trace t = hs_trace s @ new" "wd_seq (wd_rule opts) (hs_file s) new (hs_file t)"
    using assms(1) by (auto simp: obeys_def)
  have h: "htrace s t = new" using new(1) by (simp add: htrace_def)
  have c: "climbs u (acted (hs_file s) u) new (acted (hs_file t) u)"
    using assms(2) new(1) by (auto simp: climbing_def)
  obtain k where k: "hs_trace v = hs_trace s @ take k new"
    "hs_file v = (if k < length new then snd (new ! k) else hs_file t)"
    using assms(3) h by (auto simp: cut_short_def)
  show ?thesis
  proof (cases "k < length new")
    case True
    have split: "new = take k new @ (fst (new ! k), snd (new ! k)) # drop (Suc k) new"
      using True by (simp add: id_take_nth_drop [symmetric])
    have "climbs u (acted (hs_file s) u) (take k new) (acted (snd (new ! k)) u)"
      using climbs_prefix [of opts "hs_file s" "take k new" "fst (new ! k)" "snd (new ! k)" "drop (Suc k) new"] new(2) c assms(4) split
      by simp
    then show ?thesis using k True by (auto simp: climbing_def)
  next
    case False
    then show ?thesis using k c by (auto simp: climbing_def)
  qed
qed

lemma life_climbing: "watchdog_life s t \<Longrightarrow> plain_unit u \<Longrightarrow> climbing u s t"
proof (induction rule: watchdog_life.induct)
  case (life_start s)
  then show ?case by (simp add: climbing_def)
next
  case (life_tick s t t' opts w v)
  have "obeys (wd_rule (applyWatchdogScalarDefaults opts)) t' w" "climbing u t' w"
    using wpD [OF Watchdog_obeys] wpD [OF Watchdog_climbing] life_tick by blast+
  then have "climbing u t' v" using cut_climbing life_tick by blast
  moreover have "climbing u t t'" using life_tick by (simp add: climbing_def)
  ultimately show ?case using life_tick by (blast intro: climbing_trans)
qed

lemma wd_seq_rule: "wd_seq P g cs h \<Longrightarrow> (c, f) \<in> set cs \<Longrightarrow> P c f"
  by (induction P g cs h rule: wd_seq.induct) auto

lemma obeys_rule: "obeys P s t \<Longrightarrow> (c, f) \<in> set (htrace s t) \<Longrightarrow> P c f"
  using wd_seq_rule by (fastforce simp: obeys_def htrace_def)

lemma wd_seq_same: "wd_seq P f cs g \<Longrightarrow> (\<And>st x h. \<not> P (CallRename st x) h) \<Longrightarrow> g = f"
proof (induction P f cs g rule: wd_seq.induct)
  case (2 P f c h cs g)
  then have "marker_after c f = f" by (auto simp: marker_after_def split: wd_call.splits option.splits)
  then show ?case using 2 by auto
qed simp

section \<open>A concrete host\<close>

text \<open>
  Two runners: one whose last job left a work root that could not be cleaned, one whose unit has
  failed. The host is idle.
\<close>

definition demo_broken :: string where
  "demo_broken = ''actions.runner.acme-app.civm-app.service''"

definition demo_down :: string where
  "demo_down = ''actions.runner.acme-web.civm-web.service''"

definition demo_units :: "unit_Status list" where
  "demo_units =
     [\<lparr>us_UnitName = demo_broken, us_Repo = ''acme/app'', us_Org = [], us_Name = ''civm-app'', us_LoadState = ''loaded'',
       us_ActiveState = ''active'', us_SubState = ''running'', us_Description = [], us_WorkingDirectory = ''/srv/app''\<rparr>,
      \<lparr>us_UnitName = demo_down, us_Repo = ''acme/web'', us_Org = [], us_Name = ''civm-web'', us_LoadState = ''loaded'',
       us_ActiveState = ''failed'', us_SubState = ''failed'', us_Description = [], us_WorkingDirectory = ''/srv/web''\<rparr>]"

definition demo_log :: string where
  "demo_log = ''{\"time\":\"2026-07-01T11:50:00Z\",\"decision\":\"error\",\"work_root\":\"/srv/app/_work\",'' @
     ''\"actions\":[{\"name\":\"work_root\",\"error\":\"permission denied\"}]}'' @ [nl]"

definition demo_read :: "string \<Rightarrow> (unit, herr + string) hop" where
  "demo_read path w =
     (if path = ''/var/log/civm/hooks.jsonl'' then Inr demo_log else Inl (msg ''absent''), w)"

definition demo_now :: time where
  "demo_now = (case parse_rfc3339 ''2026-07-01T12:00:00Z'' of Some t \<Rightarrow> t | None \<Rightarrow> 0)"

definition demo_options :: "bool \<Rightarrow> unit WatchdogOptions" where
  "demo_options execute =
     \<lparr>wo_Execute = execute, wo_Repos = [], wo_InferRepos = True, wo_RerunNetworkFailures = False, wo_NetworkTimeout = 0,
      wo_RestartDelay = 0, wo_IdleProbeDelay = 0, wo_MaxRunAge = 0, wo_RunLimit = 0, wo_MarkerPath = [], wo_MaintenanceStatePath = [],
      wo_HooksDir = [], wo_RunnerGlob = [], wo_CivmctlPath = [], wo_HooksLogPath = [], wo_AutoRestartPerHour = 0, wo_QueueStallDwell = 0,
      wo_RunFn = (\<lambda>_ _ w. (([], Some (msg ''offline'')), w)), wo_NetworkFn = (\<lambda>_ w. (None, w)), wo_ActivityFn = (\<lambda>w. (Inr [], w)), wo_wait = (\<lambda>_ w. (None, w)),
      wo_SystemRunnersFn = (\<lambda>w. ((demo_units, None), w)), wo_GitHubRunnersFn = (\<lambda>_ w. (Inr [], w)),
      wo_HookInstallFn = (\<lambda>_ w. ((1, []), w)), wo_ListRunsFn = (\<lambda>_ _ w. (Inr [], w)),
      wo_PullRequestFn = (\<lambda>_ _ w. (Inl (msg ''none''), w)), wo_RunLogFn = (\<lambda>_ _ w. (Inr [], w)), wo_RerunFn = (\<lambda>_ _ w. (None, w)),
      wo_QueueReposFn = (\<lambda>w. (Inr [], w)), wo_QueuedCivmJobsFn = (\<lambda>_ _ _ w. (Inl (msg ''none''), w)),
      wo_ReadFileFn = demo_read, wo_ReadMarker = (\<lambda>w. (None, w)), wo_MkdirAllFn = (\<lambda>_ w. (None, w)), wo_WriteFileFn = (\<lambda>_ w. (None, w)),
      wo_RenameFn = (\<lambda>_ _ w. (None, w)), wo_RemoveFn = (\<lambda>_ w. (None, w)), wo_MaintenanceActiveFn = (\<lambda>_ w. (Inr False, w)),
      wo_NowFn = (\<lambda>w. (demo_now, w)), wo_SleepFn = (\<lambda>_ w. ((), w)), wo_RestartFn = (\<lambda>_ w. (None, w))\<rparr>"

definition demo_start :: "unit wst" where
  "demo_start = \<lparr>hs_ext = (), hs_file = MarkerAbsent, hs_report = newReport False, hs_trace = []\<rparr>"

lemma demo_names [simp]:
  "ValidateServiceUnit demo_broken = None" "ValidateServiceUnit demo_down = None" "demo_broken \<noteq> []" "demo_down \<noteq> []"
  "demo_broken \<noteq> demo_down" "demo_down \<noteq> demo_broken"
  by code_simp+

lemma demo_sentinel [simp]: "parseBrokenSentinels (Inr demo_log) demo_now = [(''/srv/app/_work'', demo_now - 10 * minute)]"
  by code_simp

lemma demo_owner [simp]:
  "mapSentinelsToUnits [(''/srv/app/_work'', demo_now - 10 * minute)] demo_units = ([(demo_broken, demo_now - 10 * minute)], [])"
  by code_simp

lemma demo_selected [simp]:
  "selectUnitsToRestart True 3 demo_now [(demo_broken, demo_now - 10 * minute)] emptyState =
     ([demo_broken], emptyState\<lparr>rs_AutoRestarts := [(demo_broken, \<lparr>aw_Count = 1, aw_WindowStart = demo_now, aw_LastActed = demo_now - 10 * minute\<rparr>)]\<rparr>, [])"
  by code_simp

lemma demo_marshals [simp]:
  "state_marshals (emptyState\<lparr>rs_AutoRestarts := [(demo_broken, \<lparr>aw_Count = 1, aw_WindowStart = demo_now, aw_LastActed = demo_now - 10 * minute\<rparr>)]\<rparr>)"
  by code_simp

lemma demo_repos [simp]: "inferWatchdogRepos demo_units = [''acme/app'', ''acme/web'']"
  by code_simp

lemma demo_valid [simp]: "validateWatchdogOptions (applyWatchdogScalarDefaults (demo_options e)) = None"
  by code_simp

lemma demo_candidates [simp]:
  "DetectCollisions demo_units = []" "restartCandidates demo_units [(''acme/app'', []), (''acme/web'', [])] = [(demo_down, ''systemd-failed-failed'')]"
  by code_simp+


definition demo_state :: rerunState where
  "demo_state = emptyState\<lparr>rs_AutoRestarts := [(demo_broken, \<lparr>aw_Count = 1, aw_WindowStart = demo_now, aw_LastActed = demo_now - 10 * minute\<rparr>)]\<rparr>"

lemma demo_enrich [simp]:
  "wp (enrichWatchdogSystemdRepos (applyWatchdogScalarDefaults (demo_options e)) demo_units) Q s = Q demo_units s"
  by (cases s) (simp add: enrichWatchdogSystemdRepos_def demo_units_def enrich_unit_def resolveWatchdogRunnerRepo_def
      resolveWatchdogRunnerOrg_def runner_directory_def wp_cases Let_def demo_options_def applyWatchdogScalarDefaults_def)

lemma demo_scalars [simp]:
  "wo_Execute (applyWatchdogScalarDefaults (demo_options e)) = e" "wo_AutoRestartPerHour (applyWatchdogScalarDefaults (demo_options e)) = 3"
  "wo_InferRepos (applyWatchdogScalarDefaults (demo_options e))" "wo_Repos (applyWatchdogScalarDefaults (demo_options e)) = []"
  "\<not> wo_RerunNetworkFailures (applyWatchdogScalarDefaults (demo_options e))"
  "wo_HooksLogPath (applyWatchdogScalarDefaults (demo_options e)) = ''/var/log/civm/hooks.jsonl''"
  "wo_IdleProbeDelay (applyWatchdogScalarDefaults (demo_options e)) = 0"
  by (simp_all add: demo_options_def applyWatchdogScalarDefaults_def or_default_def)

lemma demo_functions [simp]:
  "wo_NetworkFn (applyWatchdogScalarDefaults (demo_options e)) n w = (None, w)"
  "wo_ActivityFn (applyWatchdogScalarDefaults (demo_options e)) w = (Inr [], w)"
  "wo_SystemRunnersFn (applyWatchdogScalarDefaults (demo_options e)) w = ((demo_units, None), w)"
  "wo_GitHubRunnersFn (applyWatchdogScalarDefaults (demo_options e)) p w = (Inr [], w)"
  "wo_HookInstallFn (applyWatchdogScalarDefaults (demo_options e)) h w = ((1, []), w)"
  "wo_ReadFileFn (applyWatchdogScalarDefaults (demo_options e)) = demo_read"
  "wo_ReadMarker (applyWatchdogScalarDefaults (demo_options e)) w = (None, w)"
  "wo_MkdirAllFn (applyWatchdogScalarDefaults (demo_options e)) p w = (None, w)"
  "wo_WriteFileFn (applyWatchdogScalarDefaults (demo_options e)) p w = (None, w)"
  "wo_RenameFn (applyWatchdogScalarDefaults (demo_options e)) p q w = (None, w)"
  "wo_MaintenanceActiveFn (applyWatchdogScalarDefaults (demo_options e)) p w = (Inr False, w)"
  "wo_NowFn (applyWatchdogScalarDefaults (demo_options e)) w = (demo_now, w)"
  "wo_RestartFn (applyWatchdogScalarDefaults (demo_options e)) u w = (None, w)"
  by (simp_all add: demo_options_def applyWatchdogScalarDefaults_def)

lemmas demo_unfold =
  Watchdog_def watchdog_tick_def watchdog_targets_def watchdog_repos_def collectWatchdogGitHubRunners_def detectBrokenRunner_def
  now_of_def demo_read_def loadRerunState_def decodeRerunState_def writeRerunState_def rename_marker_def executeRestarts_def restart_call_def
  add_def wp_cases demo_start_def idle_check_def Check_def watchdog_repair_def repairWatchdogHooks_def restartWatchdogRunners_def sortedMapKeys_def
  restart_candidate_def hasLocalRunnerWorker_def sees_worker_def note_offline_def raise_exit_def Let_def anyRepoOnline_def map_put_def lookup_or_def

text \<open>The broken unit is restarted once its restart is on disk, the failed one once the host was seen idle.\<close>

lemma demo_trace:
  "wp (Watchdog (demo_options True)) (\<lambda>_ t. hs_file t = MarkerState demo_state \<and> hs_trace t =
     [(CallNow demo_now, MarkerAbsent), (CallRename demo_state None, MarkerAbsent),
      (CallRestart CauseSentinel demo_broken None, MarkerState demo_state), (CallIdle idleResult, MarkerState demo_state),
      (CallHooks (hookRequest (applyWatchdogScalarDefaults (demo_options True))) [], MarkerState demo_state),
      (CallActivities (Inr []), MarkerState demo_state), (CallRestart CauseCandidate demo_down None, MarkerState demo_state)]) demo_start"
  by (simp add: demo_unfold demo_state_def)

lemma demo_dry_selected [simp]:
  "selectUnitsToRestart False 3 demo_now [(demo_broken, demo_now - 10 * minute)] emptyState =
     ([], emptyState, [(event ''runner-auto-restarted'' ''warning'')\<lparr>we_Unit := demo_broken, we_Reason := ''broken-runner-sentinel''\<rparr>])"
  by code_simp

lemma demo_dry_trace:
  "wp (Watchdog (demo_options False)) (\<lambda>_ t. hs_trace t =
     [(CallNow demo_now, MarkerAbsent), (CallHooks (hookRequest (applyWatchdogScalarDefaults (demo_options False))) [], MarkerAbsent)]) demo_start"
  by (simp add: demo_unfold)

definition demo_end :: "bool \<Rightarrow> unit wst" where
  "demo_end e = snd (run_state (Watchdog (demo_options e)) demo_start)"

lemma demo_ran: "run_state (Watchdog (demo_options e)) demo_start = ((), demo_end e)"
  by (simp add: demo_end_def prod_eq_iff)

lemma demo_htrace: "htrace demo_start (demo_end e) = hs_trace (demo_end e)"
  by (simp add: htrace_def demo_start_def)

lemma demo_end_trace:
  "hs_trace (demo_end True) =
     [(CallNow demo_now, MarkerAbsent), (CallRename demo_state None, MarkerAbsent),
      (CallRestart CauseSentinel demo_broken None, MarkerState demo_state), (CallIdle idleResult, MarkerState demo_state),
      (CallHooks (hookRequest (applyWatchdogScalarDefaults (demo_options True))) [], MarkerState demo_state),
      (CallActivities (Inr []), MarkerState demo_state), (CallRestart CauseCandidate demo_down None, MarkerState demo_state)]"
  using wpD [OF demo_trace demo_ran] by simp

lemma demo_life: "watchdog_life demo_start (demo_end True)"
proof (rule life_tick [OF life_start refl refl demo_ran])
  show "cut_short demo_start (demo_end True) (demo_end True)"
    unfolding cut_short_def
    by (rule exI [of _ "length (hs_trace (demo_end True))"]) (simp add: demo_htrace, simp add: demo_start_def)
qed

section \<open>Properties\<close>

text \<open>
  C16. At most one restart for each sentinel: over any number of ticks, each with its own options
  and killed at any call, the times of the sentinels that a unit was restarted for, as the marker
  on disk records them, strictly increase. A sentinel that was acted on is never acted on again.
\<close>

theorem sentinel_once:
  assumes "watchdog_life s t" "plain_unit u"
  shows "sorted_wrt (<) (sentinel_times u (htrace s t))"
proof -
  obtain new where "hs_trace t = hs_trace s @ new" "climbs u (acted (hs_file s) u) new (acted (hs_file t) u)"
    using life_climbing [OF assms] by (auto simp: climbing_def)
  then show ?thesis using climbs_times by (auto simp: htrace_def)
qed

theorem sentinel_once_witness:
  "watchdog_life demo_start (demo_end True) \<and> plain_unit demo_broken \<and>
   sentinel_times demo_broken (htrace demo_start (demo_end True)) = [demo_now - 10 * minute] \<and>
   sorted_wrt (<) (sentinel_times demo_broken (htrace demo_start (demo_end True)))"
proof (intro conjI)
  show p: "plain_unit demo_broken" by code_simp
  show "sorted_wrt (<) (sentinel_times demo_broken (htrace demo_start (demo_end True)))"
    by (rule sentinel_once [OF demo_life p])
  show "sentinel_times demo_broken (htrace demo_start (demo_end True)) = [demo_now - 10 * minute]"
    by (simp add: demo_htrace demo_end_trace sentinel_times_def sentinel_restart_def acted_def cursor_def demo_state_def lookup_or_def)
qed (rule demo_life)



text \<open>
  C21. A dry run changes nothing: without \<open>Execute\<close> no unit is restarted, no run is rerun, the
  marker is neither renamed nor changed, and the hooks are only asked what they would do.
\<close>

theorem dry_run_touches_nothing:
  assumes "run_state (Watchdog opts) s = ((), t)" "\<not> wo_Execute opts"
  shows "hs_file t = hs_file s \<and>
    (\<forall>(c, f) \<in> set (htrace s t). looks_only c \<or> (\<exists>h m. c = CallHooks h m \<and> \<not> hi_Execute h \<and> \<not> hi_RestartRunners h))"
proof -
  let ?opts = "applyWatchdogScalarDefaults opts"
  have x: "\<not> wo_Execute ?opts" using assms(2) by (simp add: applyWatchdogScalarDefaults_def)
  have rule: "obeys (wd_rule ?opts) s t" using wpD [OF Watchdog_obeys assms(1)] .
  have "looks_only c \<or> (\<exists>h m. c = CallHooks h m \<and> \<not> hi_Execute h \<and> \<not> hi_RestartRunners h)" if "(c, f) \<in> set (htrace s t)" for c f
    using obeys_rule [OF rule that] x by (auto simp: wd_rule_def looks_only_def split: wd_call.splits)
  moreover have "hs_file t = hs_file s"
    using rule wd_seq_same [of "wd_rule ?opts"] x by (auto simp: obeys_def)
  ultimately show ?thesis by auto
qed

theorem dry_run_touches_nothing_witness:
  "hs_file (demo_end False) = MarkerAbsent \<and> hs_trace (demo_end False) \<noteq> []"
proof -
  have "\<not> wo_Execute (demo_options False)" by (simp add: demo_options_def)
  from dry_run_touches_nothing [OF demo_ran this] wpD [OF demo_dry_trace demo_ran]
  show ?thesis by (simp add: demo_start_def)
qed

text \<open>
  C18. Fresh evidence before every other restart: a unit that is down is restarted right after the
  process list showed no worker, a runner that GitHub calls busy right after that and the record of
  it, and the runner of a stalled queue right after GitHub showed a civm runner online and idle,
  the queue still held the job the incident was recorded for, and the host was idle.
\<close>

theorem restart_after_evidence:
  assumes "run_state (Watchdog opts) s = ((), t)" "htrace s t = before @ (CallRestart cause u e, f) # rest"
  shows "shown cause u before"
proof -
  have "evidenced s t" using wpD [OF Watchdog_evidenced assms(1)] .
  then show ?thesis using assms(2) by (auto simp: evidenced_def htrace_def)
qed

theorem restart_after_evidence_witness:
  "\<exists>before. htrace demo_start (demo_end True) = before @ [(CallRestart CauseCandidate demo_down None, MarkerState demo_state)] \<and>
     shown CauseCandidate demo_down before"
proof -
  have r: "htrace demo_start (demo_end True) =
      butlast (hs_trace (demo_end True)) @ [(CallRestart CauseCandidate demo_down None, MarkerState demo_state)]"
    by (simp add: demo_htrace demo_end_trace)
  from restart_after_evidence [OF demo_ran r] r show ?thesis by blast
qed

end
