(* ===== verification/Watchdog_Restart.thy ===== *)
theory Watchdog_Restart
  imports Watchdog_Contract
begin

text \<open>
  The production side of the watchdog's function fields: \<open>defaultWatchdogRestart\<close>, which fences
  a unit before it restarts it, and \<open>applyWatchdogCommandFnDefaults\<close>, which builds the fields from
  the command runner. The fence has its own trace of commands and probes, and the properties speak
  about it: what was seen before the unit is stopped, and that a frozen unit never stays frozen.
\<close>

section \<open>The fence\<close>

datatype fence_call =
    FenceRun "string list" "string \<times> herr option"
  | FenceProbe "herr + Activity list"

type_synonym 'w fst_state = "('w, unit, unit, fence_call) hst"

definition systemctl :: "'w WatchdogOptions \<Rightarrow> string list \<Rightarrow> ('w fst_state, string \<times> herr option) state" where
  "systemctl opts args = act (FenceRun args) (wo_RunFn opts (hd args) (tl args))"

definition sudo_unit :: "string \<Rightarrow> string \<Rightarrow> string list" where
  "sudo_unit verb unit = [''sudo'', ''systemctl'', verb, unit]"

definition sudo_kill :: "string \<Rightarrow> string list" where
  "sudo_kill unit = [''sudo'', ''systemctl'', ''kill'', ''--kill-who=all'', ''--signal=SIGKILL'', unit]"

definition is_active :: "string \<Rightarrow> string list" where
  "is_active unit = [''systemctl'', ''is-active'', unit]"

definition watchdogUnitCgroupEmpty :: "'w WatchdogOptions \<Rightarrow> string \<Rightarrow> ('w fst_state, herr + bool) state" where
  "watchdogUnitCgroupEmpty opts unit = do {
     (out, e) \<leftarrow> systemctl opts [''systemctl'', ''show'', unit, ''--property=ControlGroup'', ''--value''];
     (case e of
        Some err \<Rightarrow> ret (Inl err)
      | None \<Rightarrow>
          let group = trim_space out; clean = path_Clean group in
          if group = [] then ret (Inr True)
          else if \<not> has_prefix clean ''/system.slice/'' then ret (Inl (msg (''unsafe control group '' @ go_quote group)))
          else do {
            r \<leftarrow> look (wo_ReadFileFn opts (path_Join (path_Join ''/sys/fs/cgroup'' (trim_prefix clean ''/'')) ''cgroup.procs''));
            ret (case r of
                   Inl err \<Rightarrow> if is_NotExist err then Inr True else Inl err
                 | Inr data \<Rightarrow> Inr (trim_space data = []))
          })
   }"

text \<open>After the unit stopped: purge its cgroup, restart, see it active.\<close>

definition finish_restart :: "'w WatchdogOptions \<Rightarrow> string \<Rightarrow> ('w fst_state, herr option) state" where
  "finish_restart opts unit = do {
     (_, e) \<leftarrow> systemctl opts (sudo_unit ''restart'' unit);
     (case e of
        Some err \<Rightarrow> ret (Some (Wrap (''systemctl restart '' @ unit @ '': '') [err]))
      | None \<Rightarrow> do {
          look (wo_SleepFn opts (wo_RestartDelay opts));
          (out, _) \<leftarrow> systemctl opts (is_active unit);
          ret (if trim_space out \<noteq> ''active''
               then Some (msg (unit @ '' is-active='' @ go_quote (trim_space out) @ '' after restart'')) else None)
        })
   }"

definition purge_and_restart :: "'w WatchdogOptions \<Rightarrow> string \<Rightarrow> ('w fst_state, herr option) state" where
  "purge_and_restart opts unit = do {
     (_, e) \<leftarrow> systemctl opts (sudo_kill unit);
     (case e of
        None \<Rightarrow> finish_restart opts unit
      | Some err \<Rightarrow> do {
          r \<leftarrow> watchdogUnitCgroupEmpty opts unit;
          (case r of
             Inl proofErr \<Rightarrow> ret (Some (Wrap (''systemctl kill '' @ unit @ '' cgroup and empty proof: '') [Wrap [] [err, proofErr]]))
           | Inr False \<Rightarrow> ret (Some (Wrap (''systemctl kill '' @ unit @ '' cgroup: '') [err, msg '' (residual PIDs remain)'']))
           | Inr True \<Rightarrow> finish_restart opts unit)
        })
   }"

text \<open>From the point where the deferred thaw is registered; the first component is \<open>frozen\<close> at the return.\<close>

definition stop_fenced :: "'w WatchdogOptions \<Rightarrow> string \<Rightarrow> bool \<Rightarrow> ('w fst_state, bool \<times> herr option) state" where
  "stop_fenced opts unit frozen = do {
     (_, e) \<leftarrow> systemctl opts (sudo_unit ''stop'' unit);
     (case e of
        Some err \<Rightarrow> ret (frozen, Some (Wrap (''systemctl stop '' @ unit @ '': '') [err]))
      | None \<Rightarrow> do { r \<leftarrow> purge_and_restart opts unit; ret (False, r) })
   }"

definition fenced_restart :: "'w WatchdogOptions \<Rightarrow> string \<Rightarrow> bool \<Rightarrow> ('w fst_state, bool \<times> herr option) state" where
  "fenced_restart opts unit frozen =
     (if \<not> frozen then stop_fenced opts unit frozen
      else do {
        r \<leftarrow> act FenceProbe (wo_ActivityFn opts);
        (if sees_worker r then ret (frozen, Some (Leaf RunnerBecameBusy)) else stop_fenced opts unit frozen)
      })"

text \<open>The deferred thaw.\<close>

definition thaw_deferred :: "'w WatchdogOptions \<Rightarrow> string \<Rightarrow> bool \<times> herr option \<Rightarrow> ('w fst_state, herr option) state" where
  "thaw_deferred opts unit r =
     (case r of (frozen, retErr) \<Rightarrow>
        if \<not> frozen then ret retErr
        else do {
          (_, e) \<leftarrow> systemctl opts (sudo_unit ''thaw'' unit);
          ret (case (retErr, e) of
                 (None, Some err) \<Rightarrow> Some (Wrap (''systemctl thaw '' @ unit @ '': '') [err])
               | _ \<Rightarrow> retErr)
        })"

definition defaultWatchdogRestart :: "'w WatchdogOptions \<Rightarrow> string \<Rightarrow> ('w fst_state, herr option) state" where
  "defaultWatchdogRestart opts unit =
     (case ValidateServiceUnit unit of
        Some err \<Rightarrow> ret (Some err)
      | None \<Rightarrow> do {
          (_, e) \<leftarrow> systemctl opts (sudo_unit ''freeze'' unit);
          (case e of
             None \<Rightarrow> do { r \<leftarrow> fenced_restart opts unit True; thaw_deferred opts unit r }
           | Some err \<Rightarrow> do {
               (out, _) \<leftarrow> systemctl opts (is_active unit);
               let st = trim_space out;
               (if st \<noteq> ''inactive'' \<and> st \<noteq> ''failed''
                then ret (Some (Wrap (''systemctl freeze '' @ unit @ '' while state='' @ go_quote st @ '': '') [err]))
                else do { r \<leftarrow> fenced_restart opts unit False; thaw_deferred opts unit r })
             })
        })"

section \<open>The fields built from the command runner\<close>

definition as_hop :: "('w fst_state, 'a) state \<Rightarrow> ('w, 'a) hop" where
  "as_hop m w = (case run_state m \<lparr>hs_ext = w, hs_file = (), hs_report = (), hs_trace = []\<rparr> of (a, t) \<Rightarrow> (a, hs_ext t))"

definition rerun_command :: "'w runner_fn \<Rightarrow> string \<Rightarrow> int \<Rightarrow> ('w, herr option) hop" where
  "rerun_command run repo runID w =
     (case run ''gh'' [''run'', ''rerun'', show_int runID, ''--repo'', repo, ''--failed''] w of ((_, e), w') \<Rightarrow> (e, w'))"

definition network_command :: "'w runner_fn \<Rightarrow> int \<Rightarrow> ('w, herr option) hop" where
  "network_command run timeout w =
     (case run ''git'' [''ls-remote'', ''https://github.com/actions/checkout.git'', ''HEAD''] w of
        ((_, Some err), w') \<Rightarrow> (Some (Wrap ''git ls-remote github.com: '' [err]), w')
      | ((_, None), w') \<Rightarrow> (None, w'))"

text \<open>
  \<open>DefaultWatchdogOptions\<close> leaves these fields nil, so all of them are filled in. \<open>env\<close> is the value of
  \<open>CIVM_REAPER_REPOS\<close>, \<open>sha256hex\<close> the hexadecimal digest of a string.
\<close>

definition applyWatchdogCommandFnDefaults :: "(string \<Rightarrow> string) \<Rightarrow> string \<Rightarrow> 'w WatchdogOptions \<Rightarrow> 'w WatchdogOptions" where
  "applyWatchdogCommandFnDefaults sha256hex env opts =
     opts\<lparr>wo_RestartFn := (\<lambda>unit. as_hop (defaultWatchdogRestart opts unit)),
          wo_SystemRunnersFn := (\<lambda>w. case List_units (wo_RunFn opts) w of (units, w') \<Rightarrow> ((units, None), w')),
          wo_GitHubRunnersFn := listWatchdogGitHubRunners (wo_RunFn opts),
          wo_ListRunsFn := listWatchdogRuns (wo_RunFn opts),
          wo_PullRequestFn := getWatchdogPullRequest (wo_RunFn opts),
          wo_RunLogFn := getWatchdogRunLog (wo_RunFn opts),
          wo_RerunFn := rerun_command (wo_RunFn opts),
          wo_QueueReposFn := (\<lambda>w. (defaultWatchdogQueueRepos env, w)),
          wo_QueuedCivmJobsFn := listQueuedCivmJobs sha256hex (wo_RunFn opts),
          wo_NetworkFn := network_command (wo_RunFn opts)\<rparr>"

section \<open>Lemmas\<close>

text \<open>The commands that take a running job down.\<close>

definition takes_down :: "string \<Rightarrow> fence_call \<Rightarrow> bool" where
  "takes_down unit c =
     (case c of
        FenceRun args _ \<Rightarrow> args = sudo_unit ''stop'' unit \<or> args = sudo_kill unit \<or> args = sudo_unit ''restart'' unit
      | FenceProbe _ \<Rightarrow> False)"

text \<open>What must have been seen first: frozen and no worker, or a unit that cannot take a job.\<close>

definition fenced :: "string \<Rightarrow> fence_call list \<Rightarrow> bool" where
  "fenced unit cs \<longleftrightarrow>
     (\<exists>out r rest. cs = FenceRun (sudo_unit ''freeze'' unit) (out, None) # FenceProbe r # rest \<and> \<not> sees_worker r) \<or>
     (\<exists>out err st e rest. cs = FenceRun (sudo_unit ''freeze'' unit) (out, Some err) # FenceRun (is_active unit) (st, e) # rest \<and>
        trim_space st \<in> {''inactive'', ''failed''})"

lemma fence_verbs [simp]:
  "sudo_unit ''freeze'' unit \<noteq> sudo_unit ''stop'' unit" "sudo_unit ''freeze'' unit \<noteq> sudo_kill unit"
  "sudo_unit ''freeze'' unit \<noteq> sudo_unit ''restart'' unit" "sudo_unit ''thaw'' unit \<noteq> sudo_unit ''stop'' unit"
  "sudo_unit ''thaw'' unit \<noteq> sudo_kill unit" "sudo_unit ''thaw'' unit \<noteq> sudo_unit ''restart'' unit"
  "is_active unit \<noteq> sudo_unit verb unit" "sudo_unit verb unit \<noteq> is_active unit" "is_active unit \<noteq> sudo_kill unit"
  by (simp_all add: sudo_unit_def sudo_kill_def is_active_def)

definition fence_calls :: "'w fst_state \<Rightarrow> 'w fst_state \<Rightarrow> fence_call list" where
  "fence_calls s t = map fst (htrace s t)"

text \<open>\<open>so_far s0 cs s\<close>: since \<open>s0\<close> exactly the calls \<open>cs\<close> were made.\<close>

definition so_far :: "'w fst_state \<Rightarrow> fence_call list \<Rightarrow> 'w fst_state \<Rightarrow> bool" where
  "so_far s0 cs s \<longleftrightarrow> hs_trace s = hs_trace s0 @ map (\<lambda>c. (c, ())) cs"

lemma so_far_start: "so_far s [] s"
  by (simp add: so_far_def)

lemma so_far_calls: "so_far s cs t \<Longrightarrow> fence_calls s t = cs"
  by (simp add: so_far_def fence_calls_def htrace_def comp_def)

lemma wp_fence_run:
  assumes "so_far s0 cs s" "\<And>r t. so_far s0 (cs @ [FenceRun args r]) t \<Longrightarrow> Q r t"
  shows "wp (systemctl opts args) Q s"
  using assms by (simp add: systemctl_def so_far_def split: prod.split)

lemma wp_fence_probe:
  assumes "so_far s0 cs s" "\<And>r t. so_far s0 (cs @ [FenceProbe r]) t \<Longrightarrow> Q r t"
  shows "wp (act FenceProbe g) Q s"
  using assms by (simp add: so_far_def split: prod.split)

lemma wp_purge:
  assumes "so_far s0 cs s" "\<And>r more t. so_far s0 (cs @ more) t \<Longrightarrow> Q r t"
  shows "wp (purge_and_restart opts unit) Q s"
proof -
  have "keeps (traced (\<lambda>_. True)) (purge_and_restart opts unit)"
    unfolding purge_and_restart_def finish_restart_def watchdogUnitCgroupEmpty_def systemctl_def Let_def
    by (auto intro!: keeps_bind keeps_cases keeps_act split: bool.split)
  then have "wp (purge_and_restart opts unit) (\<lambda>_ t. \<exists>more. so_far s0 (cs @ more) t) s"
  proof (rule wp_mono [OF keeps_wp [where R = "traced (\<lambda>_. True)" and s = s]])
    fix t assume "traced (\<lambda>_. True) s t"
    then obtain new where "hs_trace t = hs_trace s @ new" by (auto simp: traced_def)
    moreover have "new = map (\<lambda>c. (c, ())) (map fst new)" by (induction new) auto
    ultimately show "\<exists>more. so_far s0 (cs @ more) t" using assms(1) unfolding so_far_def by (metis append_assoc map_append)
  qed
  then show ?thesis by (rule wp_mono) (use assms(2) in blast)
qed

lemmas fence_steps = wp_fence_run wp_fence_probe wp_purge

text \<open>Every path of \<open>defaultWatchdogRestart\<close> with the calls it makes.\<close>

definition released :: "string \<Rightarrow> fence_call list \<Rightarrow> bool" where
  "released unit cs \<longleftrightarrow> (\<exists>out. FenceRun (sudo_unit ''stop'' unit) (out, None) \<in> set cs) \<or> (\<exists>r. last cs = FenceRun (sudo_unit ''thaw'' unit) r)"

definition fence_path :: "string \<Rightarrow> fence_call list \<Rightarrow> herr option \<Rightarrow> bool" where
  "fence_path unit cs e \<longleftrightarrow>
     (list_ex (takes_down unit) cs \<longrightarrow> fenced unit cs) \<and>
     (\<forall>out. FenceRun (sudo_unit ''freeze'' unit) (out, None) \<in> set cs \<longrightarrow> released unit cs)"

lemma fence_path_all: "wp (defaultWatchdogRestart opts unit) (\<lambda>e t. fence_path unit (fence_calls s t) e) s"
  unfolding defaultWatchdogRestart_def fenced_restart_def stop_fenced_def thaw_deferred_def wp_bind
  by (simp only: wp_bind wp_return prod.case not_True_eq_False not_False_eq_True if_True if_False | rule wp_branches |
      (rule fence_steps, assumption) | rule wp_fence_run [OF so_far_start] |
      (auto simp: so_far_calls so_far_start [THEN so_far_calls] fence_path_def released_def fenced_def takes_down_def; fail))+

section \<open>A concrete unit\<close>

definition demo_fence :: "unit WatchdogOptions" where
  "demo_fence = (demo_options True)\<lparr>wo_RunFn := (\<lambda>name args w. ((if args = [''is-active'', demo_broken] then ''active'' else [], None), w))\<rparr>"

definition demo_fence_start :: "unit fst_state" where
  "demo_fence_start = \<lparr>hs_ext = (), hs_file = (), hs_report = (), hs_trace = []\<rparr>"

definition demo_fence_end :: "unit fst_state" where
  "demo_fence_end = snd (run_state (defaultWatchdogRestart demo_fence demo_broken) demo_fence_start)"

definition demo_fence_calls :: "fence_call list" where
  "demo_fence_calls =
     [FenceRun (sudo_unit ''freeze'' demo_broken) ([], None), FenceProbe (Inr []), FenceRun (sudo_unit ''stop'' demo_broken) ([], None),
      FenceRun (sudo_kill demo_broken) ([], None), FenceRun (sudo_unit ''restart'' demo_broken) ([], None),
      FenceRun (is_active demo_broken) (''active'', None)]"

lemma demo_fence_wp:
  "wp (defaultWatchdogRestart demo_fence demo_broken) (\<lambda>e t. e = None \<and> fence_calls demo_fence_start t = demo_fence_calls) demo_fence_start"
  by (simp add: defaultWatchdogRestart_def fenced_restart_def stop_fenced_def purge_and_restart_def finish_restart_def thaw_deferred_def
      systemctl_def sudo_unit_def sudo_kill_def is_active_def sees_worker_def demo_fence_def demo_options_def demo_fence_start_def
      demo_fence_calls_def fence_calls_def htrace_def wp_cases trim_space_def is_space_def)

lemma demo_fence_ran: "run_state (defaultWatchdogRestart demo_fence demo_broken) demo_fence_start = (None, demo_fence_end)"
  using demo_fence_wp by (simp add: demo_fence_end_def wp_def prod_eq_iff split: prod.splits)

lemma demo_fence_trace: "fence_calls demo_fence_start demo_fence_end = demo_fence_calls"
  using wpD [OF demo_fence_wp demo_fence_ran] by simp

section \<open>Properties\<close>

text \<open>
  C19. The fence of a restart: \<open>defaultWatchdogRestart\<close> stops, kills or restarts a unit only after
  it froze the unit and then saw no worker, or after \<open>systemctl is-active\<close> said that the unit is
  inactive or failed.
\<close>

theorem restart_is_fenced:
  assumes "run_state (defaultWatchdogRestart opts unit) s = (e, t)" "list_ex (takes_down unit) (fence_calls s t)"
  shows "fenced unit (fence_calls s t)"
  using wpD [OF fence_path_all assms(1)] assms(2) by (simp add: fence_path_def)

theorem restart_is_fenced_witness:
  "fence_calls demo_fence_start demo_fence_end = demo_fence_calls \<and> list_ex (takes_down demo_broken) demo_fence_calls \<and> fenced demo_broken demo_fence_calls"
proof -
  have "list_ex (takes_down demo_broken) demo_fence_calls" by (simp add: demo_fence_calls_def takes_down_def)
  then show ?thesis using restart_is_fenced [OF demo_fence_ran] by (simp add: demo_fence_trace)
qed

text \<open>
  C20. No unit stays frozen: once the freeze succeeded, \<open>defaultWatchdogRestart\<close> either stopped the
  unit, which releases the freeze, or its last command is the thaw, whatever it returns.
\<close>

theorem freeze_is_released:
  assumes "run_state (defaultWatchdogRestart opts unit) s = (e, t)"
    "FenceRun (sudo_unit ''freeze'' unit) (out, None) \<in> set (fence_calls s t)"
  shows "released unit (fence_calls s t)"
  using wpD [OF fence_path_all assms(1)] assms(2) by (auto simp: fence_path_def)

theorem freeze_is_released_witness:
  "fence_calls demo_fence_start demo_fence_end = demo_fence_calls \<and> released demo_broken demo_fence_calls"
proof -
  have "FenceRun (sudo_unit ''freeze'' demo_broken) ([], None) \<in> set (fence_calls demo_fence_start demo_fence_end)"
    by (simp add: demo_fence_trace demo_fence_calls_def)
  then show ?thesis using freeze_is_released [OF demo_fence_ran] by (simp add: demo_fence_trace)
qed

end
