(* ===== verification/Runner_Contract.thy ===== *)
theory Runner_Contract
  imports Watchdog_Contract
begin

text \<open>
  What the runner units promise: the collisions are exactly the redundant runners, the watchdog
  never restarts one of them, and the restart command restarts only what it resolved, on an idle
  host.
\<close>

section \<open>Collisions\<close>

text \<open>
  C23. The serialisation check: \<open>DetectCollisions\<close>, which works through an index of the
  organisation runners, reports exactly the per-repository runners whose organisation has a runner
  of its own, in the order of their unit names, and each report names such an organisation runner.
\<close>

theorem collisions_are_redundant:
  "co_RepoUnit ` set (DetectCollisions units) = us_UnitName ` {u. redundant units u} \<and>
   sorted (map co_RepoUnit (DetectCollisions units)) \<and>
   (\<forall>c. c \<in> set (DetectCollisions units) \<longrightarrow>
      (\<exists>org. org \<in> set units \<and> isOrgRunner org \<and> co_OrgUnit c = us_UnitName org \<and> us_Repo org = co_Owner c))"
  using DetectCollisions_set [of units] DetectCollisions_sorted [of units] DetectCollisions_org [of _ units] by blast

definition cleared :: "Collision list \<Rightarrow> (string \<times> string) list \<Rightarrow> (string \<times> string) list \<Rightarrow> bool" where
  "cleared cs before left \<longleftrightarrow>
     (\<forall>k. (k \<in> co_RepoUnit ` set cs \<longrightarrow> map_of left k = None) \<and> (map_of before k = None \<longrightarrow> map_of left k = None))"

lemma cleared_Cons:
  "map_of mid (co_RepoUnit c) = None \<Longrightarrow> (\<And>k. map_of before k = None \<Longrightarrow> map_of mid k = None) \<Longrightarrow> cleared cs mid left \<Longrightarrow> cleared (c # cs) before left"
  by (auto simp: cleared_def)

lemma dropped_collisions: "wp (for_with drop_collision cs candidates) (\<lambda>left _. cleared cs candidates left) s"
proof (induction cs arbitrary: candidates s)
  case (Cons c cs candidates s)
  have "wp (drop_collision c candidates)
          (\<lambda>mid _. map_of mid (co_RepoUnit c) = None \<and> (\<forall>k. map_of candidates k = None \<longrightarrow> map_of mid k = None)) s"
    by (simp add: drop_collision_def add_def wp_cases)
  then show ?case
    unfolding for_with.simps wp_bind
    by (rule wp_mono) (rule wp_mono [OF Cons.IH], blast intro: cleared_Cons)
qed (simp add: cleared_def)

definition spares :: "unit_Status list \<Rightarrow> wd_call \<Rightarrow> bool" where
  "spares systemd c = (case c of CallRestart _ u _ \<Rightarrow> u \<notin> us_UnitName ` {x. redundant systemd x} | _ \<Rightarrow> True)"

abbreviation sparing :: "unit_Status list \<Rightarrow> 'w wst \<Rightarrow> 'w wst \<Rightarrow> bool" where
  "sparing systemd \<equiv> traced (\<lambda>(c, f). spares systemd c)"

lemma sparing_unrestarting: "keeps unrestarting m \<Longrightarrow> keeps (sparing systemd) m"
  by (erule keeps_traced_mono) (auto simp: is_restart_def spares_def split: wd_call.splits)

lemma sparing_act: "(\<And>a. spares systemd (ev a)) \<Longrightarrow> keeps (sparing systemd) (act ev g)"
  by (rule keeps_act) simp

lemma restart_candidate_spares:
  assumes "u \<notin> us_UnitName ` {x. redundant systemd x}"
  shows "keeps (sparing systemd) (restart_candidate opts candidates u)"
proof -
  have "keeps (sparing systemd) (restart_call opts CauseCandidate u)"
    unfolding restart_call_def by (rule sparing_act) (use assms in \<open>simp add: spares_def\<close>)
  then show ?thesis
    unfolding restart_candidate_def Let_def
    by (auto intro!: keeps_bind keeps_cases intro: sparing_unrestarting [OF unrestarting_watches])
qed

lemma restarts_not_redundant: "wp (restartWatchdogRunners opts systemd gh) (\<lambda>_ t. sparing systemd s t) s"
proof -
  have each: "keeps (sparing systemd) (for_each (restart_candidate opts left) (sortedMapKeys left))"
    if "cleared (DetectCollisions systemd) cand left" for left cand
  proof (rule keeps_for_each)
    fix u assume "u \<in> set (sortedMapKeys left)"
    then have "map_of left u \<noteq> None" by (simp add: sortedMapKeys_def map_of_eq_None_iff)
    then have "u \<notin> us_UnitName ` {x. redundant systemd x}"
      using that DetectCollisions_set [of systemd] by (auto simp: cleared_def)
    then show "keeps (sparing systemd) (restart_candidate opts left u)" by (rule restart_candidate_spares)
  qed simp_all
  have drop: "keeps (sparing systemd) (for_with drop_collision cs c)" for cs c
    by (rule sparing_unrestarting [OF unrestarting_watches]) (auto intro!: keeps_for_with)
  have "wp (for_with drop_collision (DetectCollisions systemd) (restartCandidates systemd gh))
          (\<lambda>left t. cleared (DetectCollisions systemd) (restartCandidates systemd gh) left \<and> sparing systemd s t) s"
    by (rule wp_conj [OF dropped_collisions keeps_wp [OF drop]])
  then show ?thesis
    unfolding restartWatchdogRunners_def wp_bind
  proof (rule wp_mono)
    fix left t
    assume l: "cleared (DetectCollisions systemd) (restartCandidates systemd gh) left \<and> sparing systemd s t"
    show "wp (for_each (restart_candidate opts left) (sortedMapKeys left)) (\<lambda>_ u. sparing systemd s u) t"
      by (rule wp_mono [OF keeps_wp [OF each [OF l [THEN conjunct1]], where s = t]]) (use l in \<open>blast intro: traced_trans\<close>)
  qed
qed

text \<open>A box with an organisation runner, a redundant runner that is down and another runner that is down.\<close>

definition demo_unit :: "string \<Rightarrow> string \<Rightarrow> string \<Rightarrow> unit_Status" where
  "demo_unit name repo st =
     \<lparr>us_UnitName = name, us_Repo = repo, us_Org = [], us_Name = name, us_LoadState = ''loaded'', us_ActiveState = st,
      us_SubState = (if st = ''active'' then ''running'' else ''failed''), us_Description = [], us_WorkingDirectory = []\<rparr>"

definition demo_box :: "unit_Status list" where
  "demo_box = [demo_unit ''civm-org'' ''acme'' ''active'', demo_unit ''civm-app'' ''acme/app'' ''failed'', demo_unit ''civm-lib'' ''zeta/lib'' ''failed'']"

lemma demo_box_collisions:
  "map co_RepoUnit (DetectCollisions demo_box) = [''civm-app'']"
  "restartCandidates demo_box [] = [(''civm-app'', ''systemd-failed-failed''), (''civm-lib'', ''systemd-failed-failed'')]"
  by code_simp+

definition demo_box_end :: "unit wst" where
  "demo_box_end = snd (run_state (restartWatchdogRunners (demo_options True) demo_box []) demo_start)"

lemma demo_box_wp:
  "wp (restartWatchdogRunners (demo_options True) demo_box [])
     (\<lambda>e t. e = None \<and> map fst (hs_trace t) = [CallActivities (Inr []), CallRestart CauseCandidate ''civm-lib'' None]) demo_start"
proof -
  obtain c where c: "DetectCollisions demo_box = [c]" "co_RepoUnit c = ''civm-app''"
    using demo_box_collisions(1) by auto
  show ?thesis
    by (simp add: restartWatchdogRunners_def c demo_box_collisions(2) drop_collision_def add_def wp_cases map_del_def sortedMapKeys_def restart_candidate_def
        hasLocalRunnerWorker_def sees_worker_def restart_call_def demo_options_def demo_start_def Let_def)
qed

lemma demo_box_ran: "run_state (restartWatchdogRunners (demo_options True) demo_box []) demo_start = (None, demo_box_end)"
  using demo_box_wp by (simp add: demo_box_end_def wp_def prod_eq_iff split: prod.splits)

lemma demo_box_trace: "map fst (htrace demo_start demo_box_end) = [CallActivities (Inr []), CallRestart CauseCandidate ''civm-lib'' None]"
  using wpD [OF demo_box_wp demo_box_ran] by (simp add: htrace_def demo_start_def)

theorem collisions_are_redundant_witness:
  "us_UnitName (demo_box ! 1) \<in> co_RepoUnit ` set (DetectCollisions demo_box) \<and>
   us_UnitName ` {u. redundant demo_box u} = co_RepoUnit ` set (DetectCollisions demo_box)"
proof -
  have "redundant demo_box (demo_box ! 1)" by code_simp
  then show ?thesis using collisions_are_redundant [of demo_box] by blast
qed



section \<open>The restart command\<close>

text \<open>All that \<open>Restart\<close> may do: nothing, a refused idle check, a failed restart, or a restart and its verification.\<close>

definition restart_trace :: "'w RestartOptions \<Rightarrow> RestartResult \<Rightarrow> restart_event list \<Rightarrow> bool" where
  "restart_trace opts r cs \<longleftrightarrow>
     (let u = rr_UnitResolved r in
      cs = [] \<and> \<not> rr_RestartedOK r \<or>
      ro_Execute opts \<and>
        ((\<exists>e. cs = [RestartIdle (Some e)] \<and> rr_Err r = Some e \<and> \<not> rr_RestartedOK r) \<or>
         (\<exists>e. cs = [RestartIdle None, RestartRan ''sudo'' [''systemctl'', ''restart'', u] (Some e)] \<and> rr_Err r \<noteq> None \<and> \<not> rr_RestartedOK r) \<or>
         (\<exists>e. cs = [RestartIdle None, RestartRan ''sudo'' [''systemctl'', ''restart'', u] None, RestartRan ''systemctl'' [''is-active'', u] e] \<and>
            rr_RestartedOK r \<and> (rr_Err r = None \<longleftrightarrow> rr_ActiveAfter r))))"

lemma restart_resolved_trace:
  assumes "ro_Execute opts" "rr_UnitResolved r = u" "\<not> rr_RestartedOK r"
  shows "wp (restart_resolved opts u r) (\<lambda>r t. restart_trace opts r (map fst (htrace s t))) s"
  using assms by (auto simp: restart_resolved_def restart_trace_def htrace_def wp_cases split: prod.split option.split)

lemma Restart_trace: "wp (Restart opts) (\<lambda>(r, e) t. restart_trace opts r (map fst (htrace s t))) s"
proof -
  have quiet: "restart_trace opts r (map fst (htrace s t))" if "\<not> rr_RestartedOK r" "hs_trace t = hs_trace s" for r and t :: "'a restart_state"
    using that by (simp add: restart_trace_def htrace_def Let_def)
  have resolved: "wp (restart_resolved opts u r) (\<lambda>r t. restart_trace opts r (map fst (htrace s t))) v"
    if "ro_Execute opts" "rr_UnitResolved r = u" "\<not> rr_RestartedOK r" "hs_trace v = hs_trace s" for u r and v :: "'a restart_state"
    using restart_resolved_trace [OF that(1-3), of v] that(4) by (simp add: htrace_def)
  show ?thesis
    unfolding Restart_def Let_def
    by (auto simp: wp_cases intro!: quiet resolved split: option.split sum.split prod.split)
qed

definition demo_restart :: "unit RestartOptions" where
  "demo_restart =
     \<lparr>ro_Short = [], ro_Unit = ''civm-app.service'', ro_VerifyDelay = 0, ro_IdleProbeDelay = 0, ro_Execute = True,
      ro_RunFn = (\<lambda>name args w. ((if hd args = ''is-active'' then ''active'' else [], None), w)),
      ro_ActivityFn = (\<lambda>w. (Inr [], w)), ro_wait = (\<lambda>_ w. (None, w)), ro_SleepFn = (\<lambda>_ w. ((), w))\<rparr>"

definition demo_restart_start :: "unit restart_state" where
  "demo_restart_start = \<lparr>hs_ext = (), hs_file = (), hs_report = (), hs_trace = []\<rparr>"

lemma demo_restart_wp:
  "wp (Restart demo_restart) (\<lambda>_ t. map fst (htrace demo_restart_start t) =
     [RestartIdle None, RestartRan ''sudo'' [''systemctl'', ''restart'', ''civm-app.service''] None,
      RestartRan ''systemctl'' [''is-active'', ''civm-app.service''] None]) demo_restart_start"
proof -
  have "ValidateServiceUnit ''civm-app.service'' = None" by code_simp
  then show ?thesis
    by (simp add: Restart_def restart_resolved_def validateRestartOptions_def demo_restart_def demo_restart_start_def
        ensureMutationIdle_def Ensure_def Check_def htrace_def wp_cases Let_def)
qed



text \<open>
  The short name of \<open>runner add\<close> is not the short name of \<open>runner restart\<close>: a unit added for
  \<open>api\<close> is only found as \<open>civm-api\<close>.
\<close>

lemma short_of_add_not_found:
  "\<not> short_matches ''api'' \<lparr>us_UnitName = added_unit ''acme-app'' ''api'', us_Repo = ''acme/app'', us_Org = [],
      us_Name = snd (parseRunnerUnit (added_unit ''acme-app'' ''api'')), us_LoadState = [], us_ActiveState = [], us_SubState = [],
      us_Description = [], us_WorkingDirectory = []\<rparr> \<and>
   short_matches ''civm-api'' \<lparr>us_UnitName = added_unit ''acme-app'' ''api'', us_Repo = ''acme/app'', us_Org = [],
      us_Name = snd (parseRunnerUnit (added_unit ''acme-app'' ''api'')), us_LoadState = [], us_ActiveState = [], us_SubState = [],
      us_Description = [], us_WorkingDirectory = []\<rparr>"
  by code_simp

end
