(* ===== verification/Watchdog_Reruns.thy ===== *)
theory Watchdog_Reruns
  imports Watchdog_Contract
begin

text \<open>
  Which failures the watchdog reruns and what it remembers of it: the meaning of
  \<open>ClassifyFailureLog\<close>, the markers of a pass that ends well, and the markers a failing pass loses.
\<close>

section \<open>Classification\<close>

definition sig_at :: "string list \<Rightarrow> string \<Rightarrow> nat \<Rightarrow> bool" where
  "sig_at sigs s i \<longleftrightarrow> (\<exists>sig \<in> set sigs. has_prefix (drop i s) sig)"

lemma str_index_found: "has_prefix (drop i s) p \<Longrightarrow> p \<noteq> [] \<Longrightarrow> \<exists>j \<le> i. str_index s p = Some j"
proof (induction s arbitrary: i)
  case Nil
  then show ?case by (simp add: has_prefix_def)
next
  case (Cons c s)
  then show ?case by (cases i) force+
qed

lemma firstSignature_from_None: "firstSignature_from best s sigs = None \<longleftrightarrow> best = None \<and> (\<forall>sig \<in> set sigs. str_index s sig = None)"
  by (induction best s sigs rule: firstSignature_from.induct) (auto split: option.splits if_splits)

lemma firstSignature_from_Some:
  assumes "firstSignature_from best s sigs = Some (sg, i)"
  shows "(best = Some (sg, i) \<or> sg \<in> set sigs \<and> str_index s sg = Some i) \<and> (\<forall>b j. best = Some (b, j) \<longrightarrow> i \<le> j) \<and>
     (\<forall>sig j. sig \<in> set sigs \<longrightarrow> str_index s sig = Some j \<longrightarrow> i \<le> j)"
  using assms
proof (induction sigs arbitrary: best)
  case (Cons sig sigs)
  show ?case
  proof (cases "str_index s sig")
    case None
    then show ?thesis using Cons.IH [of best] Cons.prems by auto
  next
    case (Some k)
    let ?best = "case best of None \<Rightarrow> Some (sig, k) | Some (_, b) \<Rightarrow> if k < b then Some (sig, k) else best"
    have "firstSignature_from ?best s sigs = Some (sg, i)" using Cons.prems Some by simp
    note ih = Cons.IH [OF this]
    show ?thesis
    proof (cases best)
      case None
      then show ?thesis using ih Some by auto
    next
      case (Some bb)
      obtain b n where "best = Some (b, n)" using Some by (cases bb) auto
      then show ?thesis using ih \<open>str_index s sig = Some k\<close> by (cases "k < n") auto
    qed
  qed
qed simp

lemma firstSignature_None:
  assumes "[] \<notin> set sigs"
  shows "firstSignature s sigs = None \<longleftrightarrow> (\<forall>i. \<not> sig_at sigs s i)"
proof -
  have "str_index s sig = None \<longleftrightarrow> (\<forall>i. \<not> has_prefix (drop i s) sig)" if "sig \<in> set sigs" for sig
  proof -
    have "sig \<noteq> []" using that assms by auto
    then show ?thesis using str_index_found [of _ s sig] str_index_SomeD [of s sig] by (cases "str_index s sig") auto
  qed
  then show ?thesis by (auto simp: firstSignature_def firstSignature_from_None sig_at_def)
qed

lemma firstSignature_Some:
  assumes "[] \<notin> set sigs" "firstSignature s sigs = Some (sg, i)"
  shows "sig_at sigs s i" "j < i \<Longrightarrow> \<not> sig_at sigs s j"
proof -
  note found = firstSignature_from_Some [OF assms(2) [unfolded firstSignature_def]]
  show "sig_at sigs s i" using found str_index_SomeD by (auto simp: sig_at_def)
  show "\<not> sig_at sigs s j" if "j < i"
  proof
    assume "sig_at sigs s j"
    then obtain sig where "sig \<in> set sigs" "has_prefix (drop j s) sig" by (auto simp: sig_at_def)
    then obtain k where "k \<le> j" "str_index s sig = Some k" using str_index_found assms(1) by metis
    then show False using found that \<open>sig \<in> set sigs\<close> by (meson leD le_less_trans)
  qed
qed

lemma signatures_nonempty [simp]:
  "[] \<notin> set secretSignatures" "[] \<notin> set networkCheckoutSignatures" "[] \<notin> set actionDownloadTransientSignatures" "[] \<notin> set codeFailureSignatures"
  by (simp_all add: secretSignatures_def networkCheckoutSignatures_def actionDownloadTransientSignatures_def codeFailureSignatures_def)

text \<open>The earliest signature of a checkout or action download.\<close>

definition networkSignatures :: "string list" where
  "networkSignatures = networkCheckoutSignatures @ actionDownloadTransientSignatures"

definition first_network :: "string \<Rightarrow> (string \<times> nat) option" where
  "first_network lower =
     (case firstSignature lower actionDownloadTransientSignatures of
        None \<Rightarrow> firstSignature lower networkCheckoutSignatures
      | Some (s, i) \<Rightarrow> (case firstSignature lower networkCheckoutSignatures of None \<Rightarrow> Some (s, i)
                        | Some (sg, n) \<Rightarrow> if i < n then Some (s, i) else Some (sg, n)))"

lemma sig_at_network: "sig_at networkSignatures s i \<longleftrightarrow> sig_at networkCheckoutSignatures s i \<or> sig_at actionDownloadTransientSignatures s i"
  by (auto simp: sig_at_def networkSignatures_def)

lemma first_network_None: "first_network s = None \<longleftrightarrow> (\<forall>i. \<not> sig_at networkSignatures s i)"
proof -
  have "first_network s = None \<longleftrightarrow>
      firstSignature s networkCheckoutSignatures = None \<and> firstSignature s actionDownloadTransientSignatures = None"
    by (auto simp: first_network_def split: option.splits if_splits)
  then show ?thesis by (simp add: firstSignature_None sig_at_network) blast
qed

lemma first_network_Some:
  assumes "first_network s = Some (sg, i)"
  shows "sig_at networkSignatures s i" "j < i \<Longrightarrow> \<not> sig_at networkSignatures s j"
proof -
  note action = firstSignature_Some [OF signatures_nonempty(3), of s] firstSignature_None [OF signatures_nonempty(3), of s]
  note checkout = firstSignature_Some [OF signatures_nonempty(2), of s] firstSignature_None [OF signatures_nonempty(2), of s]
  show "sig_at networkSignatures s i"
    using assms action(1) checkout(1) by (auto simp: first_network_def sig_at_network split: option.splits prod.splits if_splits)
  show "\<not> sig_at networkSignatures s j" if "j < i"
    using assms action(2,3) checkout(2,3) that by (auto simp: first_network_def sig_at_network split: option.splits prod.splits if_splits)
qed

lemma ClassifyFailureLog_kind:
  "fc_Kind (ClassifyFailureLog log) =
     (case firstSignature (to_lower log) secretSignatures of
        Some _ \<Rightarrow> FailureSecret
      | None \<Rightarrow>
          (case first_network (to_lower log) of
             None \<Rightarrow> if firstSignature (to_lower log) codeFailureSignatures = None then FailureUnknown else FailureCode
           | Some (_, n) \<Rightarrow>
               (case firstSignature (to_lower log) codeFailureSignatures of
                  Some (_, c) \<Rightarrow> if c < n then FailureCode else FailureNetworkCheckout
                | None \<Rightarrow> FailureNetworkCheckout)))"
  by (auto simp: ClassifyFailureLog_def first_network_def Let_def split: option.splits prod.splits if_splits)

text \<open>
  C24. Which failures are rerun: a log is classified as a network checkout failure exactly when it
  holds no secret or authentication signature and a checkout or action-download signature occurs
  at a place before which no code, test, lint or build signature occurs; the other classes follow
  in this order. (All of it on the lower-cased log.)
\<close>

theorem classification:
  "fc_Kind (ClassifyFailureLog log) =
     (if \<exists>i. sig_at secretSignatures (to_lower log) i then FailureSecret
      else if \<exists>i. sig_at networkSignatures (to_lower log) i \<and> list_all (\<lambda>j. \<not> sig_at codeFailureSignatures (to_lower log) j) [0..<i]
      then FailureNetworkCheckout
      else if \<exists>i. sig_at codeFailureSignatures (to_lower log) i then FailureCode
      else FailureUnknown)"
proof -
  let ?s = "to_lower log"
  note code = firstSignature_Some [OF signatures_nonempty(4), of ?s] firstSignature_None [OF signatures_nonempty(4), of ?s]
  note secret = firstSignature_None [OF signatures_nonempty(1), of ?s]
  have before: "(\<exists>i. sig_at networkSignatures ?s i \<and> list_all (\<lambda>j. \<not> sig_at codeFailureSignatures ?s j) [0..<i]) \<longleftrightarrow>
      (\<forall>j<n. \<not> sig_at codeFailureSignatures ?s j)" if "first_network ?s = Some (sg, n)" for sg n
    using first_network_Some [OF that] by (auto simp: list_all_iff)
  show ?thesis
  proof (cases "firstSignature ?s secretSignatures")
    case None
    show ?thesis
    proof (cases "first_network ?s")
      case None
      then show ?thesis using \<open>firstSignature ?s secretSignatures = None\<close> secret code(3) first_network_None [of ?s]
        by (auto simp: ClassifyFailureLog_kind)
    next
      case (Some p)
      obtain sg n where p: "first_network ?s = Some (sg, n)" using Some by (cases p) auto
      show ?thesis
      proof (cases "firstSignature ?s codeFailureSignatures")
        case None
        then show ?thesis using \<open>firstSignature ?s secretSignatures = None\<close> secret code(3) before [OF p] p
          by (auto simp: ClassifyFailureLog_kind)
      next
        case (Some q)
        obtain cs c where q: "firstSignature ?s codeFailureSignatures = Some (cs, c)" using Some by (cases q) auto
        have "(\<forall>j<n. \<not> sig_at codeFailureSignatures ?s j) \<longleftrightarrow> \<not> c < n"
          using code(1,2) [OF q] by (meson leI less_le_trans)
        then show ?thesis using \<open>firstSignature ?s secretSignatures = None\<close> secret before [OF p] p q code(1) [OF q]
          by (auto simp: ClassifyFailureLog_kind)
      qed
    qed
  next
    case (Some x)
    then show ?thesis using secret by (auto simp: ClassifyFailureLog_kind)
  qed
qed

section \<open>What a pass remembers\<close>

text \<open>The reruns of a list of calls that succeeded, and the markers that cover them.\<close>

definition rerun_done :: "(wd_call \<times> marker_file) list \<Rightarrow> int \<Rightarrow> bool" where
  "rerun_done cs runID \<longleftrightarrow> (\<exists>repo f. (CallRerun repo runID None, f) \<in> set cs)"

definition marked :: "rerunState \<Rightarrow> int \<Rightarrow> bool" where
  "marked st runID \<longleftrightarrow> (\<exists>sha m. map_of (rs_Reruns st) (rerunMarkerKey runID sha) = Some m)"

definition remembers :: "'w wst \<Rightarrow> rerunState \<times> bool \<Rightarrow> herr + rerunState \<times> bool \<Rightarrow> 'w wst \<Rightarrow> bool" where
  "remembers s c r t \<longleftrightarrow> (\<exists>new. hs_trace t = hs_trace s @ new \<and>
     (case r of Inl _ \<Rightarrow> True
      | Inr (st, m) \<Rightarrow> (\<forall>n. marked (fst c) n \<longrightarrow> marked st n) \<and> (snd c \<longrightarrow> m) \<and> (\<forall>n. rerun_done new n \<longrightarrow> m \<and> marked st n)))"

lemma rerun_done_append: "rerun_done (a @ b) n \<longleftrightarrow> rerun_done a n \<or> rerun_done b n"
  by (auto simp: rerun_done_def)

lemma rerun_done_looks: "list_all (\<lambda>(c, f). looks_only c \<and> f = g) cs \<Longrightarrow> \<not> rerun_done cs n"
  by (auto simp: rerun_done_def list_all_iff)

lemma remembers_trans: "remembers s c (Inr c') t \<Longrightarrow> remembers t c' r u \<Longrightarrow> remembers s c r u"
  unfolding remembers_def
  by (elim exE conjE, rule_tac x = "new @ newa" in exI) (auto simp: rerun_done_append split: sum.splits prod.splits)

lemma remembers_start: "remembers s c (Inr c) s"
  by (auto simp: remembers_def rerun_done_def split: prod.split)

lemma watches_remembers: "watches s t \<Longrightarrow> remembers t c r u \<Longrightarrow> remembers s c r u"
  unfolding remembers_def watches_def
  by (elim exE conjE, rule_tac x = "new @ newa" in exI)
     (auto simp: rerun_done_append rerun_done_looks split: sum.splits prod.splits)

lemma wp_watch_remembers:
  assumes "keeps watches m" "\<And>a t. wp (f a) (remembers t c) t"
  shows "wp (State_Monad.bind m f) (remembers s c) s"
  unfolding wp_bind
  by (rule wp_mono [OF keeps_wp [OF assms(1), where s = s]], rule wp_mono [OF assms(2)]) (rule watches_remembers)

lemma marked_put [simp]: "marked (st\<lparr>rs_Reruns := map_put (rerunMarkerKey n sha) m (rs_Reruns st)\<rparr>) n"
  by (auto simp: marked_def)

lemma marked_mono: "marked st n \<Longrightarrow> marked (st\<lparr>rs_Reruns := map_put k m (rs_Reruns st)\<rparr>) n"
  by (auto simp: marked_def)

lemma trigger_remembers: "wp (trigger_rerun opts repo run pr sig c) (remembers s c) s"
  by (cases c) (auto simp: trigger_rerun_def add_def now_of_def remembers_def rerun_done_def marked_mono wp_cases split: prod.splits option.splits)

lemma evaluateNetworkRerun_remembers: "wp (evaluateNetworkRerun opts repo run c) (remembers s c) s"
  unfolding evaluateNetworkRerun_def
  by (rule wp_branches trigger_remembers | (rule wp_watch_remembers, (simp; fail)) | (simp add: remembers_start; fail))+

lemma remembers_then:
  assumes "wp m (remembers s c) s" "\<And>c' t. wp (f c') (remembers t c') t"
  shows "wp (do { x \<leftarrow> m; (case x of Inl err \<Rightarrow> ret (Inl err) | Inr c' \<Rightarrow> f c') }) (remembers s c) s"
  unfolding wp_bind
proof (rule wp_mono [OF assms(1)])
  fix x t
  assume x: "remembers s c x t"
  show "wp (case x of Inl err \<Rightarrow> ret (Inl err) | Inr c' \<Rightarrow> f c') (remembers s c) t"
  proof (cases x)
    case (Inl e)
    then show ?thesis using x by (simp add: remembers_def)
  next
    case (Inr c')
    then show ?thesis using x by (auto intro!: wp_mono [OF assms(2)] simp del: split_paired_All intro: remembers_trans)
  qed
qed

lemma evaluate_runs_remembers: "wp (evaluate_runs opts repo runs c) (remembers s c) s"
proof (induction runs arbitrary: c s)
  case (Cons run runs)
  show ?case
    unfolding evaluate_runs.simps
    by (rule wp_watch_remembers, simp) (rule remembers_then [OF evaluateNetworkRerun_remembers Cons.IH])
qed (simp add: remembers_start)

lemma rerun_repos_remembers: "wp (rerun_repos opts online repos c) (remembers s c) s"
proof (induction repos arbitrary: c s)
  case (Cons repo repos)
  show ?case
    unfolding rerun_repos.simps
    by (rule wp_branches Cons.IH | (rule wp_watch_remembers, (simp; fail)) | rule remembers_then [OF evaluate_runs_remembers Cons.IH])+
qed (simp add: remembers_start)

definition pass_kept :: "'w wst \<Rightarrow> herr option \<Rightarrow> 'w wst \<Rightarrow> bool" where
  "pass_kept s e t \<longleftrightarrow> (e = None \<longrightarrow> (\<forall>n. rerun_done (htrace s t) n \<longrightarrow> (\<exists>st. hs_file t = MarkerState st \<and> marked st n)))"

lemma pass_kept_error: "pass_kept s (Some e) t"
  by (simp add: pass_kept_def)

lemma write_no_rerun:
  "wp (writeRerunState opts st) (\<lambda>e t. (e = None \<longrightarrow> hs_file t = MarkerState st) \<and> (\<exists>b. hs_trace t = hs_trace s @ b \<and> (\<forall>n. \<not> rerun_done b n))) s"
  by (auto simp: writeRerunState_def rename_marker_def rerun_done_def split: prod.splits option.splits)

lemma wp_kept_error: "wp (do { add ev; ret (Some e) }) (pass_kept s) t"
  by (simp add: add_def pass_kept_error)

lemma write_kept:
  assumes "hs_trace t = hs_trace s @ new" "\<And>n. rerun_done new n \<Longrightarrow> marked st n"
  shows "wp (State_Monad.bind (writeRerunState opts st)
     (\<lambda>e. case e of None \<Rightarrow> ret None | Some err \<Rightarrow> do { add (ev err); ret (Some err) })) (pass_kept s) t"
  unfolding wp_bind
  by (rule wp_mono [OF write_no_rerun])
     (use assms in \<open>auto simp: pass_kept_def htrace_def rerun_done_append add_def split: option.splits\<close>)

lemma repos_kept:
  assumes "hs_trace t = hs_trace s"
  shows "wp (do {
          x \<leftarrow> rerun_repos opts online repos (st, False);
          (case x of
             Inl err \<Rightarrow> ret (Some err)
           | Inr (st, mutated) \<Rightarrow>
               if \<not> mutated then ret None
               else do {
                 e \<leftarrow> writeRerunState opts st;
                 (case e of None \<Rightarrow> ret None | Some err \<Rightarrow> do { add (ev err); ret (Some err) })
               })
        }) (pass_kept s) t"
  unfolding wp_bind [of "rerun_repos opts online repos (st, False)"]
proof (rule wp_mono [OF rerun_repos_remembers])
  fix x u
  assume x: "remembers t (st, False) x u"
  show "wp (case x of
             Inl err \<Rightarrow> ret (Some err)
           | Inr (st, mutated) \<Rightarrow>
               if \<not> mutated then ret None
               else do {
                 e \<leftarrow> writeRerunState opts st;
                 (case e of None \<Rightarrow> ret None | Some err \<Rightarrow> do { add (ev err); ret (Some err) })
               }) (pass_kept s) u"
  proof (cases x)
    case (Inr c)
    obtain st' m where c: "c = (st', m)" by (cases c)
    obtain new where "hs_trace u = hs_trace s @ new" "\<And>n. rerun_done new n \<Longrightarrow> m \<and> marked st' n"
      using x Inr c assms by (auto simp: remembers_def)
    then show ?thesis
      using Inr c by (cases m) (auto simp del: wp_bind intro!: write_kept simp: pass_kept_def htrace_def)
  qed (simp add: pass_kept_error)
qed

lemma reruns_kept: "wp (rerunWatchdogNetworkFailures opts repos online) (pass_kept s) s"
proof -
  have "wp (loadRerunState opts) (\<lambda>_ t. hs_trace t = hs_trace s) s"
    by (simp add: loadRerunState_def split: prod.split)
  then show ?thesis
    unfolding rerunWatchdogNetworkFailures_def wp_bind [of "loadRerunState opts"]
    by (rule wp_mono) (auto simp del: wp_bind intro!: repos_kept wp_kept_error split: sum.split)
qed

definition demo_failed_run :: "int \<Rightarrow> WatchdogRun" where
  "demo_failed_run n = \<lparr>wn_ID = n, wn_HeadSHA = ''abc'', wn_Status = ''completed'', wn_Conclusion = ''failure'', wn_CreatedAt = demo_now,
     wn_URL = [], wn_PullRequests = [5]\<rparr>"

text \<open>Two runs that failed in the checkout; the second rerun is refused when \<open>refuse\<close>.\<close>

definition demo_reruns :: "bool \<Rightarrow> unit WatchdogOptions" where
  "demo_reruns refuse = (applyWatchdogScalarDefaults (demo_options True))
     \<lparr>wo_ListRunsFn := (\<lambda>_ _ w. (Inr [demo_failed_run 1, demo_failed_run 2], w)),
      wo_PullRequestFn := (\<lambda>_ n w. (Inr \<lparr>wp_Number = n, wp_State = ''open'', wp_MergeableState = ''clean''\<rparr>, w)),
      wo_RunLogFn := (\<lambda>_ _ w. (Inr ''fatal: early EOF'', w)),
      wo_RerunFn := (\<lambda>_ n w. (if refuse \<and> n = 2 then Some (msg ''HTTP 403'') else None, w))\<rparr>"

definition demo_reruns_end :: "bool \<Rightarrow> unit wst" where
  "demo_reruns_end refuse = snd (run_state (rerunWatchdogNetworkFailures (demo_reruns refuse) [''acme/app''] [(''acme/app'', True)]) demo_start)"

lemma demo_network [simp]: "fc_Kind (ClassifyFailureLog ''fatal: early EOF'') = FailureNetworkCheckout"
  by code_simp

lemma demo_not_skipped [simp]:
  "skipRunBeforeLog (demo_reruns refuse) demo_now ''acme/app'' (demo_failed_run n) st =
     (if rm_RunID (lookup_or zeroMarker (rs_Reruns st) (rerunMarkerKey n ''abc'')) \<noteq> 0 then ''already-rerun'' else [])"
proof -
  have "ValidateRepo ''acme/app'' = None" "demo_now \<noteq> 0" by code_simp+
  then show ?thesis
    by (simp add: skipRunBeforeLog_def demo_failed_run_def rerunnableConclusion_def demo_reruns_def applyWatchdogScalarDefaults_def
        demo_options_def time_Sub_def hour_def minute_def second_def)
qed

lemma demo_keys [simp]: "rerunMarkerKey 1 ''abc'' \<noteq> rerunMarkerKey 2 ''abc''" "rerunMarkerKey 2 ''abc'' \<noteq> rerunMarkerKey 1 ''abc''"
  by code_simp+

lemma demo_ValidateRepo [simp]: "ValidateRepo ''acme/app'' = None"
  by code_simp

lemma demo_created [simp]: "demo_now \<noteq> 0"
  by code_simp

lemma demo_reruns_fields [simp]:
  "wo_Execute (demo_reruns refuse)" "wo_NowFn (demo_reruns refuse) w = (demo_now, w)"
  "wo_ListRunsFn (demo_reruns refuse) p k w = (Inr [demo_failed_run 1, demo_failed_run 2], w)"
  "wo_PullRequestFn (demo_reruns refuse) p n w = (Inr \<lparr>wp_Number = n, wp_State = ''open'', wp_MergeableState = ''clean''\<rparr>, w)"
  "wo_RunLogFn (demo_reruns refuse) p n w = (Inr ''fatal: early EOF'', w)"
  "wo_RerunFn (demo_reruns refuse) p n w = (if refuse \<and> n = 2 then Some (msg ''HTTP 403'') else None, w)"
  "wo_ReadMarker (demo_reruns refuse) w = (None, w)" "wo_MkdirAllFn (demo_reruns refuse) p w = (None, w)"
  "wo_WriteFileFn (demo_reruns refuse) p w = (None, w)" "wo_RenameFn (demo_reruns refuse) p q w = (None, w)"
  by (simp_all add: demo_reruns_def)

lemma demo_run_fields [simp]:
  "wn_ID (demo_failed_run n) = n" "wn_HeadSHA (demo_failed_run n) = ''abc''" "rerunnableConclusion (wn_Conclusion (demo_failed_run n))"
  "wn_CreatedAt (demo_failed_run n) = demo_now" "wn_PullRequests (demo_failed_run n) = [5]"
  by (simp_all add: demo_failed_run_def rerunnableConclusion_def)

lemma demo_mergeable [simp]: "to_lower (trim_space ''clean'') = ''clean''"
  by code_simp

lemma demo_marshal [simp]: "state_marshals (emptyState\<lparr>rs_Reruns := map_put (rerunMarkerKey 2 ''abc'')
    \<lparr>rm_Repo = ''acme/app'', rm_RunID = 2, rm_HeadSHA = ''abc'', rm_RerunAt = demo_now\<rparr> (map_put (rerunMarkerKey 1 ''abc'')
    \<lparr>rm_Repo = ''acme/app'', rm_RunID = 1, rm_HeadSHA = ''abc'', rm_RerunAt = demo_now\<rparr> [])\<rparr>)"
  by code_simp

lemma demo_empty_markers [simp]: "rs_Reruns emptyState = []" "lookup_or z [] k = z" "rm_RunID zeroMarker = 0"
  by (simp_all add: emptyState_def lookup_or_def zeroMarker_def)

lemma demo_reruns_wp:
  "wp (rerunWatchdogNetworkFailures (demo_reruns refuse) [''acme/app''] [(''acme/app'', True)])
     (\<lambda>e t. rerun_done (hs_trace t) 1 \<and> (refuse \<longrightarrow> e \<noteq> None \<and> hs_file t = MarkerAbsent) \<and> (\<not> refuse \<longrightarrow> e = None)) demo_start"
  by (cases refuse)
     (simp_all add: rerunWatchdogNetworkFailures_def loadRerunState_def decodeRerunState_def demo_start_def evaluateNetworkRerun_def skip_reason_def
      now_of_def openPullRequestForRun_def wp_cases Let_def trigger_rerun_def add_def writeRerunState_def rename_marker_def rerun_done_def
      lookup_or_put [where m = "[]"] lookup_or_def [of False])

lemma demo_reruns_ran:
  "\<exists>e. run_state (rerunWatchdogNetworkFailures (demo_reruns refuse) [''acme/app''] [(''acme/app'', True)]) demo_start = (e, demo_reruns_end refuse)"
  by (simp add: demo_reruns_end_def prod_eq_iff)

text \<open>
  C25. A pass that ends without an error has remembered every rerun it made: the marker on disk
  then holds an entry for the run, which \<open>skipRunBeforeLog\<close> looks up.
\<close>

theorem reruns_remembered:
  assumes "run_state (rerunWatchdogNetworkFailures opts repos online) s = (None, t)" "rerun_done (htrace s t) n"
  shows "\<exists>st. hs_file t = MarkerState st \<and> marked st n"
  using wpD [OF reruns_kept assms(1)] assms(2) by (simp add: pass_kept_def)

theorem reruns_remembered_witness:
  "rerun_done (htrace demo_start (demo_reruns_end False)) 1 \<and> (\<exists>st. hs_file (demo_reruns_end False) = MarkerState st \<and> marked st 1)"
proof -
  obtain e where run: "run_state (rerunWatchdogNetworkFailures (demo_reruns False) [''acme/app''] [(''acme/app'', True)]) demo_start = (e, demo_reruns_end False)"
    using demo_reruns_ran by blast
  then have e: "e = None" and d: "rerun_done (htrace demo_start (demo_reruns_end False)) 1"
    using wpD [OF demo_reruns_wp run] by (auto simp: htrace_def demo_start_def)
  show ?thesis using d reruns_remembered [OF run [unfolded e] d] by blast
qed


end
