(* ===== verification/Run_Reaper.thy ===== *)
theory Run_Reaper
  imports Host Go_Json "HOL-Library.Multiset"
begin

text \<open>
  \<open>internal/runreaper\<close>: cancelling the queued and running workflow runs of pull requests that are
  closed or have moved on. The trace records what GitHub listed for each repository and every
  cancellation. \<open>sort.Slice\<close> leaves the order of runs created at the same instant open; the model
  keeps the listed order.
\<close>

section \<open>Data\<close>

record reap_Run =
  rn_ID :: int
  rn_Repo :: string
  rn_Branch :: string
  rn_HeadSHA :: string
  rn_Event :: string
  rn_Status :: string
  rn_Workflow :: string
  rn_CreatedAt :: time

record reap_Event =
  re_Event :: string
  re_Severity :: string
  re_Repo :: string
  re_RunID :: int
  re_Branch :: string
  re_Workflow :: string
  re_Reason :: string
  re_Detail :: string
  re_Executed :: bool

record reap_Report =
  rp_Executed :: bool
  rp_Repos :: "string list"
  rp_Scanned :: nat
  rp_Candidates :: nat
  rp_Cancelled :: nat
  rp_Events :: "reap_Event list"
  rp_Exit :: int

record 'w reap_Options =
  ra_Repos :: "string list"
  ra_Execute :: bool
  ra_MaxCancelPerRepo :: int
  ra_OpenHeadsFn :: "string \<Rightarrow> ('w, herr + (string \<times> string) list) hop"
  ra_ActiveRunsFn :: "string \<Rightarrow> ('w, herr + reap_Run list) hop"
  ra_CancelFn :: "string \<Rightarrow> int \<Rightarrow> ('w, herr option) hop"

datatype reap_call =
    ReapHeads string "herr + (string \<times> string) list"
  | ReapRuns string "herr + reap_Run list"
  | ReapCancel string int "herr option"

type_synonym 'w rst = "('w, unit, reap_Report, reap_call) hst"

definition reap_event :: "string \<Rightarrow> string \<Rightarrow> string \<Rightarrow> string \<Rightarrow> string \<Rightarrow> reap_Event" where
  "reap_event name severity repo reason detail =
     \<lparr>re_Event = name, re_Severity = severity, re_Repo = repo, re_RunID = 0, re_Branch = [], re_Workflow = [], re_Reason = reason,
      re_Detail = detail, re_Executed = False\<rparr>"

definition reap_add :: "reap_Event \<Rightarrow> ('w rst, unit) state" where
  "reap_add ev = report (\<lambda>r. r\<lparr>rp_Events := rp_Events r @ [if re_Severity ev = [] then ev\<lparr>re_Severity := ''info''\<rparr> else ev]\<rparr>)"

definition maxInt :: "int \<Rightarrow> int \<Rightarrow> int" where
  "maxInt a b = (if a < b then b else a)"

definition reap_exit :: "int \<Rightarrow> ('w rst, unit) state" where
  "reap_exit n = report (\<lambda>r. r\<lparr>rp_Exit := maxInt (rp_Exit r) n\<rparr>)"

section \<open>Which runs\<close>

definition isPullRequestEvent :: "string \<Rightarrow> bool" where
  "isPullRequestEvent ev \<longleftrightarrow> ev = ''pull_request'' \<or> ev = ''pull_request_target''"

definition shaEqual :: "string \<Rightarrow> string \<Rightarrow> bool" where
  "shaEqual a b = equal_fold (trim_space a) (trim_space b)"

definition shortSHA :: "string \<Rightarrow> string" where
  "shortSHA s = take 12 (trim_space s)"

definition candidate_reason :: "(string \<times> string) list \<Rightarrow> reap_Run \<Rightarrow> string option" where
  "candidate_reason openHeads run =
     (if \<not> isPullRequestEvent (rn_Event run) then None
      else if rn_Branch run = [] then None
      else (case map_of openHeads (rn_Branch run) of
              None \<Rightarrow> Some ''pr-not-open''
            | Some currentHead \<Rightarrow>
                if rn_HeadSHA run \<noteq> [] \<and> currentHead \<noteq> [] \<and> \<not> shaEqual (rn_HeadSHA run) currentHead
                then Some ''superseded-sha'' else None))"

definition reap_candidates :: "(string \<times> string) list \<Rightarrow> reap_Run list \<Rightarrow> (reap_Run \<times> string) list" where
  "reap_candidates openHeads runs =
     sort_key (\<lambda>c. rn_CreatedAt (fst c))
       (List.map_filter (\<lambda>run. map_option (Pair run) (candidate_reason openHeads run)) runs)"

section \<open>Reaping\<close>

definition reaped_event :: "bool \<Rightarrow> string \<Rightarrow> (string \<times> string) list \<Rightarrow> reap_Run \<Rightarrow> string \<Rightarrow> reap_Event" where
  "reaped_event execute repo openHeads run reason =
     \<lparr>re_Event = ''run-reaped'', re_Severity = ''info'', re_Repo = repo, re_RunID = rn_ID run, re_Branch = rn_Branch run,
      re_Workflow = rn_Workflow run, re_Reason = reason,
      re_Detail = (if reason = ''superseded-sha''
                   then ''run='' @ shortSHA (rn_HeadSHA run) @ '' open='' @
                        shortSHA (case map_of openHeads (rn_Branch run) of Some h \<Rightarrow> h | None \<Rightarrow> []) else []),
      re_Executed = execute\<rparr>"

definition cancel_candidate :: "'w reap_Options \<Rightarrow> string \<Rightarrow> reap_Run \<Rightarrow> reap_Event \<Rightarrow> ('w rst, unit) state" where
  "cancel_candidate opts repo run ev =
     (if \<not> ra_Execute opts then reap_add ev
      else do {
        e \<leftarrow> act (ReapCancel repo (rn_ID run)) (ra_CancelFn opts repo (rn_ID run));
        (case e of
           None \<Rightarrow> do { report (\<lambda>r. r\<lparr>rp_Cancelled := rp_Cancelled r + 1\<rparr>); reap_add ev }
         | Some err \<Rightarrow>
             if is_RunAlreadyCompleted err
             then reap_add (ev\<lparr>re_Severity := ''info'', re_Reason := ''already-completed-ghost'', re_Detail := err_Error err\<rparr>)
             else do {
               reap_add (ev\<lparr>re_Severity := ''warning'', re_Reason := ''cancel-failed'', re_Detail := err_Error err\<rparr>);
               reap_exit 1
             })
      })"

text \<open>The loop over the candidates from index \<open>i\<close> on; \<open>tot\<close> is their number.\<close>

fun reap_loop :: "'w reap_Options \<Rightarrow> string \<Rightarrow> (string \<times> string) list \<Rightarrow> nat \<Rightarrow> nat \<Rightarrow> (reap_Run \<times> string) list \<Rightarrow> ('w rst, unit) state" where
  "reap_loop opts repo openHeads tot i [] = ret ()"
| "reap_loop opts repo openHeads tot i ((run, reason) # cs) = do {
     report (\<lambda>r. r\<lparr>rp_Candidates := rp_Candidates r + 1\<rparr>);
     (if ra_MaxCancelPerRepo opts \<le> int i then
        reap_add (reap_event ''reap-capped'' ''warning'' repo ''max-cancel-reached''
          (show_nat tot @ '' candidates, cap '' @ show_int (ra_MaxCancelPerRepo opts) @ '' '' @ em_dash @ '' remainder deferred to next tick''))
      else do {
        cancel_candidate opts repo run (reaped_event (ra_Execute opts) repo openHeads run reason);
        reap_loop opts repo openHeads tot (Suc i) cs
      })
   }"

definition reapRepo :: "'w reap_Options \<Rightarrow> string \<Rightarrow> ('w rst, unit) state" where
  "reapRepo opts repo = do {
     h \<leftarrow> act (ReapHeads repo) (ra_OpenHeadsFn opts repo);
     (case h of
        Inl err \<Rightarrow> do { reap_add (reap_event ''reap-skipped'' ''warning'' repo ''open-prs-failed'' (err_Error err)); reap_exit 1 }
      | Inr openHeads \<Rightarrow> do {
          r \<leftarrow> act (ReapRuns repo) (ra_ActiveRunsFn opts repo);
          (case r of
             Inl err \<Rightarrow> do { reap_add (reap_event ''reap-skipped'' ''warning'' repo ''active-runs-failed'' (err_Error err)); reap_exit 1 }
           | Inr runs \<Rightarrow> do {
               report (\<lambda>r. r\<lparr>rp_Scanned := rp_Scanned r + length runs\<rparr>);
               let cs = reap_candidates openHeads runs;
               reap_loop opts repo openHeads (length cs) 0 cs
             })
        })
   }"

definition reap_defaults :: "'w reap_Options \<Rightarrow> 'w reap_Options" where
  "reap_defaults opts = (if ra_MaxCancelPerRepo opts \<le> 0 then opts\<lparr>ra_MaxCancelPerRepo := 400\<rparr> else opts)"

definition reap_one :: "'w reap_Options \<Rightarrow> string \<Rightarrow> ('w rst, unit) state" where
  "reap_one opts repo =
     (case ValidateRepo repo of
        Some err \<Rightarrow> do { reap_add (reap_event ''reap-skipped'' ''warning'' repo ''repo-invalid'' (err_Error err)); reap_exit 1 }
      | None \<Rightarrow> do { report (\<lambda>r. r\<lparr>rp_Repos := rp_Repos r @ [repo]\<rparr>); reapRepo opts repo })"

definition Reap :: "'w reap_Options \<Rightarrow> ('w rst, unit) state" where
  "Reap opts0 =
     (let opts = reap_defaults opts0 in do {
        report (\<lambda>_. \<lparr>rp_Executed = ra_Execute opts, rp_Repos = [], rp_Scanned = 0, rp_Candidates = 0, rp_Cancelled = 0, rp_Events = [], rp_Exit = 0\<rparr>);
        (if ra_Repos opts = [] then do {
           reap_add (reap_event ''reap-skipped'' ''warning'' [] ''no-repos'' []);
           report (\<lambda>r. r\<lparr>rp_Exit := 1\<rparr>)
         } else for_all (reap_one opts) (ra_Repos opts))
      })"

section \<open>GitHub through \<open>gh\<close>\<close>

definition listOpenHeads :: "'w runner_fn \<Rightarrow> string \<Rightarrow> ('w, herr + (string \<times> string) list) hop" where
  "listOpenHeads run repo w =
     (case run ''gh'' [''pr'', ''list'', ''--repo'', repo, ''--state'', ''open'', ''--limit'', ''1000'', ''--json'', ''headRefName,headRefOid''] w of
        ((out, Some err), w') \<Rightarrow> (Inl (Wrap ''gh pr list: '' [err]), w')
      | ((out, None), w') \<Rightarrow>
          (case json_unmarshal [] (dec_list ([], []) (dec_struct
                  [(''headRefName'', fld fst (\<lambda>a r. (a, snd r)) dec_string), (''headRefOid'', fld snd (\<lambda>a r. (fst r, a)) dec_string)])) out of
             None \<Rightarrow> (Inl (Wrap ''parse gh pr list: '' [json_error]), w')
           | Some prs \<Rightarrow>
               (Inr (fold (\<lambda>(name, oid) open. if name = [] \<or> map_of open name \<noteq> None then open else open @ [(name, oid)]) prs []), w')))"

definition zero_reap_Run :: reap_Run where
  "zero_reap_Run = \<lparr>rn_ID = 0, rn_Repo = [], rn_Branch = [], rn_HeadSHA = [], rn_Event = [], rn_Status = [], rn_Workflow = [], rn_CreatedAt = 0\<rparr>"

definition dec_reap_Run :: "reap_Run dec" where
  "dec_reap_Run = dec_struct
     [(''id'', fld rn_ID (\<lambda>a r. r\<lparr>rn_ID := a\<rparr>) dec_int64),
      (''head_branch'', fld rn_Branch (\<lambda>a r. r\<lparr>rn_Branch := a\<rparr>) dec_string),
      (''head_sha'', fld rn_HeadSHA (\<lambda>a r. r\<lparr>rn_HeadSHA := a\<rparr>) dec_string),
      (''event'', fld rn_Event (\<lambda>a r. r\<lparr>rn_Event := a\<rparr>) dec_string),
      (''status'', fld rn_Status (\<lambda>a r. r\<lparr>rn_Status := a\<rparr>) dec_string),
      (''name'', fld rn_Workflow (\<lambda>a r. r\<lparr>rn_Workflow := a\<rparr>) dec_string),
      (''created_at'', fld rn_CreatedAt (\<lambda>a r. r\<lparr>rn_CreatedAt := a\<rparr>) dec_time)]"

definition parseActiveRuns :: "string \<Rightarrow> string \<Rightarrow> herr + reap_Run list" where
  "parseActiveRuns out repo =
     (case json_stream out of
        None \<Rightarrow> Inl (Wrap ''parse gh runs: '' [json_error])
      | Some pages \<Rightarrow>
          (case those (map (dec_struct [(''workflow_runs'', dec_list zero_reap_Run dec_reap_Run)] []) pages) of
             None \<Rightarrow> Inl (Wrap ''parse gh runs: '' [json_error])
           | Some rs \<Rightarrow> Inr (map (\<lambda>r. r\<lparr>rn_Repo := repo\<rparr>) (concat rs))))"

fun list_statuses :: "'w runner_fn \<Rightarrow> string \<Rightarrow> reap_Run list \<Rightarrow> string list \<Rightarrow> ('w, herr + reap_Run list) hop" where
  "list_statuses run repo all [] w = (Inr all, w)"
| "list_statuses run repo all (status # statuses) w =
     (case run ''gh'' [''api'', ''--paginate'', ''/repos/'' @ repo @ ''/actions/runs?status='' @ status @ ''&per_page=100''] w of
        ((out, Some err), w') \<Rightarrow> (Inl (Wrap (''gh api actions/runs?status='' @ status @ '': '') [err]), w')
      | ((out, None), w') \<Rightarrow>
          (case parseActiveRuns out repo of
             Inl err \<Rightarrow> (Inl err, w')
           | Inr runs \<Rightarrow> list_statuses run repo (all @ runs) statuses w'))"

definition listActiveRuns :: "'w runner_fn \<Rightarrow> string \<Rightarrow> ('w, herr + reap_Run list) hop" where
  "listActiveRuns run repo = list_statuses run repo [] [''queued'', ''in_progress'']"

definition isAlreadyCompletedError :: "herr \<Rightarrow> bool" where
  "isAlreadyCompletedError err =
     (let m = to_lower (err_Error err) in
      contains m ''cannot cancel a run that is completed'' \<or> contains m ''cannot cancel a workflow run that is completed'' \<or>
      contains m ''cannot cancel a workflow re-run that has not yet queued'')"

definition cancelRun :: "'w runner_fn \<Rightarrow> string \<Rightarrow> int \<Rightarrow> ('w, herr option) hop" where
  "cancelRun run repo runID w =
     (let path = ''/repos/'' @ repo @ ''/actions/runs/'' @ show_int runID in
      case run ''gh'' [''api'', ''-X'', ''POST'', path @ ''/force-cancel'', ''--silent''] w of
        ((_, None), w1) \<Rightarrow> (None, w1)
      | ((_, Some forceErr), w1) \<Rightarrow>
          (case run ''gh'' [''api'', ''-X'', ''POST'', path @ ''/cancel'', ''--silent''] w1 of
             ((_, None), w2) \<Rightarrow> (None, w2)
           | ((_, Some normalErr), w2) \<Rightarrow>
               if isAlreadyCompletedError forceErr \<or> isAlreadyCompletedError normalErr
               then (Some (Leaf (RunAlreadyCompleted ('' (force-cancel: '' @ err_Error forceErr @ ''; cancel: '' @ err_Error normalErr @ '')''))), w2)
               else (Some (Wrap (''gh api cancel/force-cancel run '' @ show_int runID @ '': '') [normalErr]), w2)))"

text \<open>The functions a pass uses when the options leave them open, over the command runner.\<close>

definition reap_gh :: "'w runner_fn \<Rightarrow> 'w reap_Options \<Rightarrow> 'w reap_Options" where
  "reap_gh run opts = opts\<lparr>ra_OpenHeadsFn := listOpenHeads run, ra_ActiveRunsFn := listActiveRuns run, ra_CancelFn := cancelRun run\<rparr>"

section \<open>The abstract pass\<close>

text \<open>
  What a pass over one repository promises, without its loops and its order of equal keys: the open
  heads are listed, then the active runs; the runs cancelled are the oldest of the stale ones, at
  most the cap and none without \<open>Execute\<close>.
\<close>

definition stale :: "(string \<times> string) list \<Rightarrow> reap_Run \<Rightarrow> bool" where
  "stale heads run \<longleftrightarrow> isPullRequestEvent (rn_Event run) \<and> rn_Branch run \<noteq> [] \<and>
     (case map_of heads (rn_Branch run) of
        None \<Rightarrow> True
      | Some head \<Rightarrow> rn_HeadSHA run \<noteq> [] \<and> head \<noteq> [] \<and> \<not> shaEqual (rn_HeadSHA run) head)"

definition oldest_of :: "nat \<Rightarrow> reap_Run list \<Rightarrow> reap_Run list \<Rightarrow> bool" where
  "oldest_of k runs picked \<longleftrightarrow>
     (\<exists>rest. mset runs = mset (picked @ rest) \<and> length picked = min k (length runs) \<and>
        sorted (map rn_CreatedAt picked) \<and> (\<forall>p \<in> set picked. \<forall>r \<in> set rest. rn_CreatedAt p \<le> rn_CreatedAt r))"

definition cancels :: "string \<Rightarrow> reap_Run \<Rightarrow> reap_call \<Rightarrow> bool" where
  "cancels repo run c \<longleftrightarrow> (\<exists>e. c = ReapCancel repo (rn_ID run) e)"

definition reap_spec :: "bool \<Rightarrow> nat \<Rightarrow> string \<Rightarrow> reap_call list \<Rightarrow> bool" where
  "reap_spec execute cap repo es \<longleftrightarrow>
     (\<exists>err. es = [ReapHeads repo (Inl err)]) \<or>
     (\<exists>heads err. es = [ReapHeads repo (Inr heads), ReapRuns repo (Inl err)]) \<or>
     (\<exists>heads runs picked cs. es = [ReapHeads repo (Inr heads), ReapRuns repo (Inr runs)] @ cs \<and>
        oldest_of (if execute then cap else 0) (filter (stale heads) runs) picked \<and> list_all2 (cancels repo) picked cs)"

definition reap_calls :: "'w rst \<Rightarrow> reap_call list" where
  "reap_calls s = map fst (hs_trace s)"

section \<open>The loop\<close>

lemma stale_reason: "stale heads run \<longleftrightarrow> candidate_reason heads run \<noteq> None"
  by (auto simp: stale_def candidate_reason_def split: option.split)

lemma candidates_stale: "mset (map fst (reap_candidates heads runs)) = mset (filter (stale heads) runs)"
  unfolding reap_candidates_def by (induction runs) (auto simp: List.map_filter_def stale_reason)

lemma candidates_sorted: "sorted (map rn_CreatedAt (map fst (reap_candidates heads runs)))"
  using sorted_sort_key [of "\<lambda>c. rn_CreatedAt (fst c)"] by (simp add: reap_candidates_def o_def)

lemma oldest_of_take:
  assumes "mset cs = mset runs" "sorted (map rn_CreatedAt cs)"
  shows "oldest_of k runs (take k cs)"
proof -
  have "sorted (map rn_CreatedAt (take k cs) @ map rn_CreatedAt (drop k cs))"
    using assms(2) by (simp flip: map_append)
  then show ?thesis
    using assms(1) mset_eq_length [OF assms(1)]
    by (auto simp: oldest_of_def sorted_append simp flip: mset_append intro!: exI [of _ "drop k cs"])
qed

lemma oldest_of_subset: "oldest_of k runs picked \<Longrightarrow> set picked \<subseteq> set runs"
  unfolding oldest_of_def by (metis mset_eq_setD set_append Un_upper1)

text \<open>What a pass adds: the calls it makes, the runs it counts, and the exit code those calls ask for.\<close>

fun call_failed :: "reap_call \<Rightarrow> bool" where
  "call_failed (ReapHeads _ r) = (case r of Inl _ \<Rightarrow> True | Inr _ \<Rightarrow> False)"
| "call_failed (ReapRuns _ r) = (case r of Inl _ \<Rightarrow> True | Inr _ \<Rightarrow> False)"
| "call_failed (ReapCancel _ _ e) = (case e of None \<Rightarrow> False | Some err \<Rightarrow> \<not> is_RunAlreadyCompleted err)"

fun call_cancelled :: "reap_call \<Rightarrow> bool" where
  "call_cancelled (ReapCancel _ _ None) = True"
| "call_cancelled _ = False"

definition exit_after :: "int \<Rightarrow> bool \<Rightarrow> int" where
  "exit_after n failed = (if failed then maxInt n 1 else n)"

definition accounts :: "reap_call list \<Rightarrow> 'w rst \<Rightarrow> 'w rst \<Rightarrow> bool" where
  "accounts es s t \<longleftrightarrow> reap_calls t = reap_calls s @ es \<and>
     rp_Cancelled (hs_report t) = rp_Cancelled (hs_report s) + length (filter call_cancelled es) \<and>
     rp_Exit (hs_report t) = exit_after (rp_Exit (hs_report s)) (list_ex call_failed es)"

lemma exit_after_exit_after [simp]: "exit_after (exit_after n a) b = exit_after n (a \<or> b)"
  by (simp add: exit_after_def maxInt_def)

lemma accounts_Nil [simp]: "accounts [] s s"
  by (simp add: accounts_def exit_after_def)

lemma accounts_append: "accounts es s t \<Longrightarrow> accounts fs t u \<Longrightarrow> accounts (es @ fs) s u"
  by (simp add: accounts_def)

lemma accounts_report:
  "accounts es s t \<Longrightarrow> rp_Cancelled (f (hs_report t)) = rp_Cancelled (hs_report t) \<Longrightarrow> rp_Exit (f (hs_report t)) = rp_Exit (hs_report t) \<Longrightarrow>
   accounts es s (t\<lparr>hs_report := f (hs_report t)\<rparr>)"
  by (simp add: accounts_def reap_calls_def)

lemma cancel_candidate_accounts:
  "wp (cancel_candidate opts repo run ev)
     (\<lambda>_ t. \<exists>es. accounts es s t \<and> list_all2 (cancels repo) (if ra_Execute opts then [run] else []) es \<and>
        rp_Candidates (hs_report t) = rp_Candidates (hs_report s)) s"
  by (auto simp: cancel_candidate_def reap_add_def reap_exit_def wp_cases accounts_def reap_calls_def cancels_def exit_after_def
      list_all2_Cons1 split: prod.split option.split)

text \<open>How many of the candidates from index \<open>i\<close> on the loop may still cancel.\<close>

definition room :: "'w reap_Options \<Rightarrow> nat \<Rightarrow> nat" where
  "room opts i = nat (ra_MaxCancelPerRepo opts) - i"

definition picks :: "'w reap_Options \<Rightarrow> nat \<Rightarrow> (reap_Run \<times> string) list \<Rightarrow> reap_Run list" where
  "picks opts i cs = (if ra_Execute opts then take (room opts i) (map fst cs) else [])"

lemma picks_simps:
  "picks opts i [] = []"
  "ra_MaxCancelPerRepo opts \<le> int i \<Longrightarrow> picks opts i cs = []"
  "\<not> ra_MaxCancelPerRepo opts \<le> int i \<Longrightarrow> picks opts i ((run, reason) # cs) = (if ra_Execute opts then [run] else []) @ picks opts (Suc i) cs"
  by (auto simp: picks_def room_def Suc_diff_Suc nat_le_iff take_Cons' zless_nat_conj not_le)

lemma reap_loop_accounts:
  "wp (reap_loop opts repo heads n i cs)
     (\<lambda>_ t. \<exists>es. accounts es s t \<and> list_all2 (cancels repo) (picks opts i cs) es) s"
proof (induction cs arbitrary: i s)
  case Nil
  then show ?case by (auto simp: picks_simps intro!: exI [of _ "[]"])
next
  case (Cons c cs)
  obtain run reason where c: "c = (run, reason)" by (cases c)
  show ?case
  proof (cases "ra_MaxCancelPerRepo opts \<le> int i")
    case True
    then show ?thesis
      by (auto simp: c picks_simps reap_add_def reap_calls_def accounts_def exit_after_def intro!: exI [of _ "[]"])
  next
    case False
    let ?s = "s\<lparr>hs_report := hs_report s\<lparr>rp_Candidates := rp_Candidates (hs_report s) + 1\<rparr>\<rparr>"
    have s: "accounts es s t" if "accounts es ?s t" for es t
      using that by (simp add: accounts_def reap_calls_def)
    show ?thesis
      unfolding c reap_loop.simps wp_bind wp_report if_not_P [OF False] picks_simps(3) [OF False]
      by (rule wp_mono [OF cancel_candidate_accounts], elim exE conjE, rule wp_mono [OF Cons.IH])
        (blast intro: s accounts_append list_all2_appendI)
  qed
qed

lemma reapRepo_accounts:
  "wp (reapRepo opts repo)
     (\<lambda>_ t. \<exists>es. accounts es s t \<and> reap_spec (ra_Execute opts) (nat (ra_MaxCancelPerRepo opts)) repo es) s"
proof -
  have picked: "oldest_of (if ra_Execute opts then nat (ra_MaxCancelPerRepo opts) else 0) (filter (stale heads) runs)
      (picks opts 0 (reap_candidates heads runs))" for heads runs
    using oldest_of_take [OF candidates_stale candidates_sorted, where k = "if ra_Execute opts then nat (ra_MaxCancelPerRepo opts) else 0"]
    by (cases "ra_Execute opts") (simp_all add: picks_def room_def)
  have step: "wp (reap_loop opts repo heads n 0 (reap_candidates heads runs))
      (\<lambda>_ t. \<exists>es. accounts es s t \<and> reap_spec (ra_Execute opts) (nat (ra_MaxCancelPerRepo opts)) repo es) u"
    if "accounts [ReapHeads repo (Inr heads), ReapRuns repo (Inr runs)] s u" for heads runs n u
    by (rule wp_mono [OF reap_loop_accounts]) (use that picked in \<open>unfold reap_spec_def, blast intro: accounts_append\<close>)
  obtain h w where h: "ra_OpenHeadsFn opts repo (hs_ext s) = (h, w)" by fastforce
  obtain r w' where r: "ra_ActiveRunsFn opts repo w = (r, w')" by fastforce
  show ?thesis
  proof (cases h)
    case (Inl err)
    then show ?thesis
      by (auto simp: reapRepo_def h reap_add_def reap_exit_def accounts_def reap_calls_def exit_after_def reap_spec_def
          intro!: exI [of _ "[ReapHeads repo (Inl err)]"])
  next
    case heads: (Inr heads)
    show ?thesis
    proof (cases r)
      case (Inl err)
      then show ?thesis
        by (auto simp: reapRepo_def h r heads reap_add_def reap_exit_def accounts_def reap_calls_def exit_after_def reap_spec_def
            intro!: exI [of _ "[ReapHeads repo (Inr heads), ReapRuns repo (Inl err)]"])
    next
      case (Inr runs)
      show ?thesis
        by (simp add: reapRepo_def h r heads Inr wp_let del: wp_report)
          (simp add: Let_def, rule step, simp add: accounts_def reap_calls_def exit_after_def)
    qed
  qed
qed

section \<open>The pass\<close>

lemma reap_one_accounts:
  "wp (reap_one opts repo)
     (\<lambda>_ t. \<exists>es. rp_Exit (hs_report t) = exit_after (rp_Exit (hs_report s)) (ValidateRepo repo \<noteq> None \<or> list_ex call_failed es) \<and>
        reap_calls t = reap_calls s @ es \<and>
        rp_Cancelled (hs_report t) = rp_Cancelled (hs_report s) + length (filter call_cancelled es) \<and>
        (if ValidateRepo repo = None then reap_spec (ra_Execute opts) (nat (ra_MaxCancelPerRepo opts)) repo es else es = [])) s"
proof (cases "ValidateRepo repo")
  case None
  show ?thesis
    unfolding reap_one_def None option.case wp_bind wp_report
    by (rule wp_mono [OF reapRepo_accounts]) (auto simp: None accounts_def reap_calls_def)
next
  case (Some err)
  then show ?thesis
    by (auto simp: reap_one_def reap_add_def reap_exit_def reap_calls_def exit_after_def intro!: exI [of _ "[]"])
qed

text \<open>One list of calls for each repository with a valid name.\<close>

definition reap_parts :: "'w reap_Options \<Rightarrow> string list \<Rightarrow> reap_call list list \<Rightarrow> bool" where
  "reap_parts opts repos parts \<longleftrightarrow>
     list_all2 (reap_spec (ra_Execute opts) (nat (ra_MaxCancelPerRepo opts))) (filter (\<lambda>r. ValidateRepo r = None) repos) parts"

lemma reap_all_accounts:
  "wp (for_all (reap_one opts) repos)
     (\<lambda>_ t. \<exists>parts. reap_parts opts repos parts \<and> reap_calls t = reap_calls s @ concat parts \<and>
        rp_Cancelled (hs_report t) = rp_Cancelled (hs_report s) + length (filter call_cancelled (concat parts)) \<and>
        rp_Exit (hs_report t) = exit_after (rp_Exit (hs_report s))
          (list_ex (\<lambda>r. ValidateRepo r \<noteq> None) repos \<or> list_ex call_failed (concat parts))) s"
proof (induction repos arbitrary: s)
  case Nil
  then show ?case by (simp add: reap_parts_def exit_after_def)
next
  case (Cons repo repos)
  show ?case
    unfolding for_all.simps wp_bind
  proof (rule wp_mono [OF reap_one_accounts], elim exE conjE, rule wp_mono [OF Cons.IH], elim exE conjE)
    fix t :: "'a rst" and es u parts
    assume "if ValidateRepo repo = None then reap_spec (ra_Execute opts) (nat (ra_MaxCancelPerRepo opts)) repo es else es = []"
      and "reap_parts opts repos parts"
    then have "reap_parts opts (repo # repos) (if ValidateRepo repo = None then es # parts else parts) \<and>
        concat (if ValidateRepo repo = None then es # parts else parts) = es @ concat parts"
      by (auto simp: reap_parts_def)
    moreover assume "reap_calls t = reap_calls s @ es" "reap_calls u = reap_calls t @ concat parts"
      "rp_Cancelled (hs_report t) = rp_Cancelled (hs_report s) + length (filter call_cancelled es)"
      "rp_Cancelled (hs_report u) = rp_Cancelled (hs_report t) + length (filter call_cancelled (concat parts))"
      "rp_Exit (hs_report t) = exit_after (rp_Exit (hs_report s)) (ValidateRepo repo \<noteq> None \<or> list_ex call_failed es)"
      "rp_Exit (hs_report u) = exit_after (rp_Exit (hs_report t)) (list_ex (\<lambda>r. ValidateRepo r \<noteq> None) repos \<or> list_ex call_failed (concat parts))"
    ultimately show "\<exists>parts. reap_parts opts (repo # repos) parts \<and> reap_calls u = reap_calls s @ concat parts \<and>
        rp_Cancelled (hs_report u) = rp_Cancelled (hs_report s) + length (filter call_cancelled (concat parts)) \<and>
        rp_Exit (hs_report u) = exit_after (rp_Exit (hs_report s))
          (list_ex (\<lambda>r. ValidateRepo r \<noteq> None) (repo # repos) \<or> list_ex call_failed (concat parts))"
      by (intro exI [of _ "if ValidateRepo repo = None then es # parts else parts"]) (auto simp: ac_simps)
  qed
qed

definition reap_after :: "'w reap_Options \<Rightarrow> 'w rst \<Rightarrow> 'w rst" where
  "reap_after opts s = snd (run_state (Reap opts) s)"

definition new_calls :: "'w rst \<Rightarrow> 'w rst \<Rightarrow> reap_call list" where
  "new_calls s t = drop (length (reap_calls s)) (reap_calls t)"

lemma wp_final: "wp m (\<lambda>_. Q) s \<Longrightarrow> Q (snd (run_state m s))"
  by (simp add: wp_def case_prod_beta)

lemma list_all2_member: "list_all2 P xs ys \<Longrightarrow> y \<in> set ys \<Longrightarrow> \<exists>x \<in> set xs. P x y"
  by (induction rule: list_all2_induct) auto

lemma reap_defaults_simps [simp]:
  "ra_Repos (reap_defaults opts) = ra_Repos opts" "ra_Execute (reap_defaults opts) = ra_Execute opts"
  by (simp_all add: reap_defaults_def)

lemma Reap_accounts:
  "\<exists>parts. reap_parts (reap_defaults opts) (ra_Repos opts) parts \<and>
     reap_calls (reap_after opts s) = reap_calls s @ concat parts \<and>
     rp_Cancelled (hs_report (reap_after opts s)) = length (filter call_cancelled (concat parts)) \<and>
     rp_Exit (hs_report (reap_after opts s)) =
       (if ra_Repos opts = [] \<or> list_ex (\<lambda>r. ValidateRepo r \<noteq> None) (ra_Repos opts) \<or> list_ex call_failed (concat parts) then 1 else 0)"
proof -
  have "wp (Reap opts) (\<lambda>_ t. \<exists>parts. reap_parts (reap_defaults opts) (ra_Repos opts) parts \<and>
     reap_calls t = reap_calls s @ concat parts \<and> rp_Cancelled (hs_report t) = length (filter call_cancelled (concat parts)) \<and>
     rp_Exit (hs_report t) =
       (if ra_Repos opts = [] \<or> list_ex (\<lambda>r. ValidateRepo r \<noteq> None) (ra_Repos opts) \<or> list_ex call_failed (concat parts) then 1 else 0)) s"
  proof (cases "ra_Repos opts = []")
    case True
    then show ?thesis by (simp add: Reap_def Let_def reap_add_def reap_calls_def reap_parts_def)
  next
    case False
    then show ?thesis
      by (simp add: Reap_def Let_def)
        (rule wp_mono [OF reap_all_accounts], auto simp: reap_calls_def exit_after_def maxInt_def)
  qed
  then show ?thesis unfolding reap_after_def by (rule wp_final)
qed

section \<open>Properties\<close>

text \<open>
  C32. The pass refines its abstract description: over the repositories with a valid name, in their
  order, it lists the open heads and the active runs and then cancels exactly the oldest of the
  stale runs, as many as the cap allows, and none unless asked to execute.
\<close>

theorem Reap_refines:
  "\<exists>parts. reap_calls (reap_after opts s) = reap_calls s @ concat parts \<and>
     list_all2 (reap_spec (ra_Execute opts) (nat (ra_MaxCancelPerRepo (reap_defaults opts))))
       (filter (\<lambda>r. ValidateRepo r = None) (ra_Repos opts)) parts"
  using Reap_accounts [of opts s] by (auto simp: reap_parts_def)

lemma reap_spec_cancel:
  assumes "reap_spec execute cap repo' es" "ReapCancel repo n e \<in> set es"
  shows "execute \<and> (\<exists>heads runs run. ReapHeads repo (Inr heads) \<in> set es \<and> ReapRuns repo (Inr runs) \<in> set es \<and>
    run \<in> set runs \<and> rn_ID run = n \<and> stale heads run)"
proof -
  from assms obtain heads runs picked cs where es: "es = [ReapHeads repo' (Inr heads), ReapRuns repo' (Inr runs)] @ cs"
    and picked: "oldest_of (if execute then cap else 0) (filter (stale heads) runs) picked" and all: "list_all2 (cancels repo') picked cs"
    unfolding reap_spec_def by auto
  from assms(2) es have "ReapCancel repo n e \<in> set cs" by auto
  then obtain run where run: "run \<in> set picked" and c: "cancels repo' run (ReapCancel repo n e)"
    using list_all2_member [OF all] by blast
  have "set picked \<subseteq> set (filter (stale heads) runs)" and execute
    using run oldest_of_subset [OF picked] picked by (auto simp: oldest_of_def split: if_splits)
  then show ?thesis using run c es by (auto simp: cancels_def)
qed

text \<open>
  C33. Only stale runs are cancelled: every cancellation was asked for with \<open>Execute\<close> and is of a
  run that GitHub listed in this pass, triggered by a pull request, on a branch with no open pull
  request or built on a commit that is not the head of the open one.
\<close>

theorem Reap_spares:
  assumes "ReapCancel repo n e \<in> set (new_calls s (reap_after opts s))"
  shows "ra_Execute opts \<and>
    (\<exists>heads runs run. ReapHeads repo (Inr heads) \<in> set (new_calls s (reap_after opts s)) \<and>
       ReapRuns repo (Inr runs) \<in> set (new_calls s (reap_after opts s)) \<and> run \<in> set runs \<and> rn_ID run = n \<and> stale heads run)"
proof -
  obtain parts where calls: "new_calls s (reap_after opts s) = concat parts" and parts: "reap_parts (reap_defaults opts) (ra_Repos opts) parts"
    using Reap_accounts [of opts s] by (auto simp: new_calls_def)
  then obtain es where es: "es \<in> set parts" "ReapCancel repo n e \<in> set es" using assms by auto
  then obtain repo' where "reap_spec (ra_Execute opts) (nat (ra_MaxCancelPerRepo (reap_defaults opts))) repo' es"
    using list_all2_member [OF parts [unfolded reap_parts_def]] by auto
  from reap_spec_cancel [OF this es(2)] show ?thesis unfolding calls using es(1) by auto
qed


subsection \<open>A pass on a small repository\<close>

definition demo_reap_run :: "int \<Rightarrow> string \<Rightarrow> string \<Rightarrow> int \<Rightarrow> reap_Run" where
  "demo_reap_run n branch sha created =
     \<lparr>rn_ID = n, rn_Repo = ''acme/app'', rn_Branch = branch, rn_HeadSHA = sha, rn_Event = ''pull_request'', rn_Status = ''queued'',
      rn_Workflow = ''ci'', rn_CreatedAt = created\<rparr>"

definition demo_reap :: "unit reap_Options" where
  "demo_reap =
     \<lparr>ra_Repos = [''acme/app''], ra_Execute = True, ra_MaxCancelPerRepo = 0,
      ra_OpenHeadsFn = (\<lambda>_ w. (Inr [(''dev'', ''AB'')], w)),
      ra_ActiveRunsFn = (\<lambda>_ w. (Inr [demo_reap_run 1 ''dev'' ''ab'' 5, demo_reap_run 2 ''dev'' ''cd'' 4], w)),
      ra_CancelFn = (\<lambda>_ _ w. (None, w))\<rparr>"

definition demo_reap_start :: "unit rst" where
  "demo_reap_start = \<lparr>hs_ext = (), hs_file = (),
     hs_report = \<lparr>rp_Executed = False, rp_Repos = [], rp_Scanned = 0, rp_Candidates = 0, rp_Cancelled = 0, rp_Events = [], rp_Exit = 0\<rparr>, hs_trace = []\<rparr>"

lemma demo_reap_calls: "set (new_calls demo_reap_start (reap_after demo_reap demo_reap_start)) \<supseteq> {ReapCancel ''acme/app'' 2 None}"
  by code_simp

theorem Reap_spares_witness:
  "ReapCancel ''acme/app'' 2 None \<in> set (new_calls demo_reap_start (reap_after demo_reap demo_reap_start)) \<and> ra_Execute demo_reap"
  using demo_reap_calls Reap_spares [of "''acme/app''" 2 None demo_reap_start demo_reap] by auto

end
