(* ===== verification/Processes.thy ===== *)
theory Processes
  imports Civm_Prelude
begin

text \<open>
  Programs of several processes on one machine. A program is its next call with what it does for
  each answer, so that any interleaving of the calls of several processes, with a process killed
  between any two calls, is a run of the machine. \<open>gwp\<close> is the weakest precondition of a program
  over what its process knows and holds (its ghost state), and the locale \<open>rely_guarantee\<close> shows
  that programs which verify alone run together: what a process relies on is kept by the calls of
  the others.
\<close>

section \<open>Programs\<close>

datatype ('q, 'r, 'a) prog = Return 'a | Ask 'q "'r \<Rightarrow> ('q, 'r, 'a) prog"

primrec and_then :: "('q, 'r, 'a) prog \<Rightarrow> ('a \<Rightarrow> ('q, 'r, 'b) prog) \<Rightarrow> ('q, 'r, 'b) prog" where
  "and_then (Return a) f = f a"
| "and_then (Ask q k) f = Ask q (\<lambda>r. and_then (k r) f)"

primrec gwp ::
  "('q \<Rightarrow> 'g \<Rightarrow> bool) \<Rightarrow> ('q \<Rightarrow> 'g \<Rightarrow> 'r \<Rightarrow> bool) \<Rightarrow> ('q \<Rightarrow> 'r \<Rightarrow> 'g \<Rightarrow> 'g) \<Rightarrow>
   ('q, 'r, 'a) prog \<Rightarrow> ('a \<Rightarrow> 'g \<Rightarrow> bool) \<Rightarrow> 'g \<Rightarrow> bool" where
  "gwp pre fits gain (Return a) Q g = Q a g"
| "gwp pre fits gain (Ask q k) Q g =
     (pre q g \<and> (\<forall>r. fits q g r \<longrightarrow> gwp pre fits gain (k r) Q (gain q r g)))"

lemma gwp_and_then [simp]:
  "gwp pre fits gain (and_then m f) Q g = gwp pre fits gain m (\<lambda>a. gwp pre fits gain (f a) Q) g"
  by (induction m arbitrary: g) simp_all

lemma gwp_Return: "gwp pre fits gain (Return a) Q = Q a"
  by (rule ext) simp

lemma gwp_mono: "gwp pre fits gain m Q g \<Longrightarrow> (\<And>a h. Q a h \<Longrightarrow> R a h) \<Longrightarrow> gwp pre fits gain m R g"
  by (induction m arbitrary: g) auto

lemma gwp_if: "gwp pre fits gain (if b then m else n) Q g = (if b then gwp pre fits gain m Q g else gwp pre fits gain n Q g)"
  by simp

lemma gwp_let: "gwp pre fits gain (Let x f) Q g = Let x (\<lambda>a. gwp pre fits gain (f a) Q g)"
  by (simp add: Let_def)

lemma gwp_case_sum:
  "gwp pre fits gain (case x of Inl a \<Rightarrow> f a | Inr b \<Rightarrow> h b) Q g =
     (case x of Inl a \<Rightarrow> gwp pre fits gain (f a) Q g | Inr b \<Rightarrow> gwp pre fits gain (h b) Q g)"
  by (simp split: sum.split)

lemma gwp_case_option:
  "gwp pre fits gain (case x of None \<Rightarrow> m | Some a \<Rightarrow> f a) Q g =
     (case x of None \<Rightarrow> gwp pre fits gain m Q g | Some a \<Rightarrow> gwp pre fits gain (f a) Q g)"
  by (simp split: option.split)

lemmas gwp_cases = gwp_if gwp_let gwp_case_sum gwp_case_option

section \<open>Machines\<close>

text \<open>
  A machine says which answers a call may get in a state, what the call then does to the state,
  which processes may start, what a start and a death do, and what happens by itself. Answers
  carry everything that is not determined by the state.
\<close>

record ('p, 'q, 'r, 's, 'e, 'a) machine =
  mc_allowed :: "'p \<Rightarrow> 'q \<Rightarrow> 'r \<Rightarrow> 's \<Rightarrow> bool"
  mc_effect :: "'p \<Rightarrow> 'q \<Rightarrow> 'r \<Rightarrow> 's \<Rightarrow> 's"
  mc_can_start :: "'p \<Rightarrow> 's \<Rightarrow> bool"
  mc_born :: "'p \<Rightarrow> 's \<Rightarrow> 's"
  mc_dead :: "'p \<Rightarrow> 's \<Rightarrow> 's"
  mc_env :: "'e \<Rightarrow> 's \<Rightarrow> 's"
  mc_main :: "'p \<Rightarrow> ('q, 'r, 'a) prog"

type_synonym ('p, 'q, 'r, 's, 'a) conf = "'s \<times> ('p \<Rightarrow> ('q, 'r, 'a) prog option)"

text \<open>A process that exits dies like one that is killed: the kernel closes its files.\<close>

datatype ('p, 'r, 'e) choice = Answer 'p 'r | Spawn 'p | Kill 'p | Env 'e

definition take_step ::
  "('p, 'q, 'r, 's, 'e, 'a) machine \<Rightarrow> ('p, 'r, 'e) choice \<Rightarrow> ('p, 'q, 'r, 's, 'a) conf \<Rightarrow> ('p, 'q, 'r, 's, 'a) conf option" where
  "take_step M c conf =
     (case conf of (s, ps) \<Rightarrow>
        (case c of
           Answer p r \<Rightarrow>
             (case ps p of
                Some (Ask q k) \<Rightarrow> if mc_allowed M p q r s then Some (mc_effect M p q r s, ps(p \<mapsto> k r)) else None
              | _ \<Rightarrow> None)
         | Spawn p \<Rightarrow> if ps p = None \<and> mc_can_start M p s then Some (mc_born M p s, ps(p \<mapsto> mc_main M p)) else None
         | Kill p \<Rightarrow> if ps p \<noteq> None then Some (mc_dead M p s, ps(p := None)) else None
         | Env e \<Rightarrow> Some (mc_env M e s, ps)))"

inductive reaches :: "('p, 'q, 'r, 's, 'e, 'a) machine \<Rightarrow> 's \<Rightarrow> ('p, 'q, 'r, 's, 'a) conf \<Rightarrow> bool" for M s0 where
  reaches_start: "reaches M s0 (s0, \<lambda>_. None)"
| reaches_step: "reaches M s0 c \<Longrightarrow> take_step M ch c = Some d \<Longrightarrow> reaches M s0 d"

fun run_choices ::
  "('p, 'q, 'r, 's, 'e, 'a) machine \<Rightarrow> ('p, 'r, 'e) choice list \<Rightarrow> ('p, 'q, 'r, 's, 'a) conf \<Rightarrow> ('p, 'q, 'r, 's, 'a) conf option" where
  "run_choices M [] c = Some c"
| "run_choices M (ch # chs) c = (case take_step M ch c of None \<Rightarrow> None | Some d \<Rightarrow> run_choices M chs d)"

lemma run_choices_reaches: "run_choices M chs c = Some d \<Longrightarrow> reaches M s0 c \<Longrightarrow> reaches M s0 d"
  by (induction chs arbitrary: c) (auto split: option.splits intro: reaches_step)

lemma run_choices_append:
  "run_choices M (xs @ ys) c = (case run_choices M xs c of None \<Rightarrow> None | Some d \<Rightarrow> run_choices M ys d)"
  by (induction xs arbitrary: c) (auto split: option.splits)

section \<open>Running together\<close>

text \<open>
  \<open>owns p g s\<close> says that what process \<open>p\<close> knows and holds, \<open>g\<close>, is true of the state. A call
  that its process may make (\<open>pre\<close>) keeps the invariant, gets an answer that fits, makes the
  process own what it gains, and takes nothing from the others. \<open>post\<close> is what a process knows when it
  has returned.
\<close>

locale rely_guarantee =
  fixes M :: "('p, 'q, 'r, 's, 'e, 'a) machine"
    and inv :: "'s \<Rightarrow> bool"
    and owns :: "'p \<Rightarrow> 'g \<Rightarrow> 's \<Rightarrow> bool"
    and pre :: "'p \<Rightarrow> 'q \<Rightarrow> 'g \<Rightarrow> bool"
    and fits :: "'p \<Rightarrow> 'q \<Rightarrow> 'g \<Rightarrow> 'r \<Rightarrow> bool"
    and gain :: "'p \<Rightarrow> 'q \<Rightarrow> 'r \<Rightarrow> 'g \<Rightarrow> 'g"
    and start :: 'g
    and post :: "'p \<Rightarrow> 'a \<Rightarrow> 'g \<Rightarrow> bool"
  assumes call: "\<lbrakk>inv s; owns p g s; pre p q g; mc_allowed M p q r s\<rbrakk> \<Longrightarrow>
      fits p q g r \<and> inv (mc_effect M p q r s) \<and> owns p (gain p q r g) (mc_effect M p q r s)"
    and call_frame: "\<lbrakk>inv s; owns p g s; pre p q g; mc_allowed M p q r s; p' \<noteq> p; owns p' g' s\<rbrakk> \<Longrightarrow>
      owns p' g' (mc_effect M p q r s)"
    and spawn: "\<lbrakk>inv s; mc_can_start M p s\<rbrakk> \<Longrightarrow> inv (mc_born M p s) \<and> owns p start (mc_born M p s)"
    and spawn_frame: "\<lbrakk>inv s; mc_can_start M p s; p' \<noteq> p; owns p' g' s\<rbrakk> \<Longrightarrow> owns p' g' (mc_born M p s)"
    and kill: "\<lbrakk>inv s; owns p g s\<rbrakk> \<Longrightarrow> inv (mc_dead M p s)"
    and kill_frame: "\<lbrakk>inv s; owns p g s; p' \<noteq> p; owns p' g' s\<rbrakk> \<Longrightarrow> owns p' g' (mc_dead M p s)"
    and env: "inv s \<Longrightarrow> inv (mc_env M e s)"
    and env_frame: "\<lbrakk>inv s; owns p g s\<rbrakk> \<Longrightarrow> owns p g (mc_env M e s)"
    and main: "gwp (pre p) (fits p) (gain p) (mc_main M p) (post p) start"
begin

definition going :: "'s \<Rightarrow> ('p \<Rightarrow> ('q, 'r, 'a) prog option) \<Rightarrow> bool" where
  "going s ps \<longleftrightarrow> inv s \<and>
     (\<forall>p m. ps p = Some m \<longrightarrow> (\<exists>g. owns p g s \<and> gwp (pre p) (fits p) (gain p) m (post p) g))"

lemma goingD: "going s ps \<Longrightarrow> ps p = Some m \<Longrightarrow> \<exists>g. owns p g s \<and> gwp (pre p) (fits p) (gain p) m (post p) g"
  by (simp add: going_def)

lemma going_step:
  assumes "going s ps" "take_step M ch (s, ps) = Some (t, ps')"
  shows "going t ps'"
proof (cases ch)
  case (Answer p r)
  then obtain q k where ps: "ps p = Some (Ask q k)" and ok: "mc_allowed M p q r s"
    and t: "t = mc_effect M p q r s" "ps' = ps(p \<mapsto> k r)"
    using assms(2) by (auto simp: take_step_def split: option.splits prog.splits if_splits)
  from goingD [OF assms(1) ps] obtain g where g: "owns p g s" "pre p q g"
    and k: "\<And>r. fits p q g r \<Longrightarrow> gwp (pre p) (fits p) (gain p) (k r) (post p) (gain p q r g)" by auto
  have inv: "inv s" using assms(1) by (simp add: going_def)
  show ?thesis
    unfolding going_def t
    using call [OF inv g ok] k goingD [OF assms(1)] call_frame [OF inv g ok] by (auto split: if_splits) metis+
next
  case (Spawn p)
  then show ?thesis
    using assms(2) spawn [of s p] spawn_frame [of s p] main [of p] assms(1)
    by (auto simp: take_step_def going_def split: if_splits) metis+
next
  case (Kill p)
  then obtain m where m: "ps p = Some m" and t: "t = mc_dead M p s" "ps' = ps(p := None)"
    using assms(2) by (auto simp: take_step_def split: if_splits)
  from goingD [OF assms(1) m] obtain g where g: "owns p g s" by blast
  have inv: "inv s" using assms(1) by (simp add: going_def)
  show ?thesis
    unfolding going_def t using kill [OF inv g] goingD [OF assms(1)] kill_frame [OF inv g] by (auto split: if_splits) metis
next
  case (Env e)
  then show ?thesis using assms env [of s e] env_frame [of s _ _ e] by (auto simp: take_step_def going_def) metis
qed

lemma reaches_going: "reaches M s0 c \<Longrightarrow> inv s0 \<Longrightarrow> going (fst c) (snd c)"
proof (induction rule: reaches.induct)
  case reaches_start
  then show ?case by (simp add: going_def)
next
  case (reaches_step c ch d)
  then show ?case using going_step [of "fst c" "snd c" ch "fst d" "snd d"] by simp
qed

lemma reaches_result: "reaches M s0 (s, ps) \<Longrightarrow> inv s0 \<Longrightarrow> ps p = Some (Return a) \<Longrightarrow> \<exists>g. owns p g s \<and> post p a g"
  using reaches_going [of s0 "(s, ps)"] goingD [of s ps p "Return a"] by simp

lemma reaches_inv: "reaches M s0 (s, ps) \<Longrightarrow> inv s0 \<Longrightarrow> inv s"
  using reaches_going [of s0 "(s, ps)"] by (simp add: going_def)

end

end
