(* ===== verification/Proc_Files.thy ===== *)
theory Proc_Files
  imports Host
begin

text \<open>
  What the components read from \<open>/proc\<close>: the memory pressure gate of \<open>internal/memwatchdog\<close>, which
  decides over \<open>/proc/meminfo\<close>, and \<open>internal/procstat\<close>, which reads the start time of a process
  from \<open>/proc/<pid>/stat\<close>. Products that can leave the range of \<open>int64\<close> wrap around as in Go.
\<close>

section \<open>Memory pressure\<close>

datatype mem_Decision = MemOK | MemWarn | MemCritical

definition mem_Decision_String :: "mem_Decision \<Rightarrow> string" where
  "mem_Decision_String d = (case d of MemOK \<Rightarrow> ''ok'' | MemWarn \<Rightarrow> ''warn'' | MemCritical \<Rightarrow> ''critical'')"

definition mem_ExitCode :: "mem_Decision \<Rightarrow> int" where
  "mem_ExitCode d = (case d of MemOK \<Rightarrow> 0 | MemWarn \<Rightarrow> 1 | MemCritical \<Rightarrow> 2)"

record Meminfo =
  mi_MemTotalMB :: int
  mi_MemAvailableMB :: int
  mi_AvailPct :: int
  mi_SwapTotalMB :: int
  mi_SwapUsedMB :: int

record mem_Options =
  mo_WarnAvailPct :: int
  mo_CritAvailPct :: int
  mo_WarnSwapMB :: int
  mo_CritSwapMB :: int

record mem_Result =
  mr_Time :: time
  mr_Decision :: mem_Decision
  mr_Status :: string
  mr_Mem :: Meminfo
  mr_Reason :: string
  mr_Err :: string

definition zeroMeminfo :: Meminfo where
  "zeroMeminfo = \<lparr>mi_MemTotalMB = 0, mi_MemAvailableMB = 0, mi_AvailPct = 0, mi_SwapTotalMB = 0, mi_SwapUsedMB = 0\<rparr>"

definition mem_DefaultOptions :: mem_Options where
  "mem_DefaultOptions = \<lparr>mo_WarnAvailPct = 15, mo_CritAvailPct = 8, mo_WarnSwapMB = 512, mo_CritSwapMB = 1536\<rparr>"

definition mem_applyDefaults :: "mem_Options \<Rightarrow> mem_Options" where
  "mem_applyDefaults opts =
     \<lparr>mo_WarnAvailPct = (if mo_WarnAvailPct opts = 0 then 15 else mo_WarnAvailPct opts),
      mo_CritAvailPct = (if mo_CritAvailPct opts = 0 then 8 else mo_CritAvailPct opts),
      mo_WarnSwapMB = (if mo_WarnSwapMB opts = 0 then 512 else mo_WarnSwapMB opts),
      mo_CritSwapMB = (if mo_CritSwapMB opts = 0 then 1536 else mo_CritSwapMB opts)\<rparr>"

definition parseMeminfoLine :: "string \<Rightarrow> (string \<times> int) option" where
  "parseMeminfoLine line =
     (case str_cut (CHR '':'') line of
        None \<Rightarrow> None
      | Some (name, rest) \<Rightarrow>
          (case str_fields rest of
             [] \<Rightarrow> None
           | f # _ \<Rightarrow> (case parse_int f of None \<Rightarrow> None | Some v \<Rightarrow> Some (trim_space name, v))))"

text \<open>The map \<open>vals\<close>: of several lines with the same key the last one counts.\<close>

definition meminfo_vals :: "string \<Rightarrow> string \<Rightarrow> int option" where
  "meminfo_vals s = map_of (rev (List.map_filter parseMeminfoLine (split_on nl s)))"

definition val_or_0 :: "int option \<Rightarrow> int" where
  "val_or_0 v = (case v of None \<Rightarrow> 0 | Some i \<Rightarrow> i)"

definition parseMeminfo :: "string \<Rightarrow> herr + Meminfo" where
  "parseMeminfo s =
     (case (meminfo_vals s ''MemTotal'', meminfo_vals s ''MemAvailable'') of
        (Some tot, Some avail) \<Rightarrow>
          if tot \<le> 0 then Inl (msg ''meminfo missing MemTotal/MemAvailable'')
          else (let swapTotal = val_or_0 (meminfo_vals s ''SwapTotal'');
                    swapUsed = max (wrap64 (swapTotal - val_or_0 (meminfo_vals s ''SwapFree''))) 0
                in Inr \<lparr>mi_MemTotalMB = go_div tot 1024, mi_MemAvailableMB = go_div avail 1024,
                        mi_AvailPct = go_div (wrap64 (avail * 100)) tot,
                        mi_SwapTotalMB = go_div swapTotal 1024, mi_SwapUsedMB = go_div swapUsed 1024\<rparr>)
      | _ \<Rightarrow> Inl (msg ''meminfo missing MemTotal/MemAvailable''))"

definition mem_classify :: "Meminfo \<Rightarrow> mem_Options \<Rightarrow> mem_Decision \<times> string" where
  "mem_classify m opts =
     (if mi_AvailPct m < mo_CritAvailPct opts
      then (MemCritical, ''mem-available '' @ show_int (mi_AvailPct m) @ ''% < '' @ show_int (mo_CritAvailPct opts) @ ''%'')
      else if mo_CritSwapMB opts < mi_SwapUsedMB m
      then (MemCritical, ''swap-used '' @ show_int (mi_SwapUsedMB m) @ ''MB > '' @ show_int (mo_CritSwapMB opts) @ ''MB (thrash)'')
      else if mi_AvailPct m < mo_WarnAvailPct opts
      then (MemWarn, ''mem-available '' @ show_int (mi_AvailPct m) @ ''% < '' @ show_int (mo_WarnAvailPct opts) @ ''%'')
      else if mo_WarnSwapMB opts < mi_SwapUsedMB m
      then (MemWarn, ''swap-used '' @ show_int (mi_SwapUsedMB m) @ ''MB > '' @ show_int (mo_WarnSwapMB opts) @ ''MB'')
      else (MemOK, []))"

definition mem_failed :: "time \<Rightarrow> herr \<Rightarrow> string \<Rightarrow> mem_Result" where
  "mem_failed now err reason =
     \<lparr>mr_Time = now, mr_Decision = MemCritical, mr_Status = mem_Decision_String MemCritical, mr_Mem = zeroMeminfo,
      mr_Reason = reason, mr_Err = err_Error err\<rparr>"

text \<open>\<open>raw\<close> is what \<open>MeminfoFn\<close> returned, \<open>now\<close> what \<open>NowFn\<close> did.\<close>

definition mem_Check :: "mem_Options \<Rightarrow> time \<Rightarrow> herr + string \<Rightarrow> mem_Result" where
  "mem_Check opts0 now raw =
     (let opts = mem_applyDefaults opts0 in
      case raw of
        Inl err \<Rightarrow> mem_failed now err ''meminfo-read-failed''
      | Inr s \<Rightarrow>
          (case parseMeminfo s of
             Inl err \<Rightarrow> mem_failed now err ''meminfo-parse-failed''
           | Inr mem \<Rightarrow>
               (case mem_classify mem opts of
                  (d, reason) \<Rightarrow>
                    \<lparr>mr_Time = now, mr_Decision = d, mr_Status = mem_Decision_String d, mr_Mem = mem, mr_Reason = reason, mr_Err = []\<rparr>)))"

definition mem_Sample :: "herr + string \<Rightarrow> herr + Meminfo" where
  "mem_Sample raw =
     (case raw of
        Inl err \<Rightarrow> Inl (Wrap ''memwatchdog: ler meminfo: '' [err])
      | Inr s \<Rightarrow> (case parseMeminfo s of Inl err \<Rightarrow> Inl (Wrap ''memwatchdog: parse meminfo: '' [err]) | Inr mem \<Rightarrow> Inr mem))"

section \<open>Start time of a process\<close>

definition truncateStat :: "string \<Rightarrow> string" where
  "truncateStat s = take 64 s"

definition parseStartTicks :: "string \<Rightarrow> herr + nat" where
  "parseStartTicks stat =
     (case last_index stat (CHR '')'') of
        None \<Rightarrow> Inl (msg (''stat sem campo comm: '' @ go_quote (truncateStat stat)))
      | Some commEnd \<Rightarrow>
          if length stat < commEnd + 2 then Inl (msg (''stat sem campo comm: '' @ go_quote (truncateStat stat)))
          else (let rest = str_fields (drop (Suc commEnd) stat) in
                if length rest \<le> 19 then Inl (msg (''stat com poucos campos ('' @ show_nat (length rest) @ '')''))
                else (case parse_uint (rest ! 19) of
                        None \<Rightarrow> Inl (msg (''parse starttime '' @ go_quote (rest ! 19)))
                      | Some ticks \<Rightarrow> Inr ticks)))"

text \<open>\<open>read\<close> is what \<open>os.ReadFile\<close> returned for \<open>/proc/<pid>/stat\<close>.\<close>

definition PidStartTicks :: "int \<Rightarrow> herr + string \<Rightarrow> herr + nat" where
  "PidStartTicks pid read =
     (case read of
        Inl err \<Rightarrow> Inl (Wrap (''ler /proc/'' @ show_int pid @ ''/stat: '') [err])
      | Inr stat \<Rightarrow> parseStartTicks stat)"

section \<open>Properties\<close>

lemma mem_Check_OK:
  "mr_Decision (mem_Check opts now raw) = MemOK \<longleftrightarrow>
     (\<exists>s mem. raw = Inr s \<and> parseMeminfo s = Inr mem \<and> fst (mem_classify mem (mem_applyDefaults opts)) = MemOK)"
  by (auto simp: mem_Check_def mem_failed_def Let_def split: sum.splits prod.splits)

lemma mem_classify_OK:
  "fst (mem_classify m opts) = MemOK \<longleftrightarrow>
     max (mo_CritAvailPct opts) (mo_WarnAvailPct opts) \<le> mi_AvailPct m \<and>
     mi_SwapUsedMB m \<le> min (mo_CritSwapMB opts) (mo_WarnSwapMB opts)"
  by (auto simp: mem_classify_def)

lemma int_le_div_iff: "0 < b \<Longrightarrow> p \<le> a div b \<longleftrightarrow> p * b \<le> (a :: int)"
proof
  assume b: "0 < b" and "p \<le> a div b"
  then have "p * b \<le> a div b * b" by simp
  also have "\<dots> \<le> a" using b by (simp add: minus_mod_eq_div_mult [symmetric])
  finally show "p * b \<le> a" .
next
  assume b: "0 < b" and "p * b \<le> a"
  then have "p * b div b \<le> a div b" by (intro zdiv_mono1)
  then show "p \<le> a div b" using b by simp
qed

text \<open>Values of \<open>/proc/meminfo\<close> are not negative and far from overflowing: below $2^{56}$ kB.\<close>

definition sane_meminfo :: "string \<Rightarrow> bool" where
  "sane_meminfo s \<longleftrightarrow> (\<forall>k. case meminfo_vals s k of None \<Rightarrow> True | Some v \<Rightarrow> 0 \<le> v \<and> v < 2 ^ 56)"

definition swap_used :: "string \<Rightarrow> int" where
  "swap_used s = max (val_or_0 (meminfo_vals s ''SwapTotal'') - val_or_0 (meminfo_vals s ''SwapFree'')) 0"

lemma sane_val: "sane_meminfo s \<Longrightarrow> 0 \<le> val_or_0 (meminfo_vals s k) \<and> val_or_0 (meminfo_vals s k) < 2 ^ 56"
  unfolding sane_meminfo_def val_or_0_def by (drule spec [of _ k]) (auto split: option.splits)

lemma parseMeminfo_sane:
  assumes "sane_meminfo s"
  shows "parseMeminfo s = Inr m \<longleftrightarrow>
    (\<exists>tot avail. meminfo_vals s ''MemTotal'' = Some tot \<and> meminfo_vals s ''MemAvailable'' = Some avail \<and> 0 < tot \<and>
       m = \<lparr>mi_MemTotalMB = tot div 1024, mi_MemAvailableMB = avail div 1024, mi_AvailPct = 100 * avail div tot,
            mi_SwapTotalMB = val_or_0 (meminfo_vals s ''SwapTotal'') div 1024, mi_SwapUsedMB = swap_used s div 1024\<rparr>)"
proof -
  have swap: "wrap64 (val_or_0 (meminfo_vals s ''SwapTotal'') - val_or_0 (meminfo_vals s ''SwapFree'')) =
      val_or_0 (meminfo_vals s ''SwapTotal'') - val_or_0 (meminfo_vals s ''SwapFree'')"
    using sane_val [OF assms, of "''SwapTotal''"] sane_val [OF assms, of "''SwapFree''"] by (intro wrap64_id) (auto simp: in_int64_def)
  have avail: "0 \<le> avail \<and> wrap64 (avail * 100) = avail * 100" if "meminfo_vals s ''MemAvailable'' = Some avail" for avail
    using sane_val [OF assms, of "''MemAvailable''"] that by (auto simp: val_or_0_def in_int64_def intro!: wrap64_id)
  show ?thesis
    using sane_val [OF assms, of "''SwapTotal''"]
    by (auto simp: parseMeminfo_def swap avail Let_def swap_used_def go_div_nonneg mult.commute split: option.splits)
qed

text \<open>
  C35. The memory gate opens exactly when the machine has room: \<open>Check\<close> says OK if and only if
  \<open>/proc/meminfo\<close> could be read and holds a positive total and the available memory, at least the
  larger of the two percentages of the total is available, and no more swap is in use than the
  smaller of the two limits. A text that cannot be read or parsed never opens it.
\<close>

theorem mem_gate:
  assumes "\<And>s. raw = Inr s \<Longrightarrow> sane_meminfo s"
  shows "mr_Decision (mem_Check opts now raw) = MemOK \<longleftrightarrow>
    (\<exists>s tot avail. raw = Inr s \<and> meminfo_vals s ''MemTotal'' = Some tot \<and> meminfo_vals s ''MemAvailable'' = Some avail \<and> 0 < tot \<and>
       max (mo_CritAvailPct (mem_applyDefaults opts)) (mo_WarnAvailPct (mem_applyDefaults opts)) * tot \<le> 100 * avail \<and>
       swap_used s div 1024 \<le> min (mo_CritSwapMB (mem_applyDefaults opts)) (mo_WarnSwapMB (mem_applyDefaults opts)))"
proof (cases raw)
  case (Inr s)
  define w where "w = max (mo_CritAvailPct (mem_applyDefaults opts)) (mo_WarnAvailPct (mem_applyDefaults opts))"
  define z where "z = min (mo_CritSwapMB (mem_applyDefaults opts)) (mo_WarnSwapMB (mem_applyDefaults opts))"
  have "mr_Decision (mem_Check opts now raw) = MemOK \<longleftrightarrow> (\<exists>m. parseMeminfo s = Inr m \<and> w \<le> mi_AvailPct m \<and> mi_SwapUsedMB m \<le> z)"
    by (simp add: mem_Check_OK mem_classify_OK Inr w_def z_def)
  then show ?thesis
    unfolding parseMeminfo_sane [OF assms [OF Inr]] w_def [symmetric] z_def [symmetric] by (auto simp: Inr int_le_div_iff)
qed (simp add: mem_Check_OK)

definition demo_meminfo :: string where
  "demo_meminfo = ''MemTotal: 9 kB'' @ [nl] @ ''MemAvailable: 8 kB''"

lemma demo_meminfo_vals: "meminfo_vals demo_meminfo = map_of [(''MemAvailable'', 8), (''MemTotal'', 9)]"
proof -
  have "rev (List.map_filter parseMeminfoLine (split_on nl demo_meminfo)) = [(''MemAvailable'', 8), (''MemTotal'', 9)]"
    by code_simp
  then show ?thesis by (simp add: meminfo_vals_def)
qed

theorem mem_gate_witness: "mr_Decision (mem_Check mem_DefaultOptions 0 (Inr demo_meminfo)) = MemOK"
proof -
  have "sane_meminfo demo_meminfo" by (simp add: sane_meminfo_def demo_meminfo_vals)
  then show ?thesis
    using mem_gate [of "Inr demo_meminfo" mem_DefaultOptions 0]
    by (simp add: demo_meminfo_vals mem_applyDefaults_def mem_DefaultOptions_def swap_used_def val_or_0_def)
qed

lemma drop_past: "drop (Suc (length xs)) (xs @ y # zs) = zs"
  by (induction xs) auto

text \<open>
  C36. The start time survives a hostile command name: whatever bytes a process puts into its name,
  parentheses and blanks included, \<open>parseStartTicks\<close> reads field 22 of its \<open>stat\<close> line.
\<close>

theorem parseStartTicks_comm:
  assumes "CHR '')'' \<notin> set tail" "19 < length (str_fields tail)" "parse_uint (str_fields tail ! 19) = Some ticks"
  shows "parseStartTicks (pid @ '' ('' @ comm @ '')'' @ tail) = Inr ticks"
proof -
  have "last_index ((pid @ '' ('' @ comm) @ CHR '')'' # tail) (CHR '')'') = Some (length (pid @ '' ('' @ comm))"
    using assms(1) by (rule last_index_append_sep)
  moreover have "tail \<noteq> []" using assms(2) by (auto simp: str_fields_def)
  moreover have "drop (Suc (length (pid @ '' ('' @ comm))) ((pid @ '' ('' @ comm) @ CHR '')'' # tail) = tail" by (rule drop_past)
  ultimately show ?thesis using assms(2,3) by (cases tail) (simp_all add: parseStartTicks_def Let_def)
qed

definition demo_stat_tail :: string where
  "demo_stat_tail = '' S 1 1 1 0 0 4 0 0 0 0 0 0 0 0 9 0 1 0 765''"

theorem parseStartTicks_comm_witness: "parseStartTicks (''7'' @ '' ('' @ ''evil) R 1 (x'' @ '')'' @ demo_stat_tail) = Inr 765"
proof (rule parseStartTicks_comm)
  have "str_fields demo_stat_tail = [''S'', ''1'', ''1'', ''1'', ''0'', ''0'', ''4'', ''0'', ''0'', ''0'', ''0'', ''0'', ''0'', ''0'', ''0'',
      ''9'', ''0'', ''1'', ''0'', ''765'']"
    by (simp add: demo_stat_tail_def str_fields_def is_space_def)
  moreover have "parse_uint ''765'' = Some 765"
    by (simp add: parse_uint_def all_digits_def is_digit_def char_between_def digit_val_def)
  ultimately show "19 < length (str_fields demo_stat_tail)" "parse_uint (str_fields demo_stat_tail ! 19) = Some 765" by simp_all
  show "CHR '')'' \<notin> set demo_stat_tail" by (simp add: demo_stat_tail_def)
qed

end
