(* ===== verification/Admit.thy ===== *)
theory Admit
  imports Processes Proc_Files
begin

text \<open>
  \<open>internal/admit\<close> and the command \<open>civmctl admit\<close>: memory-heavy jobs take one of a fixed number
  of slots, each an advisory lock on a file, before their payload starts as a systemd unit. The
  functions are programs over the calls the code makes, so that several of them can run on one
  machine. A slot file holds what \<open>json.Marshal\<close> wrote, read back by \<open>json.Unmarshal\<close>: nothing,
  a record, or bytes that are no record.
\<close>

section \<open>Constants\<close>

definition DefaultAdmitMaxHeavy :: int where "DefaultAdmitMaxHeavy = 2"
definition DefaultAdmitHostReserveMB :: int where "DefaultAdmitHostReserveMB = 2048"
definition DefaultAdmitHeavyMaxMB :: int where "DefaultAdmitHeavyMaxMB = 0"
definition DefaultAdmitWaitMinutes :: int where "DefaultAdmitWaitMinutes = 30"
definition DefaultAdmitSlotPathPrefix :: string where "DefaultAdmitSlotPathPrefix = ''/run/civm/admit-heavy-''"
definition DefaultAdmitDockerSlotPath :: string where "DefaultAdmitDockerSlotPath = ''/run/civm/admit-docker.lock''"

section \<open>Data\<close>

record slotRecord =
  sr_Unit :: string
  sr_PID :: int
  sr_PIDStartTicks :: nat
  sr_AcquiredAt :: time

datatype slot_text = SlotBlank | SlotCorrupt | SlotRecord slotRecord

record admit_Options =
  ao_MaxHeavy :: int
  ao_HeavyMaxMB :: int
  ao_SlotPrefix :: string
  ao_DockerSlotPath :: string
  ao_Weight :: string
  ao_Exclusive :: string
  ao_WaitBudget :: int
  ao_Backoff :: int

text \<open>An admission: \<open>ad_docker\<close> is the path of the docker sub-slot it holds, if any.\<close>

record Admission =
  ad_slotPath :: string
  ad_unit :: string
  ad_docker :: "string option"
  ad_done :: bool

record systemdRunSpec =
  sp_User :: string
  sp_Group :: string
  sp_MemMB :: int
  sp_Unit :: string
  sp_Cmd :: "string list"

text \<open>
  The calls. \<open>AskSignal\<close> is the window between \<open>signal.Notify\<close> and the start of the payload: its
  answer says whether a trapped signal came then. \<open>AskWait\<close> waits for the payload: \<open>None\<close> is a
  trapped signal, \<open>Some n\<close> the exit code; \<open>AskExit\<close> waits for the exit code alone. The answer to a write also carries what it left in the file.
\<close>

datatype admit_call =
    AskCtx | AskNow | AskSleep int | AskMeminfo
  | AskFlock string | AskUnlock string | AskRead string | AskWrite string slotRecord
  | AskStop string | AskAlive int | AskTicks int
  | AskProvision string | AskControllers | AskSignal | AskStart systemdRunSpec string | AskForward | AskWait | AskExit

datatype admit_answer =
    AnsNone
  | AnsCtx "ctx_error option"
  | AnsTime time
  | AnsText "herr + string"
  | AnsErr "herr option"
  | AnsSlot "herr + slot_text"
  | AnsWrite "herr option" slot_text
  | AnsBool bool
  | AnsTicks "herr + nat"
  | AnsExit "int option"
  | AnsCode int

definition the_ctx :: "admit_answer \<Rightarrow> ctx_error option" where
  "the_ctx r = (case r of AnsCtx e \<Rightarrow> e | _ \<Rightarrow> None)"
definition the_time :: "admit_answer \<Rightarrow> time" where
  "the_time r = (case r of AnsTime t \<Rightarrow> t | _ \<Rightarrow> 0)"
definition the_text :: "admit_answer \<Rightarrow> herr + string" where
  "the_text r = (case r of AnsText t \<Rightarrow> t | _ \<Rightarrow> Inr [])"
definition the_err :: "admit_answer \<Rightarrow> herr option" where
  "the_err r = (case r of AnsErr e \<Rightarrow> e | AnsWrite e _ \<Rightarrow> e | _ \<Rightarrow> None)"
definition the_slot :: "admit_answer \<Rightarrow> herr + slot_text" where
  "the_slot r = (case r of AnsSlot t \<Rightarrow> t | _ \<Rightarrow> Inr SlotBlank)"
definition the_bool :: "admit_answer \<Rightarrow> bool" where
  "the_bool r = (case r of AnsBool b \<Rightarrow> b | _ \<Rightarrow> False)"
definition the_ticks :: "admit_answer \<Rightarrow> herr + nat" where
  "the_ticks r = (case r of AnsTicks t \<Rightarrow> t | _ \<Rightarrow> Inr 0)"
definition the_exit :: "admit_answer \<Rightarrow> int option" where
  "the_exit r = (case r of AnsExit n \<Rightarrow> n | _ \<Rightarrow> None)"

definition the_code :: "admit_answer \<Rightarrow> int" where
  "the_code r = (case r of AnsCode n \<Rightarrow> n | _ \<Rightarrow> 0)"

lemmas the_simps [simp] = the_code_def
  the_ctx_def the_time_def the_text_def the_err_def the_slot_def the_bool_def the_ticks_def the_exit_def

type_synonym 'a admit_prog = "(admit_call, admit_answer, 'a) prog"

section \<open>Slots\<close>

definition slotPathFor :: "admit_Options \<Rightarrow> int \<Rightarrow> string" where
  "slotPathFor opts i = ao_SlotPrefix opts @ show_int i @ ''.lock''"

definition unitNameFor :: "string \<Rightarrow> int \<Rightarrow> string" where
  "unitNameFor slotPath pid =
     (let base = trim_suffix (path_Base slotPath) ''.lock'';
          name = ''civm-'' @ base @ ''-'' @ show_int pid @ ''.service''
      in if ValidateServiceUnit name \<noteq> None then ''civm-admit-'' @ show_int pid @ ''.service'' else name)"

definition stopUnit :: "string \<Rightarrow> unit admit_prog" where
  "stopUnit unit =
     (if unit = [] then Return ()
      else if ValidateServiceUnit unit \<noteq> None then Return ()
      else Ask (AskStop unit) (\<lambda>_. Return ()))"

definition readSlotRecord :: "string \<Rightarrow> (herr + slotRecord option) admit_prog" where
  "readSlotRecord slotPath = Ask (AskRead slotPath) (\<lambda>r. Return
     (case the_slot r of
        Inl err \<Rightarrow> if is_NotExist err then Inr None else Inl err
      | Inr SlotBlank \<Rightarrow> Inr None
      | Inr SlotCorrupt \<Rightarrow> Inl (Wrap (''admit: slot record corrompido '' @ slotPath @ '': '') [json_error])
      | Inr (SlotRecord rec) \<Rightarrow> Inr (Some rec)))"

definition isHolderAlive :: "slotRecord \<Rightarrow> bool admit_prog" where
  "isHolderAlive rec = Ask (AskAlive (sr_PID rec)) (\<lambda>r.
     if \<not> the_bool r then Return False
     else if sr_PIDStartTicks rec = 0 then Return True
     else Ask (AskTicks (sr_PID rec)) (\<lambda>r. Return
            (case the_ticks r of Inl _ \<Rightarrow> False | Inr ticks \<Rightarrow> ticks = sr_PIDStartTicks rec)))"

definition reapOrphan :: "string \<Rightarrow> unit admit_prog" where
  "reapOrphan slotPath = and_then (readSlotRecord slotPath) (\<lambda>r.
     case r of
       Inl err \<Rightarrow> Return ()
     | Inr None \<Rightarrow> Return ()
     | Inr (Some rec) \<Rightarrow>
         if sr_Unit rec = [] then Return ()
         else and_then (isHolderAlive rec) (\<lambda>alive. if alive then Return () else stopUnit (sr_Unit rec)))"

text \<open>The loop over the slots: the slot taken, nothing when all are busy, or an error.\<close>

fun grab_slots :: "string list \<Rightarrow> (herr + string option) admit_prog" where
  "grab_slots [] = Return (Inr None)"
| "grab_slots (path # paths) = Ask (AskFlock path) (\<lambda>r.
     case the_err r of
       Some err \<Rightarrow> if errors_Is err SlotBusy then grab_slots paths else Return (Inl (Wrap (''admit: slot '' @ path @ '': '') [err]))
     | None \<Rightarrow> and_then (reapOrphan path) (\<lambda>_. Return (Inr (Some path))))"

definition slot_paths :: "admit_Options \<Rightarrow> string list" where
  "slot_paths opts = map (slotPathFor opts) [1..ao_MaxHeavy opts]"

definition grabFreeSlot :: "admit_Options \<Rightarrow> (herr + string option) admit_prog" where
  "grabFreeSlot opts = grab_slots (slot_paths opts)"

text \<open>\<open>None\<close> is a busy sub-slot, \<open>Some None\<close> that none was asked for.\<close>

definition grabDockerSubSlot :: "admit_Options \<Rightarrow> string option option admit_prog" where
  "grabDockerSubSlot opts =
     (if ao_Exclusive opts \<noteq> ''docker'' then Return (Some None)
      else Ask (AskFlock (ao_DockerSlotPath opts)) (\<lambda>r.
             Return (case the_err r of Some _ \<Rightarrow> None | None \<Rightarrow> Some (Some (ao_DockerSlotPath opts)))))"

definition writeSlotRecord :: "int \<Rightarrow> string \<Rightarrow> string \<Rightarrow> herr option admit_prog" where
  "writeSlotRecord pid slotPath unit = Ask (AskTicks pid) (\<lambda>r.
     let startTicks = (case the_ticks r of Inr t \<Rightarrow> t | Inl _ \<Rightarrow> 0) in
     Ask AskNow (\<lambda>r.
       Ask (AskWrite slotPath \<lparr>sr_Unit = unit, sr_PID = pid, sr_PIDStartTicks = startTicks, sr_AcquiredAt = the_time r\<rparr>) (\<lambda>r.
         Return (map_option (\<lambda>err. Wrap (''admit: gravar slot record '' @ slotPath @ '': '') [err]) (the_err r)))))"

section \<open>Admissions\<close>

definition unlock :: "string \<Rightarrow> unit admit_prog" where
  "unlock path = Ask (AskUnlock path) (\<lambda>_. Return ())"

definition admit_Release :: "Admission \<Rightarrow> Admission admit_prog" where
  "admit_Release adm =
     (if ad_done adm then Return adm
      else and_then (stopUnit (ad_unit adm)) (\<lambda>_.
           and_then (case ad_docker adm of None \<Rightarrow> Return () | Some path \<Rightarrow> unlock path) (\<lambda>_.
           and_then (if ad_slotPath adm = [] then Return () else unlock (ad_slotPath adm)) (\<lambda>_.
           Return (adm\<lparr>ad_done := True\<rparr>)))))"

definition defaultCheck :: "(herr + mem_Decision) admit_prog" where
  "defaultCheck = Ask AskNow (\<lambda>now. Ask AskMeminfo (\<lambda>raw. Return
     (let res = mem_Check mem_DefaultOptions (the_time now) (the_text raw) in
      if mr_Err res \<noteq> [] then Inl (msg (mr_Err res)) else Inr (mr_Decision res))))"

definition heavy_admission :: "string \<Rightarrow> string \<Rightarrow> string option \<Rightarrow> Admission" where
  "heavy_admission slotPath unit docker = \<lparr>ad_slotPath = slotPath, ad_unit = unit, ad_docker = docker, ad_done = False\<rparr>"

definition light_admission :: Admission where
  "light_admission = \<lparr>ad_slotPath = [], ad_unit = [], ad_docker = None, ad_done = False\<rparr>"

definition tryAcquireHeavy :: "admit_Options \<Rightarrow> int \<Rightarrow> (Admission option \<times> bool \<times> herr option) admit_prog" where
  "tryAcquireHeavy opts pid = and_then defaultCheck (\<lambda>c.
     case c of
       Inl err \<Rightarrow> Return (None, True, Some (Wrap ''admit: watchdog check failed (fail-closed): '' [err]))
     | Inr dec \<Rightarrow>
         if dec = MemCritical \<or> dec = MemWarn then Return (None, True, None)
         else and_then (grabFreeSlot opts) (\<lambda>g.
           case g of
             Inl err \<Rightarrow> Return (None, False, Some err)
           | Inr None \<Rightarrow> Return (None, True, None)
           | Inr (Some slotPath) \<Rightarrow> and_then (grabDockerSubSlot opts) (\<lambda>d.
               case d of
                 None \<Rightarrow> and_then (unlock slotPath) (\<lambda>_. Return (None, True, None))
               | Some docker \<Rightarrow>
                   let unit = unitNameFor slotPath pid; adm = heavy_admission slotPath unit docker in
                   and_then (writeSlotRecord pid slotPath unit) (\<lambda>e.
                     case e of
                       Some err \<Rightarrow> and_then (admit_Release adm) (\<lambda>_. Return (None, False, Some err))
                     | None \<Rightarrow> Return (Some adm, False, None)))))"

definition validateAbsPrefix :: "string \<Rightarrow> string \<Rightarrow> herr option" where
  "validateAbsPrefix path field =
     (if CHR 0x00 \<in> set path then Some (msg (''admit: '' @ field @ '' contem byte NUL''))
      else if \<not> path_IsAbs path then Some (msg (''admit: '' @ field @ '' deve ser caminho absoluto, got '' @ go_quote path))
      else None)"

definition admit_validate :: "admit_Options \<Rightarrow> herr option" where
  "admit_validate opts =
     (if ao_MaxHeavy opts < 1 then Some (msg (''admit: MaxHeavy deve ser >=1, got '' @ show_int (ao_MaxHeavy opts)))
      else if ao_Weight opts \<noteq> ''heavy'' \<and> ao_Weight opts \<noteq> ''light''
      then Some (msg (''admit: weight invalido '' @ go_quote (ao_Weight opts) @ '' (use heavy ou light)''))
      else if ao_Weight opts = ''light'' then None
      else (case validateAbsPrefix (ao_SlotPrefix opts) ''slot-prefix'' of
              Some err \<Rightarrow> Some err
            | None \<Rightarrow>
                if ao_Exclusive opts = ''docker'' then validateAbsPrefix (ao_DockerSlotPath opts) ''docker-slot-path'' else None))"

definition admit_applyDefaults :: "admit_Options \<Rightarrow> admit_Options" where
  "admit_applyDefaults opts = opts
     \<lparr>ao_MaxHeavy := (if ao_MaxHeavy opts = 0 then DefaultAdmitMaxHeavy else ao_MaxHeavy opts),
      ao_SlotPrefix := (if ao_SlotPrefix opts = [] then DefaultAdmitSlotPathPrefix else ao_SlotPrefix opts),
      ao_DockerSlotPath := (if ao_DockerSlotPath opts = [] then DefaultAdmitDockerSlotPath else ao_DockerSlotPath opts),
      ao_Weight := (if ao_Weight opts = [] then ''heavy'' else ao_Weight opts),
      ao_WaitBudget := (if ao_WaitBudget opts \<le> 0 then DefaultAdmitWaitMinutes * minute else ao_WaitBudget opts),
      ao_Backoff := (if ao_Backoff opts \<le> 0 then 250000000 else ao_Backoff opts)\<rparr>"

text \<open>The loop of \<open>Acquire\<close>; \<open>None\<close> is running out of fuel.\<close>

fun Acquire_loop :: "nat \<Rightarrow> admit_Options \<Rightarrow> int \<Rightarrow> time \<Rightarrow> (herr + Admission) option admit_prog" where
  "Acquire_loop 0 opts pid deadline = Return None"
| "Acquire_loop (Suc n) opts pid deadline = Ask AskCtx (\<lambda>r.
     case the_ctx r of
       Some e \<Rightarrow> Return (Some (Inl (Wrap ''admit: '' [Leaf (CtxErr e)])))
     | None \<Rightarrow> and_then (tryAcquireHeavy opts pid) (\<lambda>(adm, retry, e).
         case e of
           Some err \<Rightarrow> Return (Some (Inl err))
         | None \<Rightarrow>
             (case adm of
                Some a \<Rightarrow> Return (Some (Inr a))
              | None \<Rightarrow>
                  if \<not> retry then Return (Some (Inl (Leaf WaitBudgetExceeded)))
                  else Ask AskNow (\<lambda>r.
                    if \<not> the_time r < deadline then Return (Some (Inl (Leaf WaitBudgetExceeded)))
                    else Ask (AskSleep (ao_Backoff opts)) (\<lambda>_. Acquire_loop n opts pid deadline)))))"

definition admit_Acquire :: "nat \<Rightarrow> admit_Options \<Rightarrow> int \<Rightarrow> (herr + Admission) option admit_prog" where
  "admit_Acquire fuel opts0 pid =
     (let opts = admit_applyDefaults opts0 in
      case admit_validate opts of
        Some err \<Rightarrow> Return (Some (Inl err))
      | None \<Rightarrow>
          if ao_Weight opts = ''light'' then Return (Some (Inr light_admission))
          else Ask AskNow (\<lambda>r. Acquire_loop fuel opts pid (the_time r + ao_WaitBudget opts)))"

section \<open>The command\<close>

definition resolveWeight :: "string \<Rightarrow> string \<Rightarrow> herr + string" where
  "resolveWeight flagVal envVal =
     (let f = trim_space flagVal; e = trim_space envVal in
      if f = ''heavy'' then Inr ''heavy''
      else if f = ''light'' then Inr ''light''
      else if f = ''auto'' then (if e = ''light'' then Inr ''light'' else Inr ''heavy'')
      else Inl (msg (''weight invalido '' @ go_quote flagVal @ '' (use heavy, light ou auto)'')))"

definition effectiveMemMB :: "int \<Rightarrow> int \<Rightarrow> int \<Rightarrow> int \<Rightarrow> herr + int" where
  "effectiveMemMB heavyMaxMB memTotalMB hostReserveMB maxHeavy0 =
     (if 0 < heavyMaxMB then Inr heavyMaxMB
      else (let maxHeavy = (if maxHeavy0 < 1 then 1 else maxHeavy0) in
            if memTotalMB \<le> 0 then Inl (msg ''MemTotal do host indisponivel; recusando heavy (fail-closed)'')
            else (let budget = go_div (wrap64 (memTotalMB - hostReserveMB)) maxHeavy in
                  if budget < 512
                  then Inl (msg (''host pequeno demais para '' @ show_int maxHeavy @ '' heavy: (MemTotal '' @ show_int memTotalMB @
                         ''MB - reserva '' @ show_int hostReserveMB @ ''MB)/'' @ show_int maxHeavy @ '' < piso 512MB''))
                  else Inr budget)))"

definition buildSystemdRunArgs :: "systemdRunSpec \<Rightarrow> string list" where
  "buildSystemdRunArgs spec =
     [''sudo'', ''systemd-run'', ''--collect''] @ (if sp_Unit spec \<noteq> [] then [''--unit='' @ sp_Unit spec] else []) @
     [''--pipe'', ''--wait'', ''-p'', ''User='' @ sp_User spec, ''-p'', ''Group='' @ sp_Group spec,
      ''-p'', ''MemoryMax='' @ show_int (sp_MemMB spec) @ ''M'', ''-p'', ''MemorySwapMax=0'', ''--''] @ sp_Cmd spec"

definition hostMemTotalMB :: "herr + string \<Rightarrow> int" where
  "hostMemTotalMB raw = (case mem_Sample raw of Inl _ \<Rightarrow> 0 | Inr mem \<Rightarrow> mi_MemTotalMB mem)"

definition cgroupMemoryEnforceable :: "herr + string \<Rightarrow> bool" where
  "cgroupMemoryEnforceable read = (case read of Inl _ \<Rightarrow> False | Inr s \<Rightarrow> ''memory'' \<in> set (str_fields s))"

text \<open>
  \<open>runUnderAdmission\<close>, with the goroutine \<open>forwardSignal\<close>: a signal that comes before the payload
  starts releases the admission and the payload starts all the same; a later one releases it and
  is forwarded, then the payload is waited for.
\<close>

definition runUnderAdmission :: "string \<Rightarrow> Admission \<Rightarrow> string list \<Rightarrow> (Admission \<times> int) admit_prog" where
  "runUnderAdmission user adm payload = Ask AskMeminfo (\<lambda>raw.
     case effectiveMemMB DefaultAdmitHeavyMaxMB (hostMemTotalMB (the_text raw)) DefaultAdmitHostReserveMB DefaultAdmitMaxHeavy of
       Inl err \<Rightarrow> Return (adm, 79)
     | Inr memMB \<Rightarrow> Ask AskSignal (\<lambda>early.
         and_then (if the_bool early then admit_Release adm else Return adm) (\<lambda>adm.
         Ask (AskStart \<lparr>sp_User = user, sp_Group = user, sp_MemMB = memMB, sp_Unit = ad_unit adm, sp_Cmd = payload\<rparr> (ad_slotPath adm)) (\<lambda>e.
           case the_err e of
             Some err \<Rightarrow> Return (adm, 79)
           | None \<Rightarrow> Ask AskWait (\<lambda>w.
               case the_exit w of
                 Some code \<Rightarrow> and_then (admit_Release adm) (\<lambda>adm. Return (adm, code))
               | None \<Rightarrow> and_then (admit_Release adm) (\<lambda>adm. Ask AskForward (\<lambda>_. Ask AskExit (\<lambda>c.
                   Return (adm, the_code c)))))))))"

definition admitAndRun :: "nat \<Rightarrow> int \<Rightarrow> string \<Rightarrow> string \<Rightarrow> string \<Rightarrow> int \<Rightarrow> string list \<Rightarrow> int option admit_prog" where
  "admitAndRun fuel pid user weight exclusive waitMin payload =
     (let opts = \<lparr>ao_MaxHeavy = DefaultAdmitMaxHeavy, ao_HeavyMaxMB = DefaultAdmitHeavyMaxMB, ao_SlotPrefix = DefaultAdmitSlotPathPrefix,
            ao_DockerSlotPath = DefaultAdmitDockerSlotPath, ao_Weight = weight, ao_Exclusive = exclusive,
            ao_WaitBudget = wrap64 (waitMin * minute), ao_Backoff = 0\<rparr>;
          admitted = and_then (admit_Acquire fuel opts pid) (\<lambda>a.
            case a of
              None \<Rightarrow> Return None
            | Some (Inl err) \<Rightarrow> Return (Some (if errors_Is err WaitBudgetExceeded then 78 else 79))
            | Some (Inr adm) \<Rightarrow> and_then (runUnderAdmission user adm payload) (\<lambda>(adm, code).
                and_then (admit_Release adm) (\<lambda>_. Return (Some code))))
      in if weight = ''heavy''
         then Ask (AskProvision (path_Dir DefaultAdmitSlotPathPrefix)) (\<lambda>e.
           case the_err e of
             Some err \<Rightarrow> Return (Some 79)
           | None \<Rightarrow> Ask AskControllers (\<lambda>c.
               if \<not> cgroupMemoryEnforceable (the_text c) then Return (Some 79) else admitted))
         else admitted)"

end
