(* ===== verification/Admit_Machine.thy ===== *)
theory Admit_Machine
  imports Admit
begin

text \<open>
  The machine the admissions run on: the lock table of the kernel, the slot files, the live
  processes and the heavy units systemd runs. A process is a pid with its start time; a pid may be
  used again, a pair never is. What may go wrong is a parameter: reads that fail, stops that do not
  stop, and a signal in the window before the payload starts.
\<close>

type_synonym proc = "int \<times> nat"

record heavy_unit =
  hu_unit :: string
  hu_slot :: string
  hu_starter :: proc
  hu_memMB :: int

record box =
  bx_lock :: "string \<Rightarrow> proc option"
  bx_slot :: "string \<Rightarrow> slot_text option"
  bx_live :: "int \<Rightarrow> nat option"
  bx_past :: "proc list"
  bx_units :: "heavy_unit list"

record admit_job =
  jb_fuel :: nat
  jb_user :: string
  jb_weight :: string
  jb_exclusive :: string
  jb_waitMin :: int
  jb_payload :: "string list"

record admit_host =
  ah_memTotalMB :: int
  ah_jobs :: "proc \<Rightarrow> admit_job"
  ah_read_fails :: bool
  ah_stop_fails :: bool
  ah_early_signal :: bool

definition live :: "proc \<Rightarrow> box \<Rightarrow> bool" where
  "live p s \<longleftrightarrow> bx_live s (fst p) = Some (snd p)"

definition admit_allowed :: "admit_host \<Rightarrow> proc \<Rightarrow> admit_call \<Rightarrow> admit_answer \<Rightarrow> box \<Rightarrow> bool" where
  "admit_allowed h p q r s =
     (case q of
        AskCtx \<Rightarrow> (case r of AnsCtx _ \<Rightarrow> True | _ \<Rightarrow> False)
      | AskNow \<Rightarrow> (case r of AnsTime _ \<Rightarrow> True | _ \<Rightarrow> False)
      | AskSleep _ \<Rightarrow> r = AnsNone
      | AskMeminfo \<Rightarrow>
          (case r of AnsText raw \<Rightarrow> (case mem_Sample raw of Inl _ \<Rightarrow> True | Inr m \<Rightarrow> mi_MemTotalMB m = ah_memTotalMB h) | _ \<Rightarrow> False)
      | AskFlock path \<Rightarrow> (case r of AnsErr e \<Rightarrow> e \<noteq> None \<or> bx_lock s path = None | _ \<Rightarrow> False)
      | AskUnlock _ \<Rightarrow> r = AnsNone
      | AskRead path \<Rightarrow>
          (case r of
             AnsSlot (Inr t) \<Rightarrow> bx_slot s path = Some t
           | AnsSlot (Inl err) \<Rightarrow> (if is_NotExist err then bx_slot s path = None else ah_read_fails h)
           | _ \<Rightarrow> False)
      | AskWrite path rec \<Rightarrow>
          (case r of AnsWrite None t \<Rightarrow> t = SlotRecord rec | AnsWrite (Some _) t \<Rightarrow> t \<in> {SlotBlank, SlotCorrupt, SlotRecord rec} | _ \<Rightarrow> False)
      | AskStop _ \<Rightarrow> (case r of AnsErr _ \<Rightarrow> True | _ \<Rightarrow> False)
      | AskAlive pid \<Rightarrow> r = AnsBool (bx_live s pid \<noteq> None)
      | AskTicks pid \<Rightarrow> (case r of AnsTicks (Inr t) \<Rightarrow> bx_live s pid = Some t | AnsTicks (Inl _) \<Rightarrow> bx_live s pid = None | _ \<Rightarrow> False)
      | AskProvision _ \<Rightarrow> (case r of AnsErr _ \<Rightarrow> True | _ \<Rightarrow> False)
      | AskControllers \<Rightarrow> (case r of AnsText _ \<Rightarrow> True | _ \<Rightarrow> False)
      | AskSignal \<Rightarrow> (case r of AnsBool b \<Rightarrow> b \<longrightarrow> ah_early_signal h | _ \<Rightarrow> False)
      | AskStart _ _ \<Rightarrow> (case r of AnsErr _ \<Rightarrow> True | _ \<Rightarrow> False)
      | AskForward \<Rightarrow> r = AnsNone
      | AskWait \<Rightarrow> (case r of AnsExit _ \<Rightarrow> True | _ \<Rightarrow> False)
      | AskExit \<Rightarrow> (case r of AnsCode _ \<Rightarrow> True | _ \<Rightarrow> False))"

definition admit_effect :: "admit_host \<Rightarrow> proc \<Rightarrow> admit_call \<Rightarrow> admit_answer \<Rightarrow> box \<Rightarrow> box" where
  "admit_effect h p q r s =
     (case q of
        AskFlock path \<Rightarrow> if r = AnsErr None then s\<lparr>bx_lock := (bx_lock s)(path \<mapsto> p)\<rparr> else s
      | AskUnlock path \<Rightarrow> if bx_lock s path = Some p then s\<lparr>bx_lock := (bx_lock s)(path := None)\<rparr> else s
      | AskWrite path rec \<Rightarrow> (case r of AnsWrite _ t \<Rightarrow> s\<lparr>bx_slot := (bx_slot s)(path \<mapsto> t)\<rparr> | _ \<Rightarrow> s)
      | AskStop unit \<Rightarrow>
          if r = AnsErr None \<or> \<not> ah_stop_fails h then s\<lparr>bx_units := filter (\<lambda>u. hu_unit u \<noteq> unit) (bx_units s)\<rparr> else s
      | AskStart spec slot \<Rightarrow>
          if r = AnsErr None \<and> slot \<noteq> []
          then s\<lparr>bx_units := bx_units s @ [\<lparr>hu_unit = sp_Unit spec, hu_slot = slot, hu_starter = p, hu_memMB = sp_MemMB spec\<rparr>]\<rparr> else s
      | _ \<Rightarrow> s)"

definition admit_can_start :: "proc \<Rightarrow> box \<Rightarrow> bool" where
  "admit_can_start p s \<longleftrightarrow> bx_live s (fst p) = None \<and> 0 < snd p \<and> p \<notin> set (bx_past s)"

definition admit_born :: "proc \<Rightarrow> box \<Rightarrow> box" where
  "admit_born p s = s\<lparr>bx_live := (bx_live s)(fst p \<mapsto> snd p), bx_past := p # bx_past s\<rparr>"

definition admit_dead :: "proc \<Rightarrow> box \<Rightarrow> box" where
  "admit_dead p s = s\<lparr>bx_live := (bx_live s)(fst p := None), bx_lock := (\<lambda>q. if bx_lock s q = Some p then None else bx_lock s q)\<rparr>"

text \<open>A payload ends by itself.\<close>

definition admit_env :: "string \<Rightarrow> box \<Rightarrow> box" where
  "admit_env unit s = s\<lparr>bx_units := filter (\<lambda>u. hu_unit u \<noteq> unit) (bx_units s)\<rparr>"

definition admit_main :: "admit_host \<Rightarrow> proc \<Rightarrow> int option admit_prog" where
  "admit_main h p =
     (let j = ah_jobs h p in
      admitAndRun (jb_fuel j) (fst p) (jb_user j) (jb_weight j) (jb_exclusive j) (jb_waitMin j) (jb_payload j))"

definition admit_machine :: "admit_host \<Rightarrow> (proc, admit_call, admit_answer, box, string, int option) machine" where
  "admit_machine h =
     \<lparr>mc_allowed = admit_allowed h, mc_effect = admit_effect h, mc_can_start = admit_can_start, mc_born = admit_born,
      mc_dead = admit_dead, mc_env = admit_env, mc_main = admit_main h\<rparr>"

definition empty_box :: box where
  "empty_box = \<lparr>bx_lock = (\<lambda>_. None), bx_slot = (\<lambda>_. None), bx_live = (\<lambda>_. None), bx_past = [], bx_units = []\<rparr>"

section \<open>What a process knows and holds\<close>

text \<open>
  The status of a lock that a process holds: just taken; a record of an earlier holder was read;
  no heavy unit of this slot runs; the own record is written; the own payload may run.
\<close>

datatype slot_status = Taken | Seen slotRecord | Cleared | Recorded slotRecord | Running slotRecord

type_synonym admit_ghost = "string \<Rightarrow> slot_status option"

definition heavy_slots :: "string set" where
  "heavy_slots = slotPathFor \<lparr>ao_MaxHeavy = DefaultAdmitMaxHeavy, ao_HeavyMaxMB = 0, ao_SlotPrefix = DefaultAdmitSlotPathPrefix,
     ao_DockerSlotPath = [], ao_Weight = [], ao_Exclusive = [], ao_WaitBudget = 0, ao_Backoff = 0\<rparr> ` {1..DefaultAdmitMaxHeavy}"

definition record_proc :: "slotRecord \<Rightarrow> proc" where
  "record_proc r = (sr_PID r, sr_PIDStartTicks r)"

definition wf_record :: "slotRecord \<Rightarrow> bool" where
  "wf_record r \<longleftrightarrow> sr_Unit r \<noteq> [] \<and> ValidateServiceUnit (sr_Unit r) = None \<and> 0 < sr_PIDStartTicks r"

definition no_unit_at :: "string \<Rightarrow> box \<Rightarrow> bool" where
  "no_unit_at q s \<longleftrightarrow> (\<forall>u \<in> set (bx_units s). hu_slot u \<noteq> q)"

definition status_ok :: "proc \<Rightarrow> string \<Rightarrow> slot_status \<Rightarrow> box \<Rightarrow> bool" where
  "status_ok p q st s =
     (case st of
        Taken \<Rightarrow> True
      | Seen r \<Rightarrow> bx_slot s q = Some (SlotRecord r)
      | Cleared \<Rightarrow> no_unit_at q s
      | Recorded r \<Rightarrow> no_unit_at q s \<and> bx_slot s q = Some (SlotRecord r) \<and> record_proc r = p
      | Running r \<Rightarrow> bx_slot s q = Some (SlotRecord r) \<and> record_proc r = p)"

definition admit_owns :: "proc \<Rightarrow> admit_ghost \<Rightarrow> box \<Rightarrow> bool" where
  "admit_owns p g s \<longleftrightarrow> live p s \<and> (\<forall>q. g q \<noteq> None \<longleftrightarrow> bx_lock s q = Some p) \<and>
     (\<forall>q st. g q = Some st \<longrightarrow> status_ok p q st s) \<and>
     (\<forall>u \<in> set (bx_units s). hu_starter u = p \<longrightarrow> (\<exists>r. g (hu_slot u) = Some (Running r)))"

definition heavy_mem :: "admit_host \<Rightarrow> herr + int" where
  "heavy_mem h = effectiveMemMB DefaultAdmitHeavyMaxMB (ah_memTotalMB h) DefaultAdmitHostReserveMB DefaultAdmitMaxHeavy"

definition unit_ok :: "admit_host \<Rightarrow> heavy_unit \<Rightarrow> box \<Rightarrow> bool" where
  "unit_ok h u s \<longleftrightarrow>
     (\<exists>r. bx_slot s (hu_slot u) = Some (SlotRecord r) \<and> sr_Unit r = hu_unit u \<and> record_proc r = hu_starter u) \<and>
     hu_slot u \<in> heavy_slots \<and> heavy_mem h = Inr (hu_memMB u) \<and>
     (live (hu_starter u) s \<longrightarrow> bx_lock s (hu_slot u) = Some (hu_starter u)) \<and> hu_starter u \<in> set (bx_past s)"

definition admit_inv :: "admit_host \<Rightarrow> box \<Rightarrow> bool" where
  "admit_inv h s \<longleftrightarrow>
     (\<forall>q p. bx_lock s q = Some p \<longrightarrow> live p s) \<and>
     (\<forall>u \<in> set (bx_units s). unit_ok h u s) \<and>
     (\<forall>q r. bx_slot s q = Some (SlotRecord r) \<longrightarrow> wf_record r) \<and>
     distinct (map hu_slot (bx_units s)) \<and>
     (\<forall>p. live p s \<longrightarrow> p \<in> set (bx_past s) \<and> 0 < snd p)"

definition admit_pre :: "admit_host \<Rightarrow> proc \<Rightarrow> admit_call \<Rightarrow> admit_ghost \<Rightarrow> bool" where
  "admit_pre h p q g =
     (case q of
        AskUnlock path \<Rightarrow> (case g path of None \<Rightarrow> False | Some (Running _) \<Rightarrow> False | Some _ \<Rightarrow> True)
      | AskWrite path rec \<Rightarrow> g path = Some Cleared \<and> wf_record rec \<and> record_proc rec = p
      | AskStart spec slot \<Rightarrow> slot = [] \<or>
          (\<exists>r. g slot = Some (Recorded r) \<and> sr_Unit r = sp_Unit spec \<and> slot \<in> heavy_slots \<and> heavy_mem h = Inr (sp_MemMB spec))
      | _ \<Rightarrow> True)"

definition admit_fits :: "admit_host \<Rightarrow> proc \<Rightarrow> admit_call \<Rightarrow> admit_ghost \<Rightarrow> admit_answer \<Rightarrow> bool" where
  "admit_fits h p q g r =
     (case q of
        AskMeminfo \<Rightarrow> (\<exists>raw. r = AnsText raw \<and> (case mem_Sample raw of Inl _ \<Rightarrow> True | Inr m \<Rightarrow> mi_MemTotalMB m = ah_memTotalMB h))
      | AskFlock path \<Rightarrow> (\<exists>e. r = AnsErr e \<and> (e = None \<longrightarrow> g path = None))
      | AskRead path \<Rightarrow>
          (\<exists>x. r = AnsSlot x \<and> (case x of Inl err \<Rightarrow> is_NotExist err | Inr (SlotRecord rec) \<Rightarrow> wf_record rec | Inr _ \<Rightarrow> True))
      | AskWrite path rec \<Rightarrow> (\<exists>e t. r = AnsWrite e t)
      | AskStop _ \<Rightarrow> (\<exists>e. r = AnsErr e)
      | AskTicks pid \<Rightarrow> (\<exists>x. r = AnsTicks x \<and> (pid = fst p \<longrightarrow> x = Inr (snd p) \<and> 0 < snd p))
      | AskAlive _ \<Rightarrow> (\<exists>b. r = AnsBool b)
      | AskSignal \<Rightarrow> r = AnsBool False
      | AskStart _ _ \<Rightarrow> (\<exists>e. r = AnsErr e)
      | _ \<Rightarrow> True)"

definition admit_gain :: "proc \<Rightarrow> admit_call \<Rightarrow> admit_answer \<Rightarrow> admit_ghost \<Rightarrow> admit_ghost" where
  "admit_gain p q r g =
     (case q of
        AskFlock path \<Rightarrow> if r = AnsErr None then g(path \<mapsto> Taken) else g
      | AskUnlock path \<Rightarrow> g(path := None)
      | AskRead path \<Rightarrow>
          if g path = Some Taken
          then (case the_slot r of Inr (SlotRecord rec) \<Rightarrow> g(path \<mapsto> Seen rec) | _ \<Rightarrow> g(path \<mapsto> Cleared)) else g
      | AskWrite path rec \<Rightarrow> if the_err r = None then g(path \<mapsto> Recorded rec) else g
      | AskStop unit \<Rightarrow>
          (\<lambda>q. case g q of
                 Some (Seen rec) \<Rightarrow> if sr_Unit rec = unit then Some Cleared else Some (Seen rec)
               | Some (Running rec) \<Rightarrow> if sr_Unit rec = unit then Some Cleared else Some (Running rec)
               | x \<Rightarrow> x)
      | AskTicks pid \<Rightarrow>
          (\<lambda>q. case g q of
                 Some (Seen rec) \<Rightarrow> if sr_PID rec = pid \<and> the_ticks r = Inr (sr_PIDStartTicks rec) then Some Cleared else Some (Seen rec)
               | x \<Rightarrow> x)
      | AskStart spec slot \<Rightarrow>
          if r = AnsErr None \<and> slot \<noteq> [] then (case g slot of Some (Recorded rec) \<Rightarrow> g(slot \<mapsto> Running rec) | _ \<Rightarrow> g) else g
      | _ \<Rightarrow> g)"

end
