(* ===== verification/Admit_Safety.thy ===== *)
theory Admit_Safety
  imports Admit_Machine
begin

text \<open>
  The calls of an admission keep the machine's invariant and what the other processes hold, so
  admissions that verify alone run together; and the program of \<open>civmctl admit\<close> verifies.
\<close>

definition reliable :: "admit_host \<Rightarrow> bool" where
  "reliable h \<longleftrightarrow> \<not> ah_read_fails h \<and> \<not> ah_stop_fails h \<and> \<not> ah_early_signal h"

named_theorems admit_call

section \<open>Ownership\<close>

lemma owns_lock: "admit_owns p g s \<Longrightarrow> bx_lock s q = Some p \<longleftrightarrow> g q \<noteq> None"
  by (simp add: admit_owns_def)

lemma owns_exclusive: "admit_owns p g s \<Longrightarrow> admit_owns p' g' s \<Longrightarrow> p' \<noteq> p \<Longrightarrow> g q = Some st \<Longrightarrow> g' q = None"
  using owns_lock [of p g s q] owns_lock [of p' g' s q] by auto

lemma owns_status: "admit_owns p g s \<Longrightarrow> g q = Some st \<Longrightarrow> status_ok p q st s"
  by (auto simp: admit_owns_def)

lemma owns_live: "admit_owns p g s \<Longrightarrow> live p s"
  by (simp add: admit_owns_def)

lemma owns_starter: "admit_owns p g s \<Longrightarrow> u \<in> set (bx_units s) \<Longrightarrow> hu_starter u = p \<Longrightarrow> \<exists>r. g (hu_slot u) = Some (Running r)"
  by (simp add: admit_owns_def)

lemma inv_unit: "admit_inv h s \<Longrightarrow> u \<in> set (bx_units s) \<Longrightarrow> unit_ok h u s"
  by (simp add: admit_inv_def)

lemma live_past: "admit_inv h s \<Longrightarrow> live p s \<Longrightarrow> p \<in> set (bx_past s) \<and> 0 < snd p"
  by (cases p) (simp add: admit_inv_def)

text \<open>A unit that runs in a slot another process has locked was started by a process that is gone.\<close>

lemma foreign_unit_orphaned:
  assumes "admit_inv h s" "admit_owns p g s" "g q = Some st" "\<And>r. st \<noteq> Running r" "u \<in> set (bx_units s)" "hu_slot u = q"
  shows "\<not> live (hu_starter u) s"
proof
  assume "live (hu_starter u) s"
  then have "bx_lock s q = Some (hu_starter u)" using inv_unit [OF assms(1,5)] assms(6) by (simp add: unit_ok_def)
  moreover have "bx_lock s q = Some p" using owns_lock [OF assms(2)] assms(3) by simp
  ultimately have "hu_starter u = p" by simp
  from owns_starter [OF assms(2,5) this] assms(3,4,6) show False by auto
qed

lemma lock_irrelevant [simp]:
  "live p (s\<lparr>bx_lock := l\<rparr>) = live p s" "no_unit_at q (s\<lparr>bx_lock := l\<rparr>) = no_unit_at q s"
  by (simp_all add: live_def no_unit_at_def)

lemma status_lock [simp]: "status_ok p q st (s\<lparr>bx_lock := l\<rparr>) = status_ok p q st s"
  by (cases st) (simp_all add: status_ok_def)

lemma slot_irrelevant [simp]:
  "live p (s\<lparr>bx_slot := l\<rparr>) = live p s" "no_unit_at q (s\<lparr>bx_slot := l\<rparr>) = no_unit_at q s"
  by (simp_all add: live_def no_unit_at_def)

lemma status_other_slot [simp]: "q \<noteq> path \<Longrightarrow> status_ok p q st (s\<lparr>bx_slot := (bx_slot s)(path := x)\<rparr>) = status_ok p q st s"
  by (cases st) (simp_all add: status_ok_def)

lemma live_units [simp]: "live p (s\<lparr>bx_units := us\<rparr>) = live p s"
  by (simp add: live_def)

text \<open>Fewer units, and the same otherwise: all knowledge stays true.\<close>

definition fewer_units :: "(heavy_unit \<Rightarrow> bool) \<Rightarrow> box \<Rightarrow> box" where
  "fewer_units P s = s\<lparr>bx_units := filter P (bx_units s)\<rparr>"

lemma status_fewer: "status_ok p q st s \<Longrightarrow> status_ok p q st (fewer_units P s)"
  by (auto simp: status_ok_def fewer_units_def no_unit_at_def split: slot_status.splits)

lemma owns_fewer: "admit_owns p g s \<Longrightarrow> admit_owns p g (fewer_units P s)"
  unfolding admit_owns_def using status_fewer by (auto simp: fewer_units_def live_def)

lemma inv_fewer: "admit_inv h s \<Longrightarrow> admit_inv h (fewer_units P s)"
  by (auto simp: admit_inv_def fewer_units_def unit_ok_def live_def distinct_map_filter)

text \<open>Learning that no unit of a held slot runs.\<close>

lemma owns_cleared:
  assumes "admit_owns p g s" "\<And>q. g' q = None \<longleftrightarrow> g q = None"
    "\<And>q st. g' q = Some st \<Longrightarrow> g q = Some st \<or> st = Cleared \<and> no_unit_at q s"
    "\<And>u. u \<in> set (bx_units s) \<Longrightarrow> hu_starter u = p \<Longrightarrow> \<exists>r. g' (hu_slot u) = Some (Running r)"
  shows "admit_owns p g' s"
proof -
  have "status_ok p q st s" if "g' q = Some st" for q st
    using assms(3) [OF that] owns_status [OF assms(1), of q st] by (auto simp: status_ok_def)
  then show ?thesis using assms(1,4) unfolding admit_owns_def assms(2) by blast
qed

section \<open>The calls\<close>

definition call_ok :: "admit_host \<Rightarrow> admit_call \<Rightarrow> bool" where
  "call_ok h q \<longleftrightarrow> (\<forall>s p g r. admit_inv h s \<longrightarrow> admit_owns p g s \<longrightarrow> admit_pre h p q g \<longrightarrow> admit_allowed h p q r s \<longrightarrow>
     admit_fits h p q g r \<and> admit_inv h (admit_effect h p q r s) \<and> admit_owns p (admit_gain p q r g) (admit_effect h p q r s) \<and>
     (\<forall>p' g'. p' \<noteq> p \<longrightarrow> admit_owns p' g' s \<longrightarrow> admit_owns p' g' (admit_effect h p q r s)))"

lemma call_okI [intro?]:
  assumes "\<And>s p g r. \<lbrakk>admit_inv h s; admit_owns p g s; admit_pre h p q g; admit_allowed h p q r s\<rbrakk> \<Longrightarrow> admit_fits h p q g r"
    "\<And>s p g r. \<lbrakk>admit_inv h s; admit_owns p g s; admit_pre h p q g; admit_allowed h p q r s\<rbrakk> \<Longrightarrow> admit_inv h (admit_effect h p q r s)"
    "\<And>s p g r. \<lbrakk>admit_inv h s; admit_owns p g s; admit_pre h p q g; admit_allowed h p q r s\<rbrakk> \<Longrightarrow>
       admit_owns p (admit_gain p q r g) (admit_effect h p q r s)"
    "\<And>s p g r p' g'. \<lbrakk>admit_inv h s; admit_owns p g s; admit_pre h p q g; admit_allowed h p q r s; p' \<noteq> p; admit_owns p' g' s\<rbrakk> \<Longrightarrow>
       admit_owns p' g' (admit_effect h p q r s)"
  shows "call_ok h q"
  unfolding call_ok_def using assms by blast

text \<open>Calls that only ask.\<close>

lemma quiet_call:
  assumes "\<And>p r s. admit_effect h p q r s = s" "\<And>p r g. admit_gain p q r g = g"
    "\<And>p g r s. admit_allowed h p q r s \<Longrightarrow> admit_fits h p q g r"
  shows "call_ok h q"
  by rule (use assms in \<open>simp_all\<close>)

lemma quiet_calls [admit_call]:
  "call_ok h AskCtx" "call_ok h AskNow" "call_ok h (AskSleep d)" "call_ok h AskMeminfo" "call_ok h (AskAlive pid)" "call_ok h (AskProvision path)"
  "call_ok h AskControllers" "call_ok h AskForward" "call_ok h AskWait" "call_ok h AskExit"
  by (rule quiet_call; simp add: admit_effect_def admit_gain_def admit_fits_def admit_allowed_def split: admit_answer.splits)+

lemma signal_call [admit_call]: "reliable h \<Longrightarrow> call_ok h AskSignal"
  by (rule quiet_call; simp add: admit_effect_def admit_gain_def admit_fits_def admit_allowed_def reliable_def split: admit_answer.splits)

lemma flock_call [admit_call]: "call_ok h (AskFlock path)"
proof
  fix s p g r p' g'
  assume inv: "admit_inv h s" and own: "admit_owns p g s" and "admit_pre h p (AskFlock path) g" and ok: "admit_allowed h p (AskFlock path) r s"
  obtain e where r: "r = AnsErr e" and free: "e = None \<Longrightarrow> bx_lock s path = None"
    using ok by (auto simp: admit_allowed_def split: admit_answer.splits)
  have mine: "e = None \<Longrightarrow> g path = None" using free owns_lock [OF own, of path] by auto
  then show "admit_fits h p (AskFlock path) g r" by (simp add: admit_fits_def r)
  have live: "live p s" using own by (rule owns_live)
  have unit: "unit_ok h u s \<Longrightarrow> e = None \<Longrightarrow> unit_ok h u (s\<lparr>bx_lock := (bx_lock s)(path \<mapsto> p)\<rparr>)" for u
    using free by (auto simp: unit_ok_def)
  show "admit_inv h (admit_effect h p (AskFlock path) r s)"
    using inv live unit by (auto simp: admit_effect_def r admit_inv_def)
  have "status_ok p q Taken s" for q by (simp add: status_ok_def)
  then show "admit_owns p (admit_gain p (AskFlock path) r g) (admit_effect h p (AskFlock path) r s)"
    using own mine by (auto simp: admit_effect_def admit_gain_def r admit_owns_def)
  assume "p' \<noteq> p" "admit_owns p' g' s"
  then show "admit_owns p' g' (admit_effect h p (AskFlock path) r s)"
    using free by (auto simp: admit_effect_def r admit_owns_def)
qed

lemma unlock_call [admit_call]: "call_ok h (AskUnlock path)"
proof
  fix s p g r p' g'
  assume inv: "admit_inv h s" and own: "admit_owns p g s" and pre: "admit_pre h p (AskUnlock path) g" and ok: "admit_allowed h p (AskUnlock path) r s"
  show "admit_fits h p (AskUnlock path) g r" by (simp add: admit_fits_def)
  obtain st where st: "g path = Some st" "\<And>r. st \<noteq> Running r" using pre by (auto simp: admit_pre_def split: option.splits slot_status.splits)
  then have lock: "bx_lock s path = Some p" using owns_lock [OF own] by simp
  have eff: "admit_effect h p (AskUnlock path) r s = s\<lparr>bx_lock := (bx_lock s)(path := None)\<rparr>" using lock by (simp add: admit_effect_def)
  have "unit_ok h u (s\<lparr>bx_lock := (bx_lock s)(path := None)\<rparr>)" if "u \<in> set (bx_units s)" for u
    using inv_unit [OF inv that] foreign_unit_orphaned [OF inv own st that] by (auto simp: unit_ok_def)
  then show "admit_inv h (admit_effect h p (AskUnlock path) r s)" using inv unfolding eff by (auto simp: admit_inv_def)
  have "\<exists>r. (g(path := None)) (hu_slot u) = Some (Running r)" if "u \<in> set (bx_units s)" "hu_starter u = p" for u
    using owns_starter [OF own that] st by (metis fun_upd_apply option.inject)
  then show "admit_owns p (admit_gain p (AskUnlock path) r g) (admit_effect h p (AskUnlock path) r s)"
    using own unfolding eff by (auto simp: admit_gain_def admit_owns_def)
  assume "p' \<noteq> p" "admit_owns p' g' s"
  then show "admit_owns p' g' (admit_effect h p (AskUnlock path) r s)" unfolding eff using lock by (auto simp: admit_owns_def)
qed

lemma read_call [admit_call]: "reliable h \<Longrightarrow> call_ok h (AskRead path)"
proof
  fix s p g r p' g'
  assume rel: "reliable h"
  assume inv: "admit_inv h s" and own: "admit_owns p g s" and "admit_pre h p (AskRead path) g" and ok: "admit_allowed h p (AskRead path) r s"
  have eff: "admit_effect h p (AskRead path) r s = s" by (simp add: admit_effect_def)
  show "admit_inv h (admit_effect h p (AskRead path) r s)" using inv by (simp add: eff)
  show "admit_owns p' g' (admit_effect h p (AskRead path) r s)" if "p' \<noteq> p" "admit_owns p' g' s" using that by (simp add: eff)
  obtain x where r: "r = AnsSlot x" using ok by (auto simp: admit_allowed_def split: admit_answer.splits)
  have x: "case x of Inr t \<Rightarrow> bx_slot s path = Some t | Inl err \<Rightarrow> is_NotExist err \<and> bx_slot s path = None"
    using ok rel by (auto simp: admit_allowed_def r reliable_def split: sum.splits if_splits)
  show "admit_fits h p (AskRead path) g r"
    using x inv by (auto simp: admit_fits_def r admit_inv_def split: sum.splits slot_text.splits)
  have blank: "no_unit_at path s" if "\<And>rec. bx_slot s path \<noteq> Some (SlotRecord rec)"
    using inv_unit [OF inv] that by (fastforce simp: no_unit_at_def unit_ok_def)
  have "status_ok p path (case x of Inr (SlotRecord rec) \<Rightarrow> Seen rec | _ \<Rightarrow> Cleared) s"
    using x blank by (auto simp: status_ok_def split: sum.splits slot_text.splits)
  then show "admit_owns p (admit_gain p (AskRead path) r g) (admit_effect h p (AskRead path) r s)"
    using own unfolding eff by (auto simp: admit_gain_def r admit_owns_def split: sum.splits slot_text.splits if_splits)
qed

lemma write_call [admit_call]: "call_ok h (AskWrite path rec)"
proof
  fix s p g r p' g'
  assume inv: "admit_inv h s" and own: "admit_owns p g s" and pre: "admit_pre h p (AskWrite path rec) g" and ok: "admit_allowed h p (AskWrite path rec) r s"
  obtain e x where r: "r = AnsWrite e x" and x: "x \<in> {SlotBlank, SlotCorrupt, SlotRecord rec}" "e = None \<Longrightarrow> x = SlotRecord rec"
    using ok by (auto simp: admit_allowed_def split: admit_answer.splits option.splits)
  have eff: "admit_effect h p (AskWrite path rec) r s = s\<lparr>bx_slot := (bx_slot s)(path \<mapsto> x)\<rparr>" by (simp add: admit_effect_def r)
  have g: "g path = Some Cleared" and rec: "wf_record rec" "record_proc rec = p" using pre by (auto simp: admit_pre_def)
  have none: "no_unit_at path s" using owns_status [OF own g] by (simp add: status_ok_def)
  show "admit_fits h p (AskWrite path rec) g r" by (simp add: admit_fits_def r)
  have "unit_ok h u (s\<lparr>bx_slot := (bx_slot s)(path \<mapsto> x)\<rparr>)" if "u \<in> set (bx_units s)" for u
    using inv_unit [OF inv that] none that by (auto simp: unit_ok_def no_unit_at_def)
  then show "admit_inv h (admit_effect h p (AskWrite path rec) r s)"
    using inv x(1) rec unfolding eff by (auto simp: admit_inv_def)
  have "status_ok p path (if e = None then Recorded rec else Cleared) (s\<lparr>bx_slot := (bx_slot s)(path \<mapsto> x)\<rparr>)"
    using none rec x(2) by (auto simp: status_ok_def no_unit_at_def)
  then have "status_ok p q st (s\<lparr>bx_slot := (bx_slot s)(path \<mapsto> x)\<rparr>)"
    if "(g(path \<mapsto> if e = None then Recorded rec else Cleared)) q = Some st" for q st
    using owns_status [OF own, of q st] that by (cases "q = path") auto
  moreover have "admit_gain p (AskWrite path rec) r g = g(path \<mapsto> if e = None then Recorded rec else Cleared)"
    using g by (auto simp: admit_gain_def r)
  ultimately show "admit_owns p (admit_gain p (AskWrite path rec) r g) (admit_effect h p (AskWrite path rec) r s)"
    using own g unfolding eff admit_owns_def by auto
  assume other: "p' \<noteq> p" "admit_owns p' g' s"
  have "g' path = None" using owns_exclusive [OF own other(2,1) g] .
  then show "admit_owns p' g' (admit_effect h p (AskWrite path rec) r s)"
    using other(2) unfolding eff by (auto simp: admit_owns_def) (metis option.distinct(1) status_other_slot)
qed

lemma stop_call [admit_call]: "reliable h \<Longrightarrow> call_ok h (AskStop unit)"
proof
  fix s p g r p' g'
  assume rel: "reliable h"
  assume inv: "admit_inv h s" and own: "admit_owns p g s" and "admit_pre h p (AskStop unit) g" and ok: "admit_allowed h p (AskStop unit) r s"
  have eff: "admit_effect h p (AskStop unit) r s = fewer_units (\<lambda>u. hu_unit u \<noteq> unit) s"
    using rel by (simp add: admit_effect_def fewer_units_def reliable_def)
  show "admit_fits h p (AskStop unit) g r" using ok by (auto simp: admit_fits_def admit_allowed_def split: admit_answer.splits)
  show "admit_inv h (admit_effect h p (AskStop unit) r s)" unfolding eff using inv by (rule inv_fewer)
  show "admit_owns p' g' (admit_effect h p (AskStop unit) r s)" if "p' \<noteq> p" "admit_owns p' g' s"
    unfolding eff using that(2) by (rule owns_fewer)
  let ?t = "fewer_units (\<lambda>u. hu_unit u \<noteq> unit) s"
  have own': "admit_owns p g ?t" using own by (rule owns_fewer)
  have stopped: "no_unit_at q ?t" if "bx_slot s q = Some (SlotRecord rec)" "sr_Unit rec = unit" for q rec
    using inv_unit [OF inv] that by (fastforce simp: no_unit_at_def fewer_units_def unit_ok_def)
  have same: "admit_gain p (AskStop unit) r g q = Some st \<Longrightarrow> g q = Some st \<or> (st = Cleared \<and> no_unit_at q ?t)" for q st
    using owns_status [OF own, of q] stopped [of q]
    by (auto simp: admit_gain_def status_ok_def split: option.splits slot_status.splits if_splits)
  have running: "\<exists>rec. admit_gain p (AskStop unit) r g (hu_slot u) = Some (Running rec)" if u: "u \<in> set (bx_units ?t)" "hu_starter u = p" for u
  proof -
    obtain rec where rec: "g (hu_slot u) = Some (Running rec)" using owns_starter [OF own' u] by blast
    then have "sr_Unit rec \<noteq> unit"
      using owns_status [OF own] stopped u(1) by (fastforce simp: status_ok_def no_unit_at_def)
    then show ?thesis using rec by (simp add: admit_gain_def)
  qed
  have dom: "admit_gain p (AskStop unit) r g q = None \<longleftrightarrow> g q = None" for q
    by (auto simp: admit_gain_def split: option.splits slot_status.splits if_splits)
  show "admit_owns p (admit_gain p (AskStop unit) r g) (admit_effect h p (AskStop unit) r s)"
    unfolding eff using own' dom same running by (rule owns_cleared)
qed

lemma ticks_call [admit_call]: "call_ok h (AskTicks pid)"
proof
  fix s p g r p' g'
  assume inv: "admit_inv h s" and own: "admit_owns p g s" and "admit_pre h p (AskTicks pid) g" and ok: "admit_allowed h p (AskTicks pid) r s"
  have eff: "admit_effect h p (AskTicks pid) r s = s" by (simp add: admit_effect_def)
  show "admit_inv h (admit_effect h p (AskTicks pid) r s)" using inv by (simp add: eff)
  show "admit_owns p' g' (admit_effect h p (AskTicks pid) r s)" if "p' \<noteq> p" "admit_owns p' g' s" using that by (simp add: eff)
  obtain x where r: "r = AnsTicks x" and x: "case x of Inr t \<Rightarrow> bx_live s pid = Some t | Inl _ \<Rightarrow> bx_live s pid = None"
    using ok by (auto simp: admit_allowed_def split: admit_answer.splits sum.splits)
  have "live p s" using own by (rule owns_live)
  then show "admit_fits h p (AskTicks pid) g r"
    using x inv by (auto simp: admit_fits_def r admit_inv_def live_def split: sum.splits)
  have clear: "no_unit_at q s" if q: "g q = Some (Seen rec)" and ticks: "sr_PID rec = pid" "x = Inr (sr_PIDStartTicks rec)" for q rec
  proof -
    have "live (record_proc rec) s" using x ticks by (simp add: live_def record_proc_def)
    moreover have "bx_slot s q = Some (SlotRecord rec)" using owns_status [OF own q] by (simp add: status_ok_def)
    ultimately show ?thesis
      using foreign_unit_orphaned [OF inv own q] inv_unit [OF inv] by (fastforce simp: no_unit_at_def unit_ok_def)
  qed
  have same: "admit_gain p (AskTicks pid) r g q = Some st \<Longrightarrow> g q = Some st \<or> (st = Cleared \<and> no_unit_at q s)" for q st
    using clear [of q] by (auto simp: admit_gain_def r split: option.splits slot_status.splits if_splits)
  have running: "\<exists>rec. admit_gain p (AskTicks pid) r g (hu_slot u) = Some (Running rec)" if "u \<in> set (bx_units s)" "hu_starter u = p" for u
    using owns_starter [OF own that] by (auto simp: admit_gain_def)
  have dom: "admit_gain p (AskTicks pid) r g q = None \<longleftrightarrow> g q = None" for q
    by (auto simp: admit_gain_def split: option.splits slot_status.splits if_splits)
  show "admit_owns p (admit_gain p (AskTicks pid) r g) (admit_effect h p (AskTicks pid) r s)"
    unfolding eff using own dom same running by (rule owns_cleared)
qed

lemma start_call [admit_call]: "call_ok h (AskStart spec slot)"
proof
  fix s p g r p' g'
  assume inv: "admit_inv h s" and own: "admit_owns p g s" and pre: "admit_pre h p (AskStart spec slot) g"
    and ok: "admit_allowed h p (AskStart spec slot) r s"
  show "admit_fits h p (AskStart spec slot) g r" using ok by (auto simp: admit_fits_def admit_allowed_def split: admit_answer.splits)
  have quiet: "admit_effect h p (AskStart spec slot) r s = s \<and> admit_gain p (AskStart spec slot) r g = g" if "\<not> (r = AnsErr None \<and> slot \<noteq> [])"
    using that by (auto simp: admit_effect_def admit_gain_def)
  define u where "u = \<lparr>hu_unit = sp_Unit spec, hu_slot = slot, hu_starter = p, hu_memMB = sp_MemMB spec\<rparr>"
  have slot_u: "hu_slot u = slot" by (simp add: u_def)
  define t where "t = s\<lparr>bx_units := bx_units s @ [u]\<rparr>"
  have eff: "admit_effect h p (AskStart spec slot) r s = t" if "r = AnsErr None \<and> slot \<noteq> []"
    using that by (simp add: admit_effect_def t_def u_def)
  have rec: "\<exists>rec. g slot = Some (Recorded rec) \<and> sr_Unit rec = sp_Unit spec" if "r = AnsErr None \<and> slot \<noteq> []"
    using pre that by (auto simp: admit_pre_def)
  have none: "no_unit_at slot s" if "g slot = Some (Recorded rec)" for rec
    using owns_status [OF own that] by (simp add: status_ok_def)
  have unit: "unit_ok h x t" if "x \<in> set (bx_units s)" for x
    using inv_unit [OF inv that] by (simp add: unit_ok_def t_def)
  have mine: "unit_ok h u t" if "g slot = Some (Recorded rec)" "sr_Unit rec = sp_Unit spec" "slot \<noteq> []" for rec
    using pre that owns_status [OF own that(1)] owns_lock [OF own, of slot] live_past [OF inv owns_live [OF own]]
    by (auto simp: unit_ok_def t_def u_def status_ok_def admit_pre_def)
  show "admit_inv h (admit_effect h p (AskStart spec slot) r s)"
  proof (cases "r = AnsErr None \<and> slot \<noteq> []")
    case True
    then show ?thesis
      using rec none unit mine inv unfolding eff [OF True] by (auto simp: admit_inv_def t_def u_def no_unit_at_def)
  qed (simp add: quiet inv)
  have keep: "status_ok x q st t" if "status_ok x q st s" "q \<noteq> slot" for x q st
    using that by (cases st) (simp_all add: status_ok_def t_def no_unit_at_def u_def)
  show "admit_owns p (admit_gain p (AskStart spec slot) r g) (admit_effect h p (AskStart spec slot) r s)"
  proof (cases "r = AnsErr None \<and> slot \<noteq> []")
    case True
    then obtain rec where g: "g slot = Some (Recorded rec)" using rec by blast
    have "admit_gain p (AskStart spec slot) r g = g(slot \<mapsto> Running rec)" using True g by (simp add: admit_gain_def)
    moreover have "status_ok p slot (Running rec) t" using owns_status [OF own g] by (simp add: status_ok_def t_def)
    moreover have "\<exists>rec'. (g(slot \<mapsto> Running rec)) (hu_slot x) = Some (Running rec')" if "x \<in> set (bx_units t)" "hu_starter x = p" for x
      using that owns_starter [OF own, of x] slot_u by (auto simp: t_def)
    ultimately show ?thesis
      unfolding eff [OF True] using own keep g by (auto simp: admit_owns_def t_def)
  qed (simp add: quiet own)
  assume other: "p' \<noteq> p" "admit_owns p' g' s"
  show "admit_owns p' g' (admit_effect h p (AskStart spec slot) r s)"
  proof (cases "r = AnsErr None \<and> slot \<noteq> []")
    case True
    then obtain rec where "g slot = Some (Recorded rec)" using rec by blast
    then have "g' slot = None" using owns_exclusive [OF own other(2,1)] by blast
    then have "status_ok p' q st t" if "g' q = Some st" for q st
      using keep owns_status [OF other(2) that] that by (cases "q = slot") auto
    then show ?thesis
      unfolding eff [OF True] using other by (auto simp: admit_owns_def t_def u_def)
  qed (simp add: quiet other)
qed

lemma every_call: "reliable h \<Longrightarrow> call_ok h q"
  by (cases q) (auto intro: admit_call)

lemma dead_ok:
  assumes inv: "admit_inv h s" and own: "admit_owns p g s"
  shows "admit_inv h (admit_dead p s)" and "p' \<noteq> p \<Longrightarrow> admit_owns p' g' s \<Longrightarrow> admit_owns p' g' (admit_dead p s)"
proof -
  have other: "live x (admit_dead p s) \<longleftrightarrow> live x s \<and> x \<noteq> p" for x
    using owns_live [OF own] by (cases x; cases p) (auto simp: live_def admit_dead_def)
  have same: "bx_units (admit_dead p s) = bx_units s" "bx_slot (admit_dead p s) = bx_slot s" "bx_past (admit_dead p s) = bx_past s"
    by (simp_all add: admit_dead_def)
  have lock: "bx_lock (admit_dead p s) q = Some x \<longleftrightarrow> bx_lock s q = Some x \<and> x \<noteq> p" for q x
    by (auto simp: admit_dead_def)
  show "admit_inv h (admit_dead p s)"
    using inv unfolding admit_inv_def unit_ok_def other same lock by blast
  assume "p' \<noteq> p" "admit_owns p' g' s"
  moreover have "status_ok x q st (admit_dead p s) = status_ok x q st s" for x q st
    by (cases st) (simp_all add: status_ok_def no_unit_at_def same)
  ultimately show "admit_owns p' g' (admit_dead p s)"
    unfolding admit_owns_def other same lock by simp
qed

lemma born_ok:
  assumes inv: "admit_inv h s" and start: "admit_can_start p s"
  shows "admit_inv h (admit_born p s)" and "admit_owns p (\<lambda>_. None) (admit_born p s)"
    and "p' \<noteq> p \<Longrightarrow> admit_owns p' g' s \<Longrightarrow> admit_owns p' g' (admit_born p s)"
proof -
  have live: "live x (admit_born p s) \<longleftrightarrow> live x s \<or> x = p" for x
    using start by (cases x; cases p) (auto simp: live_def admit_born_def admit_can_start_def)
  have same: "bx_units (admit_born p s) = bx_units s" "bx_slot (admit_born p s) = bx_slot s" "bx_lock (admit_born p s) = bx_lock s"
    and past: "bx_past (admit_born p s) = p # bx_past s"
    by (simp_all add: admit_born_def)
  have new: "p \<notin> set (bx_past s)" "0 < snd p" using start by (simp_all add: admit_can_start_def)
  have fresh: "\<not> live p s" using live_past [OF inv] new by blast
  have nolock: "bx_lock s q \<noteq> Some p" for q using inv fresh unfolding admit_inv_def by blast
  have nounit: "hu_starter u \<noteq> p" if "u \<in> set (bx_units s)" for u
    using inv_unit [OF inv that] new by (auto simp: unit_ok_def)
  have "unit_ok h u (admit_born p s)" if "u \<in> set (bx_units s)" for u
    using inv_unit [OF inv that] nounit [OF that] unfolding unit_ok_def live same past by auto
  then show "admit_inv h (admit_born p s)"
    using inv new unfolding admit_inv_def live same past by auto
  show "admit_owns p (\<lambda>_. None) (admit_born p s)"
    unfolding admit_owns_def live same using nolock nounit by auto
  assume "p' \<noteq> p" "admit_owns p' g' s"
  moreover have "status_ok x q st (admit_born p s) = status_ok x q st s" for x q st
    by (cases st) (simp_all add: status_ok_def no_unit_at_def same)
  ultimately show "admit_owns p' g' (admit_born p s)" unfolding admit_owns_def live same by simp
qed

lemma env_ok:
  "admit_inv h s \<Longrightarrow> admit_inv h (admit_env e s)" "admit_owns p g s \<Longrightarrow> admit_owns p g (admit_env e s)"
  using inv_fewer [of h s "\<lambda>u. hu_unit u \<noteq> e"] owns_fewer [of p g s "\<lambda>u. hu_unit u \<noteq> e"] by (simp_all add: admit_env_def fewer_units_def)

section \<open>The program\<close>

abbreviation vp :: "admit_host \<Rightarrow> proc \<Rightarrow> 'a admit_prog \<Rightarrow> ('a \<Rightarrow> admit_ghost \<Rightarrow> bool) \<Rightarrow> admit_ghost \<Rightarrow> bool" where
  "vp h p \<equiv> gwp (admit_pre h p) (admit_fits h p) (admit_gain p)"

text \<open>A process holds one slot, and the docker sub-slot if it has it.\<close>

definition holding :: "string \<Rightarrow> slot_status \<Rightarrow> string option \<Rightarrow> admit_ghost" where
  "holding q st d = (\<lambda>x. if x = q then Some st else if d = Some x then Some Taken else None)"

lemma contains_pair: "contains s [c, c] \<Longrightarrow> 2 \<le> length (filter (\<lambda>x. x = c) s)"
  by (induction s) (auto simp: has_prefix_iff prefix_def)

lemma show_nat_digits: "list_all is_digit (show_nat n)"
proof (induction n rule: show_nat.induct)
  case (1 n)
  have "is_digit (char_of (48 + m))" if "m < 10" for m :: nat
    using that by (simp add: is_digit_def char_between_def)
  then show ?case using 1 by (subst show_nat.simps) simp
qed

lemma show_int_chars: "list_all (\<lambda>c. is_digit c \<or> c = CHR ''-'') (show_int i)"
  using show_nat_digits by (auto simp: show_int_def list_all_iff)

lemma fallback_valid: "ValidateServiceUnit (''civm-admit-'' @ show_int pid @ ''.service'') = None"
proof -
  have chars: "list_all (\<lambda>c. is_alnum c \<or> one_of ''_.@-'' c) (show_int pid)"
    using show_int_chars [of pid] by (auto simp: list_all_iff is_alnum_def one_of_def)
  have "filter (\<lambda>x. x = CHR ''.'') (show_int pid) = []"
    using show_int_chars [of pid] by (auto simp: list_all_iff filter_empty_conv is_digit_def char_between_def)
  then have dots: "\<not> contains (''civm-admit-'' @ show_int pid @ ''.service'') ''..''"
    using contains_pair [of "''civm-admit-'' @ show_int pid @ ''.service''" "CHR ''.''"] by auto
  have "has_suffix ((''civm-admit-'' @ show_int pid) @ ''.service'') ''.service''" by (simp only: has_suffix_iff suffix_def) blast
  then have "unitRe (''civm-admit-'' @ show_int pid @ ''.service'')"
    using chars by (simp add: unitRe_def is_alnum_def is_lower_def char_between_def one_of_def)
  then show ?thesis using dots by (simp add: ValidateServiceUnit_def)
qed

lemma unitNameFor_valid [simp]: "unitNameFor q pid \<noteq> []" "ValidateServiceUnit (unitNameFor q pid) = None"
  using fallback_valid [of pid] by (auto simp: unitNameFor_def Let_def)

lemma vp_stopUnit:
  "vp h p (stopUnit u) Q g = (if u = [] \<or> ValidateServiceUnit u \<noteq> None then Q () g else Q () (admit_gain p (AskStop u) (AnsErr None) g))"
  by (auto simp: stopUnit_def admit_pre_def admit_fits_def admit_gain_def)

lemma stop_gain_holding:
  "admit_gain p (AskStop u) r (holding q st d) =
     holding q (case st of Seen rec \<Rightarrow> if sr_Unit rec = u then Cleared else st | Running rec \<Rightarrow> if sr_Unit rec = u then Cleared else st | _ \<Rightarrow> st) d"
  by (auto simp: admit_gain_def holding_def fun_eq_iff split: slot_status.split)

lemma ticks_gain_holding:
  "admit_gain p (AskTicks pid) r (holding q st d) =
     holding q (case st of Seen rec \<Rightarrow> if sr_PID rec = pid \<and> the_ticks r = Inr (sr_PIDStartTicks rec) then Cleared else st | _ \<Rightarrow> st) d"
  by (auto simp: admit_gain_def holding_def fun_eq_iff split: slot_status.split)

lemma holding_self [simp]: "holding q st d q = Some st"
  by (simp add: holding_def)

lemma holding_upd [simp]: "(holding q st d)(q \<mapsto> st') = holding q st' d"
  by (auto simp: holding_def)

lemma holding_drop [simp]: "(holding q st None)(q := None) = (\<lambda>_. None)"
  by (auto simp: holding_def)

text \<open>One rule for each call that tells the process something.\<close>

lemma vp_quiet:
  assumes "\<And>r. admit_fits h p q g r \<Longrightarrow> vp h p (k r) Q g"
    and "q \<in> {AskCtx, AskNow, AskSleep d, AskMeminfo, AskAlive pid, AskProvision path, AskControllers, AskSignal, AskForward, AskWait, AskExit}"
  shows "vp h p (Ask q k) Q g"
  using assms(2) by (intro gwp.simps(2) [THEN iffD2]) (auto simp: admit_pre_def admit_gain_def intro!: assms(1))

lemma vp_read:
  assumes "\<And>err. is_NotExist err \<Longrightarrow> vp h p (k (AnsSlot (Inl err))) Q (holding q Cleared None)"
    "vp h p (k (AnsSlot (Inr SlotBlank))) Q (holding q Cleared None)" "vp h p (k (AnsSlot (Inr SlotCorrupt))) Q (holding q Cleared None)"
    "\<And>rec. wf_record rec \<Longrightarrow> vp h p (k (AnsSlot (Inr (SlotRecord rec)))) Q (holding q (Seen rec) None)"
  shows "vp h p (Ask (AskRead q) k) Q (holding q Taken None)"
proof -
  have "vp h p (k r) Q (admit_gain p (AskRead q) r (holding q Taken None))" if fits: "admit_fits h p (AskRead q) (holding q Taken None) r" for r
  proof -
    obtain x where r: "r = AnsSlot x" and x: "case x of Inl err \<Rightarrow> is_NotExist err | Inr (SlotRecord rec) \<Rightarrow> wf_record rec | Inr _ \<Rightarrow> True"
      using fits by (auto simp: admit_fits_def)
    show ?thesis using x assms by (auto simp: r admit_gain_def split: sum.splits slot_text.splits)
  qed
  then show ?thesis by (simp add: admit_pre_def)
qed

lemma vp_seen_ticks:
  assumes "\<And>x. x \<noteq> Inr (sr_PIDStartTicks rec) \<Longrightarrow> vp h p (k (AnsTicks x)) Q (holding q (Seen rec) d)"
    "vp h p (k (AnsTicks (Inr (sr_PIDStartTicks rec)))) Q (holding q Cleared d)"
  shows "vp h p (Ask (AskTicks (sr_PID rec)) k) Q (holding q (Seen rec) d)"
  using assms by (auto simp: admit_pre_def admit_fits_def ticks_gain_holding)

lemma vp_own_ticks:
  assumes "0 < snd p \<Longrightarrow> vp h p (k (AnsTicks (Inr (snd p)))) Q (holding q Cleared d)"
  shows "vp h p (Ask (AskTicks (fst p)) k) Q (holding q Cleared d)"
  using assms by (auto simp: admit_pre_def admit_fits_def ticks_gain_holding)

lemma case_ticks: "(case x of Inl _ \<Rightarrow> False | Inr t \<Rightarrow> t = n) \<longleftrightarrow> x = Inr n"
  by (cases x) auto

lemma vp_isHolderAlive:
  assumes "Q False (holding q (Seen rec) None)" "Q True (holding q Cleared None)" "0 < sr_PIDStartTicks rec"
  shows "vp h p (isHolderAlive rec) Q (holding q (Seen rec) None)"
  unfolding isHolderAlive_def
proof (rule vp_quiet)
  show "vp h p (if \<not> the_bool r then Return False else if sr_PIDStartTicks rec = 0 then Return True
      else Ask (AskTicks (sr_PID rec)) (\<lambda>r. Return (case the_ticks r of Inl _ \<Rightarrow> False | Inr ticks \<Rightarrow> ticks = sr_PIDStartTicks rec)))
      Q (holding q (Seen rec) None)" for r
    using assms by (auto intro!: vp_seen_ticks simp: case_ticks simp del: gwp.simps(2))
qed simp

lemma vp_reapOrphan: "Q () (holding q Cleared None) \<Longrightarrow> vp h p (reapOrphan q) Q (holding q Taken None)"
  unfolding reapOrphan_def readSlotRecord_def gwp_and_then
  by (rule vp_read) (auto simp: wf_record_def vp_stopUnit stop_gain_holding intro!: vp_isHolderAlive simp del: gwp.simps(2))

lemma vp_flock:
  assumes "\<And>err. vp h p (k (AnsErr (Some err))) Q g" "g path = None \<Longrightarrow> vp h p (k (AnsErr None)) Q (g(path \<mapsto> Taken))"
  shows "vp h p (Ask (AskFlock path) k) Q g"
proof -
  have "vp h p (k r) Q (admit_gain p (AskFlock path) r g)" if fits: "admit_fits h p (AskFlock path) g r" for r
  proof -
    obtain e where "r = AnsErr e" "e = None \<Longrightarrow> g path = None" using fits by (auto simp: admit_fits_def)
    then show ?thesis using assms by (cases e) (auto simp: admit_gain_def)
  qed
  then show ?thesis by (simp add: admit_pre_def)
qed

lemma holding_empty: "((\<lambda>_. None)(q \<mapsto> st)) = holding q st None"
  by (auto simp: holding_def)

lemma vp_grab_slots:
  assumes "\<And>err. Q (Inl err) (\<lambda>_. None)" "Q (Inr None) (\<lambda>_. None)" "\<And>q. q \<in> set paths \<Longrightarrow> Q (Inr (Some q)) (holding q Cleared None)"
  shows "vp h p (grab_slots paths) Q (\<lambda>_. None)"
  using assms(3)
proof (induction paths)
  case Nil
  then show ?case by (simp add: assms)
next
  case (Cons path paths)
  show ?case
    unfolding grab_slots.simps
    by (rule vp_flock)
      (use Cons assms in \<open>auto simp: holding_empty simp del: gwp.simps(2) intro!: vp_reapOrphan\<close>)
qed

lemma vp_docker:
  assumes "Q None (holding q Cleared None)" "\<And>d. d \<noteq> Some q \<Longrightarrow> Q (Some d) (holding q Cleared d)"
  shows "vp h p (grabDockerSubSlot opts) Q (holding q Cleared None)"
proof -
  have "(holding q st None)(d \<mapsto> Taken) = holding q st (Some d)" if "d \<noteq> q" for st d
    using that by (auto simp: holding_def)
  then show ?thesis
    unfolding grabDockerSubSlot_def using assms
    by (auto simp: holding_def [of q Cleared None] simp del: gwp.simps(2) intro!: vp_flock split: if_splits) (auto simp: holding_def)
qed

lemma vp_write:
  assumes "\<And>e t. vp h p (k (AnsWrite (Some e) t)) Q (holding q Cleared d)" "\<And>t. vp h p (k (AnsWrite None t)) Q (holding q (Recorded rec) d)"
    "wf_record rec" "record_proc rec = p"
  shows "vp h p (Ask (AskWrite q rec) k) Q (holding q Cleared d)"
proof -
  have "vp h p (k r) Q (admit_gain p (AskWrite q rec) r (holding q Cleared d))" if fits: "admit_fits h p (AskWrite q rec) (holding q Cleared d) r" for r
  proof -
    obtain e t where "r = AnsWrite e t" using fits by (auto simp: admit_fits_def)
    then show ?thesis using assms by (cases e) (auto simp: admit_gain_def)
  qed
  then show ?thesis using assms by (simp add: admit_pre_def)
qed

lemma vp_writeSlotRecord:
  assumes "\<And>err. Q (Some err) (holding q Cleared d)" "\<And>rec. sr_Unit rec = unit \<Longrightarrow> Q None (holding q (Recorded rec) d)"
    "unit \<noteq> []" "ValidateServiceUnit unit = None"
  shows "vp h p (writeSlotRecord (fst p) q unit) Q (holding q Cleared d)"
  unfolding writeSlotRecord_def Let_def
  by (rule vp_own_ticks, rule vp_quiet, rule vp_write) (use assms in \<open>auto simp: wf_record_def record_proc_def\<close>)

lemma vp_unlock:
  "(case g path of None \<Rightarrow> False | Some (Running _) \<Rightarrow> False | Some _ \<Rightarrow> True) \<Longrightarrow> Q () (g(path := None)) \<Longrightarrow> vp h p (unlock path) Q g"
  by (simp add: unlock_def admit_pre_def admit_gain_def)

text \<open>What an admission of process \<open>p\<close> holds: a light one nothing, a heavy one its slot with its record.\<close>

inductive held :: "proc \<Rightarrow> Admission \<Rightarrow> slot_status \<Rightarrow> admit_ghost \<Rightarrow> bool" for p where
  held_light: "ad_slotPath adm = [] \<Longrightarrow> ad_unit adm = [] \<Longrightarrow> ad_docker adm = None \<Longrightarrow> \<not> ad_done adm \<Longrightarrow> held p adm st (\<lambda>_. None)"
| held_done: "ad_done adm \<Longrightarrow> held p adm st (\<lambda>_. None)"
| held_heavy: "ad_slotPath adm \<in> heavy_slots \<Longrightarrow> ad_slotPath adm \<noteq> [] \<Longrightarrow> ad_unit adm \<noteq> [] \<Longrightarrow> ValidateServiceUnit (ad_unit adm) = None \<Longrightarrow>
    ad_docker adm \<noteq> Some (ad_slotPath adm) \<Longrightarrow> \<not> ad_done adm \<Longrightarrow>
    st = Cleared \<or> (\<exists>rec. st \<in> {Recorded rec, Running rec} \<and> sr_Unit rec = ad_unit adm) \<Longrightarrow>
    held p adm st (holding (ad_slotPath adm) st (ad_docker adm))"

lemma vp_Release:
  assumes "held p adm st g" "Q (adm\<lparr>ad_done := True\<rparr>) (\<lambda>_. None)"
  shows "vp h p (admit_Release adm) Q g"
  using assms(1)
proof cases
  case held_light
  then show ?thesis using assms(2) by (simp add: admit_Release_def vp_stopUnit)
next
  case held_done
  then have "Q adm (\<lambda>_. None)" using assms(2) by (cases adm) simp
  then show ?thesis using held_done by (simp add: admit_Release_def)
next
  case held_heavy
  let ?q = "ad_slotPath adm"
  have g: "admit_gain p (AskStop (ad_unit adm)) (AnsErr None) g = holding ?q Cleared (ad_docker adm) \<or>
      (\<exists>rec. admit_gain p (AskStop (ad_unit adm)) (AnsErr None) g = holding ?q (Recorded rec) (ad_docker adm))"
    using held_heavy by (auto simp: stop_gain_holding)
  have undocker: "(holding ?q st' (Some d))(d := None) = holding ?q st' None" if "ad_docker adm = Some d" for d st'
    using held_heavy that by (auto simp: holding_def)
  have taken: "holding ?q st' (Some d) d = Some Taken" if "ad_docker adm = Some d" for d st'
    using held_heavy that by (auto simp: holding_def)
  show ?thesis
    using held_heavy g assms(2)
    by (cases "ad_docker adm") (auto simp: admit_Release_def vp_stopUnit undocker taken intro!: vp_unlock)
qed

lemma vp_tryAcquireHeavy:
  assumes "\<And>retry e. Q (None, retry, e) (\<lambda>_. None)"
    "\<And>adm rec g. held p adm (Recorded rec) g \<Longrightarrow> \<not> ad_done adm \<Longrightarrow> Q (Some adm, False, None) g"
    "set (slot_paths opts) \<subseteq> heavy_slots" "[] \<notin> set (slot_paths opts)"
  shows "vp h p (tryAcquireHeavy opts (fst p)) Q (\<lambda>_. None)"
proof -
  note [simp] = gwp_Return
  have unlock: "vp h p (unlock q) (\<lambda>_ g. Q (None, True, None) g) (holding q Cleared None)" for q
    using assms(1) by (intro vp_unlock) simp_all
  have recorded: "vp h p (writeSlotRecord (fst p) q (unitNameFor q (fst p))) (\<lambda>e. vp h p
        (case e of Some err \<Rightarrow> and_then (admit_Release (heavy_admission q (unitNameFor q (fst p)) d)) (\<lambda>_. Return (None, False, Some err))
         | None \<Rightarrow> Return (Some (heavy_admission q (unitNameFor q (fst p)) d), False, None)) Q) (holding q Cleared d)"
    if q: "q \<in> set (slot_paths opts)" and d: "d \<noteq> Some q" for q d
  proof (rule vp_writeSlotRecord)
    let ?adm = "heavy_admission q (unitNameFor q (fst p)) d"
    have ne: "\<not> ad_done ?adm" by (simp add: heavy_admission_def)
    have held: "held p ?adm st (holding (ad_slotPath ?adm) st (ad_docker ?adm))"
      if "st = Cleared \<or> (\<exists>rec. st \<in> {Recorded rec, Running rec} \<and> sr_Unit rec = unitNameFor q (fst p))" for st
      using that q d assms(3,4) by (intro held_heavy) (auto simp: heavy_admission_def)
    then have "vp h p (admit_Release ?adm) (\<lambda>_ g. Q (None, False, Some err) g) (holding q Cleared d)" for err
      using assms(1) held [of Cleared] by (intro vp_Release [where st = Cleared]) (auto simp: heavy_admission_def)
    then show "vp h p (case Some err of Some err \<Rightarrow> and_then (admit_Release ?adm) (\<lambda>_. Return (None, False, Some err))
        | None \<Rightarrow> Return (Some ?adm, False, None)) Q (holding q Cleared d)" for err by simp
    show "vp h p (case None of Some err \<Rightarrow> and_then (admit_Release ?adm) (\<lambda>_. Return (None, False, Some err))
        | None \<Rightarrow> Return (Some ?adm, False, None)) Q (holding q (Recorded rec) d)" if "sr_Unit rec = unitNameFor q (fst p)" for rec
      using assms(2) [OF held ne] that by (simp add: heavy_admission_def)
  qed simp_all
  show ?thesis
    unfolding tryAcquireHeavy_def defaultCheck_def grabFreeSlot_def gwp_and_then Let_def
    apply (rule vp_quiet, rule vp_quiet)
      apply (auto simp: assms(1) split: if_splits simp del: gwp.simps(2) intro!: vp_grab_slots vp_docker unlock recorded)
    done
qed

text \<open>A granted admission, heavy with its record written or light.\<close>

definition granted :: "proc \<Rightarrow> Admission \<Rightarrow> admit_ghost \<Rightarrow> bool" where
  "granted p adm g \<longleftrightarrow> (\<exists>rec. held p adm (Recorded rec) g) \<and> \<not> ad_done adm"

lemma vp_Acquire_loop:
  assumes "Q None (\<lambda>_. None)" "\<And>err. Q (Some (Inl err)) (\<lambda>_. None)" "\<And>adm g. granted p adm g \<Longrightarrow> Q (Some (Inr adm)) g"
    "set (slot_paths opts) \<subseteq> heavy_slots" "[] \<notin> set (slot_paths opts)"
  shows "vp h p (Acquire_loop n opts (fst p) deadline) Q (\<lambda>_. None)"
proof (induction n)
  case 0
  then show ?case by (simp add: assms(1))
next
  case (Suc n)
  have granted: "granted p adm g" if "held p adm (Recorded rec) g" "\<not> ad_done adm" for adm rec g
    using that by (auto simp: granted_def)
  show ?case
    unfolding Acquire_loop.simps
  proof (rule vp_quiet)
    fix r
    show "vp h p (case the_ctx r of Some e \<Rightarrow> Return (Some (Inl (Wrap ''admit: '' [Leaf (CtxErr e)])))
       | None \<Rightarrow> and_then (tryAcquireHeavy opts (fst p)) (\<lambda>(adm, retry, e).
         case e of Some err \<Rightarrow> Return (Some (Inl err))
         | None \<Rightarrow> (case adm of Some a \<Rightarrow> Return (Some (Inr a))
              | None \<Rightarrow> if \<not> retry then Return (Some (Inl (Leaf WaitBudgetExceeded)))
                  else Ask AskNow (\<lambda>r. if \<not> the_time r < deadline then Return (Some (Inl (Leaf WaitBudgetExceeded)))
                    else Ask (AskSleep (ao_Backoff opts)) (\<lambda>_. Acquire_loop n opts (fst p) deadline))))) Q (\<lambda>_. None)"
    proof (cases "the_ctx r")
      case None
      show ?thesis
        unfolding None option.case gwp_and_then
        by (rule vp_tryAcquireHeavy [OF _ _ assms(4,5)])
          (auto simp: assms(1,2) simp del: gwp.simps(2) split: option.split intro!: vp_quiet [where q = AskNow] vp_quiet [where q = "AskSleep d" for d] Suc
            assms(3) granted)
    qed (simp add: assms(2))
  qed simp
qed

lemma vp_Acquire:
  assumes "Q None (\<lambda>_. None)" "\<And>err. Q (Some (Inl err)) (\<lambda>_. None)" "\<And>adm g. granted p adm g \<Longrightarrow> Q (Some (Inr adm)) g"
    "set (slot_paths (admit_applyDefaults opts)) \<subseteq> heavy_slots" "[] \<notin> set (slot_paths (admit_applyDefaults opts))"
  shows "vp h p (admit_Acquire fuel opts (fst p)) Q (\<lambda>_. None)"
proof -
  have light: "granted p light_admission (\<lambda>_. None)"
    by (auto simp: granted_def light_admission_def intro!: held_light)
  show ?thesis
    unfolding admit_Acquire_def Let_def
    by (auto simp: assms(2) light assms(3) simp del: gwp.simps(2) split: option.split
        intro!: vp_quiet [where q = AskNow] vp_Acquire_loop assms)
qed

lemma host_mem:
  assumes "admit_fits h p AskMeminfo g r"
    "effectiveMemMB DefaultAdmitHeavyMaxMB (hostMemTotalMB (the_text r)) DefaultAdmitHostReserveMB DefaultAdmitMaxHeavy = Inr m"
  shows "heavy_mem h = Inr m"
proof -
  have "0 < hostMemTotalMB (the_text r)"
    using assms(2) by (auto simp: effectiveMemMB_def DefaultAdmitHeavyMaxMB_def Let_def split: if_splits)
  then have "hostMemTotalMB (the_text r) = ah_memTotalMB h"
    using assms(1) by (auto simp: admit_fits_def hostMemTotalMB_def split: sum.splits)
  then show ?thesis using assms(2) by (simp add: heavy_mem_def)
qed

lemma vp_start:
  assumes "granted p adm g" "heavy_mem h = Inr (sp_MemMB spec)" "sp_Unit spec = ad_unit adm"
    "\<And>err. vp h p (k (AnsErr (Some err))) Q g"
    "\<And>st g'. held p adm st g' \<Longrightarrow> vp h p (k (AnsErr None)) Q g'"
  shows "vp h p (Ask (AskStart spec (ad_slotPath adm)) k) Q g"
proof -
  obtain rec where held: "held p adm (Recorded rec) g" "\<not> ad_done adm" using assms(1) by (auto simp: granted_def)
  have pre: "admit_pre h p (AskStart spec (ad_slotPath adm)) g"
    using held assms(2,3) by (auto simp: admit_pre_def elim!: held.cases)
  have gain: "\<exists>st. held p adm st (admit_gain p (AskStart spec (ad_slotPath adm)) (AnsErr None) g)"
    using held(1)
  proof cases
    case held_heavy
    then show ?thesis
      by (intro exI [of _ "Running rec"]) (auto simp: admit_gain_def intro!: held.held_heavy)
  qed (use held in \<open>auto simp: admit_gain_def intro: held.held_light\<close>)
  have "vp h p (k r) Q (admit_gain p (AskStart spec (ad_slotPath adm)) r g)" if fits: "admit_fits h p (AskStart spec (ad_slotPath adm)) g r" for r
  proof -
    obtain e where r: "r = AnsErr e" using fits by (auto simp: admit_fits_def)
    show ?thesis
    proof (cases e)
      case None
      then show ?thesis using gain assms(5) r by blast
    next
      case (Some err)
      then have "admit_gain p (AskStart spec (ad_slotPath adm)) r g = g" by (simp add: admit_gain_def r)
      then show ?thesis using assms(4) r Some by simp
    qed
  qed
  then show ?thesis using pre by simp
qed

lemma vp_runUnderAdmission:
  assumes "granted p adm g" "\<And>adm' st code g'. held p adm' st g' \<Longrightarrow> Q (adm', code) g'"
  shows "vp h p (runUnderAdmission user adm payload) Q g"
proof -
  have held: "\<exists>st. held p adm st g" using assms(1) by (auto simp: granted_def)
  have fin: "held p (adm\<lparr>ad_done := True\<rparr>) st (\<lambda>_. None)" for st by (rule held_done) simp
  have release: "vp h p (admit_Release adm) Q' g'" if "held p adm st g'" "Q' (adm\<lparr>ad_done := True\<rparr>) (\<lambda>_. None)" for Q' st g'
    using that by (rule vp_Release)
  have wait: "vp h p (Ask AskWait (\<lambda>w. case the_exit w of
         Some code \<Rightarrow> and_then (admit_Release adm) (\<lambda>adm. Return (adm, code))
       | None \<Rightarrow> and_then (admit_Release adm) (\<lambda>adm. Ask AskForward (\<lambda>_. Ask AskExit (\<lambda>c. Return (adm, the_code c)))))) Q g'"
    if "held p adm st g'" for st g'
    by (rule vp_quiet)
      (auto simp: gwp_Return simp del: gwp.simps(2) split: option.split
        intro!: release [OF that] assms(2) fin vp_quiet [where q = AskForward] vp_quiet [where q = AskExit])
  show ?thesis
    unfolding runUnderAdmission_def
  proof (rule vp_quiet)
    fix raw assume raw: "admit_fits h p AskMeminfo g raw"
    show "vp h p (case effectiveMemMB DefaultAdmitHeavyMaxMB (hostMemTotalMB (the_text raw)) DefaultAdmitHostReserveMB DefaultAdmitMaxHeavy of
        Inl err \<Rightarrow> Return (adm, 79)
      | Inr memMB \<Rightarrow> Ask AskSignal (\<lambda>early. and_then (if the_bool early then admit_Release adm else Return adm) (\<lambda>adm.
         Ask (AskStart \<lparr>sp_User = user, sp_Group = user, sp_MemMB = memMB, sp_Unit = ad_unit adm, sp_Cmd = payload\<rparr> (ad_slotPath adm)) (\<lambda>e.
           case the_err e of Some err \<Rightarrow> Return (adm, 79)
           | None \<Rightarrow> Ask AskWait (\<lambda>w. case the_exit w of Some code \<Rightarrow> and_then (admit_Release adm) (\<lambda>adm. Return (adm, code))
               | None \<Rightarrow> and_then (admit_Release adm) (\<lambda>adm. Ask AskForward (\<lambda>_. Ask AskExit (\<lambda>c. Return (adm, the_code c)))))))) ) Q g"
    proof (cases "effectiveMemMB DefaultAdmitHeavyMaxMB (hostMemTotalMB (the_text raw)) DefaultAdmitHostReserveMB DefaultAdmitMaxHeavy")
      case (Inl err)
      then show ?thesis using held assms(2) by auto
    next
      case (Inr m)
      note mem = host_mem [OF raw Inr]
      show ?thesis
        unfolding Inr sum.case
        by (rule vp_quiet)
          (use held mem in \<open>auto simp: admit_fits_def [where q = AskSignal] simp del: gwp.simps(2) the_exit_def the_code_def intro!: vp_start [OF assms(1)] wait assms(2)\<close>)
    qed
  qed simp
qed

lemma cli_slots:
  assumes "opts = \<lparr>ao_MaxHeavy = DefaultAdmitMaxHeavy, ao_HeavyMaxMB = DefaultAdmitHeavyMaxMB, ao_SlotPrefix = DefaultAdmitSlotPathPrefix,
    ao_DockerSlotPath = DefaultAdmitDockerSlotPath, ao_Weight = weight, ao_Exclusive = exclusive, ao_WaitBudget = budget, ao_Backoff = 0\<rparr>"
  shows "set (slot_paths (admit_applyDefaults opts)) \<subseteq> heavy_slots" "[] \<notin> set (slot_paths (admit_applyDefaults opts))"
  by (auto simp: assms slot_paths_def heavy_slots_def slotPathFor_def admit_applyDefaults_def DefaultAdmitMaxHeavy_def DefaultAdmitSlotPathPrefix_def)

lemma vp_admit_main: "vp h p (admit_main h p) (\<lambda>_ _. True) (\<lambda>_. None)"
proof -
  let ?j = "ah_jobs h p"
  define opts where "opts = \<lparr>ao_MaxHeavy = DefaultAdmitMaxHeavy, ao_HeavyMaxMB = DefaultAdmitHeavyMaxMB, ao_SlotPrefix = DefaultAdmitSlotPathPrefix,
    ao_DockerSlotPath = DefaultAdmitDockerSlotPath, ao_Weight = jb_weight ?j, ao_Exclusive = jb_exclusive ?j,
    ao_WaitBudget = wrap64 (jb_waitMin ?j * minute), ao_Backoff = 0\<rparr>"
  note slots = cli_slots [OF opts_def]
  have admitted: "vp h p (and_then (admit_Acquire (jb_fuel ?j) opts (fst p)) (\<lambda>a.
      case a of None \<Rightarrow> Return None
      | Some (Inl err) \<Rightarrow> Return (Some (if errors_Is err WaitBudgetExceeded then 78 else 79))
      | Some (Inr adm) \<Rightarrow> and_then (runUnderAdmission (jb_user ?j) adm (jb_payload ?j)) (\<lambda>(adm, code).
          and_then (admit_Release adm) (\<lambda>_. Return (Some code))))) (\<lambda>_ _. True) (\<lambda>_. None)"
    unfolding gwp_and_then
    by (rule vp_Acquire [OF _ _ _ slots]) (auto simp: gwp_Return simp del: gwp.simps(2) intro!: vp_runUnderAdmission vp_Release)
  show ?thesis
    unfolding admit_main_def admitAndRun_def Let_def opts_def [symmetric]
    using admitted
    by (auto simp del: gwp.simps(2) gwp_and_then split: option.split intro!: vp_quiet [where q = "AskProvision d" for d] vp_quiet [where q = AskControllers])
qed

end
