(* ===== verification/Admit_Contract.thy ===== *)
theory Admit_Contract
  imports Admit_Safety
begin

text \<open>
  What the admissions promise: never more heavy units than slots and never more memory than the
  host has beyond its reserve, whatever processes start, stop and are killed; an answer within the
  wait budget; and two runs in which a promise of the comments does not hold.
\<close>

section \<open>Admissions run together\<close>

definition reliable_host :: "int \<Rightarrow> (proc \<Rightarrow> admit_job) \<Rightarrow> admit_host" where
  "reliable_host mem jobs =
     \<lparr>ah_memTotalMB = mem, ah_jobs = jobs, ah_read_fails = False, ah_stop_fails = False, ah_early_signal = False\<rparr>"

lemma reliable_reliable_host [simp]: "reliable (reliable_host mem jobs)"
  by (simp add: reliable_def reliable_host_def)

lemma reliable_is_host: "reliable h \<Longrightarrow> h = reliable_host (ah_memTotalMB h) (ah_jobs h)"
  by (cases h) (simp add: reliable_def reliable_host_def)

lemma call_okD:
  assumes "call_ok h q" "admit_inv h s" "admit_owns p g s" "admit_pre h p q g" "admit_allowed h p q r s"
  shows "admit_fits h p q g r" "admit_inv h (admit_effect h p q r s)" "admit_owns p (admit_gain p q r g) (admit_effect h p q r s)"
    "p' \<noteq> p \<Longrightarrow> admit_owns p' g' s \<Longrightarrow> admit_owns p' g' (admit_effect h p q r s)"
  using assms unfolding call_ok_def by blast+

interpretation admissions: rely_guarantee "admit_machine (reliable_host mem jobs)" "admit_inv (reliable_host mem jobs)" admit_owns
    "admit_pre (reliable_host mem jobs)" "admit_fits (reliable_host mem jobs)" admit_gain "\<lambda>_. None" "\<lambda>_ _ _. True" for mem jobs
proof
  note calls = call_okD [OF every_call [OF reliable_reliable_host [of mem jobs]]]
  fix s p g q r p' g' e
  let ?h = "reliable_host mem jobs"
  let ?M = "admit_machine ?h"
  show "admit_fits ?h p q g r \<and> admit_inv ?h (mc_effect ?M p q r s) \<and> admit_owns p (admit_gain p q r g) (mc_effect ?M p q r s)"
    if "admit_inv ?h s" "admit_owns p g s" "admit_pre ?h p q g" "mc_allowed ?M p q r s"
    using that calls(1-3) by (simp add: admit_machine_def)
  show "admit_owns p' g' (mc_effect ?M p q r s)"
    if "admit_inv ?h s" "admit_owns p g s" "admit_pre ?h p q g" "mc_allowed ?M p q r s" "p' \<noteq> p" "admit_owns p' g' s"
    using that calls(4) by (simp add: admit_machine_def)
  show "gwp (admit_pre ?h p) (admit_fits ?h p) (admit_gain p) (mc_main ?M p) (\<lambda>_ _. True) (\<lambda>_. None)"
    using vp_admit_main by (simp add: admit_machine_def)
qed (auto simp: admit_machine_def dead_ok born_ok env_ok)

lemma empty_inv: "admit_inv h empty_box"
  by (simp add: admit_inv_def empty_box_def live_def)

lemma reachable_inv: "reliable h \<Longrightarrow> reaches (admit_machine h) empty_box (s, ps) \<Longrightarrow> admit_inv h s"
  using admissions.reaches_inv [OF _ empty_inv] reliable_is_host by metis

section \<open>Capacity\<close>

lemma heavy_slots_card: "finite heavy_slots" "card heavy_slots \<le> nat DefaultAdmitMaxHeavy"
  unfolding heavy_slots_def by (auto intro: order_trans [OF card_image_le])

lemma inv_units: "admit_inv h s \<Longrightarrow> length (bx_units s) \<le> nat DefaultAdmitMaxHeavy"
proof -
  assume inv: "admit_inv h s"
  have "distinct (map hu_slot (bx_units s))" using inv by (simp add: admit_inv_def)
  then have "length (bx_units s) = card (hu_slot ` set (bx_units s))" using distinct_card [of "map hu_slot (bx_units s)"] by simp
  also have "\<dots> \<le> card heavy_slots"
    using inv_unit [OF inv] by (intro card_mono) (auto simp: heavy_slots_card unit_ok_def)
  finally show ?thesis using heavy_slots_card(2) by simp
qed

lemma wrap64_le: "- (2 ^ 63) \<le> x \<Longrightarrow> wrap64 x \<le> x"
  using zmod_le_nonneg_dividend [of "x + 2 ^ 63" "2 ^ 64"] by (simp add: wrap64_def)

text \<open>The shares of the heavy units fit into the memory of the host beyond its reserve.\<close>

lemma effectiveMemMB_fits:
  assumes "effectiveMemMB 0 mem reserve n = Inr m" "1 \<le> n" "0 \<le> reserve" "reserve \<le> 2 ^ 63"
  shows "512 \<le> m \<and> n * m \<le> mem - reserve"
proof -
  have m: "m = go_div (wrap64 (mem - reserve)) n" "512 \<le> m" "0 < mem"
    using assms by (auto simp: effectiveMemMB_def Let_def split: if_splits)
  have "0 \<le> wrap64 (mem - reserve)"
  proof (rule ccontr)
    assume "\<not> 0 \<le> wrap64 (mem - reserve)"
    then have "go_div (wrap64 (mem - reserve)) n \<le> 0" using assms(2) by (auto simp: go_div_def sgn_if intro!: div_int_pos_iff [THEN iffD2])
    then show False using m by simp
  qed
  then have "m = wrap64 (mem - reserve) div n" using m(1) assms(2) by (simp add: go_div_nonneg)
  then have "n * m \<le> wrap64 (mem - reserve)" using assms(2) by (simp add: minus_mod_eq_mult_div [symmetric])
  also have "\<dots> \<le> mem - reserve" using m(3) assms(4) by (intro wrap64_le) simp
  finally show ?thesis using m(2) by simp
qed

lemma inv_memory: "admit_inv h s \<Longrightarrow> sum_list (map hu_memMB (bx_units s)) \<le> max 0 (ah_memTotalMB h - DefaultAdmitHostReserveMB)"
proof (cases "bx_units s")
  case (Cons u us)
  assume inv: "admit_inv h s"
  obtain m where m: "heavy_mem h = Inr m" using inv_unit [OF inv, of u] Cons by (auto simp: unit_ok_def)
  then have fits: "512 \<le> m" "DefaultAdmitMaxHeavy * m \<le> ah_memTotalMB h - DefaultAdmitHostReserveMB"
    using effectiveMemMB_fits [of "ah_memTotalMB h" DefaultAdmitHostReserveMB DefaultAdmitMaxHeavy m]
    by (simp_all add: heavy_mem_def DefaultAdmitHeavyMaxMB_def DefaultAdmitMaxHeavy_def DefaultAdmitHostReserveMB_def)
  have "map hu_memMB (bx_units s) = replicate (length (bx_units s)) m"
    using inv_unit [OF inv] m by (auto simp: unit_ok_def map_replicate_const [symmetric])
  then have "sum_list (map hu_memMB (bx_units s)) = int (length (bx_units s)) * m" by (simp add: sum_list_replicate)
  also have "\<dots> \<le> DefaultAdmitMaxHeavy * m"
    using inv_units [OF inv] fits(1) by (intro mult_right_mono) (auto simp: DefaultAdmitMaxHeavy_def)
  finally show ?thesis using fits(2) by simp
qed simp

section \<open>The wait is bounded\<close>

text \<open>The clock: what a process knows is a time that has passed; a sleep of \<open>d\<close> takes at least \<open>d\<close>.\<close>

definition clock_fits :: "admit_call \<Rightarrow> time \<Rightarrow> admit_answer \<Rightarrow> bool" where
  "clock_fits q t r = (case q of AskNow \<Rightarrow> (\<exists>now. r = AnsTime now \<and> t \<le> now) | _ \<Rightarrow> True)"

definition clock_gain :: "admit_call \<Rightarrow> admit_answer \<Rightarrow> time \<Rightarrow> time" where
  "clock_gain q r t = (case q of AskNow \<Rightarrow> the_time r | AskSleep d \<Rightarrow> t + max 0 d | _ \<Rightarrow> t)"

abbreviation clocked :: "'a admit_prog \<Rightarrow> ('a \<Rightarrow> time \<Rightarrow> bool) \<Rightarrow> time \<Rightarrow> bool" where
  "clocked \<equiv> gwp (\<lambda>_ _. True) clock_fits clock_gain"

text \<open>Whatever a program does, time does not run backwards.\<close>

lemma clocked_later: "(\<And>a t'. t \<le> t' \<Longrightarrow> Q a t') \<Longrightarrow> clocked m Q t"
proof (induction m arbitrary: t)
  case (Ask q k)
  have "t \<le> clock_gain q r t" if "clock_fits q t r" for r
    using that by (auto simp: clock_fits_def clock_gain_def split: admit_call.splits)
  then show ?case unfolding gwp.simps using Ask.IH [OF rangeI] Ask.prems by (blast intro: order_trans)
qed simp

lemma clock_calls [simp]:
  "clock_fits AskNow t r \<longleftrightarrow> (\<exists>now. r = AnsTime now \<and> t \<le> now)" "clock_gain AskNow r t = the_time r"
  "clock_gain (AskSleep d) r t = t + max 0 d" "clock_gain AskCtx r t = t"
  by (simp_all add: clock_fits_def clock_gain_def)

lemma Acquire_loop_step:
  assumes "\<And>now. t \<le> now \<Longrightarrow> now < deadline \<Longrightarrow>
    clocked (Acquire_loop n opts pid deadline) (\<lambda>a _. a \<noteq> None) (now + max 0 (ao_Backoff opts))"
  shows "clocked (Acquire_loop (Suc n) opts pid deadline) (\<lambda>a _. a \<noteq> None) t"
  unfolding Acquire_loop.simps
  by (use assms in \<open>auto simp del: Acquire_loop.simps split: option.split intro!: clocked_later [where m = "tryAcquireHeavy opts pid"]\<close>)

lemma Acquire_loop_returns:
  assumes "0 < ao_Backoff opts" "deadline - t \<le> int n * ao_Backoff opts"
  shows "clocked (Acquire_loop (Suc n) opts pid deadline) (\<lambda>a _. a \<noteq> None) t"
  using assms(2)
proof (induction n arbitrary: t)
  case 0
  then show ?case by (intro Acquire_loop_step) simp
next
  case (Suc n)
  then show ?case using assms(1) by (intro Acquire_loop_step Suc.IH) (simp add: algebra_simps)
qed

lemma admit_defaults_pos: "0 < ao_Backoff (admit_applyDefaults opts)" "0 < ao_WaitBudget (admit_applyDefaults opts)"
  by (simp_all add: admit_applyDefaults_def DefaultAdmitWaitMinutes_def minute_def second_def)

text \<open>The attempts a wait budget allows.\<close>

definition attempts :: "admit_Options \<Rightarrow> nat" where
  "attempts opts = (let o' = admit_applyDefaults opts in nat (ao_WaitBudget o' div ao_Backoff o') + 2)"

lemma Acquire_within_attempts:
  assumes "attempts opts \<le> fuel"
  shows "clocked (admit_Acquire fuel opts pid) (\<lambda>a _. a \<noteq> None) t"
proof -
  let ?o = "admit_applyDefaults opts"
  obtain n where n: "fuel = Suc n" "ao_WaitBudget ?o div ao_Backoff ?o + 1 \<le> int n"
    using assms by (cases fuel) (auto simp: attempts_def Let_def)
  have "ao_WaitBudget ?o \<le> (ao_WaitBudget ?o div ao_Backoff ?o + 1) * ao_Backoff ?o"
    using pos_mod_bound [OF admit_defaults_pos(1), of "ao_WaitBudget ?o" opts]
    by (simp add: algebra_simps minus_mod_eq_mult_div [symmetric] del: pos_mod_bound)
  also have "\<dots> \<le> int n * ao_Backoff ?o" using n(2) admit_defaults_pos(1) [of opts] by (intro mult_right_mono) simp_all
  finally have "clocked (Acquire_loop fuel ?o pid (now + ao_WaitBudget ?o)) (\<lambda>a _. a \<noteq> None) now" for now
    unfolding n(1) by (intro Acquire_loop_returns admit_defaults_pos) simp
  then show ?thesis by (auto simp: admit_Acquire_def Let_def split: option.split)
qed

section \<open>Runs\<close>

definition roomy_meminfo :: string where
  "roomy_meminfo = ''MemTotal: 16777216 kB'' @ [nl] @ ''MemAvailable: 16777216 kB''"

lemma roomy_vals: "meminfo_vals roomy_meminfo = map_of [(''MemAvailable'', 16777216), (''MemTotal'', 16777216)]"
proof -
  have "rev (List.map_filter parseMeminfoLine (split_on nl roomy_meminfo)) = [(''MemAvailable'', 16777216), (''MemTotal'', 16777216)]"
    by (simp add: roomy_meminfo_def parseMeminfoLine_def str_cut_def trim_space_def str_fields_def is_space_def
        parse_int_def parse_uint_def all_digits_def is_digit_def char_between_def digit_val_def in_int64_def
        has_prefix_def List.map_filter_simps Let_def)
  then show ?thesis by (simp add: meminfo_vals_def)
qed

lemma roomy_sane: "sane_meminfo roomy_meminfo"
  by (simp add: sane_meminfo_def roomy_vals)

lemma roomy_parse: "parseMeminfo roomy_meminfo =
    Inr \<lparr>mi_MemTotalMB = 16384, mi_MemAvailableMB = 16384, mi_AvailPct = 100, mi_SwapTotalMB = 0, mi_SwapUsedMB = 0\<rparr>"
  unfolding parseMeminfo_sane [OF roomy_sane] by (simp add: roomy_vals swap_used_def val_or_0_def)

lemma roomy_sample [simp]: "mem_Sample (Inr roomy_meminfo) =
    Inr \<lparr>mi_MemTotalMB = 16384, mi_MemAvailableMB = 16384, mi_AvailPct = 100, mi_SwapTotalMB = 0, mi_SwapUsedMB = 0\<rparr>"
  by (simp add: mem_Sample_def roomy_parse)

lemma roomy_total [simp]: "hostMemTotalMB (Inr roomy_meminfo) = 16384"
  by (simp add: hostMemTotalMB_def roomy_sample)

lemma roomy_check [simp]: "mr_Err (mem_Check mem_DefaultOptions now (Inr roomy_meminfo)) = []"
    "mr_Decision (mem_Check mem_DefaultOptions now (Inr roomy_meminfo)) = MemOK"
  by (simp_all add: mem_Check_def roomy_parse Let_def mem_classify_def mem_applyDefaults_def mem_DefaultOptions_def)

text \<open>
  The choices that take a heavy job from its birth to the start of its payload in slot \<open>q\<close>: how
  many slots it finds busy before, what the look for an orphan answers, whether it asks for the
  docker sub-slot, and whether a signal comes before the payload starts.
\<close>

definition slot_note :: "string \<Rightarrow> proc \<Rightarrow> slotRecord" where
  "slot_note q p = \<lparr>sr_Unit = unitNameFor q (fst p), sr_PID = fst p, sr_PIDStartTicks = snd p, sr_AcquiredAt = 0\<rparr>"

definition take_slot :: "proc \<Rightarrow> nat \<Rightarrow> (proc, admit_answer, string) choice list" where
  "take_slot p busy = Spawn p # map (Answer p)
     ([AnsErr None, AnsText (Inr ''memory''), AnsTime 0, AnsCtx None, AnsTime 0, AnsText (Inr roomy_meminfo)] @
      replicate busy (AnsErr (Some (Leaf SlotBusy))) @ [AnsErr None])"

definition start_heavy ::
  "proc \<Rightarrow> string \<Rightarrow> admit_answer list \<Rightarrow> bool \<Rightarrow> bool \<Rightarrow> (proc, admit_answer, string) choice list" where
  "start_heavy p q orphan docker early = map (Answer p)
     (orphan @ (if docker then [AnsErr None] else []) @
      [AnsTicks (Inr (snd p)), AnsTime 0, AnsWrite None (SlotRecord (slot_note q p)), AnsText (Inr roomy_meminfo), AnsBool early] @
      (if early then [AnsErr None, AnsNone] else []) @ [AnsErr None])"

definition heavy_job :: "string \<Rightarrow> admit_job" where
  "heavy_job exclusive = \<lparr>jb_fuel = 1, jb_user = ''ci'', jb_weight = ''heavy'', jb_exclusive = exclusive, jb_waitMin = 30, jb_payload = [''make'']\<rparr>"

definition slot1 :: string where "slot1 = ''/run/civm/admit-heavy-1.lock''"
definition slot2 :: string where "slot2 = ''/run/civm/admit-heavy-2.lock''"

lemma slots_differ [simp]: "slot1 \<noteq> slot2" "slot2 \<noteq> slot1" "slot1 \<noteq> []" "slot2 \<noteq> []"
    "DefaultAdmitDockerSlotPath \<noteq> slot1" "DefaultAdmitDockerSlotPath \<noteq> slot2"
  by (simp_all add: slot1_def slot2_def DefaultAdmitDockerSlotPath_def)

lemma has_memory [simp]: "cgroupMemoryEnforceable (Inr ''memory'')"
  by (simp add: cgroupMemoryEnforceable_def str_fields_def is_space_def)

lemma share [simp]: "effectiveMemMB DefaultAdmitHeavyMaxMB 16384 DefaultAdmitHostReserveMB DefaultAdmitMaxHeavy = Inr 7168"
  by (simp add: effectiveMemMB_def DefaultAdmitHeavyMaxMB_def DefaultAdmitHostReserveMB_def DefaultAdmitMaxHeavy_def wrap64_def go_div_def)

definition demo_opts :: "string \<Rightarrow> admit_Options" where
  "demo_opts exclusive = \<lparr>ao_MaxHeavy = DefaultAdmitMaxHeavy, ao_HeavyMaxMB = DefaultAdmitHeavyMaxMB,
     ao_SlotPrefix = DefaultAdmitSlotPathPrefix, ao_DockerSlotPath = DefaultAdmitDockerSlotPath, ao_Weight = ''heavy'',
     ao_Exclusive = exclusive, ao_WaitBudget = wrap64 (30 * minute), ao_Backoff = 0\<rparr>"

lemma one_two: "show_int 1 = ''1''" "show_int 2 = ''2''"
  by code_simp+

lemma demo_opts_simps [simp]:
  "slot_paths (admit_applyDefaults (demo_opts e)) = [slot1, slot2]" "admit_validate (admit_applyDefaults (demo_opts e)) = None"
  "ao_Weight (admit_applyDefaults (demo_opts e)) = ''heavy''" "ao_Exclusive (admit_applyDefaults (demo_opts e)) = e"
  "ao_DockerSlotPath (admit_applyDefaults (demo_opts e)) = DefaultAdmitDockerSlotPath"
  by (simp_all add: demo_opts_def slot_paths_def slotPathFor_def admit_applyDefaults_def admit_validate_def DefaultAdmitMaxHeavy_def
      DefaultAdmitSlotPathPrefix_def DefaultAdmitDockerSlotPath_def slot1_def slot2_def upto.simps one_two
      validateAbsPrefix_def path_IsAbs_def has_prefix_def)

lemma demo_opts_fold:
  "\<lparr>ao_MaxHeavy = DefaultAdmitMaxHeavy, ao_HeavyMaxMB = DefaultAdmitHeavyMaxMB,
     ao_SlotPrefix = DefaultAdmitSlotPathPrefix, ao_DockerSlotPath = DefaultAdmitDockerSlotPath, ao_Weight = ''heavy'',
     ao_Exclusive = exclusive, ao_WaitBudget = wrap64 (30 * minute), ao_Backoff = 0\<rparr> = demo_opts exclusive"
  by (simp add: demo_opts_def)

lemmas admit_run = take_step_def admit_machine_def admit_main_def admit_can_start_def admit_born_def admit_dead_def admit_allowed_def admit_effect_def
  admitAndRun_def admit_Acquire_def tryAcquireHeavy_def defaultCheck_def grabFreeSlot_def reapOrphan_def readSlotRecord_def isHolderAlive_def
  grabDockerSubSlot_def writeSlotRecord_def runUnderAdmission_def admit_Release_def stopUnit_def unlock_def heavy_admission_def
  heavy_job_def demo_opts_fold Let_def empty_box_def slot_note_def errors_Is_def

definition signalled_host :: admit_host where
  "signalled_host = (reliable_host 16384 (\<lambda>_. heavy_job []))\<lparr>ah_early_signal := True\<rparr>"

definition early_signal_run :: "(proc, admit_answer, string) choice list" where
  "early_signal_run =
     take_slot (1, 1) 0 @ start_heavy (1, 1) slot1 [AnsSlot (Inl (Leaf (NotExist slot1)))] False True @
     take_slot (2, 2) 0 @ start_heavy (2, 2) slot1 [AnsSlot (Inr (SlotRecord (slot_note slot1 (1, 1)))), AnsBool True, AnsTicks (Inr 1)] False False @
     take_slot (3, 3) 1 @ start_heavy (3, 3) slot2 [AnsSlot (Inl (Leaf (NotExist slot2)))] False False"

lemma early_signal_run_ends:
  "map_option (\<lambda>(s, ps). (length (bx_units s), map hu_slot (bx_units s)))
     (run_choices (admit_machine signalled_host) early_signal_run (empty_box, \<lambda>_. None)) = Some (3, [slot1, slot1, slot2])"
  by (simp add: early_signal_run_def start_heavy_def take_slot_def signalled_host_def reliable_host_def admit_run)

definition docker_host :: admit_host where
  "docker_host = reliable_host 16384 (\<lambda>p. heavy_job (if fst p = 1 then [] else ''docker''))"

definition docker_run :: "(proc, admit_answer, string) choice list" where
  "docker_run =
     take_slot (1, 1) 0 @
     take_slot (2, 2) 1 @ start_heavy (2, 2) slot2 [AnsSlot (Inl (Leaf (NotExist slot2)))] True False @
     [Kill (2, 2), Kill (1, 1)] @
     take_slot (3, 3) 0 @ start_heavy (3, 3) slot1 [AnsSlot (Inl (Leaf (NotExist slot1)))] True False"

lemma docker_run_ends:
  "map_option (\<lambda>(s, ps). map hu_starter (bx_units s)) (run_choices (admit_machine docker_host) docker_run (empty_box, \<lambda>_. None)) = Some [(2, 2), (3, 3)]"
  by (simp add: docker_run_def start_heavy_def take_slot_def docker_host_def reliable_host_def admit_run)

lemma run_from_empty:
  "map_option f (run_choices M chs (s0, \<lambda>_. None)) = Some y \<Longrightarrow> \<exists>s ps. reaches M s0 (s, ps) \<and> f (s, ps) = y"
  using run_choices_reaches [OF _ reaches_start] by (fastforce simp: map_option_eq_Some)

section \<open>Properties\<close>



text \<open>
  C29. \<open>Acquire\<close> returns: on a clock that never runs backwards and sleeps at least as long as asked,
  whatever the locks, the files and the memory answer, no more attempts are made than the wait
  budget has backoffs, and one.
\<close>

theorem admit_Acquire_returns:
  assumes "attempts opts \<le> fuel"
  shows "gwp (\<lambda>_ _. True) clock_fits clock_gain (admit_Acquire fuel opts pid) (\<lambda>a _. a \<noteq> None) now"
  using assms by (rule Acquire_within_attempts)

theorem admit_Acquire_returns_witness:
  "gwp (\<lambda>_ _. True) clock_fits clock_gain (admit_Acquire 7202 (demo_opts ''docker'') 42) (\<lambda>a _. a \<noteq> None) 1000"
proof (rule admit_Acquire_returns)
  show "attempts (demo_opts ''docker'') \<le> 7202"
    by (simp add: attempts_def demo_opts_def admit_applyDefaults_def DefaultAdmitWaitMinutes_def minute_def second_def wrap64_def)
qed

text \<open>
  C30. The window before the payload starts: a signal trapped there makes \<open>forwardSignal\<close> release the
  slot, and the payload starts all the same, so that the next admissions bring a third heavy unit
  beside it although two slots exist.
\<close>

theorem admit_early_signal_overcommits:
  "\<exists>s ps. reaches (admit_machine signalled_host) empty_box (s, ps) \<and> DefaultAdmitMaxHeavy < int (length (bx_units s))"
  using run_from_empty [OF early_signal_run_ends] by (auto simp: DefaultAdmitMaxHeavy_def)

text \<open>
  C31. The docker sub-slot does not survive its holder: when a docker-exclusive admission is killed,
  its lock goes and its unit stays in a slot nobody looks at, so another docker-exclusive payload
  starts beside it, on a host where every call works.
\<close>

theorem admit_docker_overlap:
  "\<exists>s ps. reaches (admit_machine docker_host) empty_box (s, ps) \<and>
     2 \<le> length (filter (\<lambda>u. jb_exclusive (ah_jobs docker_host (hu_starter u)) = ''docker'') (bx_units s))"
proof -
  have docker: "jb_exclusive (ah_jobs docker_host p) = ''docker''" if "fst p \<noteq> 1" for p
    using that by (simp add: docker_host_def reliable_host_def heavy_job_def)
  obtain s ps where run: "reaches (admit_machine docker_host) empty_box (s, ps)" "map hu_starter (bx_units s) = [(2, 2), (3, 3)]"
    using run_from_empty [OF docker_run_ends] by auto
  then have "2 \<le> length (filter (\<lambda>u. jb_exclusive (ah_jobs docker_host (hu_starter u)) = ''docker'') (bx_units s))"
    using docker by (auto simp: map_eq_Cons_conv)
  with run(1) show ?thesis by blast
qed

end
