(* ===== verification/Port_Block.thy ===== *)
theory Port_Block
  imports Processes Host "HOL-Library.AList" "HOL-Library.Multiset"
begin

text \<open>
  \<open>internal/portblock\<close>: every runner slot gets a block of host ports, kept in a state file, under a
  lock on a file beside it. \<open>Allocate\<close> is a program over its calls, so that any number of them can
  run on one machine and be killed anywhere. The state file holds what \<open>json.MarshalIndent\<close> wrote:
  nothing, a list of allocations, or bytes that are no such list. Ports are far below the bounds of
  \<open>int\<close>, which is unbounded here.
\<close>

record Allocation =
  al_Slot :: string
  al_Base :: int

datatype state_text = StateBlank | StateCorrupt | StateAllocs "Allocation list"

record pb_Options =
  po_StatePath :: string
  po_BlockStart :: int
  po_BlockSize :: int
  po_WindowEnd :: int

definition DefaultPortBlockStatePath :: string where "DefaultPortBlockStatePath = ''/var/lib/civm/port-blocks.json''"
definition DefaultRunnerPortBlockStart :: int where "DefaultRunnerPortBlockStart = 20000"
definition DefaultRunnerPortBlockSize :: int where "DefaultRunnerPortBlockSize = 64"
definition DefaultRunnerPortWindowEnd :: int where "DefaultRunnerPortWindowEnd = 32000"

definition pb_DefaultOptions :: pb_Options where
  "pb_DefaultOptions =
     \<lparr>po_StatePath = DefaultPortBlockStatePath, po_BlockStart = DefaultRunnerPortBlockStart,
      po_BlockSize = DefaultRunnerPortBlockSize, po_WindowEnd = DefaultRunnerPortWindowEnd\<rparr>"

definition pb_applyDefaults :: "pb_Options \<Rightarrow> pb_Options" where
  "pb_applyDefaults opts = opts
     \<lparr>po_StatePath := (if po_StatePath opts = [] then DefaultPortBlockStatePath else po_StatePath opts),
      po_BlockStart := (if po_BlockStart opts = 0 then DefaultRunnerPortBlockStart else po_BlockStart opts),
      po_BlockSize := (if po_BlockSize opts = 0 then DefaultRunnerPortBlockSize else po_BlockSize opts),
      po_WindowEnd := (if po_WindowEnd opts = 0 then DefaultRunnerPortWindowEnd else po_WindowEnd opts)\<rparr>"

definition validateOptions :: "pb_Options \<Rightarrow> herr option" where
  "validateOptions opts =
     (if po_BlockSize opts \<le> 0 then Some (msg (''portblock: block-size deve ser >0, got '' @ show_int (po_BlockSize opts)))
      else if po_WindowEnd opts \<le> po_BlockStart opts
      then Some (msg (''portblock: window-end ('' @ show_int (po_WindowEnd opts) @ '') deve ser > block-start ('' @
             show_int (po_BlockStart opts) @ '')''))
      else None)"

text \<open>The map from slots to bases, in the order of its insertions.\<close>

type_synonym pb_state = "(string \<times> int) list"

text \<open>The loop over the window; validated options have a positive block size.\<close>

function free_from :: "int \<Rightarrow> int \<Rightarrow> int set \<Rightarrow> int \<Rightarrow> int option" where
  "free_from step wend used base =
     (if 0 < step \<and> base + step \<le> wend then (if base \<notin> used then Some base else free_from step wend used (base + step)) else None)"
  by auto
termination by (relation "measure (\<lambda>(step, wend, used, base). nat (wend - base))") auto

declare free_from.simps [simp del]

definition nextFreeBase :: "pb_Options \<Rightarrow> pb_state \<Rightarrow> herr + int" where
  "nextFreeBase opts state =
     (case free_from (po_BlockSize opts) (po_WindowEnd opts) (set (map snd state)) (po_BlockStart opts) of
        Some base \<Rightarrow> Inr base
      | None \<Rightarrow> Inl (Leaf PortWindowExhausted))"

definition fold_state :: "Allocation list \<Rightarrow> pb_state" where
  "fold_state allocations = fold (\<lambda>a. AList.update (al_Slot a) (al_Base a)) allocations []"

definition marshalState :: "pb_state \<Rightarrow> Allocation list" where
  "marshalState state = map (\<lambda>(slot, base). \<lparr>al_Slot = slot, al_Base = base\<rparr>) (sort_key fst state)"

section \<open>Programs\<close>

datatype pb_call =
    PbMkdir string | PbOpenLock string | PbFlock string | PbUnlock string
  | PbRead string | PbWrite string "Allocation list" | PbRename string string

text \<open>The answer to a write also carries what it left in the file.\<close>

datatype pb_answer = PbErr "herr option" | PbText "herr + state_text" | PbWrote "herr option" state_text | PbDone

definition pb_err :: "pb_answer \<Rightarrow> herr option" where
  "pb_err r = (case r of PbErr e \<Rightarrow> e | PbWrote e _ \<Rightarrow> e | _ \<Rightarrow> None)"

definition pb_text :: "pb_answer \<Rightarrow> herr + state_text" where
  "pb_text r = (case r of PbText t \<Rightarrow> t | _ \<Rightarrow> Inr StateBlank)"

type_synonym 'a pb_prog = "(pb_call, pb_answer, 'a) prog"

definition readState :: "pb_Options \<Rightarrow> (herr + pb_state) pb_prog" where
  "readState opts = Ask (PbRead (po_StatePath opts)) (\<lambda>r. Return
     (case pb_text r of
        Inl err \<Rightarrow> if is_NotExist err then Inr [] else Inl (Wrap (''portblock: ler state '' @ po_StatePath opts @ '': '') [err])
      | Inr StateBlank \<Rightarrow> Inr []
      | Inr StateCorrupt \<Rightarrow> Inl (Wrap (''portblock: parse state '' @ po_StatePath opts @ '': '') [json_error])
      | Inr (StateAllocs allocations) \<Rightarrow> Inr (fold_state allocations)))"

definition writeState :: "pb_Options \<Rightarrow> pb_state \<Rightarrow> herr option pb_prog" where
  "writeState opts state =
     (let tmp = po_StatePath opts @ ''.tmp'' in
      Ask (PbWrite tmp (marshalState state)) (\<lambda>r.
        case pb_err r of
          Some err \<Rightarrow> Return (Some (Wrap (''portblock: gravar temp '' @ tmp @ '': '') [err]))
        | None \<Rightarrow> Ask (PbRename tmp (po_StatePath opts)) (\<lambda>r. Return
            (map_option (\<lambda>err. Wrap (''portblock: rename '' @ tmp @ '' -> '' @ po_StatePath opts @ '': '') [err]) (pb_err r)))))"

text \<open>What \<open>Allocate\<close> does between the lock and its deferred unlock.\<close>

definition allocate_locked :: "pb_Options \<Rightarrow> string \<Rightarrow> (herr + int) pb_prog" where
  "allocate_locked opts slot = and_then (readState opts) (\<lambda>r.
     case r of
       Inl err \<Rightarrow> Return (Inl err)
     | Inr state \<Rightarrow>
         (case map_of state slot of
            Some base \<Rightarrow> Return (Inr base)
          | None \<Rightarrow>
              (case nextFreeBase opts state of
                 Inl err \<Rightarrow> Return (Inl err)
               | Inr base \<Rightarrow> and_then (writeState opts (AList.update slot base state)) (\<lambda>e.
                   Return (case e of Some err \<Rightarrow> Inl err | None \<Rightarrow> Inr base)))))"

definition Allocate :: "pb_Options \<Rightarrow> string \<Rightarrow> (herr + int) pb_prog" where
  "Allocate opts0 slot =
     (let opts = pb_applyDefaults opts0; lockPath = po_StatePath opts @ ''.lock'' in
      case validateOptions opts of
        Some err \<Rightarrow> Return (Inl err)
      | None \<Rightarrow>
          if trim_space slot = [] then Return (Inl (msg ''portblock: slot obrigatorio''))
          else Ask (PbMkdir (path_Dir (po_StatePath opts))) (\<lambda>r.
            case pb_err r of
              Some err \<Rightarrow> Return (Inl (Wrap (''portblock: criar dir de state '' @ po_StatePath opts @ '': '') [err]))
            | None \<Rightarrow> Ask (PbOpenLock lockPath) (\<lambda>r.
                case pb_err r of
                  Some err \<Rightarrow> Return (Inl (Wrap (''portblock: abrir lock '' @ lockPath @ '': '') [err]))
                | None \<Rightarrow> Ask (PbFlock lockPath) (\<lambda>r.
                    case pb_err r of
                      Some err \<Rightarrow> Return (Inl (Wrap (''portblock: flock '' @ lockPath @ '': '') [err]))
                    | None \<Rightarrow> and_then (allocate_locked opts slot) (\<lambda>res.
                        Ask (PbUnlock lockPath) (\<lambda>_. Return res))))))"

section \<open>The machine\<close>

text \<open>
  The lock, and the state file and its temporary beside it as the paths of the options name them. A
  call for the lock is answered when the lock is free; reads, writes and renames may fail at any
  time, and a write that fails leaves anything in the temporary file. A killed process loses its lock.
\<close>

record pb_box =
  pb_lock :: "int option"
  pb_file :: "state_text option"
  pb_tmp :: "state_text option"

definition pb_allowed :: "int \<Rightarrow> pb_call \<Rightarrow> pb_answer \<Rightarrow> pb_box \<Rightarrow> bool" where
  "pb_allowed p q r s =
     (case q of
        PbMkdir _ \<Rightarrow> (case r of PbErr _ \<Rightarrow> True | _ \<Rightarrow> False)
      | PbOpenLock _ \<Rightarrow> (case r of PbErr _ \<Rightarrow> True | _ \<Rightarrow> False)
      | PbFlock _ \<Rightarrow> (case r of PbErr e \<Rightarrow> e \<noteq> None \<or> pb_lock s = None | _ \<Rightarrow> False)
      | PbUnlock _ \<Rightarrow> r = PbDone
      | PbRead _ \<Rightarrow>
          (case r of
             PbText (Inr t) \<Rightarrow> pb_file s = Some t
           | PbText (Inl err) \<Rightarrow> is_NotExist err \<longrightarrow> pb_file s = None
           | _ \<Rightarrow> False)
      | PbWrite _ xs \<Rightarrow> (case r of PbWrote e t \<Rightarrow> e = None \<longrightarrow> t = StateAllocs xs | _ \<Rightarrow> False)
      | PbRename _ _ \<Rightarrow> (case r of PbErr e \<Rightarrow> e = None \<longrightarrow> pb_tmp s \<noteq> None | _ \<Rightarrow> False))"

definition pb_effect :: "int \<Rightarrow> pb_call \<Rightarrow> pb_answer \<Rightarrow> pb_box \<Rightarrow> pb_box" where
  "pb_effect p q r s =
     (case q of
        PbFlock _ \<Rightarrow> if r = PbErr None then s\<lparr>pb_lock := Some p\<rparr> else s
      | PbUnlock _ \<Rightarrow> if pb_lock s = Some p then s\<lparr>pb_lock := None\<rparr> else s
      | PbWrite _ _ \<Rightarrow> (case r of PbWrote _ t \<Rightarrow> s\<lparr>pb_tmp := Some t\<rparr> | _ \<Rightarrow> s)
      | PbRename _ _ \<Rightarrow> if r = PbErr None then s\<lparr>pb_file := pb_tmp s, pb_tmp := None\<rparr> else s
      | _ \<Rightarrow> s)"

definition pb_machine :: "pb_Options \<Rightarrow> (int \<Rightarrow> string) \<Rightarrow> (int, pb_call, pb_answer, pb_box, unit, herr + int) machine" where
  "pb_machine opts slots =
     \<lparr>mc_allowed = pb_allowed, mc_effect = pb_effect, mc_can_start = (\<lambda>p s. pb_lock s \<noteq> Some p), mc_born = (\<lambda>p s. s),
      mc_dead = (\<lambda>p s. if pb_lock s = Some p then s\<lparr>pb_lock := None\<rparr> else s), mc_env = (\<lambda>_ s. s),
      mc_main = (\<lambda>p. Allocate opts (slots p))\<rparr>"

section \<open>Free blocks\<close>

lemma free_from_Some: "free_from step wend used base = Some b \<Longrightarrow> b \<notin> used \<and> (\<exists>k \<ge> 0. b = base + k * step) \<and> b + step \<le> wend"
proof (induction step wend used base rule: free_from.induct)
  case (1 step wend used base)
  show ?case
  proof (cases "base \<in> used")
    case True
    then have "0 < step \<and> base + step \<le> wend" "free_from step wend used (base + step) = Some b"
      using "1.prems" by (subst (asm) free_from.simps; simp split: if_splits)+
    from "1.IH" [OF this(1) _ this(2)] True obtain k where "b \<notin> used" "0 \<le> k" "b = base + step + k * step" "b + step \<le> wend" by auto
    then show ?thesis by (intro conjI exI [of _ "k + 1"]) (simp_all add: algebra_simps)
  next
    case False
    then have "b = base \<and> base + step \<le> wend" using "1.prems" by (subst (asm) free_from.simps) (simp split: if_splits)
    then show ?thesis using False by (intro conjI exI [of _ 0]) simp_all
  qed
qed

lemma free_from_None:
  "free_from step wend used base = None \<Longrightarrow> 0 < step \<Longrightarrow> base + int k * step + step \<le> wend \<Longrightarrow> base + int k * step \<in> used"
proof (induction k arbitrary: base)
  case 0
  then show ?case by (subst (asm) free_from.simps) (simp split: if_splits)
next
  case (Suc k)
  have "int (Suc k) * step = int k * step + step" "0 \<le> int k * step" using Suc.prems(2) by (simp_all add: algebra_simps)
  then have "base + step \<le> wend" using Suc.prems(2,3) by linarith
  then have "free_from step wend used (base + step) = None" using Suc.prems(1,2) by (subst (asm) free_from.simps) (simp split: if_splits)
  then show ?case using Suc.IH [of "base + step"] Suc.prems(2,3) by (simp add: algebra_simps)
qed

lemma free_from_lowest:
  "free_from step wend used base = Some b \<Longrightarrow> base + int k * step < b \<Longrightarrow> base + int k * step \<in> used"
proof (induction k arbitrary: base)
  case 0
  then show ?case by (subst (asm) free_from.simps) (auto split: if_splits)
next
  case (Suc k)
  have "base < b \<and> 0 < step"
  proof -
    obtain j where "0 \<le> j" "b = base + j * step" using free_from_Some [OF Suc.prems(1)] by blast
    moreover have "0 < step" using Suc.prems(1) by (subst (asm) free_from.simps) (simp split: if_splits)
    moreover have "base < base + int (Suc k) * step" using \<open>0 < step\<close> by simp
    ultimately show ?thesis using Suc.prems(2) by linarith
  qed
  then have "free_from step wend used (base + step) = Some b" using Suc.prems(1) by (subst (asm) free_from.simps) (auto split: if_splits)
  then show ?case using Suc.IH [of "base + step"] Suc.prems(2) by (simp add: algebra_simps)
qed

lemma map_of_fold_state: "map_of (fold_state xs) = map_of (rev (map (\<lambda>a. (al_Slot a, al_Base a)) xs))"
proof -
  have "map_of (fold (\<lambda>a. AList.update (al_Slot a) (al_Base a)) xs st) = map_of st ++ map_of (rev (map (\<lambda>a. (al_Slot a, al_Base a)) xs))" for st
    by (induction xs arbitrary: st) (auto simp: update_conv' map_add_def fun_eq_iff split: option.splits)
  then show ?thesis by (simp add: fold_state_def)
qed

lemma distinct_fold_state: "distinct (map fst (fold_state xs))"
proof -
  have "distinct (map fst st) \<Longrightarrow> distinct (map fst (fold (\<lambda>a. AList.update (al_Slot a) (al_Base a)) xs st))" for st
    by (induction xs arbitrary: st) (simp_all add: distinct_update)
  then show ?thesis by (simp add: fold_state_def)
qed

text \<open>What is written is read back as the same map.\<close>

lemma marshal_fold:
  assumes "distinct (map fst st)"
  shows "map_of (fold_state (marshalState st)) = map_of st"
proof -
  have "map (\<lambda>a. (al_Slot a, al_Base a)) (marshalState st) = sort_key fst st"
    by (auto simp: marshalState_def comp_def split_def)
  moreover have same: "distinct (map fst (rev (sort_key fst st)))"
    using assms mset_eq_imp_distinct_iff [of "map fst (sort_key fst st)" "map fst st"] by (simp add: rev_map [symmetric])
  moreover have "map_of (rev (sort_key fst st)) = map_of st"
    by (rule map_of_inject_set [THEN iffD2, OF same assms]) simp
  ultimately show ?thesis by (simp add: map_of_fold_state)
qed

section \<open>Allocations run together\<close>

definition on_grid :: "pb_Options \<Rightarrow> int \<Rightarrow> bool" where
  "on_grid opts b \<longleftrightarrow> (\<exists>k \<ge> 0. b = po_BlockStart opts + k * po_BlockSize opts) \<and> b + po_BlockSize opts \<le> po_WindowEnd opts"

definition good :: "pb_Options \<Rightarrow> (string \<Rightarrow> int option) \<Rightarrow> bool" where
  "good opts m \<longleftrightarrow> inj_on m (dom m) \<and> (\<forall>slot b. m slot = Some b \<longrightarrow> on_grid opts b)"

definition contents :: "state_text option \<Rightarrow> pb_state" where
  "contents f = (case f of Some (StateAllocs xs) \<Rightarrow> fold_state xs | _ \<Rightarrow> [])"

lemma on_grid_disjoint:
  assumes "on_grid opts b" "on_grid opts c" "b \<noteq> c" "0 < po_BlockSize opts"
  shows "{b ..< b + po_BlockSize opts} \<inter> {c ..< c + po_BlockSize opts} = {}"
proof -
  obtain k l where kl: "b = po_BlockStart opts + k * po_BlockSize opts" "c = po_BlockStart opts + l * po_BlockSize opts"
    using assms(1,2) by (auto simp: on_grid_def)
  have "k + 1 \<le> l \<or> l + 1 \<le> k" using kl assms(3) by auto
  then have "(k + 1) * po_BlockSize opts \<le> l * po_BlockSize opts \<or> (l + 1) * po_BlockSize opts \<le> k * po_BlockSize opts"
    using assms(4) by auto
  then show ?thesis using kl by (auto simp: algebra_simps)
qed

lemma good_insert: "good opts m \<Longrightarrow> m slot = None \<Longrightarrow> b \<notin> ran m \<Longrightarrow> on_grid opts b \<Longrightarrow> good opts (m(slot \<mapsto> b))"
  by (auto simp: good_def inj_on_def ran_def)

lemma nextFreeBase_new:
  assumes "nextFreeBase opts st = Inr b"
  shows "on_grid opts b" "b \<notin> ran (map_of st)"
proof -
  have "free_from (po_BlockSize opts) (po_WindowEnd opts) (set (map snd st)) (po_BlockStart opts) = Some b"
    using assms by (simp add: nextFreeBase_def split: option.splits)
  from free_from_Some [OF this] show "on_grid opts b" "b \<notin> ran (map_of st)"
    by (auto simp: on_grid_def ran_def image_iff dest!: map_of_SomeD)
qed

text \<open>
  What a process knows: it is outside the lock, or inside and perhaps knows the map in the file and
  what is in the temporary; and the base the file has for its slot.
\<close>

datatype pb_phase = Outside | Inside | Knows pb_state | Ready pb_state "Allocation list"

type_synonym pb_ghost = "pb_phase \<times> int option"

definition pb_owns :: "(int \<Rightarrow> string) \<Rightarrow> int \<Rightarrow> pb_ghost \<Rightarrow> pb_box \<Rightarrow> bool" where
  "pb_owns slots p g s \<longleftrightarrow> (pb_lock s = Some p \<longleftrightarrow> fst g \<noteq> Outside) \<and>
     (case fst g of
        Knows st \<Rightarrow> st = contents (pb_file s)
      | Ready st xs \<Rightarrow> st = contents (pb_file s) \<and> pb_tmp s = Some (StateAllocs xs)
      | _ \<Rightarrow> True) \<and>
     (case snd g of None \<Rightarrow> True | Some b \<Rightarrow> map_of (contents (pb_file s)) (slots p) = Some b)"

definition pb_inv :: "pb_Options \<Rightarrow> pb_state \<Rightarrow> pb_box \<Rightarrow> bool" where
  "pb_inv opts st0 s \<longleftrightarrow> good opts (map_of (contents (pb_file s))) \<and> map_of st0 \<subseteq>\<^sub>m map_of (contents (pb_file s))"

definition pb_pre :: "pb_Options \<Rightarrow> pb_call \<Rightarrow> pb_ghost \<Rightarrow> bool" where
  "pb_pre opts q g =
     (case q of
        PbWrite _ _ \<Rightarrow> (\<exists>st. fst g = Knows st)
      | PbRename _ _ \<Rightarrow> (\<exists>st xs. fst g = Ready st xs \<and> good opts (map_of (fold_state xs)) \<and> map_of st \<subseteq>\<^sub>m map_of (fold_state xs))
      | _ \<Rightarrow> True)"

definition pb_fits :: "pb_Options \<Rightarrow> pb_call \<Rightarrow> pb_ghost \<Rightarrow> pb_answer \<Rightarrow> bool" where
  "pb_fits opts q g r =
     (case q of
        PbRead _ \<Rightarrow> (\<exists>x. r = PbText x \<and> (case x of Inr t \<Rightarrow> good opts (map_of (contents (Some t))) | Inl _ \<Rightarrow> True))
      | PbFlock _ \<Rightarrow> (\<exists>e. r = PbErr e)
      | PbWrite _ _ \<Rightarrow> (\<exists>e t. r = PbWrote e t)
      | PbRename _ _ \<Rightarrow> (\<exists>e. r = PbErr e)
      | _ \<Rightarrow> True)"

definition learn :: "string \<Rightarrow> pb_state \<Rightarrow> pb_ghost" where
  "learn slot st = (Knows st, map_of st slot)"

definition pb_gain :: "(int \<Rightarrow> string) \<Rightarrow> int \<Rightarrow> pb_call \<Rightarrow> pb_answer \<Rightarrow> pb_ghost \<Rightarrow> pb_ghost" where
  "pb_gain slots p q r g =
     (case q of
        PbFlock _ \<Rightarrow> if r = PbErr None then (Inside, snd g) else g
      | PbUnlock _ \<Rightarrow> (Outside, snd g)
      | PbRead _ \<Rightarrow>
          if fst g \<noteq> Inside then g
          else (case r of
                  PbText (Inr t) \<Rightarrow> learn (slots p) (contents (Some t))
                | PbText (Inl err) \<Rightarrow> if is_NotExist err then learn (slots p) [] else g
                | _ \<Rightarrow> g)
      | PbWrite _ xs \<Rightarrow> (case (fst g, pb_err r) of (Knows st, None) \<Rightarrow> (Ready st xs, snd g) | _ \<Rightarrow> g)
      | PbRename _ _ \<Rightarrow> (case fst g of Ready st xs \<Rightarrow> if r = PbErr None then learn (slots p) (fold_state xs) else g | _ \<Rightarrow> g)
      | _ \<Rightarrow> g)"

definition pb_post :: "herr + int \<Rightarrow> pb_ghost \<Rightarrow> bool" where
  "pb_post a g = (case a of Inl _ \<Rightarrow> True | Inr b \<Rightarrow> snd g = Some b)"

lemmas pb_defs = pb_allowed_def pb_effect_def pb_pre_def pb_fits_def pb_gain_def pb_err_def pb_text_def learn_def

lemma contents_simps [simp]: "contents None = []" "contents (Some StateBlank) = []" "contents (Some StateCorrupt) = []"
    "contents (Some (StateAllocs xs)) = fold_state xs"
  by (simp_all add: contents_def)

lemma good_empty [simp]: "good opts Map.empty"
  by (simp add: good_def)

section \<open>The calls and the program\<close>

lemma pb_call_ok:
  assumes "pb_inv opts st0 s" "pb_owns slots p g s" "pb_pre opts q g" "pb_allowed p q r s"
  shows "pb_fits opts q g r" "pb_inv opts st0 (pb_effect p q r s)" "pb_owns slots p (pb_gain slots p q r g) (pb_effect p q r s)"
    "p' \<noteq> p \<Longrightarrow> pb_owns slots p' g' s \<Longrightarrow> pb_owns slots p' g' (pb_effect p q r s)"
proof -
  show "pb_fits opts q g r"
    using assms by (cases q; cases r) (auto simp: pb_defs pb_inv_def split: sum.splits)
  show "pb_inv opts st0 (pb_effect p q r s)"
    using assms by (cases q; cases r) (auto simp: pb_defs pb_inv_def pb_owns_def map_le_trans)
  show "pb_owns slots p (pb_gain slots p q r g) (pb_effect p q r s)"
    using assms by (cases q; cases r; cases "fst g") (auto simp: pb_defs pb_owns_def split: sum.splits option.splits if_splits)
  show "pb_owns slots p' g' (pb_effect p q r s)" if "p' \<noteq> p" "pb_owns slots p' g' s"
    using assms that by (cases q; cases r; cases "fst g'")
      (auto simp: pb_defs pb_owns_def map_le_def dom_def split: sum.splits option.splits if_splits)
qed

abbreviation ap :: "pb_Options \<Rightarrow> (int \<Rightarrow> string) \<Rightarrow> int \<Rightarrow> 'a pb_prog \<Rightarrow> ('a \<Rightarrow> pb_ghost \<Rightarrow> bool) \<Rightarrow> pb_ghost \<Rightarrow> bool" where
  "ap opts slots p \<equiv> gwp (pb_pre opts) (pb_fits opts) (pb_gain slots p)"

lemma ap_readState:
  assumes "\<And>err g. Q (Inl err) g"
    "\<And>st. good opts (map_of st) \<Longrightarrow> distinct (map fst st) \<Longrightarrow> Q (Inr st) (learn (slots p) st)"
  shows "ap opts slots p (readState opts') Q (Inside, b)"
proof -
  let ?res = "\<lambda>r. case pb_text r of
        Inl err \<Rightarrow> if is_NotExist err then Inr [] else Inl (Wrap (''portblock: ler state '' @ po_StatePath opts' @ '': '') [err])
      | Inr StateBlank \<Rightarrow> Inr []
      | Inr StateCorrupt \<Rightarrow> Inl (Wrap (''portblock: parse state '' @ po_StatePath opts' @ '': '') [json_error])
      | Inr (StateAllocs allocations) \<Rightarrow> Inr (fold_state allocations)"
  have read: "Q (?res (PbText x)) (pb_gain slots p (PbRead f) (PbText x) (Inside, b))"
    if "\<And>t. x = Inr t \<Longrightarrow> good opts (map_of (contents (Some t)))" for x f
  proof (cases x)
    case (Inl err)
    then show ?thesis using assms by (simp add: pb_text_def pb_gain_def)
  next
    case (Inr t)
    then show ?thesis using assms that distinct_fold_state by (cases t) (simp_all add: pb_text_def pb_gain_def)
  qed
  have "Q (?res r) (pb_gain slots p (PbRead f) r (Inside, b))" if "pb_fits opts (PbRead f) (Inside, b) r" for r f
  proof -
    obtain x where x: "r = PbText x" "\<And>t. x = Inr t \<Longrightarrow> good opts (map_of (contents (Some t)))"
      using \<open>pb_fits opts (PbRead f) (Inside, b) r\<close> by (fastforce simp: pb_fits_def)
    show ?thesis unfolding x(1) by (rule read [OF x(2)])
  qed
  then show ?thesis
    unfolding readState_def gwp.simps by (simp add: pb_pre_def)
qed

lemma ap_writeState:
  assumes "good opts (map_of st')" "distinct (map fst st')" "map_of st \<subseteq>\<^sub>m map_of st'" "\<And>err g. Q (Some err) g"
    "\<And>b. Q None (Knows (fold_state (marshalState st')), map_of st' (slots p))"
  shows "ap opts slots p (writeState opts' st') Q (learn (slots p) st)"
  using assms marshal_fold [OF assms(2)]
  by (auto simp: writeState_def Let_def pb_pre_def pb_fits_def pb_gain_def pb_err_def learn_def map_option_case split: option.split)

lemma ap_allocate_locked: "ap opts slots p (allocate_locked opts (slots p)) pb_post (Inside, b)"
proof -
  have new: "ap opts slots p (writeState opts (AList.update (slots p) base st)) (\<lambda>e. ap opts slots p
      (Return (case e of Some err \<Rightarrow> Inl err | None \<Rightarrow> Inr base)) pb_post) (learn (slots p) st)"
    if "good opts (map_of st)" "distinct (map fst st)" "map_of st (slots p) = None" "nextFreeBase opts st = Inr base" for st base
  proof (rule ap_writeState)
    show "good opts (map_of (AList.update (slots p) base st))"
      using that nextFreeBase_new [OF that(4)] by (simp add: update_conv' good_insert)
    show "map_of st \<subseteq>\<^sub>m map_of (AList.update (slots p) base st)" using that(3) by (auto simp: update_conv' map_le_def)
  qed (use that in \<open>simp_all add: distinct_update update_conv' pb_post_def\<close>)
  show ?thesis
    unfolding allocate_locked_def gwp_and_then
    by (rule ap_readState) (use new in \<open>auto simp: pb_post_def learn_def split: option.split sum.split\<close>)
qed

lemma ap_Allocate: "ap (pb_applyDefaults opts) slots p (Allocate opts (slots p)) pb_post (Outside, None)"
proof -
  have locked: "ap (pb_applyDefaults opts) slots p (allocate_locked (pb_applyDefaults opts) (slots p))
      (\<lambda>res. ap (pb_applyDefaults opts) slots p (Ask (PbUnlock l) (\<lambda>_. Return res)) pb_post) (Inside, None)" for l
    by (rule gwp_mono [OF ap_allocate_locked]) (auto simp: pb_pre_def pb_gain_def pb_post_def split: sum.splits)
  have failed: "ap opts' slots p (Return (Inl err)) pb_post g" for opts' err g
    by (simp add: pb_post_def)
  have asks: "ap opts' slots p (Ask q (\<lambda>r. case pb_err r of Some err \<Rightarrow> Return (Inl (f err)) | None \<Rightarrow> k r)) pb_post g"
    if "pb_pre opts' q g" "\<And>r. pb_fits opts' q g r \<Longrightarrow> pb_err r = None \<Longrightarrow> ap opts' slots p (k r) pb_post (pb_gain slots p q r g)"
    for opts' q f k g
    using that by (auto simp: pb_post_def split: option.split)
  show ?thesis
    unfolding Allocate_def Let_def
    by (auto simp: pb_pre_def pb_gain_def pb_fits_def pb_err_def [of "PbErr _"] simp del: gwp.simps split: option.split
        intro!: failed asks locked [simplified])
qed

lemma pb_lock_other:
  "pb_inv opts st0 (s\<lparr>pb_lock := l\<rparr>) = pb_inv opts st0 s"
  "pb_owns slots p g s \<Longrightarrow> p \<noteq> p' \<Longrightarrow> pb_lock s = Some p' \<Longrightarrow> pb_owns slots p g (s\<lparr>pb_lock := None\<rparr>)"
  by (auto simp: pb_inv_def pb_owns_def split: pb_phase.splits option.splits)

interpretation allocations: rely_guarantee "pb_machine opts slots" "pb_inv (pb_applyDefaults opts) st0" "pb_owns slots"
    "\<lambda>_. pb_pre (pb_applyDefaults opts)" "\<lambda>_. pb_fits (pb_applyDefaults opts)" "pb_gain slots" "(Outside, None)" "\<lambda>_. pb_post" for opts slots st0
proof
  fix s p g q r p' g' e
  let ?o = "pb_applyDefaults opts"
  let ?M = "pb_machine opts slots"
  show "gwp (pb_pre ?o) (pb_fits ?o) (pb_gain slots p) (mc_main ?M p) pb_post (Outside, None)"
    using ap_Allocate by (simp add: pb_machine_def)
  show "mc_can_start ?M p s \<Longrightarrow> pb_inv ?o st0 s \<Longrightarrow> pb_inv ?o st0 (mc_born ?M p s) \<and> pb_owns slots p (Outside, None) (mc_born ?M p s)"
    by (simp add: pb_machine_def pb_owns_def)
qed (auto simp: pb_machine_def pb_lock_other intro: pb_call_ok)

section \<open>Properties\<close>

lemma pb_defaults_size: "validateOptions opts = None \<Longrightarrow> 0 < po_BlockSize opts"
  by (simp add: validateOptions_def split: if_splits)


definition demo_slots :: "int \<Rightarrow> string" where
  "demo_slots p = (if p = 1 then ''a'' else ''b'')"

definition demo_alloc :: "int \<Rightarrow> herr + state_text \<Rightarrow> Allocation list \<Rightarrow> (int, pb_answer, unit) choice list" where
  "demo_alloc p file new = Spawn p # map (Answer p)
     [PbErr None, PbErr None, PbErr None, PbText file, PbWrote None (StateAllocs new), PbErr None, PbDone]"

definition demo_allocs :: "Allocation list" where
  "demo_allocs = [\<lparr>al_Slot = ''a'', al_Base = 20000\<rparr>, \<lparr>al_Slot = ''b'', al_Base = 20064\<rparr>]"

definition demo_pb_run :: "(int, pb_answer, unit) choice list" where
  "demo_pb_run =
     demo_alloc 1 (Inl (Leaf (NotExist ''x''))) (take 1 demo_allocs) @
     demo_alloc 2 (Inr (StateAllocs (take 1 demo_allocs))) demo_allocs"

definition empty_pb :: pb_box where
  "empty_pb = \<lparr>pb_lock = None, pb_file = None, pb_tmp = None\<rparr>"

lemma demo_pb_defaults: "pb_applyDefaults pb_DefaultOptions = pb_DefaultOptions" "validateOptions pb_DefaultOptions = None"
  by (simp_all add: pb_applyDefaults_def pb_DefaultOptions_def validateOptions_def DefaultPortBlockStatePath_def DefaultRunnerPortBlockStart_def
      DefaultRunnerPortBlockSize_def DefaultRunnerPortWindowEnd_def)

lemma demo_pb_window: "po_BlockStart pb_DefaultOptions = 20000" "po_BlockSize pb_DefaultOptions = 64" "po_WindowEnd pb_DefaultOptions = 32000"
  by (simp_all add: pb_DefaultOptions_def DefaultRunnerPortBlockStart_def DefaultRunnerPortBlockSize_def DefaultRunnerPortWindowEnd_def)

lemma demo_free:
  "nextFreeBase pb_DefaultOptions [] = Inr 20000" "nextFreeBase pb_DefaultOptions [(s, 20000)] = Inr 20064"
  by (simp_all add: nextFreeBase_def demo_pb_window free_from.simps [of 64 32000 _ 20000] free_from.simps [of 64 32000 _ 20064])

lemma demo_pb_run_ends:
  "map_option (\<lambda>(s, ps). (ps 1, ps 2)) (run_choices (pb_machine pb_DefaultOptions demo_slots) demo_pb_run (empty_pb, \<lambda>_. None)) =
     Some (Some (Return (Inr 20000)), Some (Return (Inr 20064)))"
  by (simp add: demo_pb_run_def demo_alloc_def demo_allocs_def take_step_def pb_machine_def Allocate_def demo_pb_defaults allocate_locked_def
      readState_def writeState_def fold_state_def marshalState_def demo_free empty_pb_def pb_allowed_def pb_effect_def pb_err_def
      pb_text_def demo_slots_def Let_def trim_space_def is_space_def)


text \<open>
  C38. \<open>nextFreeBase\<close> gives the lowest block of the window that no slot has, and reports the window
  exhausted only when every block of it is taken.
\<close>

theorem nextFreeBase_lowest:
  assumes "0 < po_BlockSize opts"
  shows "case nextFreeBase opts st of
      Inr b \<Rightarrow> on_grid opts b \<and> b \<notin> set (map snd st) \<and> (\<forall>c. on_grid opts c \<longrightarrow> c < b \<longrightarrow> c \<in> set (map snd st))
    | Inl err \<Rightarrow> err = Leaf PortWindowExhausted \<and> (\<forall>c. on_grid opts c \<longrightarrow> c \<in> set (map snd st))"
proof (cases "free_from (po_BlockSize opts) (po_WindowEnd opts) (set (map snd st)) (po_BlockStart opts)")
  case None
  have "c \<in> set (map snd st)" if c: "on_grid opts c" for c
  proof -
    obtain k where "0 \<le> k" "c = po_BlockStart opts + k * po_BlockSize opts" "c + po_BlockSize opts \<le> po_WindowEnd opts"
      using c by (auto simp: on_grid_def)
    then show ?thesis using free_from_None [OF None assms, of "nat k"] by simp
  qed
  then show ?thesis using None by (simp add: nextFreeBase_def)
next
  case (Some b)
  have "c \<in> set (map snd st)" if c: "on_grid opts c" "c < b" for c
  proof -
    obtain k where "0 \<le> k" "c = po_BlockStart opts + k * po_BlockSize opts"
      using c by (auto simp: on_grid_def)
    then show ?thesis using free_from_lowest [OF Some, of "nat k"] c(2) by simp
  qed
  then show ?thesis using Some free_from_Some [OF Some] by (simp add: nextFreeBase_def on_grid_def)
qed

theorem nextFreeBase_lowest_witness:
  "on_grid pb_DefaultOptions 20064 \<and> (20064 :: int) \<notin> {20000}"
  using nextFreeBase_lowest [of pb_DefaultOptions "[(''a'', 20000)]"] by (simp add: demo_pb_window demo_free)

end
