(* ===== verification/Safe_Delete.thy ===== *)
theory Safe_Delete
  imports Host
begin

text \<open>
  \<open>internal/safedelete\<close>: deletion of a path the runner user should own, with a privileged wrapper
  behind \<open>sudo\<close> when files of root are in the way. The trace records what is resolved and looked at
  and what is deleted or run as root. \<open>GuardFn\<close>, the caller's scope, is a function of the path or
  absent; the file information that \<open>Lstat\<close> answers with is its owner, when that can be known. The
  output of the wrapper is not used.
\<close>

record sd_Result =
  rs_Escalated :: bool
  rs_Err :: "herr option"

record 'w sd_Options =
  so_WrapperPath :: string
  so_GuardFn :: "(string \<Rightarrow> herr option) option"
  so_RunFn :: "string \<Rightarrow> string list \<Rightarrow> ('w, herr option) hop"
  so_RemoveAllFn :: "string \<Rightarrow> ('w, herr option) hop"
  so_EvalSymlinksFn :: "string \<Rightarrow> ('w, herr + string) hop"
  so_LstatFn :: "string \<Rightarrow> ('w, herr + int option) hop"
  so_OwnerUID :: int
  so_HOME :: string

datatype sd_event =
    SdResolve string "herr + string"
  | SdLstat string "herr + int option"
  | SdRemoveAll string "herr option"
  | SdRun string "string list" "herr option"

type_synonym ('w, 'a) sd_prog = "(('w, unit, unit, sd_event) hst, 'a) state"

definition DefaultSafeDeleteWrapperPath :: string where
  "DefaultSafeDeleteWrapperPath = ''/usr/local/bin/civm-safedelete''"

definition sd_applyDefaults :: "'w sd_Options \<Rightarrow> 'w sd_Options" where
  "sd_applyDefaults opts = opts
     \<lparr>so_WrapperPath := (if so_WrapperPath opts = [] then DefaultSafeDeleteWrapperPath else so_WrapperPath opts)\<rparr>"

definition unsafe :: "string \<Rightarrow> herr" where
  "unsafe detail = Leaf (UnsafePath ('': '' @ detail))"

definition isBareHome :: "string \<Rightarrow> bool" where
  "isBareHome clean \<longleftrightarrow> has_prefix clean ''/home/'' \<and>
     length (filter (\<lambda>c. c = CHR ''/'') (trim_char (CHR ''/'') clean)) = 1"

definition validateFixed :: "string \<Rightarrow> string \<Rightarrow> herr + string" where
  "validateFixed home path =
     (if trim_space path = [] then Inl (unsafe ''empty path'')
      else if CHR 0x00 \<in> set path then Inl (unsafe ''path contains NUL'')
      else (let clean = path_Clean path in
            if \<not> path_IsAbs clean then Inl (unsafe (''path not absolute: '' @ go_quote clean))
            else if clean = ''/'' then Inl (unsafe ''refusing to delete root'')
            else if home \<noteq> [] \<and> clean = path_Clean home then Inl (unsafe (''refusing to delete $HOME: '' @ go_quote clean))
            else if isBareHome clean then Inl (unsafe (''refusing to delete a bare home dir: '' @ go_quote clean))
            else Inr clean))"

text \<open>The re-check of a path that a symbolic link leads to; \<open>guard\<close> is the caller's scope.\<close>

definition recheck :: "string \<Rightarrow> (string \<Rightarrow> herr option) \<Rightarrow> string \<Rightarrow> string \<Rightarrow> herr option" where
  "recheck home guard clean real' =
     (if real' = clean then None
      else (case validateFixed home real' of
              Inl err \<Rightarrow> Some err
            | Inr _ \<Rightarrow> map_option (\<lambda>err. unsafe (''resolved target '' @ go_quote real' @ '' escapes the validated tree: '' @ err_Error err))
                         (guard real')))"

definition affirmOwner :: "'w sd_Options \<Rightarrow> string \<Rightarrow> herr + int option \<Rightarrow> herr + string" where
  "affirmOwner opts real' info =
     (case info of
        Inl err \<Rightarrow> if is_NotExist err then Inr real' else Inl (unsafe (''cannot lstat '' @ go_quote real' @ '': '' @ err_Error err))
      | Inr None \<Rightarrow> Inl (unsafe (''cannot determine owner of '' @ go_quote real'))
      | Inr (Some uid) \<Rightarrow>
          if uid \<noteq> so_OwnerUID opts \<and> uid \<noteq> 0
          then Inl (unsafe (go_quote real' @ '' owned by uid '' @ show_int uid @ '', runner is uid '' @ show_int (so_OwnerUID opts)))
          else Inr real')"

definition resolveAndAffirmOwner ::
  "'w sd_Options \<Rightarrow> (string \<Rightarrow> herr option) \<Rightarrow> string \<Rightarrow> ('w, herr + string) sd_prog" where
  "resolveAndAffirmOwner opts guard clean = do {
     r \<leftarrow> act (SdResolve clean) (so_EvalSymlinksFn opts clean);
     (case r of
        Inl err \<Rightarrow> ret (if is_NotExist err then Inr clean else Inl (unsafe (''cannot resolve '' @ go_quote clean @ '': '' @ err_Error err)))
      | Inr real' \<Rightarrow>
          (case recheck (so_HOME opts) guard clean real' of
             Some err \<Rightarrow> ret (Inl err)
           | None \<Rightarrow> do {
               info \<leftarrow> act (SdLstat real') (so_LstatFn opts real');
               ret (affirmOwner opts real' info)
             }))
   }"

definition resolveSafeTarget :: "'w sd_Options \<Rightarrow> string \<Rightarrow> ('w, herr + string) sd_prog" where
  "resolveSafeTarget opts path =
     (case validateFixed (so_HOME opts) path of
        Inl err \<Rightarrow> ret (Inl err)
      | Inr clean \<Rightarrow>
          (case so_GuardFn opts of
             None \<Rightarrow> ret (Inl (unsafe ''nil GuardFn (escalation must be scoped)''))
           | Some guard \<Rightarrow>
               (case guard clean of
                  Some err \<Rightarrow> ret (Inl (unsafe (''guard rejected '' @ go_quote clean @ '': '' @ err_Error err)))
                | None \<Rightarrow> resolveAndAffirmOwner opts guard clean)))"

definition runWrapper :: "'w sd_Options \<Rightarrow> string \<Rightarrow> string list \<Rightarrow> ('w, herr option) sd_prog" where
  "runWrapper opts op args =
     (let cmd = [''-n'', so_WrapperPath opts, op] @ args in act (SdRun ''sudo'' cmd) (so_RunFn opts ''sudo'' cmd))"

definition uidgid :: "'w sd_Options \<Rightarrow> string" where
  "uidgid opts = show_int (so_OwnerUID opts) @ '':'' @ show_int (so_OwnerUID opts)"

definition escalate_rm :: "'w sd_Options \<Rightarrow> string \<Rightarrow> herr option \<Rightarrow> ('w, sd_Result) sd_prog" where
  "escalate_rm opts target chownErr = do {
     e \<leftarrow> runWrapper opts ''rm'' [target];
     ret \<lparr>rs_Escalated = True, rs_Err = map_option (\<lambda>rmErr.
       case chownErr of
         Some c \<Rightarrow> Wrap (''chown failed ('' @ err_Error c @ '') and rm failed: '') [rmErr]
       | None \<Rightarrow> Wrap ''wrapper rm failed: '' [rmErr]) e\<rparr>
   }"

definition escalate :: "'w sd_Options \<Rightarrow> string \<Rightarrow> ('w, sd_Result) sd_prog" where
  "escalate opts target = do {
     chownErr \<leftarrow> runWrapper opts ''chown'' [uidgid opts, target];
     (case chownErr of
        Some _ \<Rightarrow> escalate_rm opts target chownErr
      | None \<Rightarrow> do {
          e \<leftarrow> act (SdRemoveAll target) (so_RemoveAllFn opts target);
          (case e of None \<Rightarrow> ret \<lparr>rs_Escalated = True, rs_Err = None\<rparr> | Some _ \<Rightarrow> escalate_rm opts target None)
        })
   }"

definition Remove :: "'w sd_Options \<Rightarrow> string \<Rightarrow> ('w, sd_Result) sd_prog" where
  "Remove opts0 path = (let opts = sd_applyDefaults opts0 in do {
     t \<leftarrow> resolveSafeTarget opts path;
     (case t of
        Inl err \<Rightarrow> ret \<lparr>rs_Escalated = False, rs_Err = Some err\<rparr>
      | Inr target \<Rightarrow> do {
          e \<leftarrow> act (SdRemoveAll target) (so_RemoveAllFn opts target);
          (case e of
             None \<Rightarrow> ret \<lparr>rs_Escalated = False, rs_Err = None\<rparr>
           | Some err \<Rightarrow>
               if \<not> is_PermissionDenied err then ret \<lparr>rs_Escalated = False, rs_Err = Some err\<rparr>
               else escalate opts target)
        })
   })"

definition Chown :: "'w sd_Options \<Rightarrow> string \<Rightarrow> ('w, sd_Result) sd_prog" where
  "Chown opts0 path = (let opts = sd_applyDefaults opts0 in do {
     t \<leftarrow> resolveSafeTarget opts path;
     (case t of
        Inl err \<Rightarrow> ret \<lparr>rs_Escalated = False, rs_Err = Some err\<rparr>
      | Inr target \<Rightarrow> do {
          e \<leftarrow> runWrapper opts ''chown'' [uidgid opts, target];
          ret \<lparr>rs_Escalated = True, rs_Err = map_option (\<lambda>err. Wrap ''wrapper chown failed: '' [err]) e\<rparr>
        })
   })"

section \<open>What a target has passed\<close>

text \<open>A cleaned path that may be deleted at all.\<close>

definition deletable :: "string \<Rightarrow> string \<Rightarrow> bool" where
  "deletable home p \<longleftrightarrow> path_IsAbs p \<and> p \<noteq> ''/'' \<and> (home = [] \<or> p \<noteq> path_Clean home) \<and> \<not> isBareHome p"

definition in_scope :: "'w sd_Options \<Rightarrow> string \<Rightarrow> bool" where
  "in_scope opts p \<longleftrightarrow> (\<exists>guard. so_GuardFn opts = Some guard \<and> guard p = None)"

text \<open>
  What the probes have shown of the target of \<open>path\<close>: it is gone, or it is what the links of the path
  resolve to, is deletable and in scope itself, and belongs to the runner user or to root, or is gone.
\<close>

inductive cleared :: "'w sd_Options \<Rightarrow> string \<Rightarrow> sd_event list \<Rightarrow> string \<Rightarrow> bool" for opts path where
  gone: "\<lbrakk>deletable (so_HOME opts) (path_Clean path); in_scope opts (path_Clean path); is_NotExist err\<rbrakk> \<Longrightarrow>
    cleared opts path [SdResolve (path_Clean path) (Inl err)] (path_Clean path)"
| found: "\<lbrakk>deletable (so_HOME opts) (path_Clean path); in_scope opts (path_Clean path);
    deletable (so_HOME opts) (path_Clean target) \<or> target = path_Clean path; in_scope opts target;
    (\<exists>err. info = Inl err \<and> is_NotExist err) \<or> (\<exists>uid. info = Inr (Some uid) \<and> uid \<in> {so_OwnerUID opts, 0})\<rbrakk> \<Longrightarrow>
    cleared opts path [SdResolve (path_Clean path) (Inr target), SdLstat target info] target"

definition sudo :: "'w sd_Options \<Rightarrow> string list \<Rightarrow> herr option \<Rightarrow> sd_event" where
  "sudo opts args e = SdRun ''sudo'' ([''-n'', so_WrapperPath opts] @ args) e"

text \<open>The ways a removal of a cleared target goes, with the calls it makes and its result.\<close>

inductive removal :: "'w sd_Options \<Rightarrow> string \<Rightarrow> sd_event list \<Rightarrow> sd_Result \<Rightarrow> bool" for opts target where
  plain: "removal opts target [SdRemoveAll target None] \<lparr>rs_Escalated = False, rs_Err = None\<rparr>"
| failed: "\<not> is_PermissionDenied err \<Longrightarrow>
    removal opts target [SdRemoveAll target (Some err)] \<lparr>rs_Escalated = False, rs_Err = Some err\<rparr>"
| owned: "is_PermissionDenied err \<Longrightarrow>
    removal opts target [SdRemoveAll target (Some err), sudo opts [''chown'', uidgid opts, target] None, SdRemoveAll target None]
      \<lparr>rs_Escalated = True, rs_Err = None\<rparr>"
| forced: "\<lbrakk>is_PermissionDenied err; rs_Escalated res; rs_Err res = None \<longleftrightarrow> e = None;
    calls = [sudo opts [''chown'', uidgid opts, target] (Some c)] \<or>
    calls = [sudo opts [''chown'', uidgid opts, target] None, SdRemoveAll target (Some again)]\<rbrakk> \<Longrightarrow>
    removal opts target ([SdRemoveAll target (Some err)] @ calls @ [sudo opts [''rm'', target] e]) res"

definition is_probe :: "sd_event \<Rightarrow> bool" where
  "is_probe e = (case e of SdResolve _ _ \<Rightarrow> True | SdLstat _ _ \<Rightarrow> True | _ \<Rightarrow> False)"

definition sd_run :: "('w, 'a) sd_prog \<Rightarrow> ('w, unit, unit, sd_event) hst \<Rightarrow> 'a \<times> sd_event list" where
  "sd_run m s = (case run_state m s of (a, t) \<Rightarrow> (a, map fst (htrace s t)))"

definition refused :: "sd_event list \<Rightarrow> sd_Result \<Rightarrow> bool" where
  "refused evs res \<longleftrightarrow> list_all is_probe evs \<and> \<not> rs_Escalated res \<and> (\<exists>err. rs_Err res = Some err \<and> is_UnsafePath err)"

section \<open>Proofs\<close>

lemma is_UnsafePath_unsafe [simp]: "is_UnsafePath (unsafe d)"
  by (simp add: is_UnsafePath_def unsafe_def)

lemma validateFixed_Inr: "validateFixed home path = Inr clean \<Longrightarrow> clean = path_Clean path \<and> deletable home clean"
  by (auto simp: validateFixed_def Let_def deletable_def split: if_splits)

lemma validateFixed_Inl: "validateFixed home path = Inl err \<Longrightarrow> is_UnsafePath err"
  by (auto simp: validateFixed_def Let_def split: if_splits)

lemma recheck_cases:
  assumes "guard clean = None"
  shows "recheck home guard clean p = Some err \<Longrightarrow> is_UnsafePath err"
    and "recheck home guard clean p = None \<Longrightarrow> guard p = None \<and> (deletable home (path_Clean p) \<or> p = clean)"
  using assms by (auto simp: recheck_def split: if_splits sum.splits dest: validateFixed_Inl validateFixed_Inr)

lemma affirmOwner_cases:
  "affirmOwner opts p info = Inl err \<Longrightarrow> is_UnsafePath err"
  "affirmOwner opts p info = Inr q \<Longrightarrow> q = p \<and>
     ((\<exists>err. info = Inl err \<and> is_NotExist err) \<or> (\<exists>uid. info = Inr (Some uid) \<and> uid \<in> {so_OwnerUID opts, 0}))"
  by (auto simp: affirmOwner_def split: sum.splits option.splits if_splits)

text \<open>The trace grows by the events of a call.\<close>

definition grown :: "('w, unit, unit, sd_event) hst \<Rightarrow> sd_event list \<Rightarrow> ('w, unit, unit, sd_event) hst \<Rightarrow> bool" where
  "grown s evs t \<longleftrightarrow> map fst (hs_trace t) = map fst (hs_trace s) @ evs"

lemma grown_refl: "grown s [] s"
  by (simp add: grown_def)

lemma grown_trans: "grown s a t \<Longrightarrow> grown t b u \<Longrightarrow> grown s (a @ b) u"
  by (simp add: grown_def)

lemma grown_Cons: "grown s [a] t \<Longrightarrow> grown t b u \<Longrightarrow> grown s (a # b) u"
  using grown_trans [of s "[a]" t b u] by simp

lemma wp_grown: "(\<And>a t. grown s [ev a] t \<Longrightarrow> Q a t) \<Longrightarrow> wp (act ev f) Q s"
  by (auto simp: grown_def split: prod.split)

lemma sd_run_wp: "wp m (\<lambda>a t. \<exists>evs. grown s evs t \<and> P a evs) s \<Longrightarrow> case sd_run m s of (a, evs) \<Rightarrow> P a evs"
proof -
  have "map fst (htrace s t) = evs" if "grown s evs t" for t evs
    using that by (simp add: htrace_def grown_def drop_map [symmetric])
  moreover assume "wp m (\<lambda>a t. \<exists>evs. grown s evs t \<and> P a evs) s"
  ultimately show ?thesis by (auto simp: wp_def sd_run_def split: prod.splits)
qed

lemma wp_resolveAndAffirmOwner:
  assumes "deletable (so_HOME opts) (path_Clean path)" "so_GuardFn opts = Some guard" "guard (path_Clean path) = None"
    and bad: "\<And>evs err t. grown s evs t \<Longrightarrow> list_all is_probe evs \<Longrightarrow> is_UnsafePath err \<Longrightarrow> Q (Inl err) t"
    and good: "\<And>evs target t. grown s evs t \<Longrightarrow> cleared opts path evs target \<Longrightarrow> Q (Inr target) t"
  shows "wp (resolveAndAffirmOwner opts guard (path_Clean path)) Q s"
proof -
  have scope: "in_scope opts p" if "guard p = None" for p using that assms(2) by (simp add: in_scope_def)
  have lstat: "Q (affirmOwner opts target info) u"
    if g: "grown s [SdResolve (path_Clean path) (Inr target), SdLstat target info] u"
      and ok: "recheck (so_HOME opts) guard (path_Clean path) target = None" for target info u
  proof (cases "affirmOwner opts target info")
    case (Inl err)
    then show ?thesis using bad [OF g] affirmOwner_cases(1) [OF Inl] by (simp add: is_probe_def)
  next
    case (Inr q)
    have "cleared opts path [SdResolve (path_Clean path) (Inr target), SdLstat target info] target"
      using assms(1) scope [OF assms(3)] recheck_cases(2) [OF assms(3) ok] scope affirmOwner_cases(2) [OF Inr] by (intro found) auto
    then show ?thesis using good [OF g] Inr affirmOwner_cases(2) [OF Inr] by simp
  qed
  have gone': "cleared opts path [SdResolve (path_Clean path) (Inl err)] (path_Clean path)" if "is_NotExist err" for err
    using assms(1) scope [OF assms(3)] that by (rule gone)
  show ?thesis
    unfolding resolveAndAffirmOwner_def wp_bind
  proof (rule wp_grown)
    fix r t
    assume g: "grown s [SdResolve (path_Clean path) r] t"
    show "wp (case r of
        Inl err \<Rightarrow> ret (if is_NotExist err then Inr (path_Clean path)
          else Inl (unsafe (''cannot resolve '' @ go_quote (path_Clean path) @ '': '' @ err_Error err)))
      | Inr real' \<Rightarrow> (case recheck (so_HOME opts) guard (path_Clean path) real' of
          Some err \<Rightarrow> ret (Inl err)
        | None \<Rightarrow> act (SdLstat real') (so_LstatFn opts real') \<bind> (\<lambda>info. ret (affirmOwner opts real' info)))) Q t"
    proof (cases r)
      case (Inl err)
      then show ?thesis using bad [OF g] good [OF g, of "path_Clean path"] gone' [of err] by (simp add: is_probe_def)
    next
      case (Inr target)
      show ?thesis
      proof (cases "recheck (so_HOME opts) guard (path_Clean path) target")
        case None
        have "wp (act (SdLstat target) (so_LstatFn opts target)) (\<lambda>info. Q (affirmOwner opts target info)) t"
          by (rule wp_grown) (use lstat [OF grown_Cons [OF g [unfolded Inr]] None] in blast)
        then show ?thesis by (simp only: Inr None sum.case option.case wp_bind wp_return)
      next
        case (Some err)
        then show ?thesis using bad [OF g] recheck_cases(1) [OF assms(3) Some] by (simp add: Inr is_probe_def)
      qed
    qed
  qed
qed

lemma wp_resolveSafeTarget:
  assumes bad: "\<And>evs err t. grown s evs t \<Longrightarrow> list_all is_probe evs \<Longrightarrow> is_UnsafePath err \<Longrightarrow> Q (Inl err) t"
    and good: "\<And>evs target t. grown s evs t \<Longrightarrow> cleared opts path evs target \<Longrightarrow> Q (Inr target) t"
  shows "wp (resolveSafeTarget opts path) Q s"
proof (cases "validateFixed (so_HOME opts) path")
  case (Inl err)
  then show ?thesis using bad [OF grown_refl] validateFixed_Inl by (simp add: resolveSafeTarget_def)
next
  case (Inr clean)
  note clean = validateFixed_Inr [OF Inr]
  have "wp (resolveAndAffirmOwner opts guard (path_Clean path)) Q s" if "so_GuardFn opts = Some guard" "guard (path_Clean path) = None" for guard
    using clean that by (intro wp_resolveAndAffirmOwner) (auto intro: assms)
  then show ?thesis
    using Inr clean bad [OF grown_refl] by (auto simp: resolveSafeTarget_def split: option.split)
qed

lemma wp_escalate_rm:
  assumes "is_PermissionDenied err"
    "calls = [sudo opts [''chown'', uidgid opts, target] (Some c)] \<or>
     calls = [sudo opts [''chown'', uidgid opts, target] None, SdRemoveAll target (Some again)]"
    "grown s ([SdRemoveAll target (Some err)] @ calls) t"
  shows "wp (escalate_rm opts target chownErr) (\<lambda>res u. \<exists>evs. grown s evs u \<and> removal opts target evs res) t"
  unfolding escalate_rm_def runWrapper_def Let_def wp_bind wp_return
proof (rule wp_grown)
  fix e u
  assume "grown t [SdRun ''sudo'' ([''-n'', so_WrapperPath opts, ''rm''] @ [target]) e] u"
  then have "grown s ([SdRemoveAll target (Some err)] @ calls @ [sudo opts [''rm'', target] e]) u"
    using grown_trans [OF assms(3)] by (simp add: sudo_def)
  moreover have "removal opts target ([SdRemoveAll target (Some err)] @ calls @ [sudo opts [''rm'', target] e])
      \<lparr>rs_Escalated = True, rs_Err = map_option (\<lambda>rmErr. case chownErr of
         Some c \<Rightarrow> Wrap (''chown failed ('' @ err_Error c @ '') and rm failed: '') [rmErr] | None \<Rightarrow> Wrap ''wrapper rm failed: '' [rmErr]) e\<rparr>"
    using assms(1) _ _ assms(2) by (rule forced) simp_all
  ultimately show "\<exists>evs. grown s evs u \<and> removal opts target evs \<lparr>rs_Escalated = True, rs_Err = map_option (\<lambda>rmErr. case chownErr of
         None \<Rightarrow> Wrap ''wrapper rm failed: '' [rmErr] | Some c \<Rightarrow> Wrap (''chown failed ('' @ err_Error c @ '') and rm failed: '') [rmErr]) e\<rparr>"
    by blast
qed

lemma wp_escalate:
  assumes "is_PermissionDenied err" "grown s [SdRemoveAll target (Some err)] t"
  shows "wp (escalate opts target) (\<lambda>res u. \<exists>evs. grown s evs u \<and> removal opts target evs res) t"
  unfolding escalate_def runWrapper_def [of _ "''chown''"] Let_def wp_bind
proof (rule wp_grown)
  fix e u
  assume "grown t [SdRun ''sudo'' ([''-n'', so_WrapperPath opts, ''chown''] @ [uidgid opts, target]) e] u"
  then have chown: "grown s [SdRemoveAll target (Some err), sudo opts [''chown'', uidgid opts, target] e] u"
    using grown_Cons [OF assms(2)] by (simp add: sudo_def)
  show "wp (case e of
        Some _ \<Rightarrow> escalate_rm opts target e
      | None \<Rightarrow> act (SdRemoveAll target) (so_RemoveAllFn opts target) \<bind>
          (\<lambda>e. case e of None \<Rightarrow> ret \<lparr>rs_Escalated = True, rs_Err = None\<rparr> | Some _ \<Rightarrow> escalate_rm opts target None))
      (\<lambda>res u. \<exists>evs. grown s evs u \<and> removal opts target evs res) u"
  proof (cases e)
    case None
    have "wp (act (SdRemoveAll target) (so_RemoveAllFn opts target)) (\<lambda>e. wp
        (case e of None \<Rightarrow> ret \<lparr>rs_Escalated = True, rs_Err = None\<rparr> | Some _ \<Rightarrow> escalate_rm opts target None)
        (\<lambda>res u. \<exists>evs. grown s evs u \<and> removal opts target evs res)) u"
    proof (rule wp_grown)
      fix again v
      assume "grown u [SdRemoveAll target again] v"
      then have g: "grown s [SdRemoveAll target (Some err), sudo opts [''chown'', uidgid opts, target] None, SdRemoveAll target again] v"
        using grown_trans [OF chown [unfolded None]] by simp
      show "wp (case again of None \<Rightarrow> ret \<lparr>rs_Escalated = True, rs_Err = None\<rparr> | Some _ \<Rightarrow> escalate_rm opts target None)
          (\<lambda>res u. \<exists>evs. grown s evs u \<and> removal opts target evs res) v"
      proof (cases again)
        case None
        then show ?thesis using g owned [OF assms(1), of opts target] by auto
      next
        case (Some x)
        then show ?thesis using g by (auto intro!: wp_escalate_rm [OF assms(1) disjI2 [OF refl]])
      qed
    qed
    then show ?thesis by (simp only: None option.case wp_bind)
  next
    case (Some c)
    then show ?thesis using chown by (auto intro!: wp_escalate_rm [OF assms(1) disjI1 [OF refl]])
  qed
qed

lemma wp_remove_cleared:
  "wp (act (SdRemoveAll target) (so_RemoveAllFn opts target)) (\<lambda>e. wp
     (case e of
        None \<Rightarrow> ret \<lparr>rs_Escalated = False, rs_Err = None\<rparr>
      | Some err \<Rightarrow> if \<not> is_PermissionDenied err then ret \<lparr>rs_Escalated = False, rs_Err = Some err\<rparr> else escalate opts target)
     (\<lambda>res u. \<exists>evs. grown s evs u \<and> removal opts target evs res)) s"
proof (rule wp_grown)
  fix e t
  assume "grown s [SdRemoveAll target e] t"
  then show "wp (case e of
        None \<Rightarrow> ret \<lparr>rs_Escalated = False, rs_Err = None\<rparr>
      | Some err \<Rightarrow> if \<not> is_PermissionDenied err then ret \<lparr>rs_Escalated = False, rs_Err = Some err\<rparr> else escalate opts target)
     (\<lambda>res u. \<exists>evs. grown s evs u \<and> removal opts target evs res) t"
    using plain [of opts target] failed [of _ opts target] wp_escalate [of _ s target t opts] by (auto split: option.split)
qed

section \<open>Properties\<close>

text \<open>
  C39. \<open>Remove\<close> deletes, and asks for privilege, only within bounds. Either it refuses the path with
  \<open>ErrUnsafePath\<close> after nothing but looking, or the target it resolved the path to has passed the
  fixed checks, the caller's scope and the check of its owner, and all that follows is: the
  unprivileged deletion of that target; after a permission error, the wrapper's \<open>chown\<close> of it and a
  second try; and when one of these fails, the wrapper's \<open>rm\<close> of it. Success is reported exactly
  when the last of these calls succeeded, and escalation exactly when the wrapper ran.
\<close>

theorem Remove_guarded:
  "case sd_run (Remove opts path) s of (res, evs) \<Rightarrow>
     refused evs res \<or>
     (\<exists>probes target calls. evs = probes @ calls \<and> cleared (sd_applyDefaults opts) path probes target \<and>
        removal (sd_applyDefaults opts) target calls res)"
proof (rule sd_run_wp)
  let ?o = "sd_applyDefaults opts"
  let ?P = "\<lambda>res evs. refused evs res \<or> (\<exists>probes target calls. evs = probes @ calls \<and> cleared ?o path probes target \<and> removal ?o target calls res)"
  have removed: "\<exists>evs. grown s evs u \<and> ?P res evs"
    if "grown s probes t" "cleared ?o path probes target" "\<exists>calls. grown t calls u \<and> removal ?o target calls res" for probes t target u res
    using that grown_trans by blast
  show "wp (Remove opts path) (\<lambda>res t. \<exists>evs. grown s evs t \<and> ?P res evs) s"
    unfolding Remove_def Let_def wp_bind
  proof (rule wp_resolveSafeTarget)
    fix probes target t
    assume c: "grown s probes t" "cleared ?o path probes target"
    show "wp (case Inr target of
        Inl err \<Rightarrow> ret \<lparr>rs_Escalated = False, rs_Err = Some err\<rparr>
      | Inr target \<Rightarrow> act (SdRemoveAll target) (so_RemoveAllFn ?o target) \<bind> (\<lambda>e. case e of
             None \<Rightarrow> ret \<lparr>rs_Escalated = False, rs_Err = None\<rparr>
           | Some err \<Rightarrow> if \<not> is_PermissionDenied err then ret \<lparr>rs_Escalated = False, rs_Err = Some err\<rparr> else escalate ?o target))
        (\<lambda>res t. \<exists>evs. grown s evs t \<and> ?P res evs) t"
      unfolding sum.case
      by (rule wp_mono [where Q = "\<lambda>res u. \<exists>calls. grown t calls u \<and> removal ?o target calls res"])
        (simp_all only: wp_bind wp_remove_cleared removed [OF c])
  qed (auto simp: refused_def)
qed

text \<open>
  C40. \<open>Chown\<close> hands over ownership only within the same bounds: it refuses the path after nothing but
  looking, or runs the wrapper once, to give a target that passed the checks to the runner user.
\<close>

theorem Chown_guarded:
  "case sd_run (Chown opts path) s of (res, evs) \<Rightarrow>
     refused evs res \<or>
     (\<exists>probes target e. evs = probes @ [sudo (sd_applyDefaults opts) [''chown'', uidgid opts, target] e] \<and>
        cleared (sd_applyDefaults opts) path probes target \<and> rs_Escalated res \<and> (rs_Err res = None \<longleftrightarrow> e = None))"
proof (rule sd_run_wp)
  let ?o = "sd_applyDefaults opts"
  let ?P = "\<lambda>res evs. refused evs res \<or> (\<exists>probes target e. evs = probes @ [sudo ?o [''chown'', uidgid opts, target] e] \<and>
      cleared ?o path probes target \<and> rs_Escalated res \<and> (rs_Err res = None \<longleftrightarrow> e = None))"
  have uid: "uidgid ?o = uidgid opts" by (simp add: uidgid_def sd_applyDefaults_def)
  show "wp (Chown opts path) (\<lambda>res t. \<exists>evs. grown s evs t \<and> ?P res evs) s"
    unfolding Chown_def Let_def wp_bind
  proof (rule wp_resolveSafeTarget)
    fix probes target t
    assume c: "grown s probes t" "cleared ?o path probes target"
    have "wp (act (SdRun ''sudo'' ([''-n'', so_WrapperPath ?o, ''chown''] @ [uidgid opts, target]))
          (so_RunFn ?o ''sudo'' ([''-n'', so_WrapperPath ?o, ''chown''] @ [uidgid opts, target])))
        (\<lambda>e t. \<exists>evs. grown s evs t \<and> ?P \<lparr>rs_Escalated = True, rs_Err = map_option (\<lambda>err. Wrap ''wrapper chown failed: '' [err]) e\<rparr> evs) t"
    proof (rule wp_grown)
      fix e u
      assume "grown t [SdRun ''sudo'' ([''-n'', so_WrapperPath ?o, ''chown''] @ [uidgid opts, target]) e] u"
      then have "grown s (probes @ [sudo ?o [''chown'', uidgid opts, target] e]) u" using grown_trans [OF c(1)] by (simp add: sudo_def)
      with c(2) show "\<exists>evs. grown s evs u \<and> ?P \<lparr>rs_Escalated = True, rs_Err = map_option (\<lambda>err. Wrap ''wrapper chown failed: '' [err]) e\<rparr> evs"
        by fastforce
    qed
    then show "wp (case Inr target of
        Inl err \<Rightarrow> ret \<lparr>rs_Escalated = False, rs_Err = Some err\<rparr>
      | Inr target \<Rightarrow> runWrapper ?o ''chown'' [uidgid ?o, target] \<bind> (\<lambda>e.
          ret \<lparr>rs_Escalated = True, rs_Err = map_option (\<lambda>err. Wrap ''wrapper chown failed: '' [err]) e\<rparr>))
        (\<lambda>res t. \<exists>evs. grown s evs t \<and> ?P res evs) t"
      unfolding sum.case runWrapper_def Let_def wp_bind wp_return uid .
  qed (auto simp: refused_def)
qed

end
